(* ===== verification/Prelude.thy ===== *)
theory Prelude
  imports Complex_Main "HOL-Library.Word"
begin

text \<open>
  Shared vocabulary of the development. The program keeps its images and spectra in
  numpy arrays indexed \<open>[row, column]\<close>; they are modelled as curried functions
  \<open>nat \<Rightarrow> nat \<Rightarrow> 'a\<close> (\<open>'a grid\<close>) together with the shape \<open>(h, w)\<close> the program
  keeps beside them. Python's exceptions are values of \<open>py_error\<close>; an operation that
  may raise after it has already mutated some state returns an \<open>'a outcome\<close>, which
  keeps the state reached when the exception escaped; a pure function that may raise
  returns \<open>py_error + 'a\<close> (\<open>Inl\<close> the exception), sequenced by \<open>bind_res\<close>,
  with \<open>res_mapM\<close> for a loop that appends to a list and \<open>res_fold\<close> for a loop
  that accumulates; a script step over an explicit state is an \<open>('s, 'a) st\<close>,
  sequenced by \<open>io_bind\<close>. Python lists of lists are HOL lists of lists, read by
  \<open>py_nth\<close> with Python's indexing rules. The collection \<open>grid_simps\<close>
  gathers the pointwise equations that the component proofs hand to the simplifier.
\<close>

named_theorems grid_simps "pointwise equations of the model's grid operations"

type_synonym 'a grid = "nat \<Rightarrow> nat \<Rightarrow> 'a"
type_synonym shape = "nat \<times> nat"

datatype py_error = IndexError | CvError | ZeroDivisionError | ValueError | TypeError | FileNotFoundError | TclError | OverflowError

text \<open>A Python call that may raise: the state when it returned, or when it raised.\<close>

datatype 'a outcome = Done 'a | Raised py_error 'a

primrec outcome_state :: "'a outcome \<Rightarrow> 'a" where
  "outcome_state (Done s) = s"
| "outcome_state (Raised e s) = s"

subsection \<open>Python's integer conversions and indexing\<close>

text \<open>\<open>int(r)\<close> of a float truncates towards zero.\<close>

definition py_int :: "real \<Rightarrow> int" where
  "py_int r = (if 0 \<le> r then \<lfloor>r\<rfloor> else \<lceil>r\<rceil>)"

text \<open>
  numpy's \<open>astype(np.uint8)\<close> of a float: truncation towards zero, then the value
  modulo 256 (a float outside \<open>[0, 256)\<close> has no byte of its own; the cast wraps it).
  numpy leaves this cast undefined for floats beyond the int64 range and for NaN and
  infinity (the result depends on the platform); the model wraps every finite real, which
  is what x86-64 builds do for values within the int64 range.
\<close>

definition astype_uint8 :: "real \<Rightarrow> 8 word" where
  "astype_uint8 v = word_of_int (py_int v)"

text \<open>
  A numpy index \<open>i\<close> into an axis of length \<open>n\<close>: negative indices count from the
  end; anything outside \<open>[-n, n)\<close> raises IndexError (\<open>None\<close> here).
\<close>

definition py_index :: "nat \<Rightarrow> int \<Rightarrow> nat option" where
  "py_index n i =
     (if - int n \<le> i \<and> i < int n then Some (nat (if i < 0 then i + int n else i)) else None)"

lemma py_int_nonneg [simp]: "0 \<le> r \<Longrightarrow> py_int r = \<lfloor>r\<rfloor>"
  by (simp add: py_int_def)

lemma py_index_nat [simp]: "py_index n (int i) = (if i < n then Some i else None)"
  by (simp add: py_index_def)

lemma py_index_Some_lt: "py_index n i = Some r \<Longrightarrow> r < n"
  by (auto simp: py_index_def split: if_splits)

lemma py_index_None_iff: "py_index n i = None \<longleftrightarrow> i < - int n \<or> int n \<le> i"
  by (auto simp: py_index_def)

lemma py_index_nonneg: "0 \<le> i \<Longrightarrow> py_index n i = (if i < int n then Some (nat i) else None)"
  by (auto simp: py_index_def)

text \<open>\<open>xs[i]\<close> on a Python list.\<close>

definition py_nth :: "'a list \<Rightarrow> int \<Rightarrow> py_error + 'a" where
  "py_nth xs i = (case py_index (length xs) i of None \<Rightarrow> Inl IndexError | Some k \<Rightarrow> Inr (xs ! k))"

text \<open>Sequencing of computations that may raise: the first exception escapes.\<close>

definition bind_res :: "py_error + 'a \<Rightarrow> ('a \<Rightarrow> py_error + 'b) \<Rightarrow> py_error + 'b" where
  "bind_res r f = (case r of Inl e \<Rightarrow> Inl e | Inr a \<Rightarrow> f a)"

text \<open>\<open>out = []; for a in xs: out.append(f(a))\<close>, where \<open>f\<close> may raise.\<close>

fun res_mapM :: "('a \<Rightarrow> py_error + 'b) \<Rightarrow> 'a list \<Rightarrow> py_error + 'b list" where
  "res_mapM f [] = Inr []"
| "res_mapM f (a # as) = bind_res (f a) (\<lambda>b. bind_res (res_mapM f as) (\<lambda>bs. Inr (b # bs)))"

text \<open>\<open>for a in xs: s = f(a, s)\<close>, where the body may raise.\<close>

fun res_fold :: "('a \<Rightarrow> 's \<Rightarrow> py_error + 's) \<Rightarrow> 'a list \<Rightarrow> 's \<Rightarrow> py_error + 's" where
  "res_fold f [] s = Inr s"
| "res_fold f (a # as) s = bind_res (f a s) (res_fold f as)"

text \<open>
  A step of a script over an explicit state \<open>'s\<close> (the files it reads and writes, the
  random generator): its value or the exception it raised, with the state at that point.
\<close>

type_synonym ('s, 'a) st = "'s \<Rightarrow> (py_error + 'a) \<times> 's"

definition io_return :: "'a \<Rightarrow> ('s, 'a) st" where
  "io_return a = (\<lambda>s. (Inr a, s))"

definition io_lift :: "py_error + 'a \<Rightarrow> ('s, 'a) st" where
  "io_lift r = (\<lambda>s. (r, s))"

definition io_bind :: "('s, 'a) st \<Rightarrow> ('a \<Rightarrow> ('s, 'b) st) \<Rightarrow> ('s, 'b) st" where
  "io_bind m f = (\<lambda>s. case m s of (Inl e, s') \<Rightarrow> (Inl e, s') | (Inr a, s') \<Rightarrow> f a s')"

lemma io_bind_simps [simp]:
  "io_bind (io_return a) f = f a"
  "io_bind (io_lift (Inr a)) f = f a"
  "io_bind (io_lift (Inl e)) f = io_lift (Inl e)"
  by (simp_all add: io_bind_def io_return_def io_lift_def fun_eq_iff)

lemma io_bind_apply:
  "m s = (Inr a, s') \<Longrightarrow> io_bind m f s = f a s'"
  "m s = (Inl e, s') \<Longrightarrow> io_bind m f s = (Inl e, s')"
  by (simp_all add: io_bind_def)

lemma io_return_apply [simp]: "io_return a s = (Inr a, s)"
  by (simp add: io_return_def)

lemma io_lift_apply [simp]: "io_lift r s = (r, s)"
  by (simp add: io_lift_def)

lemma bind_res_simps [simp]:
  "bind_res (Inl e) f = Inl e"
  "bind_res (Inr a) f = f a"
  by (simp_all add: bind_res_def)

lemma bind_res_Inr_iff: "bind_res r f = Inr b \<longleftrightarrow> (\<exists>a. r = Inr a \<and> f a = Inr b)"
  by (cases r) simp_all

lemma py_nth_nat [simp]: "py_nth xs (int i) = (if i < length xs then Inr (xs ! i) else Inl IndexError)"
  by (simp add: py_nth_def)

lemma py_nth_nonneg: "0 \<le> i \<Longrightarrow> i < int (length xs) \<Longrightarrow> py_nth xs i = Inr (xs ! nat i)"
  by (simp add: py_nth_def py_index_nonneg)

lemma res_mapM_map:
  "(\<And>a. a \<in> set as \<Longrightarrow> f a = Inr (g a)) \<Longrightarrow> res_mapM f as = Inr (map g as)"
  by (induction as) simp_all

lemma res_mapM_map_comp:
  "(\<And>a. a \<in> set as \<Longrightarrow> f (g a) = Inr (h a)) \<Longrightarrow> res_mapM f (map g as) = Inr (map h as)"
  by (induction as) simp_all

lemma res_mapM_Inr:
  "res_mapM f as = Inr bs \<Longrightarrow> length bs = length as \<and> (\<forall>i < length as. f (as ! i) = Inr (bs ! i))"
proof (induction as arbitrary: bs)
  case (Cons a as)
  then show ?case by (auto simp: bind_res_Inr_iff nth_Cons split: nat.split)
qed simp

lemma res_mapM_Inl:
  "a \<in> set as \<Longrightarrow> f a = Inl e \<Longrightarrow> \<exists>e'. res_mapM f as = Inl e'"
  by (induction as) (auto simp: bind_res_def split: sum.split)

lemma res_fold_fold:
  "(\<And>a s. a \<in> set as \<Longrightarrow> f a s = Inr (g a s)) \<Longrightarrow> res_fold f as s = Inr (fold g as s)"
  by (induction as arbitrary: s) simp_all

lemma res_fold_fold_inv:
  assumes "P s" "\<And>a s. a \<in> set as \<Longrightarrow> P s \<Longrightarrow> f a s = Inr (g a s) \<and> P (g a s)"
  shows "res_fold f as s = Inr (fold g as s)"
  using assms by (induction as arbitrary: s) simp_all

lemma res_fold_inv:
  assumes "res_fold f as s = Inr s'" "P s"
    and "\<And>a s s'. a \<in> set as \<Longrightarrow> P s \<Longrightarrow> f a s = Inr s' \<Longrightarrow> P s'"
  shows "P s'"
  using assms by (induction as arbitrary: s) (auto simp: bind_res_Inr_iff)

lemma res_fold_Inr:
  "(\<And>a s. a \<in> set as \<Longrightarrow> \<exists>s'. f a s = Inr s') \<Longrightarrow> \<exists>s'. res_fold f as s = Inr s'"
proof (induction as arbitrary: s)
  case (Cons a as)
  then obtain s' where "f a s = Inr s'" by fastforce
  with Cons show ?case by simp
qed simp

text \<open>An exception escaping a loop was raised by one of its iterations; and when every
  iteration that raises raises the same exception, a raising iteration decides the loop.\<close>

lemma res_mapM_Inl_only:
  "res_mapM f as = Inl e \<Longrightarrow> \<exists>a \<in> set as. f a = Inl e"
  by (induction as) (auto simp: bind_res_def split: sum.splits)

lemma res_mapM_Inl_same:
  assumes "a \<in> set as" "f a = Inl e" "\<And>a e'. f a = Inl e' \<Longrightarrow> e' = e"
  shows "res_mapM f as = Inl e"
  using assms(1)
proof (induction as)
  case (Cons b bs)
  show ?case
  proof (cases "f b")
    case (Inl e')
    then show ?thesis using assms(3) [of b e'] by simp
  next
    case (Inr v)
    then have "a \<in> set bs" using Cons.prems assms(2) by auto
    then show ?thesis using Cons.IH Inr by simp
  qed
qed simp

lemma res_fold_Inl_only:
  "res_fold f as s = Inl e \<Longrightarrow> \<exists>a \<in> set as. \<exists>s'. f a s' = Inl e"
  by (induction as arbitrary: s) (auto simp: bind_res_def split: sum.splits)

lemma res_fold_Inl_same:
  assumes "a \<in> set as" "\<And>s. f a s = Inl e" "\<And>a s e'. f a s = Inl e' \<Longrightarrow> e' = e"
  shows "res_fold f as s = Inl e"
  using assms(1)
proof (induction as arbitrary: s)
  case (Cons b bs)
  show ?case
  proof (cases "f b s")
    case (Inl e')
    then show ?thesis using assms(3) [of b s e'] by simp
  next
    case (Inr v)
    then have "a \<in> set bs" using Cons.prems assms(2) [of s] by auto
    then show ?thesis using Cons.IH Inr by simp
  qed
qed simp

lemma py_nth_Inl: "py_nth xs i = Inl e \<Longrightarrow> e = IndexError"
  by (simp add: py_nth_def split: option.splits)

subsection \<open>Loops over lists\<close>

lemma fold_invariant:
  assumes "P x" "\<And>y a. P y \<Longrightarrow> P (f a y)"
  shows "P (fold f xs x)"
  using assms by (induction xs arbitrary: x) simp_all

subsection \<open>Pointwise grid updates\<close>

text \<open>\<open>a[r, c] += v\<close> on an index already checked to be in range.\<close>

definition add_at :: "'a::plus grid \<Rightarrow> nat \<Rightarrow> nat \<Rightarrow> 'a \<Rightarrow> 'a grid" where
  "add_at g r c v = (\<lambda>i j. if i = r \<and> j = c then g i j + v else g i j)"

lemma add_at_apply [grid_simps]:
  "add_at g r c v i j = (if i = r \<and> j = c then g i j + v else g i j)"
  by (simp add: add_at_def)

subsection \<open>Reflection through the centre\<close>

text \<open>
  The code pairs a point \<open>r\<close> of an axis of length \<open>n\<close> with \<open>n - 1 - r\<close>.
  The point that the zero-frequency-centred spectrum really pairs with \<open>r\<close> under
  \<open>F(-u) = cnj (F u)\<close> is \<open>cref n r\<close>: the reflection through index \<open>n div 2\<close>,
  taken modulo \<open>n\<close>. The two agree exactly when \<open>n\<close> is odd.
\<close>

definition cref :: "nat \<Rightarrow> nat \<Rightarrow> nat" where
  "cref n r = (2 * (n div 2) + n - r) mod n"

lemma cref_shift: "(r::nat) < n \<Longrightarrow> (m + n - r) mod n = (m + (n - r)) mod n"
proof -
  assume "r < n"
  then have "m + n - r = m + (n - r)" by arith
  then show ?thesis by (simp only:)
qed

lemma cref_odd: "odd n \<Longrightarrow> r < n \<Longrightarrow> cref n r = n - 1 - r"
proof -
  assume "odd n" "r < n"
  then have "2 * (n div 2) + (n - r) = (n - 1 - r) + n"
    by (simp add: odd_two_times_div_two_nat)
  then have "cref n r = ((n - 1 - r) + n) mod n"
    using \<open>r < n\<close> by (simp only: cref_def cref_shift)
  also have "\<dots> = n - 1 - r"
    using \<open>r < n\<close> by (simp only: mod_add_self2) simp
  finally show ?thesis .
qed

lemma cref_even: "even n \<Longrightarrow> r < n \<Longrightarrow> cref n r = (n - r) mod n"
proof -
  assume "even n" "r < n"
  then have "cref n r = ((n - r) + n) mod n"
    by (simp only: cref_def cref_shift) (simp add: add.commute)
  then show ?thesis by (simp only: mod_add_self2)
qed

lemma cref_lt [simp]: "0 < n \<Longrightarrow> cref n r < n"
  by (simp add: cref_def)

lemma cref_cref [simp]: "r < n \<Longrightarrow> cref n (cref n r) = r"
proof (cases "odd n")
  case True
  moreover assume "r < n"
  ultimately show ?thesis by (simp add: cref_odd)
next
  case False
  moreover assume "r < n"
  ultimately show ?thesis
    by (cases "r = 0") (simp_all add: cref_even)
qed

lemma cref_eq_iff:
  assumes "i < n" "r < n"
  shows "cref n i = r \<longleftrightarrow> i = cref n r"
  using assms by auto

end
