(* ===== verification/Fourier.thy ===== *)
theory Fourier
  imports Prelude
begin

text \<open>
  The transform primitives the program calls: numpy's \<open>fft2\<close>, \<open>ifft2\<close>,
  \<open>fftshift\<close> and \<open>ifftshift\<close> on an \<open>h \<times> w\<close> array, written as the finite sums
  and index rotations numpy documents. The main results: the inverse transform of a
  Hermitian-symmetric matrix is real, the transform of a real image is Hermitian, and the
  symmetry of a zero-frequency-centred spectrum is reflection through \<open>cref\<close>; and
  the inverse transform inverts the transform (\<open>ifft2_fft2\<close>, by the orthogonality of
  the roots of unity), as \<open>ifftshift\<close> inverts \<open>fftshift\<close> on the array.
\<close>

definition omega :: "nat \<Rightarrow> int \<Rightarrow> complex" where
  "omega n j = cis (2 * pi * of_int j / of_nat n)"

definition fft2 :: "nat \<Rightarrow> nat \<Rightarrow> complex grid \<Rightarrow> complex grid" where
  "fft2 h w x = (\<lambda>k l. \<Sum>m<h. \<Sum>n<w.
      x m n * omega h (- (int k * int m)) * omega w (- (int l * int n)))"

definition ifft2 :: "nat \<Rightarrow> nat \<Rightarrow> complex grid \<Rightarrow> complex grid" where
  "ifft2 h w X = (\<lambda>m n. (\<Sum>k<h. \<Sum>l<w.
      X k l * omega h (int k * int m) * omega w (int l * int n)) / of_nat (h * w))"

definition fftshift :: "nat \<Rightarrow> nat \<Rightarrow> 'a grid \<Rightarrow> 'a grid" where
  "fftshift h w F = (\<lambda>r c. F ((r + h - h div 2) mod h) ((c + w - w div 2) mod w))"

definition ifftshift :: "nat \<Rightarrow> nat \<Rightarrow> 'a grid \<Rightarrow> 'a grid" where
  "ifftshift h w S = (\<lambda>k l. S ((k + h div 2) mod h) ((l + w div 2) mod w))"

text \<open>Hermitian symmetry \<open>F(-u, -v) = cnj (F(u, v))\<close> of an unshifted spectrum.\<close>

definition herm :: "nat \<Rightarrow> nat \<Rightarrow> complex grid \<Rightarrow> bool" where
  "herm h w F \<longleftrightarrow> (\<forall>k<h. \<forall>l<w. F ((h - k) mod h) ((w - l) mod w) = cnj (F k l))"

text \<open>The same symmetry read on the centred spectrum the program edits.\<close>

definition sherm :: "nat \<Rightarrow> nat \<Rightarrow> complex grid \<Rightarrow> bool" where
  "sherm h w S \<longleftrightarrow> (\<forall>r<h. \<forall>c<w. S (cref h r) (cref w c) = cnj (S r c))"

subsection \<open>Roots of unity\<close>

lemma omega_add: "omega n (a + b) = omega n a * omega n b"
  by (simp add: omega_def cis_mult add_divide_distrib distrib_left)

lemma omega_cnj: "cnj (omega n j) = omega n (- j)"
  by (simp add: omega_def cis_cnj)

lemma omega_zero [simp]: "omega n 0 = 1"
  by (simp add: omega_def)

lemma omega_period: "0 < n \<Longrightarrow> omega n (int n * j) = 1"
proof -
  assume "0 < n"
  then have "2 * pi * of_int (int n * j) / of_nat n = 2 * pi * of_int j"
    by simp
  then show ?thesis
    by (simp add: omega_def cis_multiple_2pi)
qed

lemma omega_reflect:
  assumes "0 < n" "k < n"
  shows "omega n (int ((n - k) mod n) * j) = omega n (- (int k * j))"
proof (cases "k = 0")
  case True
  then show ?thesis by simp
next
  case False
  with assms have "int ((n - k) mod n) * j = int n * j + - (int k * j)"
    by (simp add: of_nat_diff algebra_simps)
  then have "omega n (int ((n - k) mod n) * j) = omega n (int n * j) * omega n (- (int k * j))"
    by (simp only: omega_add)
  then show ?thesis
    using assms by (simp add: omega_period)
qed

subsection \<open>Reflection of an index is a bijection\<close>

lemma reflect_reflect: "k < n \<Longrightarrow> (n - (n - k) mod n) mod n = (k::nat)"
  by (cases "k = 0") simp_all

lemma bij_reflect: "bij_betw (\<lambda>k. (n - k) mod n) {..<n} {..<(n::nat)}"
  by (rule bij_betw_byWitness [where f' = "\<lambda>k. (n - k) mod n"])
     (auto simp: reflect_reflect)

lemma sum_reflect: "(\<Sum>k<n. f ((n - k) mod n)) = (\<Sum>k<(n::nat). f k)"
  by (rule sum.reindex_bij_betw [OF bij_reflect])

subsection \<open>Hermitian symmetry gives a real inverse transform\<close>

lemma cnj_sum_reflect:
  fixes g :: "nat \<Rightarrow> nat \<Rightarrow> complex"
  assumes "0 < h" "0 < w"
    and refl: "\<And>k l. k < h \<Longrightarrow> l < w \<Longrightarrow> g ((h - k) mod h) ((w - l) mod w) = cnj (g k l)"
  shows "cnj (\<Sum>k<h. \<Sum>l<w. g k l) = (\<Sum>k<h. \<Sum>l<w. g k l)"
proof -
  have "cnj (\<Sum>k<h. \<Sum>l<w. g k l) = (\<Sum>k<h. \<Sum>l<w. g ((h - k) mod h) ((w - l) mod w))"
    by (simp add: cnj_sum refl)
  also have "\<dots> = (\<Sum>k<h. \<Sum>l<w. g k ((w - l) mod w))"
    by (rule sum_reflect [where f = "\<lambda>k. \<Sum>l<w. g k ((w - l) mod w)"])
  also have "\<dots> = (\<Sum>k<h. \<Sum>l<w. g k l)"
    by (simp only: sum_reflect)
  finally show ?thesis .
qed

theorem ifft2_real:
  assumes "0 < h" "0 < w" "herm h w X"
  shows "Im (ifft2 h w X m n) = 0"
proof -
  define g where "g k l = X k l * omega h (int k * int m) * omega w (int l * int n)" for k l
  have "g ((h - k) mod h) ((w - l) mod w) = cnj (g k l)" if "k < h" "l < w" for k l
  proof -
    have "X ((h - k) mod h) ((w - l) mod w) = cnj (X k l)"
      using assms(3) that by (simp add: herm_def)
    then show ?thesis
      using assms(1,2) that
      by (simp add: g_def omega_reflect omega_cnj mult.assoc)
  qed
  then have "cnj (\<Sum>k<h. \<Sum>l<w. g k l) = (\<Sum>k<h. \<Sum>l<w. g k l)"
    by (rule cnj_sum_reflect [OF assms(1,2)])
  then have "Im (\<Sum>k<h. \<Sum>l<w. g k l) = 0"
    by (metis Reals_cnj_iff complex_is_Real_iff)
  then show ?thesis
    by (simp add: ifft2_def g_def Im_divide_of_nat)
qed

subsection \<open>Centred and uncentred symmetry\<close>

lemma cref_int: "r < n \<Longrightarrow> int (cref n r) = (2 * int (n div 2) - int r) mod int n"
proof -
  assume "r < n"
  then have "int (2 * (n div 2) + n - r) = (2 * int (n div 2) - int r) + int n"
    by (simp add: of_nat_diff)
  then show ?thesis
    by (simp add: cref_def of_nat_mod)
qed

lemma nat_mod_cong_int: "int a mod int n = int b mod int n \<Longrightarrow> a mod n = b mod (n::nat)"
  by (metis of_nat_mod of_nat_eq_iff)

lemma mod_add_self_diff [simp]: "((n::int) + a - b) mod n = (a - b) mod n"
  by (metis add_diff_eq mod_add_self1)

lemma ifftshift_index_reflect:
  assumes "k < h"
  shows "((h - k) mod h + h div 2) mod h = cref h ((k + h div 2) mod h)"
proof -
  have "int (((h - k) mod h + h div 2) mod h) = (int (h div 2) - int k) mod int h"
    using assms by (simp add: of_nat_mod of_nat_diff mod_simps)
  moreover have "int (cref h ((k + h div 2) mod h)) = (int (h div 2) - int k) mod int h"
    using assms by (simp add: cref_int of_nat_mod mod_simps algebra_simps)
  ultimately show ?thesis by simp
qed

lemma fftshift_index_reflect:
  assumes "r < h"
  shows "(cref h r + h - h div 2) mod h = (h - (r + h - h div 2) mod h) mod h"
proof -
  have le: "(r + h - h div 2) mod h \<le> h"
    using assms by (simp add: less_imp_le)
  have "int ((cref h r + h - h div 2) mod h) = (int (h div 2) - int r) mod int h"
    using assms by (simp add: cref_int of_nat_mod of_nat_diff mod_simps algebra_simps)
  moreover have "int ((h - (r + h - h div 2) mod h) mod h) = (int (h div 2) - int r) mod int h"
    using assms le by (simp add: of_nat_mod of_nat_diff mod_simps algebra_simps)
  ultimately show ?thesis by simp
qed

lemma sherm_herm:
  assumes "0 < h" "0 < w" "sherm h w S"
  shows "herm h w (ifftshift h w S)"
  unfolding herm_def
proof (intro allI impI)
  fix k l assume "k < h" "l < w"
  then have "S (cref h ((k + h div 2) mod h)) (cref w ((l + w div 2) mod w))
      = cnj (S ((k + h div 2) mod h) ((l + w div 2) mod w))"
    using assms by (simp add: sherm_def)
  then show "ifftshift h w S ((h - k) mod h) ((w - l) mod w) = cnj (ifftshift h w S k l)"
    using \<open>k < h\<close> \<open>l < w\<close> by (simp add: ifftshift_def ifftshift_index_reflect)
qed

lemma herm_sherm:
  assumes "0 < h" "0 < w" "herm h w F"
  shows "sherm h w (fftshift h w F)"
  unfolding sherm_def
proof (intro allI impI)
  fix r c assume "r < h" "c < w"
  then have "F ((h - (r + h - h div 2) mod h) mod h) ((w - (c + w - w div 2) mod w) mod w)
      = cnj (F ((r + h - h div 2) mod h) ((c + w - w div 2) mod w))"
    using assms by (simp add: herm_def)
  then show "fftshift h w F (cref h r) (cref w c) = cnj (fftshift h w F r c)"
    using \<open>r < h\<close> \<open>c < w\<close> by (simp add: fftshift_def fftshift_index_reflect)
qed

lemma omega_reflect_neg:
  assumes "0 < n" "k < n"
  shows "omega n (- (int ((n - k) mod n) * j)) = omega n (int k * j)"
  using omega_reflect [OF assms, of "- j"] by simp

theorem fft2_real_herm:
  assumes "0 < h" "0 < w"
  shows "herm h w (fft2 h w (\<lambda>m n. complex_of_real (x m n)))"
  unfolding herm_def
proof (intro allI impI)
  fix k l assume "k < h" "l < w"
  then show "fft2 h w (\<lambda>m n. complex_of_real (x m n)) ((h - k) mod h) ((w - l) mod w)
      = cnj (fft2 h w (\<lambda>m n. complex_of_real (x m n)) k l)"
    using assms by (simp add: fft2_def cnj_sum omega_reflect_neg omega_cnj)
qed

theorem centred_spectrum_real:
  assumes "0 < h" "0 < w" "sherm h w S"
  shows "Im (ifft2 h w (ifftshift h w S) m n) = 0"
  using assms by (simp add: sherm_herm ifft2_real)

subsection \<open>Increments that keep the centred symmetry\<close>

lemma sherm_add_on:
  assumes "0 < h" "0 < w" "sherm h w f" "sherm h w D"
    and eq: "\<And>i j. i < h \<Longrightarrow> j < w \<Longrightarrow> g i j = f i j + D i j"
  shows "sherm h w g"
  using assms unfolding sherm_def by (simp add: eq)

lemma sherm_sym_add:
  assumes "0 < h" "0 < w"
  shows "sherm h w (\<lambda>i j. A i j + cnj (A (cref h i) (cref w j)))"
  using assms by (simp add: sherm_def)

lemma sherm_point_fixed:
  assumes "cref h r = r" "cref w c = c" "cnj v = v"
  shows "sherm h w (\<lambda>i j. if i = r \<and> j = c then v else 0)"
  unfolding sherm_def
proof (intro allI impI)
  fix i j assume ij: "i < h" "j < w"
  then have "r < h" "c < w"
    using assms(1,2) cref_lt by (metis gr_implies_not0 not_gr0)+
  with ij assms(1,2) have "cref h i = r \<longleftrightarrow> i = r" "cref w j = c \<longleftrightarrow> j = c"
    by (metis cref_eq_iff)+
  then show "(if cref h i = r \<and> cref w j = c then v else 0) = cnj (if i = r \<and> j = c then v else 0)"
    using assms(3) by simp
qed

subsection \<open>The inverse transform inverts the transform\<close>

lemma omega_pow: "omega n (int k * d) = omega n d ^ k"
  by (simp add: omega_def DeMoivre algebra_simps)

lemma omega_one_iff:
  assumes "0 < n"
  shows "omega n d = 1 \<longleftrightarrow> d mod int n = 0"
proof
  assume "omega n d = 1"
  then have "Re (omega n d) = 1" by simp
  then have "cos (2 * pi * of_int d / of_nat n) = 1"
    by (simp add: omega_def)
  then obtain q :: int where q: "2 * pi * of_int d / of_nat n = of_int q * 2 * pi"
    using cos_one_2pi_int by blast
  then have "of_int d = (of_int (q * int n) :: real)"
    using assms by (simp add: field_simps)
  then have "d = q * int n" by linarith
  then show "d mod int n = 0" by simp
next
  assume "d mod int n = 0"
  then obtain q where "d = int n * q" by (metis dvd_def mod_0_imp_dvd)
  then show "omega n d = 1" using omega_period [OF assms] by simp
qed

lemma omega_orth:
  assumes "0 < n"
  shows "(\<Sum>k<n. omega n (int k * d)) = (if d mod int n = 0 then of_nat n else 0)"
proof (cases "d mod int n = 0")
  case True
  then have "omega n d = 1" using omega_one_iff [OF assms] by simp
  then show ?thesis using True by (simp add: omega_pow)
next
  case False
  then have z: "omega n d \<noteq> 1" using omega_one_iff [OF assms] by simp
  have "omega n d ^ n = 1" using omega_period [OF assms, of d] by (simp flip: omega_pow)
  then show ?thesis
    using False z by (simp add: omega_pow geometric_sum)
qed

lemma omega_orth_idx:
  assumes "m < n" "m' < n"
  shows "(\<Sum>k<n. omega n (int k * (int m - int m'))) = (if m = m' then of_nat n else 0)"
proof -
  have "0 < n" using assms by simp
  moreover have "(int m - int m') mod int n = 0 \<longleftrightarrow> m = m'"
  proof
    assume "(int m - int m') mod int n = 0"
    then have dv: "int n dvd (int m - int m')" by (simp add: dvd_eq_mod_eq_0)
    have lt: "\<bar>int m - int m'\<bar> < int n" using assms by linarith
    show "m = m'"
    proof (rule ccontr)
      assume "m \<noteq> m'"
      then have "int m - int m' \<noteq> 0" by simp
      from dvd_imp_le_int [OF this dv] lt show False by simp
    qed
  qed simp
  ultimately show ?thesis by (simp add: omega_orth)
qed

lemma omega_diff: "omega n (int k * (int m - int m')) = omega n (- (int k * int m')) * omega n (int k * int m)"
proof -
  have "int k * (int m - int m') = - (int k * int m') + int k * int m" by (simp add: algebra_simps)
  then show ?thesis by (simp only: omega_add)
qed

lemma sum4_swap:
  fixes f :: "nat \<Rightarrow> nat \<Rightarrow> nat \<Rightarrow> nat \<Rightarrow> complex"
  shows "(\<Sum>k<h. \<Sum>l<w. \<Sum>a<h. \<Sum>b<w. f k l a b) = (\<Sum>a<h. \<Sum>b<w. \<Sum>k<h. \<Sum>l<w. f k l a b)"
proof -
  have "(\<Sum>k<h. \<Sum>l<w. \<Sum>a<h. \<Sum>b<w. f k l a b) = (\<Sum>k<h. \<Sum>a<h. \<Sum>l<w. \<Sum>b<w. f k l a b)"
    by (rule sum.cong [OF refl], rule sum.swap)
  also have "\<dots> = (\<Sum>a<h. \<Sum>k<h. \<Sum>l<w. \<Sum>b<w. f k l a b)"
    by (rule sum.swap)
  also have "\<dots> = (\<Sum>a<h. \<Sum>k<h. \<Sum>b<w. \<Sum>l<w. f k l a b)"
    by (rule sum.cong [OF refl], rule sum.cong [OF refl], rule sum.swap)
  also have "\<dots> = (\<Sum>a<h. \<Sum>b<w. \<Sum>k<h. \<Sum>l<w. f k l a b)"
    by (rule sum.cong [OF refl], rule sum.swap)
  finally show ?thesis .
qed

theorem ifft2_fft2:
  assumes "m < h" "n < w"
  shows "ifft2 h w (fft2 h w x) m n = x m n"
proof -
  have "(\<Sum>k<h. \<Sum>l<w. fft2 h w x k l * omega h (int k * int m) * omega w (int l * int n)) =
        (\<Sum>k<h. \<Sum>l<w. \<Sum>a<h. \<Sum>b<w.
            x a b * (omega h (int k * (int m - int a)) * omega w (int l * (int n - int b))))"
    by (simp add: fft2_def sum_distrib_left sum_distrib_right omega_diff mult_ac)
  also have "\<dots> = (\<Sum>a<h. \<Sum>b<w. \<Sum>k<h. \<Sum>l<w.
            x a b * (omega h (int k * (int m - int a)) * omega w (int l * (int n - int b))))"
    by (rule sum4_swap)
  also have "\<dots> = (\<Sum>a<h. \<Sum>b<w. x a b *
            ((\<Sum>k<h. omega h (int k * (int m - int a))) * (\<Sum>l<w. omega w (int l * (int n - int b)))))"
    unfolding sum_product by (rule sum.cong [OF refl])+ (simp only: sum_distrib_left)
  also have "\<dots> = (\<Sum>a<h. \<Sum>b<w. x a b * ((if m = a then of_nat h else 0) * (if n = b then of_nat w else 0)))"
    using assms by (simp add: omega_orth_idx)
  also have "\<dots> = x m n * of_nat (h * w)"
  proof -
    have "x a b * ((if m = a then of_nat h else 0) * (if n = b then of_nat w else 0)) =
          (if b = n then (if a = m then x m n * of_nat (h * w) else 0) else 0)" for a b
      by auto
    then show ?thesis using assms by (simp add: sum.delta)
  qed
  finally show ?thesis
    using assms by (simp add: ifft2_def)
qed

lemma shift_index_back: "k < h \<Longrightarrow> ((k + h div 2) mod h + h - h div 2) mod h = (k::nat)"
proof -
  assume k: "k < h"
  have "(k + h div 2) mod h < h" using k by simp
  then have "int (((k + h div 2) mod h + h - h div 2) mod h) = ((int k + int (h div 2)) mod int h + int h - int (h div 2)) mod int h"
    by (simp add: of_nat_mod of_nat_diff)
  also have "\<dots> = ((int k + int (h div 2)) mod int h + (int h - int (h div 2))) mod int h"
    by (simp add: algebra_simps)
  also have "\<dots> = (int k + int (h div 2) + (int h - int (h div 2))) mod int h"
    by (rule mod_add_left_eq)
  also have "\<dots> = int k mod int h" by simp
  also have "\<dots> = int k" using k by simp
  finally show ?thesis by simp
qed

lemma ifftshift_fftshift: "k < h \<Longrightarrow> l < w \<Longrightarrow> ifftshift h w (fftshift h w F) k l = F k l"
  by (simp add: ifftshift_def fftshift_def shift_index_back)

end
