(* ===== verification/Store.thy ===== *)
theory Store
  imports Fourier
begin

text \<open>
  The spectrum store of \<open>UltimateFrequencyLab\<close> (src/HW3/lab_2.py): the fields
  \<open>img\<close>, \<open>fshift\<close>, \<open>mask\<close> and \<open>result_cache\<close> of the object, the two
  queues it shares with its worker thread, and the operations of the editing thread that
  replace or reset them (\<open>load_image\<close>, \<open>clear_all\<close>, \<open>reset_image\<close>) and
  snapshot them (\<open>trigger_recompute\<close>). Numpy arrays carry their shape; the store keeps
  the shape of the loaded image in \<open>shape\<close> and each snapshot carries its own.
  The invariant \<open>wf_lab\<close> says that the three arrays are created together with a
  non-empty shape; \<open>unit_img\<close> that the samples lie in \<open>[0, 1]\<close>.
\<close>

text \<open>A queued request \<open>("compute", f_copy, m_copy)\<close> and a published result.\<close>

datatype task = Compute shape "complex grid" "real grid"

type_synonym result = "shape \<times> real grid"

record lab =
  shape :: shape
  img :: "real grid option"
  fshift :: "complex grid option"
  mask :: "real grid option"
  result_cache :: "result option"
  task_queue :: "task list"
  result_queue :: "result list"

definition init_lab :: lab where
  "init_lab =
     \<lparr>shape = (0, 0), img = None, fshift = None, mask = None, result_cache = None,
      task_queue = [], result_queue = []\<rparr>"

definition ones :: "real grid" where
  "ones = (\<lambda>_ _. 1)"

text \<open>\<open>np.fft.fftshift(np.fft.fft2(self.img))\<close>\<close>

definition spectrum_of :: "shape \<Rightarrow> real grid \<Rightarrow> complex grid" where
  "spectrum_of sh im =
     fftshift (fst sh) (snd sh) (fft2 (fst sh) (snd sh) (\<lambda>i j. complex_of_real (im i j)))"

text \<open>
  \<open>trigger_recompute\<close>: nothing before an image is loaded; otherwise copy spectrum
  and mask under the lock and enqueue the copies. (A store with a spectrum and no mask
  is unreachable, see \<open>wf_lab\<close>.)
\<close>

definition trigger_recompute :: "lab \<Rightarrow> lab" where
  "trigger_recompute s =
     (case fshift s of
        None \<Rightarrow> s
      | Some f \<Rightarrow>
          (case mask s of
             None \<Rightarrow> s
           | Some m \<Rightarrow> s\<lparr>task_queue := task_queue s @ [Compute (shape s) f m]\<rparr>))"

text \<open>
  What the file dialog and \<open>cv2.imread(path, IMREAD_GRAYSCALE)\<close> hand to
  \<open>load_image\<close>: no path, an unreadable file, or an \<open>h \<times> w\<close> array of bytes.
\<close>

datatype load_input = NoPath | Unreadable | Gray nat nat "nat \<Rightarrow> nat \<Rightarrow> 8 word"

definition to_unit :: "(nat \<Rightarrow> nat \<Rightarrow> 8 word) \<Rightarrow> real grid" where
  "to_unit px = (\<lambda>i j. real (unat (px i j)) / 255)"

fun load_image :: "load_input \<Rightarrow> lab \<Rightarrow> lab" where
  "load_image NoPath s = s"
| "load_image Unreadable s = s"
| "load_image (Gray h w px) s =
     trigger_recompute
       (s\<lparr>shape := (h, w), img := Some (to_unit px),
          fshift := Some (spectrum_of (h, w) (to_unit px)), mask := Some ones\<rparr>)"

definition clear_all :: "lab \<Rightarrow> lab" where
  "clear_all s = (if fshift s = None then s else trigger_recompute (s\<lparr>mask := Some ones\<rparr>))"

definition reset_image :: "lab \<Rightarrow> lab" where
  "reset_image s =
     (case img s of
        None \<Rightarrow> s
      | Some im \<Rightarrow>
          trigger_recompute (s\<lparr>fshift := Some (spectrum_of (shape s) im), mask := Some ones\<rparr>))"

subsection \<open>Invariants\<close>

definition wf_lab :: "lab \<Rightarrow> bool" where
  "wf_lab s \<longleftrightarrow>
     (img s = None \<longleftrightarrow> fshift s = None) \<and> (fshift s = None \<longleftrightarrow> mask s = None) \<and>
     (img s \<noteq> None \<longrightarrow> 0 < fst (shape s) \<and> 0 < snd (shape s))"

definition unit_img :: "lab \<Rightarrow> bool" where
  "unit_img s \<longleftrightarrow> (case img s of None \<Rightarrow> True | Some im \<Rightarrow> \<forall>i j. 0 \<le> im i j \<and> im i j \<le> 1)"

fun valid_input :: "load_input \<Rightarrow> bool" where
  "valid_input (Gray h w px) \<longleftrightarrow> 0 < h \<and> 0 < w"
| "valid_input _ \<longleftrightarrow> True"

lemma trigger_recompute_fields [simp]:
  "shape (trigger_recompute s) = shape s"
  "img (trigger_recompute s) = img s"
  "fshift (trigger_recompute s) = fshift s"
  "mask (trigger_recompute s) = mask s"
  "result_cache (trigger_recompute s) = result_cache s"
  "result_queue (trigger_recompute s) = result_queue s"
  by (simp_all add: trigger_recompute_def split: option.split)

lemma trigger_recompute_snapshot:
  "fshift s = Some f \<Longrightarrow> mask s = Some m \<Longrightarrow>
   task_queue (trigger_recompute s) = task_queue s @ [Compute (shape s) f m]"
  by (simp add: trigger_recompute_def)

lemma trigger_recompute_appends:
  "\<exists>ts. task_queue (trigger_recompute s) = task_queue s @ ts"
  by (auto simp: trigger_recompute_def split: option.split)

text \<open>A request is a snapshot of a store when it copies that store's spectrum and mask.\<close>

definition snapshot_of :: "lab \<Rightarrow> task \<Rightarrow> bool" where
  "snapshot_of a t \<longleftrightarrow> (\<exists>f m. t = Compute (shape a) f m \<and> fshift a = Some f \<and> mask a = Some m)"

lemma trigger_recompute_snapshots:
  "\<exists>ts. task_queue (trigger_recompute s) = task_queue s @ ts \<and>
        (\<forall>t \<in> set ts. snapshot_of (trigger_recompute s) t)"
  by (auto simp: trigger_recompute_def snapshot_of_def split: option.split)

lemma wf_init_lab: "wf_lab init_lab"
  by (simp add: wf_lab_def init_lab_def)

lemma to_unit_bounds: "0 \<le> to_unit px i j \<and> to_unit px i j \<le> 1"
proof -
  have "unat (px i j) < 256"
    using unsigned_less [of "px i j"] by simp
  then have "real (unat (px i j)) \<le> 255"
    by linarith
  then show ?thesis by (simp add: to_unit_def del: of_nat_unat)
qed

lemma spectrum_of_sherm:
  "0 < fst sh \<Longrightarrow> 0 < snd sh \<Longrightarrow> sherm (fst sh) (snd sh) (spectrum_of sh im)"
  by (simp add: spectrum_of_def herm_sherm fft2_real_herm)

lemma load_image_wf: "valid_input inp \<Longrightarrow> wf_lab s \<Longrightarrow> wf_lab (load_image inp s)"
  by (cases inp) (auto simp: wf_lab_def)

lemma clear_all_wf: "wf_lab s \<Longrightarrow> wf_lab (clear_all s)"
  by (auto simp: wf_lab_def clear_all_def)

lemma reset_image_wf: "wf_lab s \<Longrightarrow> wf_lab (reset_image s)"
  by (auto simp: wf_lab_def reset_image_def split: option.split)

lemma reset_image_idem:
  "fshift (reset_image (reset_image s)) = fshift (reset_image s) \<and>
   mask (reset_image (reset_image s)) = mask (reset_image s)"
  by (simp add: reset_image_def split: option.split)

text \<open>
  Loading an image keeps every sample of the store's image in \<open>[0, 1]\<close>: the
  bytes returned by \<open>cv2.imread\<close> are divided by 255.
\<close>

theorem load_image_samples_in_unit:
  assumes "unit_img s"
  shows "unit_img (load_image inp s)"
  using assms by (cases inp) (simp_all add: unit_img_def to_unit_bounds)

theorem load_image_samples_in_unit_witness:
  "unit_img init_lab \<and> unit_img (load_image (Gray 1 1 (\<lambda>_ _. 255)) init_lab)"
  using load_image_samples_in_unit [of init_lab "Gray 1 1 (\<lambda>_ _. 255)"]
  by (simp add: unit_img_def init_lab_def)

end
