(* ===== verification/Edits.thy ===== *)
theory Edits
  imports Store
begin

text \<open>
  The edit operations of \<open>UltimateFrequencyLab.on_click\<close> (src/HW3/lab_2.py,
  lines 173-211): the click is mapped to integer coordinates \<open>(x, y)\<close>, and under
  the lock the selected tool paints the mask (brush, erase) or adds to the centred
  spectrum (sine, line, ring, grid). Each tool is one definition over the shape
  \<open>h \<times> w\<close>; numpy indexing is \<open>py_index\<close>, so an index out of range raises
  IndexError after the writes that preceded it, as in the code. \<open>on_click\<close> composes
  them with \<open>trigger_recompute\<close>.
  The lemmas show which parts of the store each tool may change, where it raises, and
  that on an image of odd height and width every tool adds an increment of the form
  \<open>A + cnj (A \<circ> cref)\<close>, so the centred spectrum stays Hermitian.
\<close>

datatype tool_kind = Brush | Erase | Sine | Line | Ring | Grid

text \<open>The Tk variables the handler reads.\<close>

record params =
  tool :: tool_kind
  brush_size :: int
  strength :: real
  freq_u :: real
  freq_v :: real
  phase :: real

text \<open>The matplotlib event: whether it is over the spectrum axes, and its data coordinates.\<close>

record click =
  in_ax2 :: bool
  xdata :: real
  ydata :: real

text \<open>The initial values of the Tk variables (\<open>__init__\<close>) and the ranges the widgets of
  \<open>setup_gui\<close> let them take: a radio button per tool, the size slider from 5 to 100
  (read back through an \<open>IntVar\<close>), the strength slider from \<open>10\<^sup>3\<close> to
  \<open>5 \<cdot> 10\<^sup>7\<close>, the two frequency sliders from 1 to 200; no widget sets the phase.\<close>

definition params_init :: params where
  "params_init = \<lparr>tool = Brush, brush_size = 15, strength = 1000, freq_u = 30, freq_v = 20, phase = 0\<rparr>"

definition slider_params :: "params \<Rightarrow> bool" where
  "slider_params p \<longleftrightarrow>
     5 \<le> brush_size p \<and> brush_size p \<le> 100 \<and> 1000 \<le> strength p \<and> strength p \<le> 5 * 10 ^ 7 \<and>
     1 \<le> freq_u p \<and> freq_u p \<le> 200 \<and> 1 \<le> freq_v p \<and> freq_v p \<le> 200 \<and> phase p = 0"

subsection \<open>Brush and erase: \<open>cv2.circle(mask, (x, y), r, value, -1)\<close>\<close>

text \<open>
  A filled disc of radius \<open>r\<close> around column \<open>x\<close>, row \<open>y\<close>, clipped to the array;
  OpenCV rejects a negative radius.
\<close>

definition circle_fill :: "nat \<Rightarrow> nat \<Rightarrow> real grid \<Rightarrow> int \<Rightarrow> int \<Rightarrow> int \<Rightarrow> real \<Rightarrow> real grid" where
  "circle_fill h w m x y r v =
     (\<lambda>i j. if i < h \<and> j < w \<and> (int j - x)\<^sup>2 + (int i - y)\<^sup>2 \<le> r\<^sup>2 then v else m i j)"

subsection \<open>Point injection (\<open>sine\<close>)\<close>

definition sine_edit :: "nat \<Rightarrow> nat \<Rightarrow> int \<Rightarrow> int \<Rightarrow> complex \<Rightarrow> complex grid \<Rightarrow> complex grid outcome" where
  "sine_edit h w x y v f =
     (case (py_index h y, py_index w x) of
        (Some r, Some c) \<Rightarrow>
          (let f1 = add_at f r c v in
           if \<not> (x = int (w div 2) \<and> y = int (h div 2)) then
             (case (py_index h (int h - 1 - y), py_index w (int w - 1 - x)) of
                (Some r', Some c') \<Rightarrow> Done (add_at f1 r' c' (cnj v))
              | _ \<Rightarrow> Raised IndexError f1)
           else Done f1)
      | _ \<Rightarrow> Raised IndexError f)"

subsection \<open>Line injection: \<open>fshift[y, :] += s; fshift[h-1-y, :] += s\<close>\<close>

definition add_row :: "nat \<Rightarrow> complex grid \<Rightarrow> nat \<Rightarrow> complex \<Rightarrow> complex grid" where
  "add_row w f r v = (\<lambda>i j. if i = r \<and> j < w then f i j + v else f i j)"

definition line_edit :: "nat \<Rightarrow> nat \<Rightarrow> int \<Rightarrow> real \<Rightarrow> complex grid \<Rightarrow> complex grid outcome" where
  "line_edit h w y s f =
     (case py_index h y of
        None \<Rightarrow> Raised IndexError f
      | Some r \<Rightarrow>
          (let f1 = add_row w f r (complex_of_real s) in
           case py_index h (int h - 1 - y) of
             None \<Rightarrow> Raised IndexError f1
           | Some r' \<Rightarrow> Done (add_row w f1 r' (complex_of_real s))))"

subsection \<open>Ring injection\<close>

text \<open>
  \<open>ring = |hypot(xx - cx, yy - cy) - hypot(x - cx, y - cy)| < 6\<close> over the
  open grid \<open>yy, xx = np.ogrid[:h, :w]\<close>.
\<close>

definition ring_sel :: "nat \<Rightarrow> nat \<Rightarrow> int \<Rightarrow> int \<Rightarrow> nat \<Rightarrow> nat \<Rightarrow> bool" where
  "ring_sel h w x y i j =
     (\<bar>sqrt (of_int ((int j - int (w div 2))\<^sup>2 + (int i - int (h div 2))\<^sup>2))
        - sqrt (of_int ((x - int (w div 2))\<^sup>2 + (y - int (h div 2))\<^sup>2))\<bar> < (6::real))"

text \<open>\<open>np.flipud(np.fliplr(sel))\<close>\<close>

definition flip2 :: "nat \<Rightarrow> nat \<Rightarrow> (nat \<Rightarrow> nat \<Rightarrow> bool) \<Rightarrow> nat \<Rightarrow> nat \<Rightarrow> bool" where
  "flip2 h w sel = (\<lambda>i j. sel (h - 1 - i) (w - 1 - j))"

text \<open>\<open>fshift[sel] += s\<close> with a boolean mask: every selected cell once.\<close>

definition add_where :: "nat \<Rightarrow> nat \<Rightarrow> (nat \<Rightarrow> nat \<Rightarrow> bool) \<Rightarrow> complex \<Rightarrow> complex grid \<Rightarrow> complex grid" where
  "add_where h w sel v f = (\<lambda>i j. if i < h \<and> j < w \<and> sel i j then f i j + v else f i j)"

definition ring_edit :: "nat \<Rightarrow> nat \<Rightarrow> int \<Rightarrow> int \<Rightarrow> real \<Rightarrow> complex grid \<Rightarrow> complex grid" where
  "ring_edit h w x y s f =
     (let ring = ring_sel h w x y
      in add_where h w (flip2 h w ring) (complex_of_real s) (add_where h w ring (complex_of_real s) f))"

subsection \<open>Grid injection\<close>

text \<open>The loop \<open>for dy in [-v, v]: for dx in [-u, u]\<close>, in that order.\<close>

definition grid_offsets :: "int \<Rightarrow> int \<Rightarrow> (int \<times> int) list" where
  "grid_offsets u v = [(dy, dx). dy \<leftarrow> [- v, v], dx \<leftarrow> [- u, u]]"

text \<open>One pass of the loop body; Python's \<open>%\<close> by a positive modulus is \<open>mod\<close> on \<open>int\<close>.\<close>

fun grid_point :: "nat \<Rightarrow> nat \<Rightarrow> int \<Rightarrow> int \<Rightarrow> real \<Rightarrow> complex grid \<Rightarrow> int \<times> int \<Rightarrow> complex grid" where
  "grid_point h w x y s f (dy, dx) =
     (if dx = 0 \<and> dy = 0 then f
      else
        (let ny = nat ((y + dy) mod int h); nx = nat ((x + dx) mod int w)
         in add_at (add_at f ny nx (complex_of_real s)) (h - 1 - ny) (w - 1 - nx) (complex_of_real s)))"

definition grid_edit :: "nat \<Rightarrow> nat \<Rightarrow> int \<Rightarrow> int \<Rightarrow> int \<Rightarrow> int \<Rightarrow> real \<Rightarrow> complex grid \<Rightarrow> complex grid" where
  "grid_edit h w x y u v s f = fold (\<lambda>off g. grid_point h w x y s g off) (grid_offsets u v) f"

subsection \<open>The handler\<close>

text \<open>\<open>val = strength * np.exp(1j * np.deg2rad(phase))\<close>\<close>

definition sine_value :: "params \<Rightarrow> complex" where
  "sine_value p = complex_of_real (strength p) * cis (phase p * pi / 180)"

definition apply_tool ::
  "params \<Rightarrow> nat \<Rightarrow> nat \<Rightarrow> int \<Rightarrow> int \<Rightarrow> complex grid \<Rightarrow> real grid \<Rightarrow> (complex grid \<times> real grid) outcome" where
  "apply_tool p h w x y f m =
     (case tool p of
        Brush \<Rightarrow>
          if brush_size p < 0 then Raised CvError (f, m)
          else Done (f, circle_fill h w m x y (brush_size p) 1)
      | Erase \<Rightarrow>
          if brush_size p < 0 then Raised CvError (f, m)
          else Done (f, circle_fill h w m x y (brush_size p) 0)
      | Sine \<Rightarrow> map_outcome (\<lambda>f'. (f', m)) (sine_edit h w x y (sine_value p) f)
      | Line \<Rightarrow> map_outcome (\<lambda>f'. (f', m)) (line_edit h w y (strength p) f)
      | Ring \<Rightarrow> Done (ring_edit h w x y (strength p) f, m)
      | Grid \<Rightarrow> Done (grid_edit h w x y (py_int (freq_u p)) (py_int (freq_v p)) (strength p) f, m))"

text \<open>
  \<open>x, y = int(event.xdata + 0.5), int(event.ydata + 0.5)\<close>; after the locked edit
  the handler redraws and calls \<open>trigger_recompute\<close>. An exception escaping the edit
  leaves the writes made before it and skips the recompute. (A spectrum without a mask
  is unreachable, see \<open>wf_lab\<close>.)
\<close>

definition click_x :: "click \<Rightarrow> int" where
  "click_x e = py_int (xdata e + 1 / 2)"

definition click_y :: "click \<Rightarrow> int" where
  "click_y e = py_int (ydata e + 1 / 2)"

definition on_click :: "params \<Rightarrow> click \<Rightarrow> lab \<Rightarrow> lab outcome" where
  "on_click p e s =
     (if \<not> in_ax2 e then Done s
      else
        (case fshift s of
           None \<Rightarrow> Done s
         | Some f \<Rightarrow>
             (case mask s of
                None \<Rightarrow> Done s
              | Some m \<Rightarrow>
                  (case apply_tool p (fst (shape s)) (snd (shape s)) (click_x e) (click_y e) f m of
                     Done (f', m') \<Rightarrow> Done (trigger_recompute (s\<lparr>fshift := Some f', mask := Some m'\<rparr>))
                   | Raised err (f', m') \<Rightarrow> Raised err (s\<lparr>fshift := Some f', mask := Some m'\<rparr>)))))"

subsection \<open>The centred symmetry on odd shapes\<close>

text \<open>
  On an axis of odd length the code's reflection \<open>n - 1 - r\<close> is \<open>cref n r\<close>, so
  the increment of each tool has the form \<open>A + cnj (A \<circ> cref)\<close> of
  \<open>sherm_sym_add\<close>.
\<close>

lemma cref_point:
  assumes "i < h" "j < w" "r < h" "c < w"
  shows "(cref h i = r \<and> cref w j = c) \<longleftrightarrow> (i = cref h r \<and> j = cref w c)"
  using assms by (simp add: cref_eq_iff)

lemma sherm_pair_increment:
  assumes "0 < h" "0 < w" "sherm h w f" "r < h" "c < w"
    and eq: "\<And>i j. i < h \<Longrightarrow> j < w \<Longrightarrow>
       g i j = f i j + (if i = r \<and> j = c then v else 0) + (if i = cref h r \<and> j = cref w c then cnj v else 0)"
  shows "sherm h w g"
proof (rule sherm_add_on [OF assms(1-3) sherm_sym_add [OF assms(1,2), of "\<lambda>i j. if i = r \<and> j = c then v else 0"]])
  fix i j assume "i < h" "j < w"
  then show "g i j = f i j + ((if i = r \<and> j = c then v else 0) +
      cnj (if cref h i = r \<and> cref w j = c then v else 0))"
    using assms(4,5) by (simp add: eq cref_point)
qed

lemma sherm_sym_increment:
  assumes "0 < h" "0 < w" "sherm h w f"
    and eq: "\<And>i j. i < h \<Longrightarrow> j < w \<Longrightarrow> g i j = f i j + A i j + cnj (A (cref h i) (cref w j))"
  shows "sherm h w g"
  by (rule sherm_add_on [OF assms(1-3) sherm_sym_add [OF assms(1,2), of A]]) (simp add: eq)

lemma odd_center: "odd n \<Longrightarrow> cref n (n div 2) = n div 2"
proof -
  assume "odd n"
  then obtain k where "n = 2 * k + 1" by (rule oddE)
  then show ?thesis by (simp add: cref_odd)
qed

lemma odd_reflect_index:
  assumes "odd n" "r < n"
  shows "py_index n (int n - 1 - int r) = Some (cref n r)"
  using assms by (auto simp: py_index_def cref_odd of_nat_diff)

lemma sine_edit_sherm:
  assumes odd: "odd h" "odd w" and sym: "sherm h w f"
    and rng: "0 \<le> x" "x < int w" "0 \<le> y" "y < int h"
    and centre: "x = int (w div 2) \<and> y = int (h div 2) \<longrightarrow> cnj v = v"
  shows "\<exists>f'. sine_edit h w x y v f = Done f' \<and> sherm h w f'"
proof -
  obtain r c where rc: "y = int r" "x = int c" "r < h" "c < w"
    using rng by (metis nat_0_le of_nat_less_iff)
  have pos: "0 < h" "0 < w"
    using rc by simp_all
  show ?thesis
  proof (cases "x = int (w div 2) \<and> y = int (h div 2)")
    case True
    then have "r = h div 2" "c = w div 2"
      using rc by simp_all
    then have D: "sherm h w (\<lambda>i j. if i = r \<and> j = c then v else 0)"
      using odd centre True by (simp add: sherm_point_fixed odd_center)
    have "sherm h w (add_at f r c v)"
      by (rule sherm_add_on [OF pos sym D]) (simp add: add_at_apply)
    moreover have "sine_edit h w x y v f = Done (add_at f r c v)"
      using True rc by (simp add: sine_edit_def)
    ultimately show ?thesis by blast
  next
    case False
    let ?g = "add_at (add_at f r c v) (cref h r) (cref w c) (cnj v)"
    have "sine_edit h w x y v f = Done ?g"
      using False rc odd by (simp add: sine_edit_def odd_reflect_index)
    moreover have "sherm h w ?g"
      using pos sym rc(3,4) by (rule sherm_pair_increment [where v = v]) (simp add: add_at_apply)
    ultimately show ?thesis by blast
  qed
qed

lemma line_edit_sherm:
  assumes odd: "odd h" "odd w" and sym: "sherm h w f" and rng: "0 \<le> y" "y < int h"
  shows "\<exists>f'. line_edit h w y s f = Done f' \<and> sherm h w f'"
proof -
  obtain r where r: "y = int r" "r < h"
    using rng by (metis nat_0_le of_nat_less_iff)
  have pos: "0 < h" "0 < w"
    using odd odd_pos by blast+
  let ?g = "add_row w (add_row w f r (complex_of_real s)) (cref h r) (complex_of_real s)"
  have "line_edit h w y s f = Done ?g"
    using r odd by (simp add: line_edit_def odd_reflect_index)
  moreover have "sherm h w ?g"
  proof (rule sherm_sym_increment [OF pos sym, where A = "\<lambda>i j. if i = r \<and> j < w then complex_of_real s else 0"])
    fix i j assume "i < h" "j < w"
    then show "?g i j = f i j + (if i = r \<and> j < w then complex_of_real s else 0)
        + cnj (if cref h i = r \<and> cref w j < w then complex_of_real s else 0)"
      using r pos by (simp add: add_row_def cref_eq_iff)
  qed
  ultimately show ?thesis by blast
qed

lemma ring_edit_sherm:
  assumes odd: "odd h" "odd w" and sym: "sherm h w f"
  shows "sherm h w (ring_edit h w x y s f)"
proof -
  have pos: "0 < h" "0 < w"
    using odd odd_pos by blast+
  let ?A = "\<lambda>i j. if i < h \<and> j < w \<and> ring_sel h w x y i j then complex_of_real s else 0"
  show ?thesis
  proof (rule sherm_sym_increment [OF pos sym, where A = ?A])
    fix i j assume "i < h" "j < w"
    then show "ring_edit h w x y s f i j = f i j + ?A i j + cnj (?A (cref h i) (cref w j))"
      using odd by (simp add: ring_edit_def add_where_def flip2_def cref_odd Let_def)
  qed
qed

lemma grid_point_sherm:
  assumes odd: "odd h" "odd w" and sym: "sherm h w f"
  shows "sherm h w (grid_point h w x y s f off)"
proof (cases off)
  case (Pair dy dx)
  have pos: "0 < h" "0 < w"
    using odd odd_pos by blast+
  define ny where "ny = nat ((y + dy) mod int h)"
  define nx where "nx = nat ((x + dx) mod int w)"
  have lt: "ny < h" "nx < w"
    using pos by (simp_all add: ny_def nx_def nat_less_iff)
  have "sherm h w (add_at (add_at f ny nx (complex_of_real s)) (cref h ny) (cref w nx) (complex_of_real s))"
    using pos sym lt by (rule sherm_pair_increment [where v = "complex_of_real s"]) (simp add: add_at_apply)
  then show ?thesis
    using Pair sym odd lt by (simp add: Let_def ny_def [symmetric] nx_def [symmetric] cref_odd)
qed

lemma grid_edit_sherm:
  assumes "odd h" "odd w" "sherm h w f"
  shows "sherm h w (grid_edit h w x y u v s f)"
  unfolding grid_edit_def
  by (rule fold_invariant [where P = "sherm h w"]) (simp_all add: assms grid_point_sherm)

lemma sine_edit_unchecked:
  "py_index h y = None \<or> py_index w x = None \<Longrightarrow> sine_edit h w x y v f = Raised IndexError f"
  by (auto simp: sine_edit_def split: option.split)

lemma line_edit_unchecked:
  "py_index h y = None \<Longrightarrow> line_edit h w y s f = Raised IndexError f"
  by (simp add: line_edit_def)

text \<open>
  A click inside the spectrum axes lands in \<open>[0, w] \<times> [0, h]\<close>: the far edges
  \<open>x = w\<close> and \<open>y = h\<close> are out of range for numpy and raise before any write.
\<close>

lemma apply_tool_sherm:
  assumes odd: "odd h" "odd w" and sym: "sherm h w f"
    and rng: "0 \<le> x" "x \<le> int w" "0 \<le> y" "y \<le> int h"
    and centre: "tool p = Sine \<and> x = int (w div 2) \<and> y = int (h div 2) \<longrightarrow>
                 cnj (sine_value p) = sine_value p"
  shows "sherm h w (fst (outcome_state (apply_tool p h w x y f m)))"
proof (cases "tool p")
  case Sine
  show ?thesis
  proof (cases "x < int w \<and> y < int h")
    case True
    then obtain f' where "sine_edit h w x y (sine_value p) f = Done f'" "sherm h w f'"
      using sine_edit_sherm [OF odd sym] rng centre Sine by blast
    with Sine show ?thesis by (simp add: apply_tool_def)
  next
    case False
    then have "sine_edit h w x y (sine_value p) f = Raised IndexError f"
      using rng by (intro sine_edit_unchecked) (auto simp: py_index_None_iff)
    with Sine sym show ?thesis by (simp add: apply_tool_def)
  qed
next
  case Line
  show ?thesis
  proof (cases "y < int h")
    case True
    then obtain f' where "line_edit h w y (strength p) f = Done f'" "sherm h w f'"
      using line_edit_sherm [OF odd sym] rng by blast
    with Line show ?thesis by (simp add: apply_tool_def)
  next
    case False
    then have "line_edit h w y (strength p) f = Raised IndexError f"
      using rng by (intro line_edit_unchecked) (auto simp: py_index_None_iff)
    with Line sym show ?thesis by (simp add: apply_tool_def)
  qed
qed (simp_all add: apply_tool_def sym ring_edit_sherm grid_edit_sherm odd)

lemma tool_keeps_spectrum:
  "tool p \<in> {Brush, Erase} \<Longrightarrow> fst (outcome_state (apply_tool p h w x y f m)) = f"
  by (auto simp: apply_tool_def)

subsection \<open>The handler\<close>

text \<open>
  The data coordinates of a click inside the spectrum axes: matplotlib's \<open>imshow\<close>
  draws the \<open>h \<times> w\<close> array over \<open>[-0.5, w - 0.5] \<times> [-0.5, h - 0.5]\<close>.
\<close>

definition gui_click :: "nat \<Rightarrow> nat \<Rightarrow> click \<Rightarrow> bool" where
  "gui_click h w e \<longleftrightarrow>
     - 1 / 2 \<le> xdata e \<and> xdata e \<le> real w - 1 / 2 \<and> - 1 / 2 \<le> ydata e \<and> ydata e \<le> real h - 1 / 2"

lemma py_int_half_range:
  assumes "- 1 / 2 \<le> t" "t \<le> real n - 1 / 2"
  shows "0 \<le> py_int (t + 1 / 2) \<and> py_int (t + 1 / 2) \<le> int n"
proof -
  have "0 \<le> t + 1 / 2" "t + 1 / 2 \<le> real n"
    using assms by simp_all
  then show ?thesis
    by (simp add: floor_le_iff)
qed

lemma gui_click_range:
  "gui_click h w e \<Longrightarrow> 0 \<le> click_x e \<and> click_x e \<le> int w \<and> 0 \<le> click_y e \<and> click_y e \<le> int h"
  using py_int_half_range [of "xdata e" w] py_int_half_range [of "ydata e" h]
  unfolding gui_click_def click_x_def click_y_def by blast

lemma on_click_cases:
  assumes "in_ax2 e" "fshift s = Some f" "mask s = Some m"
  shows "on_click p e s =
    (case apply_tool p (fst (shape s)) (snd (shape s)) (click_x e) (click_y e) f m of
       Done (f', m') \<Rightarrow> Done (trigger_recompute (s\<lparr>fshift := Some f', mask := Some m'\<rparr>))
     | Raised err (f', m') \<Rightarrow> Raised err (s\<lparr>fshift := Some f', mask := Some m'\<rparr>))"
  using assms by (simp add: on_click_def)

lemma on_click_spectrum:
  assumes "in_ax2 e" "fshift s = Some f" "mask s = Some m"
  shows "fshift (outcome_state (on_click p e s)) =
           Some (fst (outcome_state (apply_tool p (fst (shape s)) (snd (shape s)) (click_x e) (click_y e) f m)))"
  using assms by (simp add: on_click_cases split: outcome.split)

lemma on_click_fields:
  "\<exists>ts. task_queue (outcome_state (on_click p e s)) = task_queue s @ ts"
  "result_queue (outcome_state (on_click p e s)) = result_queue s"
  "result_cache (outcome_state (on_click p e s)) = result_cache s"
  "shape (outcome_state (on_click p e s)) = shape s"
  "img (outcome_state (on_click p e s)) = img s"
  by (auto simp: on_click_def trigger_recompute_def split: option.split outcome.split)

lemma on_click_wf: "wf_lab s \<Longrightarrow> wf_lab (outcome_state (on_click p e s))"
  by (auto simp: on_click_def wf_lab_def split: option.split outcome.split)

text \<open>
  On an image of odd height and width, a click inside the spectrum axes keeps the
  centred spectrum Hermitian, whatever the tool, provided a point injection exactly at
  the centre adds a real value (phase 0, as the design asks of its callers).
\<close>

lemma on_click_keeps_symmetry:
  assumes "fshift s = Some f" "shape s = (h, w)" "odd h" "odd w" "sherm h w f" "gui_click h w e"
    and "tool p = Sine \<and> click_x e = int (w div 2) \<and> click_y e = int (h div 2) \<longrightarrow>
         cnj (sine_value p) = sine_value p"
  shows "\<exists>f'. fshift (outcome_state (on_click p e s)) = Some f' \<and> sherm h w f'"
proof (cases "in_ax2 e \<and> mask s \<noteq> None")
  case True
  then obtain m where "mask s = Some m" by blast
  moreover have "sherm h w (fst (outcome_state (apply_tool p h w (click_x e) (click_y e) f m)))"
    using assms gui_click_range [OF assms(6)] by (intro apply_tool_sherm) simp_all
  ultimately show ?thesis
    using True assms(1,2) by (simp add: on_click_spectrum)
next
  case False
  then show ?thesis
    using assms(1,5) by (auto simp: on_click_def)
qed

text \<open>
  Paint and erase never touch the spectrum: only the mask changes.
\<close>

theorem on_click_brush_keeps_spectrum:
  assumes "tool p = Brush \<or> tool p = Erase"
  shows "fshift (outcome_state (on_click p e s)) = fshift s"
proof (cases "in_ax2 e \<and> fshift s \<noteq> None \<and> mask s \<noteq> None")
  case True
  then obtain f m where "fshift s = Some f" "mask s = Some m" by blast
  with True assms show ?thesis
    by (simp add: on_click_spectrum tool_keeps_spectrum)
next
  case False
  then show ?thesis by (auto simp: on_click_def split: option.split)
qed

theorem on_click_brush_keeps_spectrum_witness:
  "fshift (outcome_state
      (on_click \<lparr>tool = Erase, brush_size = 15, strength = 1000, freq_u = 30, freq_v = 20, phase = 0\<rparr>
                \<lparr>in_ax2 = True, xdata = 1, ydata = 1\<rparr>
                (init_lab\<lparr>shape := (3, 3), img := Some (\<lambda>_ _. 0), fshift := Some (\<lambda>_ _. 1),
                          mask := Some ones\<rparr>))) = Some (\<lambda>_ _. 1)"
  using on_click_brush_keeps_spectrum
    [of "\<lparr>tool = Erase, brush_size = 15, strength = 1000, freq_u = 30, freq_v = 20, phase = 0\<rparr>"
        "\<lparr>in_ax2 = True, xdata = 1, ydata = 1\<rparr>"
        "init_lab\<lparr>shape := (3, 3), img := Some (\<lambda>_ _. 0), fshift := Some (\<lambda>_ _. 1), mask := Some ones\<rparr>"]
  by simp

lemma sine_edit_in_range:
  assumes "0 \<le> x" "x < int w" "0 \<le> y" "y < int h"
  shows "\<exists>f'. sine_edit h w x y v f = Done f'"
proof -
  obtain r c where rc: "y = int r" "x = int c" "r < h" "c < w"
    using assms by (metis nat_0_le of_nat_less_iff)
  then have "py_index h (int h - 1 - y) = Some (h - 1 - r)" "py_index w (int w - 1 - x) = Some (w - 1 - c)"
    by (auto simp: py_index_def of_nat_diff)
  with rc show ?thesis
    by (simp add: sine_edit_def Let_def)
qed

text \<open>
  C9. Boundary of the point injection: the corners \<open>(0, 0)\<close> and \<open>(w - 1, h - 1)\<close>
  are accepted, and one unit beyond the right or bottom edge numpy raises IndexError
  before any write, leaving the spectrum unchanged.
\<close>

theorem sine_edit_boundary:
  assumes "0 < h" "0 < w"
  shows "(\<exists>f'. sine_edit h w 0 0 v f = Done f') \<and>
         (\<exists>f'. sine_edit h w (int w - 1) (int h - 1) v f = Done f') \<and>
         sine_edit h w (int w) y v f = Raised IndexError f \<and>
         sine_edit h w x (int h) v f = Raised IndexError f"
  using assms by (simp add: sine_edit_in_range sine_edit_unchecked)

theorem sine_edit_boundary_witness:
  "(\<exists>f'. sine_edit 4 4 0 0 10 (\<lambda>_ _. 0) = Done f') \<and>
   (\<exists>f'. sine_edit 4 4 3 3 10 (\<lambda>_ _. 0) = Done f') \<and>
   sine_edit 4 4 4 0 10 (\<lambda>_ _. 0) = Raised IndexError (\<lambda>_ _. 0) \<and>
   sine_edit 4 4 0 4 10 (\<lambda>_ _. 0) = Raised IndexError (\<lambda>_ _. 0)"
  using sine_edit_boundary [of 4 4 10 "\<lambda>_ _. 0" 0 0] by simp

text \<open>
  C10. A negative coordinate is not rejected: numpy reads row \<open>-1\<close> as the last row.
  The point and line injections then write that row, and raise IndexError only at the
  reflected index \<open>h\<close>, so the first write stays in the spectrum.
\<close>

theorem negative_row_partial_write:
  assumes "0 < h" "0 \<le> x" "x < int w"
  shows "sine_edit h w x (- 1) v f = Raised IndexError (add_at f (h - 1) (nat x) v) \<and>
         line_edit h w (- 1) s f = Raised IndexError (add_row w f (h - 1) (complex_of_real s))"
proof -
  have "py_index h (- 1) = Some (h - 1)" "py_index h (int h - 1 - (- 1)) = None"
    using assms(1) by (simp_all add: py_index_def)
  moreover have "py_index w x = Some (nat x)"
    using assms(2,3) by (simp add: py_index_nonneg)
  moreover have "\<not> (x = int (w div 2) \<and> - 1 = int (h div 2))"
    by simp
  ultimately show ?thesis
    by (simp add: sine_edit_def line_edit_def)
qed

theorem negative_row_partial_write_witness:
  "sine_edit 4 4 1 (- 1) 10 (\<lambda>_ _. 0) = Raised IndexError (add_at (\<lambda>_ _. 0) 3 1 10) \<and>
   line_edit 4 4 (- 1) 10 (\<lambda>_ _. 0) = Raised IndexError (add_row 4 (\<lambda>_ _. 0) 3 10) \<and>
   add_at (\<lambda>_ _. 0) 3 1 (10::complex) 3 1 = 10"
  using negative_row_partial_write [of 4 1 4 10 "\<lambda>_ _. 0" 10] by (simp add: add_at_apply)

subsection \<open>The tools within the widgets' ranges\<close>

lemma params_init_slider: "slider_params params_init"
  by (simp add: slider_params_def params_init_def)

text \<open>Within the sliders' ranges only the point and line injections can raise, and the
  point tool injects the strength itself (phase 0).\<close>

lemma slider_apply_tool_done:
  "slider_params p \<Longrightarrow> tool p \<notin> {Sine, Line} \<Longrightarrow> \<exists>r. apply_tool p h w x y f m = Done r"
  by (cases "tool p") (auto simp: apply_tool_def slider_params_def)

lemma slider_sine_value: "slider_params p \<Longrightarrow> sine_value p = complex_of_real (strength p)"
  by (simp add: slider_params_def sine_value_def)

end
