(* ===== verification/Pipeline.thy ===== *)
theory Pipeline
  imports Store
begin

text \<open>
  The recompute pipeline of \<open>UltimateFrequencyLab\<close> (src/HW3/lab_2.py): the worker
  thread \<open>worker_loop\<close> (lines 151-157) takes requests from \<open>task_queue\<close> in
  arrival order, multiplies spectrum and mask, undoes the centring, inverts the transform
  and puts the modulus on \<open>result_queue\<close>; \<open>check_queue\<close> (lines 159-171), polled by
  Tk every 30 ms, drains \<open>result_queue\<close> with \<open>get_nowait\<close> and keeps the last result
  in \<open>result_cache\<close>.
  The whole program is a step relation \<open>sys_step ed\<close> over \<open>sys\<close>: the editing thread
  (any relation \<open>ed\<close> on the store that meets \<open>editor_contract\<close>, discharged for the
  real handlers in the root theory), the worker's two atomic queue operations, and one
  \<open>get_nowait\<close> of the consumer, interleaved in any order. The worker's request in
  flight is \<open>running\<close>; \<open>sent\<close> and \<open>finished\<close> are history variables (every
  request ever enqueued, every request whose result was put) that only the proofs read.
\<close>

text \<open>\<open>result = np.abs(np.fft.ifft2(np.fft.ifftshift(fshift * mask)))\<close>\<close>

definition filtered :: "complex grid \<Rightarrow> real grid \<Rightarrow> complex grid" where
  "filtered f m = (\<lambda>k l. f k l * complex_of_real (m k l))"

primrec worker_result :: "task \<Rightarrow> result" where
  "worker_result (Compute sh f m) =
     (sh, (\<lambda>i j. cmod (ifft2 (fst sh) (snd sh) (ifftshift (fst sh) (snd sh) (filtered f m)) i j)))"

record sys =
  app :: lab
  running :: "task option"
  sent :: "task list"
  finished :: "task list"

definition init_sys :: sys where
  "init_sys = \<lparr>app = init_lab, running = None, sent = [], finished = []\<rparr>"

text \<open>
  What the pipeline needs of the editing thread: it only appends to \<open>task_queue\<close>
  and never touches \<open>result_queue\<close> or \<open>result_cache\<close>.
\<close>

definition editor_contract :: "(lab \<Rightarrow> lab \<Rightarrow> bool) \<Rightarrow> bool" where
  "editor_contract ed \<longleftrightarrow>
     (\<forall>a a'. ed a a' \<longrightarrow> (\<exists>ts. task_queue a' = task_queue a @ ts) \<and>
        result_queue a' = result_queue a \<and> result_cache a' = result_cache a)"

text \<open>
  \<open>task_queue.get()\<close> (blocking: no step while the queue is empty) and
  \<open>result_queue.put(result)\<close>, with the computation between them.
\<close>

inductive worker_step :: "sys \<Rightarrow> sys \<Rightarrow> bool" where
  get: "running s = None \<Longrightarrow> task_queue (app s) = t # ts \<Longrightarrow>
        worker_step s (s\<lparr>app := (app s)\<lparr>task_queue := ts\<rparr>, running := Some t\<rparr>)"
| put: "running s = Some t \<Longrightarrow>
        worker_step s (s\<lparr>app := (app s)\<lparr>result_queue := result_queue (app s) @ [worker_result t]\<rparr>,
                        running := None, finished := finished s @ [t]\<rparr>)"

inductive sys_step :: "(lab \<Rightarrow> lab \<Rightarrow> bool) \<Rightarrow> sys \<Rightarrow> sys \<Rightarrow> bool" for ed where
  editor: "ed (app s) a' \<Longrightarrow>
           sys_step ed s (s\<lparr>app := a', sent := sent s @ drop (length (task_queue (app s))) (task_queue a')\<rparr>)"
| worker: "worker_step s t \<Longrightarrow> sys_step ed s t"
| poll: "result_queue (app s) = r # rs \<Longrightarrow>
         sys_step ed s (s\<lparr>app := (app s)\<lparr>result_cache := Some r, result_queue := rs\<rparr>\<rparr>)"

inductive reach :: "(lab \<Rightarrow> lab \<Rightarrow> bool) \<Rightarrow> sys \<Rightarrow> bool" for ed where
  init: "reach ed init_sys"
| step: "reach ed s \<Longrightarrow> sys_step ed s t \<Longrightarrow> reach ed t"

inductive_cases worker_stepE: "worker_step s t"
inductive_cases sys_stepE: "sys_step ed s t"

subsection \<open>The pipeline invariant\<close>

definition in_flight :: "sys \<Rightarrow> task list" where
  "in_flight s = (case running s of None \<Rightarrow> [] | Some t \<Rightarrow> [t])"

text \<open>
  The result queue holds the results of a suffix of the finished requests, and the cache
  the result just before that suffix (none before the first).
\<close>

definition result_inv :: "task list \<Rightarrow> result list \<Rightarrow> result option \<Rightarrow> bool" where
  "result_inv fin rq rc \<longleftrightarrow>
     (\<exists>k \<le> length fin. rq = map worker_result (drop k fin) \<and>
        rc = (if k = 0 then None else Some (worker_result (fin ! (k - 1)))))"

text \<open>Every request ever sent is finished, in flight or queued, in sending order.\<close>

definition pipe_inv :: "sys \<Rightarrow> bool" where
  "pipe_inv s \<longleftrightarrow>
     sent s = finished s @ in_flight s @ task_queue (app s) \<and>
     result_inv (finished s) (result_queue (app s)) (result_cache (app s))"

lemma result_inv_put:
  assumes "result_inv fin rq rc"
  shows "result_inv (fin @ [t]) (rq @ [worker_result t]) rc"
proof -
  obtain k where k: "k \<le> length fin" "rq = map worker_result (drop k fin)"
    "rc = (if k = 0 then None else Some (worker_result (fin ! (k - 1))))"
    using assms by (auto simp: result_inv_def)
  then have "rc = (if k = 0 then None else Some (worker_result ((fin @ [t]) ! (k - 1))))"
    by (auto simp: nth_append)
  with k show ?thesis
    unfolding result_inv_def by (intro exI [of _ k]) simp
qed

lemma result_inv_poll:
  assumes "result_inv fin (r # rs) rc"
  shows "result_inv fin rs (Some r)"
proof -
  obtain k where k: "k \<le> length fin" "r # rs = map worker_result (drop k fin)"
    using assms by (auto simp: result_inv_def)
  then have "drop k fin \<noteq> []"
    by auto
  then have lt: "k < length fin"
    by simp
  then have "drop k fin = fin ! k # drop (Suc k) fin"
    by (rule Cons_nth_drop_Suc [symmetric])
  with k(2) have "r = worker_result (fin ! k)" "rs = map worker_result (drop (Suc k) fin)"
    by simp_all
  with lt show ?thesis
    unfolding result_inv_def by (intro exI [of _ "Suc k"]) simp
qed

lemma pipe_inv_init: "pipe_inv init_sys"
  by (simp add: pipe_inv_def result_inv_def init_sys_def init_lab_def in_flight_def)

lemma worker_step_inv: "worker_step s t \<Longrightarrow> pipe_inv s \<Longrightarrow> pipe_inv t"
  by (induction rule: worker_step.induct) (simp_all add: pipe_inv_def in_flight_def result_inv_put)

lemma poll_inv:
  "pipe_inv s \<Longrightarrow> result_queue (app s) = r # rs \<Longrightarrow>
   pipe_inv (s\<lparr>app := (app s)\<lparr>result_cache := Some r, result_queue := rs\<rparr>\<rparr>)"
  unfolding pipe_inv_def in_flight_def by (auto intro: result_inv_poll)

lemma editor_inv:
  assumes "editor_contract ed" "ed (app s) a'" "pipe_inv s"
  shows "pipe_inv (s\<lparr>app := a', sent := sent s @ drop (length (task_queue (app s))) (task_queue a')\<rparr>)"
proof -
  obtain ts where "task_queue a' = task_queue (app s) @ ts"
    "result_queue a' = result_queue (app s)" "result_cache a' = result_cache (app s)"
    using assms(1,2) by (auto simp: editor_contract_def)
  with assms(3) show ?thesis
    by (simp add: pipe_inv_def in_flight_def)
qed

lemma reach_pipe_inv:
  assumes "editor_contract ed" "reach ed s"
  shows "pipe_inv s"
  using assms(2)
proof (induction rule: reach.induct)
  case init
  then show ?case by (rule pipe_inv_init)
next
  case (step s t)
  from step.hyps(2) step.IH show ?case
  proof (induction rule: sys_step.induct)
    case (editor s a')
    then show ?case by (rule editor_inv [OF assms(1)])
  next
    case (worker s t)
    then show ?case by (rule worker_step_inv)
  next
    case (poll s r rs)
    then show ?case by (simp add: poll_inv)
  qed
qed

subsection \<open>The worker drains the queue\<close>

text \<open>
  The store fields the worker leaves alone: it reads only its own copies.
\<close>

definition same_store :: "lab \<Rightarrow> lab \<Rightarrow> bool" where
  "same_store a b \<longleftrightarrow>
     shape b = shape a \<and> img b = img a \<and> fshift b = fshift a \<and> mask b = mask a \<and>
     result_cache b = result_cache a"

lemma same_store_refl [simp]: "same_store a a"
  by (simp add: same_store_def)

lemma same_store_trans: "same_store a b \<Longrightarrow> same_store b c \<Longrightarrow> same_store a c"
  by (simp add: same_store_def)

lemma worker_step_store: "worker_step s t \<Longrightarrow> same_store (app s) (app t) \<and> sent t = sent s"
  by (induction rule: worker_step.induct) (simp_all add: same_store_def)

lemma drain_queue:
  assumes "running s = None"
  shows "\<exists>t. worker_step\<^sup>*\<^sup>* s t \<and> running t = None \<and> task_queue (app t) = [] \<and>
             finished t = finished s @ task_queue (app s) \<and>
             result_queue (app t) = result_queue (app s) @ map worker_result (task_queue (app s)) \<and>
             same_store (app s) (app t) \<and> sent t = sent s"
  using assms
proof (induction "task_queue (app s)" arbitrary: s)
  case Nil
  then show ?case by (intro exI [of _ s]) simp
next
  case (Cons t0 ts)
  define s1 where "s1 = s\<lparr>app := (app s)\<lparr>task_queue := ts\<rparr>, running := Some t0\<rparr>"
  define s2 where "s2 = s1\<lparr>app := (app s1)\<lparr>result_queue := result_queue (app s1) @ [worker_result t0]\<rparr>,
                           running := None, finished := finished s1 @ [t0]\<rparr>"
  have step1: "worker_step s s1"
    unfolding s1_def using Cons.prems Cons.hyps(2) by (intro worker_step.get) simp_all
  have step2: "worker_step s1 s2"
    unfolding s2_def by (rule worker_step.put) (simp add: s1_def)
  have "ts = task_queue (app s2)" "running s2 = None"
    by (simp_all add: s1_def s2_def)
  then obtain t where t: "worker_step\<^sup>*\<^sup>* s2 t" "running t = None" "task_queue (app t) = []"
    "finished t = finished s2 @ task_queue (app s2)"
    "result_queue (app t) = result_queue (app s2) @ map worker_result (task_queue (app s2))"
    "same_store (app s2) (app t)" "sent t = sent s2"
    using Cons.hyps(1) by blast
  have "same_store (app s) (app s2)"
    by (simp add: s1_def s2_def same_store_def)
  then have "same_store (app s) (app t)"
    using t(6) by (rule same_store_trans)
  moreover have "worker_step\<^sup>*\<^sup>* s t"
    using step1 step2 t(1) by (meson converse_rtranclp_into_rtranclp)
  moreover have "finished s2 = finished s @ [t0]" "result_queue (app s2) = result_queue (app s) @ [worker_result t0]"
    "sent s2 = sent s"
    by (simp_all add: s1_def s2_def)
  ultimately show ?case
    using t(2-5,7) \<open>ts = task_queue (app s2)\<close> Cons.hyps(2) [symmetric]
    by (intro exI [of _ t]) simp
qed

lemma drain_all:
  "\<exists>t. worker_step\<^sup>*\<^sup>* s t \<and> running t = None \<and> task_queue (app t) = [] \<and>
       finished t = finished s @ in_flight s @ task_queue (app s) \<and>
       result_queue (app t) = result_queue (app s) @ map worker_result (in_flight s @ task_queue (app s)) \<and>
       same_store (app s) (app t) \<and> sent t = sent s"
proof (cases "running s")
  case None
  then show ?thesis using drain_queue [OF None] by (simp add: in_flight_def)
next
  case (Some t0)
  define s1 where "s1 = s\<lparr>app := (app s)\<lparr>result_queue := result_queue (app s) @ [worker_result t0]\<rparr>,
                           running := None, finished := finished s @ [t0]\<rparr>"
  have step: "worker_step s s1"
    unfolding s1_def using Some by (rule worker_step.put)
  obtain t where t: "worker_step\<^sup>*\<^sup>* s1 t" "running t = None" "task_queue (app t) = []"
    "finished t = finished s1 @ task_queue (app s1)"
    "result_queue (app t) = result_queue (app s1) @ map worker_result (task_queue (app s1))"
    "same_store (app s1) (app t)" "sent t = sent s1"
    using drain_queue [of s1] by (auto simp: s1_def)
  have "same_store (app s) (app s1)"
    by (simp add: s1_def same_store_def)
  with t step Some show ?thesis
    by (intro exI [of _ t])
       (auto simp: s1_def in_flight_def same_store_trans intro: converse_rtranclp_into_rtranclp)
qed

lemma worker_steps_reach: "worker_step\<^sup>*\<^sup>* s t \<Longrightarrow> reach ed s \<Longrightarrow> reach ed t"
  by (induction rule: rtranclp_induct) (auto intro: reach.step sys_step.worker)

subsection \<open>The consumer keeps the latest result\<close>

lemma result_inv_drained:
  assumes "result_inv fin [] rc" "fin \<noteq> []"
  shows "rc = Some (worker_result (last fin))"
proof -
  obtain k where k: "k \<le> length fin" "[] = map worker_result (drop k fin)"
    "rc = (if k = 0 then None else Some (worker_result (fin ! (k - 1))))"
    using assms(1) by (auto simp: result_inv_def)
  then have "k = length fin"
    by simp
  with k(3) assms(2) show ?thesis
    by (simp add: last_conv_nth)
qed

end
