(* ===== verification/Polling.thy ===== *)
theory Polling
  imports Pipeline
begin

text \<open>
  The drain loop of \<open>check_queue\<close> (src/HW3/lab_2.py lines 159-171) runs on the Tk
  thread: \<open>while True\<close>, it takes a result with \<open>get_nowait\<close> and keeps it, until the
  queue is empty. Meanwhile the worker thread keeps taking requests and putting results,
  so the loop could run forever if results kept coming. They do not: while the Tk thread
  is inside the loop no callback can enqueue a request, so the only steps are the
  worker's and the loop's own. \<open>drain_step\<close> is that restriction of \<open>sys_step\<close>;
  \<open>pending\<close> counts the steps still possible (three per queued request: get, put and
  poll; two for the request in flight; one per queued result).
\<close>

inductive drain_step :: "sys \<Rightarrow> sys \<Rightarrow> bool" where
  worker: "worker_step s t \<Longrightarrow> drain_step s t"
| poll: "result_queue (app s) = r # rs \<Longrightarrow>
         drain_step s (s\<lparr>app := (app s)\<lparr>result_cache := Some r, result_queue := rs\<rparr>\<rparr>)"

definition pending :: "sys \<Rightarrow> nat" where
  "pending s = 3 * length (task_queue (app s)) + 2 * length (in_flight s) + length (result_queue (app s))"

lemma drain_step_sys_step: "drain_step s t \<Longrightarrow> sys_step ed s t"
  by (induction rule: drain_step.induct) (auto intro: sys_step.intros)

lemma drain_step_pending: "drain_step s t \<Longrightarrow> pending t < pending s"
  by (induction rule: drain_step.induct) (auto elim!: worker_stepE simp: pending_def in_flight_def)

lemma drain_steps_pending: "(drain_step ^^ n) s t \<Longrightarrow> n + pending t \<le> pending s"
proof (induction n arbitrary: t)
  case (Suc n)
  then obtain u where "(drain_step ^^ n) s u" "drain_step u t" by auto
  then show ?case using Suc.IH drain_step_pending [of u t] by fastforce
qed simp

text \<open>
  C8. The drain loop of \<open>check_queue\<close> terminates whatever the worker does: there is
  no infinite run of worker and poll steps, and a run from a state makes at most
  \<open>pending\<close> of that state's steps.
\<close>

theorem check_queue_terminates:
  "wf {(t, s). drain_step s t} \<and> ((drain_step ^^ n) s t \<longrightarrow> n \<le> pending s)"
proof
  show "wf {(t, s). drain_step s t}"
    by (rule wf_subset [OF wf_measure [of pending]]) (auto simp: drain_step_pending)
  show "(drain_step ^^ n) s t \<longrightarrow> n \<le> pending s"
    using drain_steps_pending [of n s t] by auto
qed

theorem check_queue_terminates_witness:
  "wf {(t, s). drain_step s t} \<and>
   (drain_step ^^ 1) (init_sys\<lparr>app := (app init_sys)\<lparr>result_queue := [((1, 1), \<lambda>_ _. 0)]\<rparr>\<rparr>)
     (init_sys\<lparr>app := (app init_sys)\<lparr>result_cache := Some ((1, 1), \<lambda>_ _. 0), result_queue := []\<rparr>\<rparr>) \<and>
   1 \<le> pending (init_sys\<lparr>app := (app init_sys)\<lparr>result_queue := [((1, 1), \<lambda>_ _. 0)]\<rparr>\<rparr>)"
proof -
  let ?s = "init_sys\<lparr>app := (app init_sys)\<lparr>result_queue := [((1, 1), \<lambda>_ _. 0)]\<rparr>\<rparr>"
  let ?t = "init_sys\<lparr>app := (app init_sys)\<lparr>result_cache := Some ((1, 1), \<lambda>_ _. 0), result_queue := []\<rparr>\<rparr>"
  have "drain_step ?s ?t" using drain_step.poll [of ?s "((1, 1), \<lambda>_ _. 0)" "[]"] by simp
  then have r: "(drain_step ^^ 1) ?s ?t" by (simp add: eq_OO)
  show ?thesis using check_queue_terminates [of 1 ?s ?t] r by simp
qed

end
