(* ===== verification/Filters.thy ===== *)
theory Filters
  imports Prelude
begin

text \<open>
  The spatial-domain library shared by the exercise scripts: \<open>copy_image\<close> and
  \<open>clamp_pixel\<close> (src/project/common/utils.py) and the four window filters of
  src/ex2/common/filters.py. Images are Python lists of rows, here \<open>'a pixmap = 'a list list\<close>;
  every read goes through \<open>get_pixel_safe\<close>, which replicates the border by clamping
  the indices, and every loop that may raise is a \<open>res_mapM\<close> or \<open>res_fold\<close>, so
  an \<open>IndexError\<close> or \<open>ZeroDivisionError\<close> of the code is an \<open>Inl\<close> value here.
  The reference semantics is \<open>window_list\<close>: the window of clamped pixels of a
  rectangular image, read directly with \<open>!\<close>.
\<close>

type_synonym 'a pixmap = "'a list list"

subsection \<open>utils.py\<close>

definition copy_image :: "'a pixmap \<Rightarrow> 'a pixmap" where
  "copy_image img = map (\<lambda>row. map (\<lambda>value. value) row) img"

definition clamp_pixel :: "real \<Rightarrow> int" where
  "clamp_pixel value = (if value < 0 then 0 else if value > 255 then 255 else py_int value)"

subsection \<open>filters.py\<close>

definition get_pixel_safe :: "'a pixmap \<Rightarrow> int \<Rightarrow> int \<Rightarrow> py_error + 'a" where
  "get_pixel_safe img y x =
     bind_res (py_nth img 0) (\<lambda>row0.
       (let height = int (length img); width = int (length row0);
            y = (if y < 0 then 0 else y); y = (if y \<ge> height then height - 1 else y);
            x = (if x < 0 then 0 else x); x = (if x \<ge> width then width - 1 else x)
        in bind_res (py_nth img y) (\<lambda>row. py_nth row x)))"

text \<open>The two nested \<open>for dy in range(-offset, offset + 1)\<close> loops, in their order.\<close>

definition window_offsets :: "int \<Rightarrow> (int \<times> int) list" where
  "window_offsets offset = [(dy, dx). dy \<leftarrow> [- offset..offset], dx \<leftarrow> [- offset..offset]]"

definition window_values :: "'a pixmap \<Rightarrow> int \<Rightarrow> int \<Rightarrow> int \<Rightarrow> py_error + 'a list" where
  "window_values img offset y x =
     res_mapM (\<lambda>(dy, dx). get_pixel_safe img (y + dy) (x + dx)) (window_offsets offset)"

text \<open>\<open>for y in range(height): for x in range(width): row.append(pixel(y, x))\<close>\<close>

definition filter_rows :: "'a pixmap \<Rightarrow> (int \<Rightarrow> int \<Rightarrow> py_error + 'b) \<Rightarrow> py_error + 'b pixmap" where
  "filter_rows img pixel =
     bind_res (py_nth img 0) (\<lambda>row0.
       res_mapM (\<lambda>y. res_mapM (\<lambda>x. pixel (int y) (int x)) [0..<length row0]) [0..<length img])"

definition median_pixel :: "'a::linorder list \<Rightarrow> py_error + 'a" where
  "median_pixel values = (let values = sort values; middle = length values div 2 in py_nth values (int middle))"

definition median_filter :: "'a::linorder pixmap \<Rightarrow> int \<Rightarrow> py_error + 'a pixmap" where
  "median_filter img window =
     (let offset = window div 2
      in filter_rows img (\<lambda>y x. bind_res (window_values img offset y x) median_pixel))"

definition mean_pixel :: "int pixmap \<Rightarrow> int \<Rightarrow> int \<Rightarrow> int \<Rightarrow> py_error + int" where
  "mean_pixel img offset y x =
     bind_res
       (res_fold (\<lambda>(dy, dx) (total, count).
                    bind_res (get_pixel_safe img (y + dy) (x + dx))
                      (\<lambda>v. Inr (total + v, count + (1::int))))
          (window_offsets offset) (0, 0))
       (\<lambda>(total, count). if count = 0 then Inl ZeroDivisionError else Inr (total div count))"

definition mean_filter :: "int pixmap \<Rightarrow> int \<Rightarrow> py_error + int pixmap" where
  "mean_filter img window = (let offset = window div 2 in filter_rows img (mean_pixel img offset))"

text \<open>
  The trimmed mean of one sorted window: \<open>values[start:end]\<close> averaged, with the whole
  window when the trim leaves nothing, and the median when nothing was summed.
\<close>

definition trimmed_pixel :: "int list \<Rightarrow> int \<Rightarrow> py_error + int" where
  "trimmed_pixel values trim_amount =
     (let values = sort values;
          start = trim_amount; end' = int (length values) - trim_amount;
          (start, end') = (if start \<ge> end' then (0, int (length values)) else (start, end'))
      in bind_res
           (res_fold (\<lambda>i (total, count). bind_res (py_nth values i) (\<lambda>v. Inr (total + v, count + (1::int))))
              [start..end' - 1] (0, 0))
           (\<lambda>(total, count).
              if count = 0 then py_nth values (int (length values) div 2) else Inr (total div count)))"

definition trimmed_alpha_filter :: "int pixmap \<Rightarrow> int \<Rightarrow> int \<Rightarrow> py_error + int pixmap" where
  "trimmed_alpha_filter img window trim_amount =
     (let offset = window div 2
      in filter_rows img
           (\<lambda>y x. bind_res (window_values img offset y x) (\<lambda>vs. trimmed_pixel vs trim_amount)))"

text \<open>
  The magnitude from which a real rounds to infinity as a double: the largest double is
  \<open>2 ^ 1024 - 2 ^ 971\<close>, and the halfway point above it rounds up (ties to even).
\<close>

definition float_limit :: real where
  "float_limit = 2 ^ 1024 - 2 ^ 970"

text \<open>
  Python's \<open>value ** q\<close> for an int pixel and a float exponent: the int is converted to
  a float (OverflowError beyond the double range); \<open>0 ** q\<close> raises ZeroDivisionError
  for a negative \<open>q\<close>; a negative base with a non-integral exponent gives a complex
  number, which the filter cannot compare afterwards (modelled as TypeError); a finite
  result beyond the double range raises OverflowError. The sums the filter accumulates
  are exact reals: a sum beyond the double range, which Python turns silently into
  \<open>inf\<close>, is outside the model (the range theorem below assumes it cannot happen).
\<close>

definition py_pow :: "real \<Rightarrow> real \<Rightarrow> py_error + real" where
  "py_pow b q =
     (if float_limit \<le> \<bar>b\<bar> then Inl OverflowError
      else if b = 0 then (if q < 0 then Inl ZeroDivisionError else if q = 0 then Inr 1 else Inr 0)
      else
        (let r = (if 0 < b then b powr q
                  else if 0 \<le> q then b ^ nat \<lfloor>q\<rfloor> else 1 / b ^ nat (- \<lfloor>q\<rfloor>))
         in if b < 0 \<and> q \<noteq> of_int \<lfloor>q\<rfloor> then Inl TypeError
            else if float_limit \<le> \<bar>r\<bar> then Inl OverflowError
            else Inr r))"

definition contra_pixel :: "int pixmap \<Rightarrow> int \<Rightarrow> real \<Rightarrow> int \<Rightarrow> int \<Rightarrow> py_error + int" where
  "contra_pixel img offset Q y x =
     bind_res
       (res_fold (\<lambda>(dy, dx) (numerator, denominator).
                    bind_res (get_pixel_safe img (y + dy) (x + dx)) (\<lambda>value.
                      bind_res (py_pow (of_int value) (Q + 1)) (\<lambda>a.
                        bind_res (py_pow (of_int value) Q) (\<lambda>b. Inr (numerator + a, denominator + b)))))
          (window_offsets offset) (0, 0))
       (\<lambda>(numerator, denominator).
          if denominator = 0 then get_pixel_safe img y x
          else Inr (clamp_pixel (numerator / denominator)))"

definition contra_harmonic_filter :: "int pixmap \<Rightarrow> int \<Rightarrow> real \<Rightarrow> py_error + int pixmap" where
  "contra_harmonic_filter img window Q =
     (let offset = window div 2 in filter_rows img (contra_pixel img offset Q))"

subsection \<open>Reference semantics\<close>

definition rect :: "'a pixmap \<Rightarrow> bool" where
  "rect img \<longleftrightarrow> img \<noteq> [] \<and> hd img \<noteq> [] \<and> (\<forall>row \<in> set img. length row = length (hd img))"

definition clampi :: "nat \<Rightarrow> int \<Rightarrow> nat" where
  "clampi n i = (if i < 0 then 0 else if i \<ge> int n then n - 1 else nat i)"

definition window_list :: "'a pixmap \<Rightarrow> int \<Rightarrow> int \<Rightarrow> int \<Rightarrow> 'a list" where
  "window_list img offset y x =
     map (\<lambda>(dy, dx). img ! clampi (length img) (y + dy) ! clampi (length (hd img)) (x + dx))
       (window_offsets offset)"

definition pixels :: "'a pixmap \<Rightarrow> 'a set" where
  "pixels img = (\<Union>row \<in> set img. set row)"

text \<open>The value \<open>median_filter\<close> picks from a window: the middle of the sorted window.\<close>

definition median_of :: "'a::linorder list \<Rightarrow> 'a" where
  "median_of vs = sort vs ! (length vs div 2)"

definition same_shape :: "'a pixmap \<Rightarrow> 'b pixmap \<Rightarrow> bool" where
  "same_shape img out \<longleftrightarrow> length out = length img \<and> (\<forall>row \<in> set out. length row = length (hd img))"

text \<open>The mean of \<open>sorted(values)[t : n - t]\<close>, or of the whole window when that slice is empty.\<close>

definition trimmed_mean :: "int list \<Rightarrow> int \<Rightarrow> int" where
  "trimmed_mean vs t =
     (let s = sort vs; n = length vs;
          (a, b) = (if t \<ge> int n - t then (0, n) else (nat t, nat (int n - t)))
      in sum_list (take (b - a) (drop a s)) div int (b - a))"

text \<open>One iteration of the contra-harmonic accumulation (the body of \<open>contra_pixel\<close>'s loop).\<close>

abbreviation contra_step :: "int pixmap \<Rightarrow> real \<Rightarrow> int \<Rightarrow> int \<Rightarrow> int \<times> int \<Rightarrow> real \<times> real \<Rightarrow> py_error + real \<times> real" where
  "contra_step img Q y x \<equiv> \<lambda>(dy, dx) (numerator, denominator).
     bind_res (get_pixel_safe img (y + dy) (x + dx)) (\<lambda>value.
       bind_res (py_pow (of_int value) (Q + 1)) (\<lambda>a.
         bind_res (py_pow (of_int value) Q) (\<lambda>b. Inr (numerator + a, denominator + b))))"

subsection \<open>Reading a rectangular image\<close>

lemma upto_int_upt: "[int a..int b - 1] = map int [a..<b]"
proof (induction b)
  case (Suc b)
  show ?case
  proof (cases "a \<le> b")
    case True
    have "[int a..int (Suc b) - 1] = [int a..int b - 1] @ [int b]"
      using True upto_rec2 [of "int a" "int b"] by simp
    then show ?thesis using Suc.IH True by simp
  next
    case False
    then show ?thesis by (simp add: upto_Nil)
  qed
qed (simp add: upto_Nil)

lemma clampi_lt: "0 < n \<Longrightarrow> clampi n i < n"
  by (auto simp: clampi_def nat_less_iff)

lemma rect_row_length: "rect img \<Longrightarrow> i < length img \<Longrightarrow> length (img ! i) = length (hd img)"
  unfolding rect_def by (blast intro: nth_mem)

lemma rect_nonempty: "rect img \<Longrightarrow> 0 < length img \<and> 0 < length (hd img)"
  unfolding rect_def length_greater_0_conv by blast

lemma clamp_index:
  "0 < n \<Longrightarrow>
   (if (if i < 0 then 0 else i) \<ge> int n then int n - 1 else (if i < 0 then 0 else i)) = int (clampi n i)"
  by (auto simp: clampi_def)

lemma get_pixel_safe_rect:
  assumes "rect img"
  shows "get_pixel_safe img y x = Inr (img ! clampi (length img) y ! clampi (length (hd img)) x)"
proof -
  have ne: "0 < length img" "0 < length (hd img)" using rect_nonempty [OF assms] by simp_all
  have row: "length (img ! clampi (length img) y) = length (hd img)"
    using assms ne by (simp add: rect_row_length clampi_lt)
  have "py_nth img 0 = Inr (hd img)" using ne by (simp add: py_nth_def py_index_def hd_conv_nth)
  then have "get_pixel_safe img y x =
    bind_res (py_nth img (int (clampi (length img) y)))
      (\<lambda>row. py_nth row (int (clampi (length (hd img)) x)))"
    unfolding get_pixel_safe_def Let_def using ne by (simp only: bind_res_simps clamp_index)
  then show ?thesis
    using ne row by (simp add: clampi_lt)
qed

lemma window_values_rect:
  "rect img \<Longrightarrow> window_values img offset y x = Inr (window_list img offset y x)"
  unfolding window_values_def window_list_def
  by (rule res_mapM_map) (auto simp: get_pixel_safe_rect)

lemma window_offsets_length: "length (window_offsets offset) = nat (2 * offset + 1) * nat (2 * offset + 1)"
  by (simp add: window_offsets_def length_concat comp_def sum_list_triv)

lemma filter_rows_rect:
  assumes "rect img"
    and "\<And>y x. y < length img \<Longrightarrow> x < length (hd img) \<Longrightarrow> pixel (int y) (int x) = Inr (g y x)"
  shows "filter_rows img pixel = Inr (map (\<lambda>y. map (g y) [0..<length (hd img)]) [0..<length img])"
proof -
  have "py_nth img 0 = Inr (hd img)"
    using rect_nonempty [OF assms(1)] by (simp add: py_nth_def py_index_def hd_conv_nth)
  moreover have "res_mapM (\<lambda>y. res_mapM (\<lambda>x. pixel (int y) (int x)) [0..<length (hd img)]) [0..<length img] =
    Inr (map (\<lambda>y. map (g y) [0..<length (hd img)]) [0..<length img])"
  proof (rule res_mapM_map)
    fix y assume "y \<in> set [0..<length img]"
    then show "res_mapM (\<lambda>x. pixel (int y) (int x)) [0..<length (hd img)] = Inr (map (g y) [0..<length (hd img)])"
      by (intro res_mapM_map) (simp add: assms(2))
  qed
  ultimately show ?thesis
    unfolding filter_rows_def by simp
qed

lemma filter_rows_Inl:
  assumes "rect img" "y < length img" "x < length (hd img)" "pixel (int y) (int x) = Inl e"
    and same: "\<And>y x e'. pixel y x = Inl e' \<Longrightarrow> e' = e"
  shows "filter_rows img pixel = Inl e"
proof -
  let ?row = "\<lambda>y. res_mapM (\<lambda>x. pixel (int y) (int x)) [0..<length (hd img)]"
  have nth0: "py_nth img 0 = Inr (hd img)"
    using rect_nonempty [OF assms(1)] by (simp add: py_nth_def py_index_def hd_conv_nth)
  have "res_mapM ?row [0..<length img] = Inl e"
  proof (rule res_mapM_Inl_same [of y])
    show "y \<in> set [0..<length img]" using assms(2) by simp
    show "?row y = Inl e"
    proof (rule res_mapM_Inl_same [of x])
      show "x \<in> set [0..<length (hd img)]" using assms(3) by simp
    qed (use assms(4) same in blast)+
    show "e' = e" if "?row y' = Inl e'" for y' e'
      using res_mapM_Inl_only [OF that] same by blast
  qed
  with nth0 show ?thesis
    unfolding filter_rows_def by simp
qed

lemma median_pixel_nonempty: "vs \<noteq> [] \<Longrightarrow> median_pixel vs = Inr (median_of vs)"
  by (simp add: median_pixel_def median_of_def Let_def)

lemma median_of_in: "vs \<noteq> [] \<Longrightarrow> median_of vs \<in> set vs"
  by (metis median_of_def div_less_dividend length_greater_0_conv length_sort nth_mem set_sort
      one_less_numeral_iff semiring_norm(76))

lemma zero_in_window_offsets: "0 \<le> offset \<Longrightarrow> (0, 0) \<in> set (window_offsets offset)"
  unfolding window_offsets_def by (simp add: image_iff)

lemma window_list_ne: "0 \<le> offset \<Longrightarrow> window_list img offset y x \<noteq> []"
  using zero_in_window_offsets [of offset] by (auto simp: window_list_def)

lemma filter_rows_Inr:
  assumes "rect img"
    and "\<And>y x. y < length img \<Longrightarrow> x < length (hd img) \<Longrightarrow> \<exists>v. pixel (int y) (int x) = Inr v \<and> P v"
  shows "\<exists>out. filter_rows img pixel = Inr out \<and> same_shape img out \<and> (\<forall>row \<in> set out. \<forall>v \<in> set row. P v)"
proof -
  define g where "g y x = (SOME v. pixel (int y) (int x) = Inr v \<and> P v)" for y x
  have g: "pixel (int y) (int x) = Inr (g y x) \<and> P (g y x)" if "y < length img" "x < length (hd img)" for y x
    unfolding g_def using someI_ex [OF assms(2) [OF that]] .
  show ?thesis
    using filter_rows_rect [OF assms(1), of pixel g] g by (auto simp: same_shape_def)
qed

lemma rect_pixel:
  assumes "rect img" "i < length img" "j < length (hd img)"
  shows "img ! i ! j \<in> pixels img"
proof -
  have "img ! i ! j \<in> set (img ! i)"
    using assms rect_row_length [OF assms(1,2)] by simp
  then show ?thesis
    using nth_mem [OF assms(2)] unfolding pixels_def by blast
qed

lemma window_list_pixels:
  "rect img \<Longrightarrow> set (window_list img offset y x) \<subseteq> pixels img"
  using rect_nonempty [of img] by (auto simp: window_list_def clampi_lt intro!: rect_pixel)

lemma fold_total_count:
  "fold (\<lambda>a (total, count). (total + g a, count + (1::int))) as (t, c) =
   (t + sum_list (map g as), c + int (length as))"
  by (induction as arbitrary: t c) (simp_all add: algebra_simps)

lemma mean_pixel_rect:
  assumes "rect img" "0 \<le> offset"
  shows "mean_pixel img offset y x =
           Inr (sum_list (window_list img offset y x) div int (length (window_list img offset y x)))"
proof -
  let ?px = "\<lambda>(dy, dx). img ! clampi (length img) (y + dy) ! clampi (length (hd img)) (x + dx)"
  have "res_fold (\<lambda>(dy, dx) (total, count).
                    bind_res (get_pixel_safe img (y + dy) (x + dx))
                      (\<lambda>v. Inr (total + v, count + (1::int))))
          (window_offsets offset) (0, 0) =
        Inr (fold (\<lambda>a (total, count). (total + ?px a, count + 1)) (window_offsets offset) (0, 0))"
    by (rule res_fold_fold) (auto simp: get_pixel_safe_rect [OF assms(1)])
  then show ?thesis
    using window_list_ne [OF assms(2)]
    by (simp add: mean_pixel_def fold_total_count window_list_def)
qed

lemma div_count_bounds:
  fixes vs :: "int list"
  assumes "vs \<noteq> []" "set vs \<subseteq> {lo..hi}"
  shows "sum_list vs div int (length vs) \<in> {lo..hi}"
proof -
  have n: "0 < int (length vs)" using assms(1) by simp
  have "sum_list (map (\<lambda>_. lo) vs) \<le> sum_list vs" "sum_list vs \<le> sum_list (map (\<lambda>_. hi) vs)"
    using assms(2) sum_list_mono [of vs "\<lambda>_. lo" id] sum_list_mono [of vs id "\<lambda>_. hi"]
    by (auto simp: subset_iff)
  then have "lo * int (length vs) \<le> sum_list vs" "sum_list vs \<le> hi * int (length vs)"
    by (simp_all add: sum_list_triv mult.commute)
  then show ?thesis
    using n zdiv_mono1 [of "lo * int (length vs)" "sum_list vs" "int (length vs)"]
      zdiv_mono1 [of "sum_list vs" "hi * int (length vs)" "int (length vs)"] by simp
qed

lemma map_nth_slice: "b \<le> length xs \<Longrightarrow> map (nth xs) [a..<b] = take (b - a) (drop a xs)"
  by (rule nth_equalityI) auto

lemma trimmed_loop:
  assumes "a < b" "b \<le> length s"
  shows "res_fold (\<lambda>i (total, count). bind_res (py_nth s i) (\<lambda>v. Inr (total + v, count + (1::int))))
           [int a..int b - 1] (0, 0) = Inr (sum_list (take (b - a) (drop a s)), int (b - a))"
proof -
  have "res_fold (\<lambda>i (total, count). bind_res (py_nth s i) (\<lambda>v. Inr (total + v, count + (1::int))))
           (map int [a..<b]) (0, 0) =
        Inr (fold (\<lambda>i (total, count). (total + s ! nat i, count + 1)) (map int [a..<b]) (0, 0))"
    by (rule res_fold_fold) (use assms in auto)
  also have "\<dots> = Inr (sum_list (map (nth s) [a..<b]), int (b - a))"
    by (simp add: fold_total_count comp_def)
  finally show ?thesis
    using assms by (simp add: upto_int_upt map_nth_slice)
qed

lemma trimmed_pixel_mean:
  assumes "vs \<noteq> []" "0 \<le> t"
  shows "trimmed_pixel vs t = Inr (trimmed_mean vs t)"
proof (cases "t \<ge> int (length vs) - t")
  case True
  have "[0..int (length vs) - 1] = [int 0..int (length vs) - 1]" by simp
  then show ?thesis
    using True assms trimmed_loop [of 0 "length vs" "sort vs"]
    by (simp add: trimmed_pixel_def trimmed_mean_def Let_def)
next
  case False
  then have "nat t < nat (int (length vs) - t)" "nat (int (length vs) - t) \<le> length vs"
    using assms by auto
  moreover have "[t..int (length vs) - t - 1] = [int (nat t)..int (nat (int (length vs) - t)) - 1]"
    using False assms by simp
  ultimately show ?thesis
    using False assms trimmed_loop [of "nat t" "nat (int (length vs) - t)" "sort vs"]
    by (simp add: trimmed_pixel_def trimmed_mean_def Let_def)
qed

lemma trimmed_pixel_negative:
  assumes "vs \<noteq> []" "t < 0"
  shows "trimmed_pixel vs t = Inl IndexError"
proof -
  let ?s = "sort vs"
  let ?step = "\<lambda>i (total, count). bind_res (py_nth ?s i) (\<lambda>v. Inr (total + v, count + (1::int)))"
  have "res_fold ?step [t..int (length vs) - t - 1] (0, 0) = Inl IndexError"
  proof (rule res_fold_Inl_same [of "int (length vs)"])
    show "int (length vs) \<in> set [t..int (length vs) - t - 1]" using assms by simp
    show "?step (int (length vs)) s = Inl IndexError" for s by (cases s) simp
    show "e = IndexError" if "?step i s = Inl e" for i s e
      using that by (cases s) (auto simp: bind_res_def split: sum.splits dest: py_nth_Inl)
  qed
  then show ?thesis
    using assms by (simp add: trimmed_pixel_def Let_def)
qed

lemma clamp_pixel_range: "clamp_pixel v \<in> {0..255}"
proof -
  have "0 \<le> v \<Longrightarrow> v \<le> 255 \<Longrightarrow> \<lfloor>v\<rfloor> \<le> 255" by linarith
  then show ?thesis by (auto simp: clamp_pixel_def)
qed

lemma float_limit_pos [simp]: "0 < float_limit" "\<not> float_limit \<le> 0"
  by (simp_all add: float_limit_def)

lemma py_pow_Inl_cases:
  "0 \<le> b \<Longrightarrow> py_pow b q = Inl e \<Longrightarrow> (e = ZeroDivisionError \<and> q < 0) \<or> e = OverflowError"
  by (auto simp: py_pow_def Let_def split: if_splits)

lemma py_pow_Inr:
  "0 \<le> b \<Longrightarrow> 0 \<le> q \<Longrightarrow> b < float_limit \<Longrightarrow> b powr q < float_limit \<Longrightarrow> \<exists>r. py_pow b q = Inr r"
  by (simp add: py_pow_def Let_def)


text \<open>A pixel that converts to a float raises no OverflowError for an exponent up to 1.\<close>

lemma py_pow_no_overflow:
  assumes "0 \<le> v" "of_int v < float_limit" "q \<le> 1"
  shows "py_pow (of_int v) q \<noteq> Inl OverflowError"
proof (cases "v = 0")
  case False
  then have "1 \<le> real_of_int v" using assms(1) by simp
  then have "real_of_int v powr q \<le> real_of_int v powr 1" using powr_mono [OF assms(3)] by blast
  then show ?thesis using assms False by (simp add: py_pow_def Let_def)
qed (simp add: py_pow_def)

lemma py_pow_zero_negative: "q < 0 \<Longrightarrow> py_pow 0 q = Inl ZeroDivisionError"
  by (simp add: py_pow_def float_limit_def)

lemma byte_lt_float_limit: "(v::real) \<le> 255 \<Longrightarrow> v < float_limit"
  by (simp add: float_limit_def)

lemma pixels_rect_nth:
  assumes "rect img" "v \<in> pixels img"
  obtains i j where "i < length img" "j < length (hd img)" "img ! i ! j = v"
proof -
  obtain row where row: "row \<in> set img" "v \<in> set row" using assms(2) by (auto simp: pixels_def)
  then obtain i where i: "i < length img" "img ! i = row" by (auto simp: in_set_conv_nth)
  moreover obtain j where "j < length row" "row ! j = v" using row(2) by (auto simp: in_set_conv_nth)
  ultimately show ?thesis using that rect_row_length [OF assms(1) i(1)] by auto
qed

lemma clampi_nat [simp]: "i < n \<Longrightarrow> clampi n (int i) = i"
  by (simp add: clampi_def)

lemma contra_step_Inl:
  assumes "rect img" "\<forall>v \<in> pixels img. 0 \<le> v \<and> of_int v < float_limit" "contra_step img Q y x d s = Inl e"
  shows "e = (if Q < 0 then ZeroDivisionError else OverflowError)"
proof -
  obtain dy dx where d: "d = (dy, dx)" by fastforce
  let ?v = "img ! clampi (length img) (y + dy) ! clampi (length (hd img)) (x + dx)"
  have "?v \<in> pixels img"
    using rect_nonempty [OF assms(1)] by (auto intro!: rect_pixel assms(1) simp: clampi_lt)
  then have v: "0 \<le> ?v" "of_int ?v < float_limit" using assms(2) by simp_all
  obtain q where "py_pow (of_int ?v) q = Inl e" "q = Q + 1 \<or> q = Q"
    using assms(3) d by (cases s) (auto simp: get_pixel_safe_rect [OF assms(1)] bind_res_def split: sum.splits)
  then show ?thesis
    using py_pow_Inl_cases [of "of_int ?v" q e] py_pow_no_overflow [OF v, of q] v(1) by auto
qed

lemma contra_pixel_Inl:
  assumes "rect img" "\<forall>v \<in> pixels img. 0 \<le> v \<and> of_int v < float_limit" "contra_pixel img offset Q y x = Inl e"
  shows "e = (if Q < 0 then ZeroDivisionError else OverflowError)"
proof -
  have "res_fold (contra_step img Q y x) (window_offsets offset) (0, 0) = Inl e"
    using assms(3) by (auto simp: contra_pixel_def bind_res_def get_pixel_safe_rect [OF assms(1)]
        split: sum.splits prod.splits if_splits)
  then obtain d s where "contra_step img Q y x d s = Inl e" by (blast dest: res_fold_Inl_only)
  then show ?thesis using contra_step_Inl [OF assms(1,2)] by blast
qed

text \<open>The pixel whose window raises first: \<open>0 ** Q\<close> for a negative Q at a black pixel,
  and \<open>v ** (Q + 1)\<close> beyond the double range at a pixel \<open>v\<close>.\<close>

lemma contra_pixel_at:
  assumes "rect img" "0 \<le> offset" "y < length img" "x < length (hd img)"
    and "\<forall>v \<in> pixels img. 0 \<le> v \<and> of_int v < float_limit"
    and "\<And>s. contra_step img Q (int y) (int x) (0, 0) s = Inl (if Q < 0 then ZeroDivisionError else OverflowError)"
  shows "contra_pixel img offset Q (int y) (int x) = Inl (if Q < 0 then ZeroDivisionError else OverflowError)"
proof -
  have "res_fold (contra_step img Q (int y) (int x)) (window_offsets offset) (0, 0) =
          Inl (if Q < 0 then ZeroDivisionError else OverflowError)"
  proof (rule res_fold_Inl_same [of "(0, 0)"])
    show "(0, 0) \<in> set (window_offsets offset)" using zero_in_window_offsets [OF assms(2)] .
    show "contra_step img Q (int y) (int x) (0, 0) s = Inl (if Q < 0 then ZeroDivisionError else OverflowError)" for s
      by (rule assms(6))
    show "e = (if Q < 0 then ZeroDivisionError else OverflowError)"
      if "contra_step img Q (int y) (int x) d s = Inl e" for d s e
      using contra_step_Inl [OF assms(1,5) that] .
  qed
  then show ?thesis by (simp add: contra_pixel_def)
qed

lemma window_offsets_negative: "offset < 0 \<Longrightarrow> window_offsets offset = []"
  by (simp add: window_offsets_def)

subsection \<open>Properties of the filters\<close>

text \<open>
  C12. On a rectangular image and a window size of at least 0, \<open>median_filter\<close>
  returns, at every pixel, the median of the window of border-replicated pixels around it
  (the element at index \<open>n div 2\<close> of the sorted window): the reads through
  \<open>get_pixel_safe\<close> never raise and the result has the shape of the image.
\<close>

theorem median_filter_window:
  assumes "rect img" "0 \<le> window"
  shows "median_filter img window =
           Inr (map (\<lambda>y. map (\<lambda>x. median_of (window_list img (window div 2) (int y) (int x)))
                               [0..<length (hd img)]) [0..<length img])"
  unfolding median_filter_def Let_def
  using assms by (intro filter_rows_rect) (simp_all add: window_values_rect median_pixel_nonempty window_list_ne)

theorem median_filter_window_witness:
  "rect [[9, 0], [0, 0::int]] \<and> (0::int) \<le> 3 \<and> median_filter [[9, 0], [0, 0::int]] 3 = Inr [[0, 0], [0, 0]]"
proof -
  have "rect [[9, 0], [0, 0::int]]" by (simp add: rect_def)
  then show ?thesis
    using median_filter_window [of "[[9, 0], [0, 0::int]]" 3]
    by (simp add: window_list_def window_offsets_def median_of_def upto.simps clampi_def)
qed

text \<open>
  C19. On a rectangular image and a window size of at least 0, \<open>mean_filter\<close> never
  divides by zero, keeps the shape of the image, and keeps every pixel within any range
  \<open>[lo, hi]\<close> that holds all pixels of the input.
\<close>

theorem mean_filter_range:
  assumes "rect img" "0 \<le> window" "pixels img \<subseteq> {lo..hi}"
  shows "\<exists>out. mean_filter img window = Inr out \<and> same_shape img out \<and> pixels out \<subseteq> {lo..hi}"
proof -
  have off: "0 \<le> window div 2" using assms(2) by simp
  have "\<exists>v. mean_pixel img (window div 2) (int y) (int x) = Inr v \<and> v \<in> {lo..hi}" for y x
  proof -
    let ?w = "window_list img (window div 2) (int y) (int x)"
    have "set ?w \<subseteq> {lo..hi}" using window_list_pixels [OF assms(1)] assms(3) by blast
    then show ?thesis
      using mean_pixel_rect [OF assms(1) off] div_count_bounds [OF window_list_ne [OF off]] by simp
  qed
  then have "\<exists>out. filter_rows img (mean_pixel img (window div 2)) = Inr out \<and> same_shape img out \<and>
          (\<forall>row \<in> set out. \<forall>v \<in> set row. v \<in> {lo..hi})"
    by (intro filter_rows_Inr [OF assms(1)])
  then show ?thesis by (auto simp: mean_filter_def pixels_def)
qed

theorem mean_filter_range_witness:
  "rect [[0, 255], [10, 20::int]] \<and> (0::int) \<le> 3 \<and> pixels [[0, 255], [10, 20::int]] \<subseteq> {0..255} \<and>
   (\<exists>out. mean_filter [[0, 255], [10, 20::int]] 3 = Inr out \<and> same_shape [[0, 255], [10, 20::int]] out \<and>
      pixels out \<subseteq> {0..255})"
  using mean_filter_range [of "[[0, 255], [10, 20::int]]" 3 0 255] by (simp add: rect_def pixels_def)

text \<open>
  C21. With a window size and a trim amount of at least 0, \<open>trimmed_alpha_filter\<close>
  returns at every pixel the floor mean of the sorted window with \<open>trim_amount\<close> values
  cut from each end (the whole window when the cut leaves nothing); the fallback to the
  median for an empty sum is never taken.
\<close>

theorem trimmed_alpha_filter_mean:
  assumes "rect img" "0 \<le> window" "0 \<le> trim_amount"
  shows "trimmed_alpha_filter img window trim_amount =
           Inr (map (\<lambda>y. map (\<lambda>x. trimmed_mean (window_list img (window div 2) (int y) (int x)) trim_amount)
                               [0..<length (hd img)]) [0..<length img])"
  unfolding trimmed_alpha_filter_def Let_def
  using assms by (intro filter_rows_rect) (simp_all add: window_values_rect trimmed_pixel_mean window_list_ne)

theorem trimmed_alpha_filter_mean_witness:
  "rect [[9, 0], [0, 0::int]] \<and> (0::int) \<le> 3 \<and> (0::int) \<le> 1 \<and>
   trimmed_alpha_filter [[9, 0], [0, 0::int]] 3 1 = Inr [[3, 1], [1, 0]]"
proof -
  have "rect [[9, 0], [0, 0::int]]" by (simp add: rect_def)
  then show ?thesis
    using trimmed_alpha_filter_mean [of "[[9, 0], [0, 0::int]]" 3 1]
    by (simp add: window_list_def window_offsets_def trimmed_mean_def upto.simps clampi_def)
qed

text \<open>
  A negative trim amount (the denoise GUI passes whatever integer is typed) makes
  \<open>trimmed_alpha_filter\<close> raise IndexError: the summation runs to index
  \<open>len(values) - trim_amount - 1 \<ge> len(values)\<close>.
\<close>

theorem trimmed_alpha_negative_trim:
  assumes "rect img" "0 \<le> window" "trim_amount < 0"
  shows "trimmed_alpha_filter img window trim_amount = Inl IndexError"
proof -
  have px: "bind_res (window_values img (window div 2) y x) (\<lambda>vs. trimmed_pixel vs trim_amount) = Inl IndexError"
    for y x using assms by (simp add: window_values_rect trimmed_pixel_negative window_list_ne)
  show ?thesis
    unfolding trimmed_alpha_filter_def Let_def
    by (rule filter_rows_Inl [OF assms(1), of 0 0]) (use rect_nonempty [OF assms(1)] px in simp_all)
qed

text \<open>
  C20. With Q \<open>\<ge>\<close> 0, an 8-bit image and a window small enough that no accumulated sum
  of \<open>value ** (Q + 1)\<close> leaves the double range (window cells times
  \<open>255 ** (Q + 1)\<close> below \<open>float_limit\<close>), \<open>contra_harmonic_filter\<close> returns an
  image of the same shape whose pixels lie in \<open>[0, 255]\<close>: every power is defined and
  finite, and each pixel is either clamped by \<open>clamp_pixel\<close> or copied.
\<close>

theorem contra_harmonic_range:
  assumes "rect img" "pixels img \<subseteq> {0..255}" "0 \<le> Q"
    and "real (length (window_offsets (window div 2))) * 255 powr (Q + 1) < float_limit"
  shows "\<exists>out. contra_harmonic_filter img window Q = Inr out \<and> same_shape img out \<and> pixels out \<subseteq> {0..255}"
proof -
  have byte: "0 \<le> img ! clampi (length img) i ! clampi (length (hd img)) j \<and>
              img ! clampi (length img) i ! clampi (length (hd img)) j \<le> 255" for i j
    using rect_pixel [OF assms(1) clampi_lt clampi_lt] rect_nonempty [OF assms(1)] assms(2) by force
  have "\<exists>v. contra_pixel img (window div 2) Q y x = Inr v \<and> v \<in> {0..255}" for y x
  proof -
    have "\<exists>s'. res_fold (contra_step img Q y x) (window_offsets (window div 2)) (0, 0) = Inr s'"
    proof (rule res_fold_Inr)
      fix d :: "int \<times> int" and s :: "real \<times> real"
      assume d_in: "d \<in> set (window_offsets (window div 2))"
      obtain dy dx where d: "d = (dy, dx)" by fastforce
      let ?v = "real_of_int (img ! clampi (length img) (y + dy) ! clampi (length (hd img)) (x + dx))"
      have v: "0 \<le> ?v" "?v \<le> 255" using byte by simp_all
      have "1 \<le> real (length (window_offsets (window div 2)))"
        using d_in by (cases "window_offsets (window div 2)") simp_all
      then have lim: "255 powr (Q + 1) < float_limit"
        using assms(4) by (smt (verit) mult_le_cancel_right1 powr_ge_zero)
      have p1: "?v powr (Q + 1) \<le> 255 powr (Q + 1)" using v assms(3) by (simp add: powr_mono2)
      have p0: "?v powr Q \<le> 255 powr (Q + 1)"
        using v assms(3) powr_mono2 [of Q ?v 255] powr_mono [of Q "Q + 1" 255] by linarith
      obtain a where a: "py_pow ?v (Q + 1) = Inr a"
        using py_pow_Inr [of ?v "Q + 1"] v assms(3) p1 lim byte_lt_float_limit by fastforce
      obtain b where b: "py_pow ?v Q = Inr b"
        using py_pow_Inr [of ?v Q] v assms(3) p0 lim byte_lt_float_limit by fastforce
      show "\<exists>s'. contra_step img Q y x d s = Inr s'"
        using a b d by (cases s) (simp add: get_pixel_safe_rect [OF assms(1)])
    qed
    then obtain num den where "res_fold (contra_step img Q y x) (window_offsets (window div 2)) (0, 0) = Inr (num, den)"
      by fastforce
    moreover have "img ! clampi (length img) y ! clampi (length (hd img)) x \<in> {0..255}"
      using byte by simp
    ultimately show ?thesis
      using clamp_pixel_range by (simp add: contra_pixel_def get_pixel_safe_rect [OF assms(1)])
  qed
  then have "\<exists>out. filter_rows img (contra_pixel img (window div 2) Q) = Inr out \<and> same_shape img out \<and>
          (\<forall>row \<in> set out. \<forall>v \<in> set row. v \<in> {0..255})"
    by (intro filter_rows_Inr [OF assms(1)])
  then show ?thesis by (auto simp: contra_harmonic_filter_def pixels_def)
qed

theorem contra_harmonic_range_witness:
  "rect [[0, 255], [10, 20::int]] \<and> pixels [[0, 255], [10, 20::int]] \<subseteq> {0..255} \<and> (0::real) \<le> 1 \<and>
   real (length (window_offsets (3 div 2))) * 255 powr (1 + 1) < float_limit \<and>
   (\<exists>out. contra_harmonic_filter [[0, 255], [10, 20::int]] 3 1 = Inr out \<and>
      same_shape [[0, 255], [10, 20::int]] out \<and> pixels out \<subseteq> {0..255})"
proof -
  have l: "real (length (window_offsets (3 div 2))) * 255 powr (1 + 1) < float_limit"
    by (simp add: window_offsets_def upto.simps float_limit_def powr_numeral)
  show ?thesis
    using l contra_harmonic_range [of "[[0, 255], [10, 20::int]]" 1 3] by (simp add: rect_def pixels_def)
qed



text \<open>
  With a negative Q, \<open>contra_harmonic_filter\<close> raises ZeroDivisionError on any
  image that has a black pixel and whose pixels convert to floats: \<open>0 ** Q\<close> is
  evaluated for the window around it, before the \<open>denominator == 0\<close> guard is reached.
  The guard protects only Q \<open>\<ge>\<close> 0.
\<close>

theorem contra_harmonic_zero_division:
  assumes "rect img" "\<forall>v \<in> pixels img. 0 \<le> v \<and> of_int v < float_limit" "0 \<le> window" "Q < 0"
    and "0 \<in> pixels img"
  shows "contra_harmonic_filter img window Q = Inl ZeroDivisionError"
proof -
  obtain y x where yx: "y < length img" "x < length (hd img)" "img ! y ! x = 0"
    using pixels_rect_nth [OF assms(1,5)] by blast
  have off: "0 \<le> window div 2" using assms(3) by simp
  have "contra_step img Q (int y) (int x) (0, 0) s = Inl (if Q < 0 then ZeroDivisionError else OverflowError)" for s
    using assms(4) yx by (cases s) (simp add: get_pixel_safe_rect [OF assms(1)] py_pow_def)
  then have p: "contra_pixel img (window div 2) Q (int y) (int x) = Inl ZeroDivisionError"
    using contra_pixel_at [OF assms(1) off yx(1,2) assms(2)] assms(4) by simp
  show ?thesis
    unfolding contra_harmonic_filter_def Let_def
  proof (rule filter_rows_Inl [of img y x "contra_pixel img (window div 2) Q", OF assms(1) yx(1,2) p])
    show "e' = ZeroDivisionError" if "contra_pixel img (window div 2) Q y' x' = Inl e'" for y' x' e'
      using contra_pixel_Inl [OF assms(1,2) that] assms(4) by simp
  qed
qed

text \<open>
  A negative window size leaves every window empty: \<open>median_filter\<close> raises
  IndexError (\<open>values[0]\<close> of an empty list) and \<open>mean_filter\<close> raises
  ZeroDivisionError (\<open>total // 0\<close>).
\<close>

theorem negative_window_raises:
  assumes "rect img" "window < 0"
  shows "median_filter img window = Inl IndexError \<and> mean_filter img window = Inl ZeroDivisionError"
proof -
  have off: "window_offsets (window div 2) = []" using assms(2) by (simp add: window_offsets_negative)
  have "median_filter img window = Inl IndexError"
    unfolding median_filter_def Let_def
    by (rule filter_rows_Inl [OF assms(1), of 0 0])
       (use rect_nonempty [OF assms(1)] off in \<open>simp_all add: window_values_def median_pixel_def\<close>)
  moreover have "mean_filter img window = Inl ZeroDivisionError"
    unfolding mean_filter_def Let_def
    by (rule filter_rows_Inl [OF assms(1), of 0 0])
       (use rect_nonempty [OF assms(1)] off in \<open>simp_all add: mean_pixel_def\<close>)
  ultimately show ?thesis ..
qed

theorem negative_window_raises_witness:
  "rect [[0, 255], [10, 20::int]] \<and> (-1::int) < 0 \<and>
   median_filter [[0, 255], [10, 20::int]] (-1) = Inl IndexError \<and>
   mean_filter [[0, 255], [10, 20::int]] (-1) = Inl ZeroDivisionError"
  using negative_window_raises [of "[[0, 255], [10, 20::int]]" "-1"] by (simp add: rect_def)

end
