(* ===== verification/Metrics.thy ===== *)
theory Metrics
  imports Filters
begin

text \<open>
  The pixel-difference counters of src/HW2/common/metrics.py, which every experiment
  script and GUI uses to score a noise generator or a filter: \<open>f\<close> the original,
  \<open>g\<close> the noisy and \<open>k\<close> the filtered image. Each loops over the cells of \<open>f\<close>
  (its height and the length of its first row) and reads the other images at the same
  cell, so an image smaller than \<open>f\<close> raises IndexError; \<open>and\<close> short-circuits, so
  \<open>k\<close> is only read at the cells the condition selects. The reference counts are
  lengths of filtered lists of cells, \<open>cells_count\<close>; the lemmas show that the
  counters compute them on images of one shape and that fixed and damaged pixels
  partition what the filter changed.
\<close>

text \<open>\<open>img[y][x]\<close> for a cell of the loop.\<close>

definition get2 :: "'a pixmap \<Rightarrow> nat \<Rightarrow> nat \<Rightarrow> py_error + 'a" where
  "get2 img y x = bind_res (py_nth img (int y)) (\<lambda>row. py_nth row (int x))"

text \<open>\<open>for y in range(len(f)): for x in range(len(f[0])):\<close>\<close>

definition cells :: "nat \<Rightarrow> nat \<Rightarrow> (nat \<times> nat) list" where
  "cells height width = [(y, x). y \<leftarrow> [0..<height], x \<leftarrow> [0..<width]]"

definition count_noisy_pixels :: "'a pixmap \<Rightarrow> 'a pixmap \<Rightarrow> py_error + nat" where
  "count_noisy_pixels f g =
     (let height = length f in
      bind_res (py_nth f 0) (\<lambda>row0.
        res_fold (\<lambda>(y, x) noisy.
            bind_res (get2 g y x) (\<lambda>gv. bind_res (get2 f y x) (\<lambda>fv.
              Inr (if gv \<noteq> fv then noisy + 1 else noisy))))
          (cells height (length row0)) 0))"

definition count_fixed_noisy_pixels :: "'a pixmap \<Rightarrow> 'a pixmap \<Rightarrow> 'a pixmap \<Rightarrow> py_error + nat" where
  "count_fixed_noisy_pixels f g k =
     (let height = length f in
      bind_res (py_nth f 0) (\<lambda>row0.
        res_fold (\<lambda>(y, x) fixed.
            bind_res (get2 g y x) (\<lambda>gv. bind_res (get2 f y x) (\<lambda>fv.
              (let was_noisy = (gv \<noteq> fv) in
               if was_noisy then
                 bind_res (get2 k y x) (\<lambda>kv. bind_res (get2 f y x) (\<lambda>fv.
                   Inr (if kv = fv then fixed + 1 else fixed)))
               else Inr fixed))))
          (cells height (length row0)) 0))"

definition count_damaged_clean_pixels :: "'a pixmap \<Rightarrow> 'a pixmap \<Rightarrow> 'a pixmap \<Rightarrow> py_error + nat" where
  "count_damaged_clean_pixels f g k =
     (let height = length f in
      bind_res (py_nth f 0) (\<lambda>row0.
        res_fold (\<lambda>(y, x) damaged.
            bind_res (get2 g y x) (\<lambda>gv. bind_res (get2 f y x) (\<lambda>fv.
              (let was_clean = (gv = fv) in
               if was_clean then
                 bind_res (get2 k y x) (\<lambda>kv. bind_res (get2 f y x) (\<lambda>fv.
                   Inr (if kv \<noteq> fv then damaged + 1 else damaged)))
               else Inr damaged))))
          (cells height (length row0)) 0))"

subsection \<open>Reference counts\<close>

text \<open>Images of the shape of \<open>f\<close>, and the number of its cells where \<open>P\<close> holds.\<close>

definition shaped_as :: "'a pixmap \<Rightarrow> 'b pixmap \<Rightarrow> bool" where
  "shaped_as f g \<longleftrightarrow> length g = length f \<and> (\<forall>row \<in> set g. length row = length (hd f))"

definition cells_count :: "'a pixmap \<Rightarrow> (nat \<Rightarrow> nat \<Rightarrow> bool) \<Rightarrow> nat" where
  "cells_count f P = length (filter (\<lambda>(y, x). P y x) (cells (length f) (length (hd f))))"

subsection \<open>The counters compute the reference counts\<close>

lemma cells_mem [simp]: "(y, x) \<in> set (cells h w) \<longleftrightarrow> y < h \<and> x < w"
  by (auto simp: cells_def image_iff)

lemma length_cells [simp]: "length (cells h w) = h * w"
  by (simp add: cells_def length_concat comp_def sum_list_triv)

lemma get2_shaped:
  assumes "rect f" "shaped_as f g" "y < length f" "x < length (hd f)"
  shows "get2 g y x = Inr (g ! y ! x)"
proof -
  have "y < length g" "length (g ! y) = length (hd f)"
    using assms(2,3) by (auto simp: shaped_as_def)
  then show ?thesis using assms(4) by (simp add: get2_def)
qed

lemma shaped_as_refl: "rect f \<Longrightarrow> shaped_as f f"
  unfolding shaped_as_def rect_def by blast

lemma py_nth_hd: "rect f \<Longrightarrow> py_nth f 0 = Inr (hd f)"
  using rect_nonempty [of f] by (simp add: py_nth_def py_index_def hd_conv_nth)

lemma fold_count:
  "fold (\<lambda>(y, x) n. if P y x then Suc n else n) cs n0 = n0 + length (filter (\<lambda>(y, x). P y x) cs)"
  by (induction cs arbitrary: n0) auto

lemma count_noisy_pixels_ref:
  assumes "rect f" "shaped_as f g"
  shows "count_noisy_pixels f g = Inr (cells_count f (\<lambda>y x. g ! y ! x \<noteq> f ! y ! x))"
proof -
  have "res_fold (\<lambda>(y, x) noisy.
            bind_res (get2 g y x) (\<lambda>gv. bind_res (get2 f y x) (\<lambda>fv.
              Inr (if gv \<noteq> fv then noisy + 1 else noisy))))
          (cells (length f) (length (hd f))) 0 =
        Inr (fold (\<lambda>(y, x) n. if g ! y ! x \<noteq> f ! y ! x then Suc n else n) (cells (length f) (length (hd f))) 0)"
    by (rule res_fold_fold)
       (auto simp: get2_shaped [OF assms] get2_shaped [OF assms(1) shaped_as_refl [OF assms(1)]])
  then show ?thesis
    by (simp add: count_noisy_pixels_def py_nth_hd [OF assms(1)] fold_count cells_count_def)
qed

lemma count_fixed_noisy_pixels_ref:
  assumes "rect f" "shaped_as f g" "shaped_as f k"
  shows "count_fixed_noisy_pixels f g k =
           Inr (cells_count f (\<lambda>y x. g ! y ! x \<noteq> f ! y ! x \<and> k ! y ! x = f ! y ! x))"
proof -
  note ff = get2_shaped [OF assms(1) shaped_as_refl [OF assms(1)]]
  have "res_fold (\<lambda>(y, x) fixed.
            bind_res (get2 g y x) (\<lambda>gv. bind_res (get2 f y x) (\<lambda>fv.
              (let was_noisy = (gv \<noteq> fv) in
               if was_noisy then
                 bind_res (get2 k y x) (\<lambda>kv. bind_res (get2 f y x) (\<lambda>fv.
                   Inr (if kv = fv then fixed + 1 else fixed)))
               else Inr fixed))))
          (cells (length f) (length (hd f))) 0 =
        Inr (fold (\<lambda>(y, x) n. if g ! y ! x \<noteq> f ! y ! x \<and> k ! y ! x = f ! y ! x then Suc n else n)
               (cells (length f) (length (hd f))) 0)"
    by (rule res_fold_fold) (auto simp: get2_shaped [OF assms(1,2)] get2_shaped [OF assms(1,3)] ff)
  then show ?thesis
    by (simp add: count_fixed_noisy_pixels_def py_nth_hd [OF assms(1)] fold_count cells_count_def)
qed

lemma count_damaged_clean_pixels_ref:
  assumes "rect f" "shaped_as f g" "shaped_as f k"
  shows "count_damaged_clean_pixels f g k =
           Inr (cells_count f (\<lambda>y x. g ! y ! x = f ! y ! x \<and> k ! y ! x \<noteq> f ! y ! x))"
proof -
  note ff = get2_shaped [OF assms(1) shaped_as_refl [OF assms(1)]]
  have "res_fold (\<lambda>(y, x) damaged.
            bind_res (get2 g y x) (\<lambda>gv. bind_res (get2 f y x) (\<lambda>fv.
              (let was_clean = (gv = fv) in
               if was_clean then
                 bind_res (get2 k y x) (\<lambda>kv. bind_res (get2 f y x) (\<lambda>fv.
                   Inr (if kv \<noteq> fv then damaged + 1 else damaged)))
               else Inr damaged))))
          (cells (length f) (length (hd f))) 0 =
        Inr (fold (\<lambda>(y, x) n. if g ! y ! x = f ! y ! x \<and> k ! y ! x \<noteq> f ! y ! x then Suc n else n)
               (cells (length f) (length (hd f))) 0)"
    by (rule res_fold_fold) (auto simp: get2_shaped [OF assms(1,2)] get2_shaped [OF assms(1,3)] ff)
  then show ?thesis
    by (simp add: count_damaged_clean_pixels_def py_nth_hd [OF assms(1)] fold_count cells_count_def)
qed

lemma filter_partition:
  "length (filter (\<lambda>(y, x). N y x \<and> K y x) cs) \<le> length (filter (\<lambda>(y, x). N y x) cs) \<and>
   length (filter (\<lambda>(y, x). N y x) cs) + length (filter (\<lambda>(y, x). \<not> N y x \<and> \<not> K y x) cs) \<le> length cs \<and>
   length (filter (\<lambda>(y, x). \<not> K y x) cs) =
     length (filter (\<lambda>(y, x). N y x) cs) - length (filter (\<lambda>(y, x). N y x \<and> K y x) cs) +
     length (filter (\<lambda>(y, x). \<not> N y x \<and> \<not> K y x) cs)"
proof (induction cs)
  case (Cons c cs)
  have "length (filter (\<lambda>(y, x). N y x \<and> K y x) cs) \<le> length (filter (\<lambda>(y, x). N y x) cs)"
    using Cons.IH by blast
  with Cons.IH show ?case by (cases c) auto
qed simp

subsection \<open>Properties\<close>

text \<open>
  C13. On an original image \<open>f\<close> and noisy and filtered images \<open>g\<close>, \<open>k\<close> of its shape,
  the three counters return without error; the fixed pixels are among the noisy ones,
  noisy and damaged pixels are disjoint, and the pixels where the filtered image still
  differs from the original are exactly the noisy pixels not fixed plus the damaged ones.
\<close>

theorem metrics_partition:
  assumes "rect f" "shaped_as f g" "shaped_as f k"
  shows "\<exists>noisy fixed damaged.
           count_noisy_pixels f g = Inr noisy \<and> count_fixed_noisy_pixels f g k = Inr fixed \<and>
           count_damaged_clean_pixels f g k = Inr damaged \<and>
           fixed \<le> noisy \<and> noisy + damaged \<le> length f * length (hd f) \<and>
           count_noisy_pixels f k = Inr (noisy - fixed + damaged)"
proof -
  have "count_noisy_pixels f k = Inr (cells_count f (\<lambda>y x. \<not> k ! y ! x = f ! y ! x))"
    using count_noisy_pixels_ref [OF assms(1,3)] by simp
  then show ?thesis
    using filter_partition [of "\<lambda>y x. g ! y ! x \<noteq> f ! y ! x" "\<lambda>y x. k ! y ! x = f ! y ! x"
        "cells (length f) (length (hd f))"]
    by (simp add: count_noisy_pixels_ref [OF assms(1,2)] count_fixed_noisy_pixels_ref [OF assms]
        count_damaged_clean_pixels_ref [OF assms] cells_count_def)
qed

theorem metrics_partition_witness:
  "rect [[10, 20], [30, 40::int]] \<and> shaped_as [[10, 20], [30, 40::int]] [[0, 20], [255, 40::int]] \<and>
   shaped_as [[10, 20], [30, 40::int]] [[10, 20], [30, 41::int]] \<and>
   count_noisy_pixels [[10, 20], [30, 40::int]] [[0, 20], [255, 40]] = Inr 2 \<and>
   count_fixed_noisy_pixels [[10, 20], [30, 40::int]] [[0, 20], [255, 40]] [[10, 20], [30, 41]] = Inr 2 \<and>
   count_damaged_clean_pixels [[10, 20], [30, 40::int]] [[0, 20], [255, 40]] [[10, 20], [30, 41]] = Inr 1 \<and>
   count_noisy_pixels [[10, 20], [30, 40::int]] [[10, 20], [30, 41]] = Inr 1"
proof -
  have r: "rect [[10, 20], [30, 40::int]]" "shaped_as [[10, 20], [30, 40::int]] [[0, 20], [255, 40::int]]"
    "shaped_as [[10, 20], [30, 40::int]] [[10, 20], [30, 41::int]]"
    by (simp_all add: rect_def shaped_as_def)
  show ?thesis
    using r metrics_partition [OF r]
    by (simp add: count_noisy_pixels_def count_fixed_noisy_pixels_def count_damaged_clean_pixels_def
        cells_def get2_def py_nth_def py_index_def)
qed

end
