(* ===== verification/Noise.thy ===== *)
theory Noise
  imports Metrics "HOL-Library.Stream"
begin

text \<open>
  The noise generators of src/ex2/common/noise.py. Each copies the image and visits its
  cells row by row (the cells of \<open>Metrics.cells\<close>), drawing one random number per cell
  and overwriting the pixel. Python's global generator is an explicit stream:
  \<open>random.random()\<close> takes the head of a \<open>real stream\<close> of draws in \<open>[0, 1)\<close> and
  leaves its tail, so each generator returns the noisy image together with the rest of
  the stream. \<open>random.uniform(a, b)\<close> is \<open>a + (b - a) * random()\<close>, as CPython computes it;
  \<open>random.gauss(mu, sigma)\<close> is \<open>mu + z * sigma\<close> for the next standard normal
  sample \<open>z\<close>, taken from a stream of such samples (how CPython derives them from its
  uniform draws is not modelled). A write to a cell outside a ragged row raises
  IndexError, as the list assignment does.
\<close>

text \<open>\<open>img[y][x] = v\<close>\<close>

definition py_set2 :: "'a pixmap \<Rightarrow> nat \<Rightarrow> nat \<Rightarrow> 'a \<Rightarrow> py_error + 'a pixmap" where
  "py_set2 img y x v =
     (if y < length img \<and> x < length (img ! y) then Inr (img[y := (img ! y)[x := v]]) else Inl IndexError)"

text \<open>The loop shared by the five generators: the copy, its shape, and one body per cell.\<close>

definition noise_loop ::
  "(nat \<Rightarrow> nat \<Rightarrow> int pixmap \<times> 's \<Rightarrow> py_error + int pixmap \<times> 's) \<Rightarrow> int pixmap \<Rightarrow> 's \<Rightarrow>
   py_error + int pixmap \<times> 's" where
  "noise_loop body img rs =
     (let noisy = copy_image img; height = length noisy in
      bind_res (py_nth noisy 0) (\<lambda>row0.
        res_fold (\<lambda>(y, x). body y x) (cells height (length row0)) (noisy, rs)))"

definition add_salt_and_pepper_noise ::
  "int pixmap \<Rightarrow> real \<Rightarrow> real stream \<Rightarrow> py_error + int pixmap \<times> real stream" where
  "add_salt_and_pepper_noise img noise_level =
     noise_loop (\<lambda>y x (noisy, rs).
       (let r = shd rs; rs = stl rs in
        if r < noise_level then bind_res (py_set2 noisy y x 0) (\<lambda>noisy. Inr (noisy, rs))
        else if r > 1 - noise_level then bind_res (py_set2 noisy y x 255) (\<lambda>noisy. Inr (noisy, rs))
        else Inr (noisy, rs))) img"

definition add_salt_noise :: "int pixmap \<Rightarrow> real \<Rightarrow> real stream \<Rightarrow> py_error + int pixmap \<times> real stream" where
  "add_salt_noise img noise_level =
     noise_loop (\<lambda>y x (noisy, rs).
       if shd rs < noise_level then bind_res (py_set2 noisy y x 255) (\<lambda>noisy. Inr (noisy, stl rs))
       else Inr (noisy, stl rs)) img"

definition add_pepper_noise :: "int pixmap \<Rightarrow> real \<Rightarrow> real stream \<Rightarrow> py_error + int pixmap \<times> real stream" where
  "add_pepper_noise img noise_level =
     noise_loop (\<lambda>y x (noisy, rs).
       if shd rs < noise_level then bind_res (py_set2 noisy y x 0) (\<lambda>noisy. Inr (noisy, stl rs))
       else Inr (noisy, stl rs)) img"

text \<open>\<open>random.gauss(mean, std_dev)\<close> on the next standard normal sample.\<close>

definition gauss :: "real \<Rightarrow> real \<Rightarrow> real \<Rightarrow> real" where
  "gauss mean std_dev z = mean + z * std_dev"

definition add_gaussian_noise ::
  "int pixmap \<Rightarrow> real \<Rightarrow> real \<Rightarrow> real stream \<Rightarrow> py_error + int pixmap \<times> real stream" where
  "add_gaussian_noise img mean std_dev =
     noise_loop (\<lambda>y x (noisy, zs).
       (let noise = gauss mean std_dev (shd zs) in
        bind_res (get2 noisy y x) (\<lambda>v.
          (let noisy_value = of_int v + noise in
           bind_res (py_set2 noisy y x (clamp_pixel noisy_value)) (\<lambda>noisy. Inr (noisy, stl zs)))))) img"

text \<open>\<open>random.uniform(a, b)\<close> on the next draw of \<open>random()\<close>.\<close>

definition uniform :: "real \<Rightarrow> real \<Rightarrow> real \<Rightarrow> real" where
  "uniform a b r = a + (b - a) * r"

definition add_uniform_noise ::
  "int pixmap \<Rightarrow> real \<Rightarrow> real \<Rightarrow> real stream \<Rightarrow> py_error + int pixmap \<times> real stream" where
  "add_uniform_noise img min_value max_value =
     noise_loop (\<lambda>y x (noisy, rs).
       (let noise = uniform min_value max_value (shd rs) in
        bind_res (get2 noisy y x) (\<lambda>v.
          (let noisy_value = of_int v + noise in
           bind_res (py_set2 noisy y x (clamp_pixel noisy_value)) (\<lambda>noisy. Inr (noisy, stl rs)))))) img"

subsection \<open>Reference semantics\<close>

text \<open>
  The image in which the cell \<open>(y, x)\<close> of an \<open>h \<times> w\<close> image is replaced by
  \<open>F r v\<close>, for its old value \<open>v\<close> and the draw \<open>r\<close> at its row-major position.
\<close>

definition per_cell :: "(real \<Rightarrow> int \<Rightarrow> int) \<Rightarrow> int pixmap \<Rightarrow> real stream \<Rightarrow> int pixmap" where
  "per_cell F img rs =
     map (\<lambda>y. map (\<lambda>x. F (rs !! (y * length (hd img) + x)) (img ! y ! x)) [0..<length (hd img)]) [0..<length img]"

definition salt_pepper_cell :: "real \<Rightarrow> real \<Rightarrow> int \<Rightarrow> int" where
  "salt_pepper_cell noise_level r v = (if r < noise_level then 0 else if r > 1 - noise_level then 255 else v)"

text \<open>One visit of a cell: the pixel becomes \<open>F r v\<close> and the draw \<open>r\<close> is consumed.\<close>

definition upd_cell :: "(real \<Rightarrow> int \<Rightarrow> int) \<Rightarrow> nat \<times> nat \<Rightarrow> int pixmap \<times> real stream \<Rightarrow> int pixmap \<times> real stream" where
  "upd_cell F = (\<lambda>(y, x) (n, rs). (n[y := (n ! y)[x := F (shd rs) (n ! y ! x)]], stl rs))"

subsection \<open>The generators write each cell once, in row-major order\<close>

lemma cells_Suc: "cells (Suc h) w = cells h w @ map (Pair h) [0..<w]"
  by (simp add: cells_def)

lemma cell_index_lt: "(y::nat) < h \<Longrightarrow> x < w \<Longrightarrow> y * w + x < h * w"
proof -
  assume "y < h" "x < w"
  then have "y * w + x < Suc y * w" by simp
  also have "\<dots> \<le> h * w" using \<open>y < h\<close> by (intro mult_le_mono1) simp
  finally show ?thesis .
qed

lemma cells_nth: "y < h \<Longrightarrow> x < w \<Longrightarrow> cells h w ! (y * w + x) = (y, x)"
proof (induction h)
  case (Suc h)
  show ?case
  proof (cases "y < h")
    case True
    then have "y * w + x < h * w" using Suc.prems(2) by (rule cell_index_lt)
    then show ?thesis using Suc True by (simp add: cells_Suc nth_append)
  next
    case False
    then have "y = h" using Suc.prems(1) by simp
    then show ?thesis using Suc.prems(2) by (simp add: cells_Suc nth_append)
  qed
qed simp

lemma distinct_cells: "distinct (cells h w)"
  by (induction h) (auto simp: cells_Suc cells_def distinct_map inj_on_def)

lemma upd_cell_nth:
  assumes "y0 < length n" "x0 < length (n ! y0)"
  shows "fst (upd_cell F (y0, x0) (n, rs)) ! y ! x =
           (if (y, x) = (y0, x0) then F (shd rs) (n ! y0 ! x0) else n ! y ! x)"
  using assms by (cases "y = y0") (auto simp: upd_cell_def nth_list_update)

lemma fold_upd_cell:
  assumes "distinct cs" "\<forall>(y, x) \<in> set cs. y < length n \<and> x < length (n ! y)"
  shows "snd (fold (upd_cell F) cs (n, rs)) = sdrop (length cs) rs \<and>
         map length (fst (fold (upd_cell F) cs (n, rs))) = map length n \<and>
         (\<forall>i < length cs. fst (fold (upd_cell F) cs (n, rs)) ! fst (cs ! i) ! snd (cs ! i) =
                           F (rs !! i) (n ! fst (cs ! i) ! snd (cs ! i))) \<and>
         (\<forall>y x. (y, x) \<notin> set cs \<longrightarrow> fst (fold (upd_cell F) cs (n, rs)) ! y ! x = n ! y ! x)"
  using assms
proof (induction cs arbitrary: n rs)
  case (Cons c cs)
  obtain y0 x0 where c: "c = (y0, x0)" by fastforce
  let ?n1 = "fst (upd_cell F c (n, rs))"
  have b: "y0 < length n" "x0 < length (n ! y0)" using Cons.prems(2) c by auto
  have step: "upd_cell F c (n, rs) = (?n1, stl rs)" by (simp add: upd_cell_def c)
  have len: "map length ?n1 = map length n"
    using b by (auto simp: upd_cell_def c map_update intro!: nth_equalityI simp: nth_list_update)
  have "\<forall>(y, x) \<in> set cs. y < length ?n1 \<and> x < length (?n1 ! y)"
  proof -
    have "length ?n1 = length n" "\<And>y. y < length n \<Longrightarrow> length (?n1 ! y) = length (n ! y)"
      using len by (metis length_map, metis len nth_map length_map)
    then show ?thesis using Cons.prems(2) by auto
  qed
  then have IH: "snd (fold (upd_cell F) cs (?n1, stl rs)) = sdrop (length cs) (stl rs) \<and>
         map length (fst (fold (upd_cell F) cs (?n1, stl rs))) = map length ?n1 \<and>
         (\<forall>i < length cs. fst (fold (upd_cell F) cs (?n1, stl rs)) ! fst (cs ! i) ! snd (cs ! i) =
                           F (stl rs !! i) (?n1 ! fst (cs ! i) ! snd (cs ! i))) \<and>
         (\<forall>y x. (y, x) \<notin> set cs \<longrightarrow> fst (fold (upd_cell F) cs (?n1, stl rs)) ! y ! x = ?n1 ! y ! x)"
    using Cons.IH Cons.prems(1) by simp
  have notin: "c \<notin> set cs" using Cons.prems(1) by simp
  show ?case
  proof (intro conjI allI impI)
    show "snd (fold (upd_cell F) (c # cs) (n, rs)) = sdrop (length (c # cs)) rs"
      using IH step by simp
    show "map length (fst (fold (upd_cell F) (c # cs) (n, rs))) = map length n"
      using IH step len by simp
  next
    fix i assume i: "i < length (c # cs)"
    show "fst (fold (upd_cell F) (c # cs) (n, rs)) ! fst ((c # cs) ! i) ! snd ((c # cs) ! i) =
          F (rs !! i) (n ! fst ((c # cs) ! i) ! snd ((c # cs) ! i))"
    proof (cases i)
      case 0
      then show ?thesis using IH step notin c upd_cell_nth [OF b] by simp
    next
      case (Suc j)
      then have "j < length cs" "cs ! j \<noteq> c" using i notin nth_mem by auto
      then show ?thesis
        using IH step Suc upd_cell_nth [OF b, of F rs "fst (cs ! j)" "snd (cs ! j)"] c by simp
    qed
  next
    fix y x assume "(y, x) \<notin> set (c # cs)"
    then show "fst (fold (upd_cell F) (c # cs) (n, rs)) ! y ! x = n ! y ! x"
      using IH step upd_cell_nth [OF b, of F rs y x] c by auto
  qed
qed simp

lemma upd_cell_shape:
  "y0 < length n \<Longrightarrow> map length (fst (upd_cell F (y0, x0) (n, rs))) = map length n"
  by (auto simp: upd_cell_def intro!: nth_equalityI simp: nth_list_update)

lemma shape_bounds:
  assumes "rect img" "map length n = map length img" "y < length img" "x < length (hd img)"
  shows "y < length n" "x < length (n ! y)"
proof -
  have "length n = length img" using assms(2) by (metis length_map)
  moreover have "length (n ! y) = length (img ! y)"
    using assms(2,3) calculation by (metis nth_map)
  ultimately show "y < length n" "x < length (n ! y)"
    using assms(3,4) rect_row_length [OF assms(1,3)] by simp_all
qed

lemma fold_cells_per_cell:
  assumes "rect img"
  shows "fold (upd_cell F) (cells (length img) (length (hd img))) (img, rs) =
           (per_cell F img rs, sdrop (length img * length (hd img)) rs)"
proof -
  let ?cs = "cells (length img) (length (hd img))"
  have b: "\<forall>(y, x) \<in> set ?cs. y < length img \<and> x < length (img ! y)"
    using rect_row_length [OF assms] by auto
  note f = fold_upd_cell [OF distinct_cells b, of F rs]
  let ?out = "fst (fold (upd_cell F) ?cs (img, rs))"
  have ml: "map length ?out = map length img" using f by simp
  then have len: "length ?out = length img" by (metis length_map)
  have rows: "length (?out ! y) = length (hd img)" if "y < length img" for y
  proof -
    have "map length ?out ! y = map length img ! y" using ml by simp
    then show ?thesis using that len rect_row_length [OF assms that] by simp
  qed
  have "?out ! y ! x = F (rs !! (y * length (hd img) + x)) (img ! y ! x)"
    if "y < length img" "x < length (hd img)" for y x
  proof -
    have "y * length (hd img) + x < length ?cs"
      using cell_index_lt [OF that] by simp
    then show ?thesis using f cells_nth [OF that] by fastforce
  qed
  then have "?out = per_cell F img rs"
    using len rows by (auto intro!: nth_equalityI simp: per_cell_def)
  then show ?thesis using f by (metis length_cells prod.collapse)
qed

lemma copy_image_id [simp]: "copy_image img = img"
  by (simp add: copy_image_def)

lemma noise_loop_per_cell:
  assumes "rect img"
    and body: "\<And>y x n rs. y < length img \<Longrightarrow> x < length (hd img) \<Longrightarrow> map length n = map length img \<Longrightarrow>
                 body y x (n, rs) = Inr (upd_cell F (y, x) (n, rs))"
  shows "noise_loop body img rs = Inr (per_cell F img rs, sdrop (length img * length (hd img)) rs)"
proof -
  have "res_fold (\<lambda>(y, x). body y x) (cells (length img) (length (hd img))) (img, rs) =
        Inr (fold (upd_cell F) (cells (length img) (length (hd img))) (img, rs))"
  proof (rule res_fold_fold_inv [where P = "\<lambda>s. map length (fst s) = map length img"])
    fix a :: "nat \<times> nat" and s :: "int pixmap \<times> real stream"
    assume a: "a \<in> set (cells (length img) (length (hd img)))" and P: "map length (fst s) = map length img"
    obtain y x n rs' where "a = (y, x)" "s = (n, rs')" by (metis prod.exhaust)
    with a P show "(case a of (y, x) \<Rightarrow> body y x) s = Inr (upd_cell F a s) \<and> map length (fst (upd_cell F a s)) = map length img"
    proof -
      have yx: "y < length img" "x < length (hd img)" "map length n = map length img"
        using a P \<open>a = (y, x)\<close> \<open>s = (n, rs')\<close> by auto
      have "map length (fst (upd_cell F (y, x) (n, rs'))) = map length n"
        using upd_cell_shape shape_bounds [OF assms(1) yx(3,1,2)] by blast
      then show ?thesis using body [OF yx] yx(3) \<open>a = (y, x)\<close> \<open>s = (n, rs')\<close> by simp
    qed
  qed simp
  then show ?thesis
    by (simp add: noise_loop_def py_nth_hd [OF assms(1)] fold_cells_per_cell [OF assms(1)])
qed

subsection \<open>The generators keep the row lengths\<close>

lemma py_set2_lengths: "py_set2 img y x v = Inr img' \<Longrightarrow> map length img' = map length img"
  by (auto simp: py_set2_def split: if_splits intro!: nth_equalityI simp: nth_list_update)

lemma noise_loop_lengths:
  assumes "noise_loop body img rs = Inr (n, rs')"
    and "\<And>y x m ss m' ss'. body y x (m, ss) = Inr (m', ss') \<Longrightarrow> map length m' = map length m"
  shows "map length n = map length img"
proof -
  obtain row0 :: "int list" where "res_fold (\<lambda>(y, x). body y x) (cells (length img) (length row0)) (img, rs) = Inr (n, rs')"
    using assms(1) by (auto simp: noise_loop_def bind_res_Inr_iff)
  then have "map length (fst (n, rs')) = map length img"
    by (rule res_fold_inv [where P = "\<lambda>s. map length (fst s) = map length img"])
       (use assms(2) in \<open>fastforce split: prod.splits\<close>)+
  then show ?thesis by simp
qed

lemmas noise_body_lengths = py_set2_lengths bind_res_Inr_iff Let_def

lemma generators_lengths:
  "add_salt_and_pepper_noise img l rs = Inr (n, rs') \<Longrightarrow> map length n = map length img"
  "add_salt_noise img l rs = Inr (n, rs') \<Longrightarrow> map length n = map length img"
  "add_pepper_noise img l rs = Inr (n, rs') \<Longrightarrow> map length n = map length img"
  "add_gaussian_noise img mean std_dev rs = Inr (n, rs') \<Longrightarrow> map length n = map length img"
  "add_uniform_noise img a b rs = Inr (n, rs') \<Longrightarrow> map length n = map length img"
  unfolding add_salt_and_pepper_noise_def add_salt_noise_def add_pepper_noise_def
    add_gaussian_noise_def add_uniform_noise_def
  by (erule noise_loop_lengths; auto simp: noise_body_lengths split: if_splits)+

lemma py_set2_in [simp]: "y < length n \<Longrightarrow> x < length (n ! y) \<Longrightarrow> py_set2 n y x v = Inr (n[y := (n ! y)[x := v]])"
  by (simp add: py_set2_def)

lemma get2_in [simp]: "y < length n \<Longrightarrow> x < length (n ! y) \<Longrightarrow> get2 n y x = Inr (n ! y ! x)"
  by (simp add: get2_def)

lemma salt_and_pepper_per_cell:
  assumes "rect img"
  shows "add_salt_and_pepper_noise img noise_level rs =
           Inr (per_cell (salt_pepper_cell noise_level) img rs, sdrop (length img * length (hd img)) rs)"
  unfolding add_salt_and_pepper_noise_def
  apply (rule noise_loop_per_cell [OF assms])
  subgoal for y x n rs
    using shape_bounds [OF assms, of n y x] by (simp add: upd_cell_def salt_pepper_cell_def Let_def)
  done

lemma gaussian_per_cell:
  assumes "rect img"
  shows "add_gaussian_noise img mean std_dev zs =
           Inr (per_cell (\<lambda>z v. clamp_pixel (of_int v + gauss mean std_dev z)) img zs,
                sdrop (length img * length (hd img)) zs)"
  unfolding add_gaussian_noise_def
  apply (rule noise_loop_per_cell [OF assms])
  subgoal for y x n rs
    using shape_bounds [OF assms, of n y x] by (simp add: upd_cell_def Let_def)
  done

lemma uniform_per_cell:
  assumes "rect img"
  shows "add_uniform_noise img min_value max_value rs =
           Inr (per_cell (\<lambda>r v. clamp_pixel (of_int v + uniform min_value max_value r)) img rs,
                sdrop (length img * length (hd img)) rs)"
  unfolding add_uniform_noise_def
  apply (rule noise_loop_per_cell [OF assms])
  subgoal for y x n rs
    using shape_bounds [OF assms, of n y x] by (simp add: upd_cell_def Let_def)
  done

lemma per_cell_shape: "same_shape img (per_cell F img rs)"
  by (simp add: same_shape_def per_cell_def)

lemma per_cell_pixels: "pixels (per_cell F img rs) \<subseteq> {F (rs !! (y * length (hd img) + x)) (img ! y ! x) | y x. y < length img \<and> x < length (hd img)}"
  by (fastforce simp: pixels_def per_cell_def)

lemma per_cell_nth:
  "y < length img \<Longrightarrow> x < length (hd img) \<Longrightarrow> per_cell F img rs ! y ! x = F (rs !! (y * length (hd img) + x)) (img ! y ! x)"
  by (simp add: per_cell_def)

lemma per_cell_id:
  assumes "rect img" "\<And>y x. y < length img \<Longrightarrow> x < length (hd img) \<Longrightarrow> F (rs !! (y * length (hd img) + x)) (img ! y ! x) = img ! y ! x"
  shows "per_cell F img rs = img"
  using assms rect_row_length [OF assms(1)] by (auto intro!: nth_equalityI simp: per_cell_def)

lemma map_plus_upt: "map (\<lambda>x. n + x) [0..<w] = [n..<n + w]"
  by (induction w) simp_all

lemma cells_index_map: "map (\<lambda>(y, x). y * w + x) (cells h w) = [0..<h * w]"
proof (induction h)
  case (Suc h)
  have "map (\<lambda>x. h * w + x) [0..<w] = [h * w..<h * w + w]" by (rule map_plus_upt)
  moreover have "[0..<h * w] @ [h * w..<h * w + w] = [0..<h * w + w]"
    by (rule upt_add_eq_append [of 0 "h * w" w, symmetric]) simp
  ultimately show ?case using Suc by (simp add: cells_Suc comp_def add.commute)
qed (simp add: cells_def)

lemma stake_nth_map: "stake n s = map (\<lambda>i. s !! i) [0..<n]"
  by (rule nth_equalityI) simp_all

lemma filter_length_mono:
  "(\<And>c. c \<in> set cs \<Longrightarrow> P c \<Longrightarrow> Q c) \<Longrightarrow> length (filter P cs) \<le> length (filter Q cs)"
  by (induction cs) auto

lemma per_cell_clamped:
  "pixels (per_cell (\<lambda>r v. clamp_pixel (G r v)) img rs) \<subseteq> {0..255}"
  using per_cell_pixels [of "\<lambda>r v. clamp_pixel (G r v)" img rs] clamp_pixel_range by blast

lemma salt_per_cell:
  assumes "rect img"
  shows "add_salt_noise img noise_level rs =
           Inr (per_cell (\<lambda>r v. if r < noise_level then 255 else v) img rs, sdrop (length img * length (hd img)) rs)"
  unfolding add_salt_noise_def
  apply (rule noise_loop_per_cell [OF assms])
  subgoal for y x n rs
    using shape_bounds [OF assms, of n y x] by (simp add: upd_cell_def)
  done

lemma pepper_per_cell:
  assumes "rect img"
  shows "add_pepper_noise img noise_level rs =
           Inr (per_cell (\<lambda>r v. if r < noise_level then 0 else v) img rs, sdrop (length img * length (hd img)) rs)"
  unfolding add_pepper_noise_def
  apply (rule noise_loop_per_cell [OF assms])
  subgoal for y x n rs
    using shape_bounds [OF assms, of n y x] by (simp add: upd_cell_def)
  done

subsection \<open>Properties\<close>

text \<open>
  On a rectangular image, the impulse generators return without error and change a
  pixel only to their noise colour: salt-and-pepper to 0 or 255, salt to 255, pepper to 0.
\<close>

theorem impulse_noise_values:
  assumes "rect img" "y < length img" "x < length (hd img)"
  shows "(\<exists>out rs'. add_salt_and_pepper_noise img noise_level rs = Inr (out, rs') \<and> out ! y ! x \<in> {img ! y ! x, 0, 255}) \<and>
         (\<exists>out rs'. add_salt_noise img noise_level rs = Inr (out, rs') \<and> out ! y ! x \<in> {img ! y ! x, 255}) \<and>
         (\<exists>out rs'. add_pepper_noise img noise_level rs = Inr (out, rs') \<and> out ! y ! x \<in> {img ! y ! x, 0})"
  using assms
  by (simp add: salt_and_pepper_per_cell salt_per_cell pepper_per_cell per_cell_nth salt_pepper_cell_def)

theorem impulse_noise_values_witness:
  "rect [[7, 8::int]] \<and> 0 < length [[7, 8::int]] \<and> 1 < length (hd [[7, 8::int]]) \<and>
   (\<exists>out rs'. add_salt_noise [[7, 8]] (1/2) (sconst (1/10)) = Inr (out, rs') \<and> out ! 0 ! 1 \<in> {8, 255})"
  using impulse_noise_values [of "[[7, 8::int]]" 0 1 "1/2" "sconst (1/10)"] by (simp add: rect_def)

text \<open>
  With a noise level of at most 0 and draws of \<open>random()\<close> in \<open>[0, 1)\<close>,
  \<open>add_salt_and_pepper_noise\<close> returns the image unchanged and consumes one draw per pixel.
\<close>

theorem salt_pepper_zero_level:
  assumes "rect img" "noise_level \<le> 0" "\<forall>i. 0 \<le> rs !! i \<and> rs !! i < 1"
  shows "add_salt_and_pepper_noise img noise_level rs = Inr (img, sdrop (length img * length (hd img)) rs)"
proof -
  have "per_cell (salt_pepper_cell noise_level) img rs = img"
  proof (rule per_cell_id [OF assms(1)])
    fix y x
    have "0 \<le> rs !! (y * length (hd img) + x)" "rs !! (y * length (hd img) + x) < 1" using assms(3) by auto
    then show "salt_pepper_cell noise_level (rs !! (y * length (hd img) + x)) (img ! y ! x) = img ! y ! x"
      using assms(2) by (simp add: salt_pepper_cell_def)
  qed
  then show ?thesis by (simp add: salt_and_pepper_per_cell [OF assms(1)])
qed

theorem salt_pepper_zero_level_witness:
  "rect [[7, 8::int]] \<and> (0::real) \<le> 0 \<and> (\<forall>i. 0 \<le> sconst (1/2::real) !! i \<and> sconst (1/2::real) !! i < 1) \<and>
   add_salt_and_pepper_noise [[7, 8]] 0 (sconst (1/2)) = Inr ([[7, 8]], sconst (1/2))"
  using salt_pepper_zero_level [of "[[7, 8::int]]" 0 "sconst (1/2)"] by (simp add: rect_def)

text \<open>
  C23. For every mean, deviation, range and sample stream, the Gaussian and uniform
  generators return an image of the input's shape whose pixels lie in \<open>[0, 255]\<close>,
  whatever the input pixels, consuming one sample per pixel.
\<close>

theorem additive_noise_clamped:
  assumes "rect img"
  shows "(\<exists>out. add_gaussian_noise img mean std_dev zs = Inr (out, sdrop (length img * length (hd img)) zs) \<and>
            same_shape img out \<and> pixels out \<subseteq> {0..255}) \<and>
         (\<exists>out. add_uniform_noise img min_value max_value rs = Inr (out, sdrop (length img * length (hd img)) rs) \<and>
            same_shape img out \<and> pixels out \<subseteq> {0..255})"
  by (simp add: gaussian_per_cell [OF assms] uniform_per_cell [OF assms] per_cell_shape per_cell_clamped)

theorem additive_noise_clamped_witness:
  "rect [[250, 3::int]] \<and>
   (\<exists>out. add_gaussian_noise [[250, 3]] 0 10 (sconst 3) = Inr (out, sconst 3) \<and>
      same_shape [[250, 3::int]] out \<and> pixels out \<subseteq> {0..255}) \<and>
   (\<exists>out. add_uniform_noise [[250, 3]] (-10) 10 (sconst 0) = Inr (out, sconst 0) \<and>
      same_shape [[250, 3::int]] out \<and> pixels out \<subseteq> {0..255})"
  using additive_noise_clamped [of "[[250, 3::int]]" 0 10 "sconst 3" "-10" 10 "sconst 0"] by (simp add: rect_def)

text \<open>
  C18. The number of noisy pixels that \<open>count_noisy_pixels\<close> reports for an image and its
  salt-and-pepper version is at most the number of draws among the first \<open>h * w\<close> that
  fall below the level or above one minus the level.
\<close>

theorem salt_pepper_count_bound:
  assumes "rect img" "add_salt_and_pepper_noise img noise_level rs = Inr (noisy, rs')"
  shows "\<exists>n. count_noisy_pixels img noisy = Inr n \<and>
             n \<le> length (filter (\<lambda>r. r < noise_level \<or> r > 1 - noise_level) (stake (length img * length (hd img)) rs))"
proof -
  let ?w = "length (hd img)"
  have noisy: "noisy = per_cell (salt_pepper_cell noise_level) img rs"
    using assms(2) salt_and_pepper_per_cell [OF assms(1)] by simp
  then have "shaped_as img noisy"
    using per_cell_shape [of img] by (simp add: shaped_as_def same_shape_def)
  then have "count_noisy_pixels img noisy = Inr (cells_count img (\<lambda>y x. noisy ! y ! x \<noteq> img ! y ! x))"
    by (rule count_noisy_pixels_ref [OF assms(1)])
  moreover have "cells_count img (\<lambda>y x. noisy ! y ! x \<noteq> img ! y ! x) \<le>
      length (filter (\<lambda>(y, x). rs !! (y * ?w + x) < noise_level \<or> rs !! (y * ?w + x) > 1 - noise_level)
        (cells (length img) ?w))"
    unfolding cells_count_def
    by (rule filter_length_mono) (auto simp: noisy per_cell_nth salt_pepper_cell_def split: if_splits)
  moreover have "length (filter (\<lambda>(y, x). rs !! (y * ?w + x) < noise_level \<or> rs !! (y * ?w + x) > 1 - noise_level)
        (cells (length img) ?w)) =
      length (filter (\<lambda>r. r < noise_level \<or> r > 1 - noise_level) (stake (length img * ?w) rs))"
  proof -
    have "map (\<lambda>(y, x). rs !! (y * ?w + x)) (cells (length img) ?w) =
          map (\<lambda>i. rs !! i) (map (\<lambda>(y, x). y * ?w + x) (cells (length img) ?w))"
      by (simp add: comp_def case_prod_beta)
    then have "stake (length img * ?w) rs = map (\<lambda>(y, x). rs !! (y * ?w + x)) (cells (length img) ?w)"
      by (simp add: cells_index_map stake_nth_map)
    then show ?thesis by (simp add: filter_map comp_def split_def)
  qed
  ultimately show ?thesis by auto
qed

theorem salt_pepper_count_bound_witness:
  "rect [[7, 8::int]] \<and> add_salt_and_pepper_noise [[7, 8]] (1/2) (sconst (1/10)) = Inr ([[0, 0]], sconst (1/10)) \<and>
   (\<exists>n. count_noisy_pixels [[7, 8::int]] [[0, 0]] = Inr n \<and>
      n \<le> length (filter (\<lambda>r. r < 1/2 \<or> r > 1 - 1/2) (stake (1 * 2) (sconst (1/10::real)))))"
proof -
  have r: "rect [[7, 8::int]]" by (simp add: rect_def)
  have a: "add_salt_and_pepper_noise [[7, 8]] (1/2) (sconst (1/10)) = Inr ([[0, 0]], sconst (1/10))"
    using salt_and_pepper_per_cell [OF r, of "1/2" "sconst (1/10)"]
    by (simp add: per_cell_def salt_pepper_cell_def)
  show ?thesis
    using r a salt_pepper_count_bound [OF r a] by (simp add: numeral_2_eq_2)
qed

end
