(* ===== verification/ImageIO.thy ===== *)
theory ImageIO
  imports Metrics
begin

text \<open>
  The image files of the exercise scripts, src/project/common/image_io.py. An 8-bit
  greyscale PIL image (mode \<open>"L"\<close>) is its size \<open>(width, height)\<close> and its pixel
  access \<open>pixels[x, y]\<close>, indexed column first; the file format behind
  \<open>Image.open\<close> and \<open>image.save\<close> is not modelled, so saving an image and opening it
  again gives back the same PIL image (the scripts write lossless PNG). Loading turns the
  image into a list of rows; saving truncates each value with \<open>int\<close>, clamps it to
  \<open>[0, 255]\<close> and stores it as a byte. The lemmas show the round trip: saving and
  loading gives back the clamped image, and loading and saving gives back the image.
\<close>

record pil_image =
  pil_size :: "nat \<times> nat"
  pil_px :: "nat \<Rightarrow> nat \<Rightarrow> 8 word"

text \<open>\<open>Image.new("L", (width, height))\<close>: a black image.\<close>

definition new_image :: "nat \<times> nat \<Rightarrow> pil_image" where
  "new_image sz = \<lparr>pil_size = sz, pil_px = (\<lambda>_ _. 0)\<rparr>"

text \<open>\<open>image.putpixel((x, y), value)\<close> for a value already in \<open>[0, 255]\<close>.\<close>

definition putpixel :: "pil_image \<Rightarrow> nat \<times> nat \<Rightarrow> int \<Rightarrow> pil_image" where
  "putpixel im xy value =
     im\<lparr>pil_px := (\<lambda>x y. if (x, y) = xy then word_of_int value else pil_px im x y)\<rparr>"

definition load_grayscale_image :: "pil_image \<Rightarrow> int pixmap" where
  "load_grayscale_image im =
     (let (width, height) = pil_size im; px = pil_px im
      in map (\<lambda>y. map (\<lambda>x. uint (px x y)) [0..<width]) [0..<height])"

definition save_grayscale_image :: "int pixmap \<Rightarrow> py_error + pil_image" where
  "save_grayscale_image pixs =
     (if pixs = [] then Inl ValueError
      else
        (let height = length pixs; width = length (pixs ! 0);
             im = new_image (width, height)
         in res_fold (\<lambda>(y, x) im.
                bind_res (get2 pixs y x) (\<lambda>value.
                  (let value = max 0 (min 255 value) in Inr (putpixel im (x, y) value))))
              (cells height width) im))"

text \<open>\<open>max(0, min(255, value))\<close>\<close>

definition clamp_byte :: "int \<Rightarrow> int" where
  "clamp_byte v = max 0 (min 255 v)"

subsection \<open>Saving writes every cell once\<close>

lemma cells_mem' [simp]: "(y, x) \<in> set (cells h w) \<longleftrightarrow> y < h \<and> x < w"
  by (auto simp: cells_def image_iff)

lemma fold_putpixel:
  "pil_px (fold (\<lambda>(y, x) im. putpixel im (x, y) (G y x)) cs im) =
     (\<lambda>x y. if (y, x) \<in> set cs then word_of_int (G y x) else pil_px im x y) \<and>
   pil_size (fold (\<lambda>(y, x) im. putpixel im (x, y) (G y x)) cs im) = pil_size im"
proof (induction cs arbitrary: im)
  case (Cons c cs)
  obtain a b where c: "c = (a, b)" by fastforce
  have "pil_px (putpixel im (b, a) (G a b)) = (\<lambda>x y. if (y, x) = (a, b) then word_of_int (G a b) else pil_px im x y)"
    by (auto simp: putpixel_def fun_eq_iff)
  then show ?case
    using Cons.IH [of "putpixel im (b, a) (G a b)"] c by (auto simp: fun_eq_iff putpixel_def)
qed simp

lemma save_rect:
  assumes "rect pixs"
  shows "save_grayscale_image pixs =
           Inr (fold (\<lambda>(y, x) im. putpixel im (x, y) (clamp_byte (pixs ! y ! x)))
                  (cells (length pixs) (length (hd pixs))) (new_image (length (hd pixs), length pixs)))"
proof -
  have ne: "pixs \<noteq> []" "pixs ! 0 = hd pixs"
    using rect_nonempty [OF assms] by (auto simp: hd_conv_nth)
  have "res_fold (\<lambda>(y, x) im.
                bind_res (get2 pixs y x) (\<lambda>value.
                  (let value = max 0 (min 255 value) in Inr (putpixel im (x, y) value))))
              (cells (length pixs) (length (hd pixs))) (new_image (length (hd pixs), length pixs)) =
        Inr (fold (\<lambda>(y, x) im. putpixel im (x, y) (clamp_byte (pixs ! y ! x)))
                  (cells (length pixs) (length (hd pixs))) (new_image (length (hd pixs), length pixs)))"
    by (rule res_fold_fold)
       (auto simp: get2_shaped [OF assms shaped_as_refl [OF assms]] clamp_byte_def)
  then show ?thesis using ne by (simp add: save_grayscale_image_def Let_def)
qed

lemma uint_clamp_byte: "uint (word_of_int (clamp_byte v) :: 8 word) = clamp_byte v"
proof -
  have "0 \<le> clamp_byte v" "clamp_byte v < 2 ^ LENGTH(8)" by (simp_all add: clamp_byte_def)
  then show ?thesis by (simp add: uint_word_of_int_eq take_bit_int_eq_self)
qed

subsection \<open>Round trips\<close>

text \<open>
  C16. Saving a rectangular list of rows and loading the saved image gives back the rows
  with every value clamped to \<open>[0, 255]\<close> (so an 8-bit image comes back unchanged).
\<close>

theorem save_load_roundtrip:
  assumes "rect pixs"
  shows "\<exists>im. save_grayscale_image pixs = Inr im \<and>
           load_grayscale_image im = map (map clamp_byte) pixs"
proof -
  let ?im = "fold (\<lambda>(y, x) im. putpixel im (x, y) (clamp_byte (pixs ! y ! x)))
                  (cells (length pixs) (length (hd pixs))) (new_image (length (hd pixs), length pixs))"
  note f = fold_putpixel [of "\<lambda>y x. clamp_byte (pixs ! y ! x)" "cells (length pixs) (length (hd pixs))"
      "new_image (length (hd pixs), length pixs)"]
  have "load_grayscale_image ?im = map (map clamp_byte) pixs"
    using f rect_row_length [OF assms]
    by (auto intro!: nth_equalityI simp: load_grayscale_image_def new_image_def uint_clamp_byte)
  then show ?thesis using save_rect [OF assms] by simp
qed

theorem save_load_roundtrip_witness:
  "rect [[300, -5, 7::int]] \<and>
   (\<exists>im. save_grayscale_image [[300, -5, 7]] = Inr im \<and> load_grayscale_image im = [[255, 0, 7]])"
proof -
  have r: "rect [[300, -5, 7::int]]" by (simp add: rect_def)
  show ?thesis using r save_load_roundtrip [OF r] by (simp add: clamp_byte_def)
qed

text \<open>
  C17. Loading a non-empty image and saving the rows gives back an image of the same size
  with the same bytes.
\<close>

theorem load_save_roundtrip:
  assumes "0 < fst (pil_size im)" "0 < snd (pil_size im)"
  shows "\<exists>im'. save_grayscale_image (load_grayscale_image im) = Inr im' \<and>
           pil_size im' = pil_size im \<and>
           (\<forall>x < fst (pil_size im). \<forall>y < snd (pil_size im). pil_px im' x y = pil_px im x y)"
proof -
  obtain w h where s: "pil_size im = (w, h)" by fastforce
  let ?p = "load_grayscale_image im"
  have r: "rect ?p" using assms s by (auto simp: rect_def load_grayscale_image_def hd_map upt_conv_Cons)
  have l: "length ?p = h" "length (hd ?p) = w" using assms s by (simp_all add: load_grayscale_image_def hd_map)
  have "clamp_byte (uint (pil_px im x y)) = uint (pil_px im x y)" for x y
    using uint_lt2p [of "pil_px im x y"] by (simp add: clamp_byte_def)
  then show ?thesis
    using save_rect [OF r] fold_putpixel [of "\<lambda>y x. clamp_byte (?p ! y ! x)"] l s
    by (auto simp: new_image_def load_grayscale_image_def)
qed

theorem load_save_roundtrip_witness:
  "\<exists>im'. save_grayscale_image [[5, 6]] = Inr im' \<and> pil_size im' = (2, 1) \<and>
      pil_px im' 0 0 = 5 \<and> pil_px im' 1 0 = 6"
proof -
  have "\<exists>im'. save_grayscale_image [[5, 6]] = Inr im' \<and> pil_size im' = (2, 1) \<and>
      (\<forall>x < 2. \<forall>y < 1. pil_px im' x y = of_nat (x + 5))"
    using load_save_roundtrip [of "\<lparr>pil_size = (2, 1), pil_px = (\<lambda>x y. of_nat (x + 5))\<rparr>"]
    by (simp add: load_grayscale_image_def upt_conv_Cons)
  then show ?thesis by fastforce
qed

text \<open>
  C25. \<open>load_grayscale_image\<close> of a non-empty image is an int pixmap of the image's
  shape: as many rows as the height, each as long as the width, every value a byte in
  \<open>[0, 255]\<close>. This is the type every counter, filter and generator of the
  exercises relies on.
\<close>

theorem load_grayscale_image_type:
  assumes "pil_size im = (w, h)" "0 < w" "0 < h"
  shows "rect (load_grayscale_image im) \<and> length (load_grayscale_image im) = h \<and>
         length (hd (load_grayscale_image im)) = w \<and> pixels (load_grayscale_image im) \<subseteq> {0..255}"
proof -
  let ?p = "load_grayscale_image im"
  have p: "?p = map (\<lambda>y. map (\<lambda>x. uint (pil_px im x y)) [0..<w]) [0..<h]"
    using assms(1) by (simp add: load_grayscale_image_def)
  have len: "length ?p = h" "length (hd ?p) = w" "?p \<noteq> []" "hd ?p \<noteq> []"
    using assms(2,3) p by (simp_all add: hd_map)
  have rows: "\<forall>row \<in> set ?p. length row = length (hd ?p)"
    using len(2) p by auto
  have "rect ?p" unfolding rect_def using len(3,4) rows by blast
  moreover have "pixels ?p \<subseteq> {0..255}"
  proof
    fix v assume "v \<in> pixels ?p"
    then obtain x y where "v = uint (pil_px im x y)" using p by (auto simp: pixels_def)
    then show "v \<in> {0..255}" using uint_lt2p [of "pil_px im x y"] by simp
  qed
  ultimately show ?thesis using len by blast
qed

theorem load_grayscale_image_type_witness:
  "pil_size \<lparr>pil_size = (2, 1), pil_px = (\<lambda>x y. of_nat (x + 5))\<rparr> = (2, 1) \<and>
   rect (load_grayscale_image \<lparr>pil_size = (2, 1), pil_px = (\<lambda>x y. of_nat (x + 5))\<rparr>) \<and>
   length (hd (load_grayscale_image \<lparr>pil_size = (2, 1), pil_px = (\<lambda>x y. of_nat (x + 5))\<rparr>)) = 2 \<and>
   pixels (load_grayscale_image \<lparr>pil_size = (2, 1), pil_px = (\<lambda>x y. of_nat (x + 5))\<rparr>) \<subseteq> {0..255}"
  using load_grayscale_image_type [of "\<lparr>pil_size = (2, 1), pil_px = (\<lambda>x y. of_nat (x + 5))\<rparr>" 2 1]
  by simp

end
