(* ===== verification/PyStr.thy ===== *)
theory PyStr
  imports Prelude
begin

text \<open>
  The Python string operations the scripts parse user input with, on ASCII text
  (\<open>string\<close>, a list of characters): \<open>str.strip()\<close> (the ASCII whitespace
  characters), \<open>str.split(sep)\<close> for a one-character separator, and \<open>int(s)\<close> on a
  string: optional surrounding whitespace, an optional sign, then decimal digits with
  single underscores allowed between them; anything else raises ValueError (\<open>None\<close>
  here). \<open>show_int\<close> is the decimal form \<open>str(i)\<close>, used to state round trips and to
  write numbers into CSV rows; \<open>py_join\<close> is \<open>sep.join(parts)\<close>; \<open>py_float_str\<close>
  is \<open>float(s)\<close> on a string.
  Unicode whitespace and digits, which Python also accepts, are not modelled.
\<close>

definition is_space :: "char \<Rightarrow> bool" where
  "is_space c \<longleftrightarrow> c \<in> {CHR '' '', CHR 0x09, CHR 0x0A, CHR 0x0B, CHR 0x0C, CHR 0x0D}"

definition is_digit :: "char \<Rightarrow> bool" where
  "is_digit c \<longleftrightarrow> 48 \<le> (of_char c :: nat) \<and> (of_char c :: nat) \<le> 57"

definition py_strip :: "string \<Rightarrow> string" where
  "py_strip s = rev (dropWhile is_space (rev (dropWhile is_space s)))"

fun py_split :: "char \<Rightarrow> string \<Rightarrow> string list" where
  "py_split sep [] = [[]]"
| "py_split sep (c # cs) =
     (let rest = py_split sep cs in if c = sep then [] # rest else (c # hd rest) # tl rest)"

text \<open>Digits with single underscores between them.\<close>

fun digits_ok :: "string \<Rightarrow> bool" where
  "digits_ok [] = False"
| "digits_ok [c] = is_digit c"
| "digits_ok (c # d # cs) =
     (is_digit c \<and> (if d = CHR ''_'' then cs \<noteq> [] \<and> digits_ok cs else digits_ok (d # cs)))"

definition digits_value :: "string \<Rightarrow> nat" where
  "digits_value ds = foldl (\<lambda>acc d. 10 * acc + (of_char d - 48)) 0 (filter (\<lambda>d. d \<noteq> CHR ''_'') ds)"

definition parse_digits :: "string \<Rightarrow> int option" where
  "parse_digits ds = (if digits_ok ds then Some (int (digits_value ds)) else None)"

definition py_int_str :: "string \<Rightarrow> int option" where
  "py_int_str s =
     (case py_strip s of
        [] \<Rightarrow> None
      | c # cs \<Rightarrow>
          if c = CHR ''-'' then map_option uminus (parse_digits cs)
          else if c = CHR ''+'' then parse_digits cs
          else parse_digits (c # cs))"

fun show_nat :: "nat \<Rightarrow> string" where
  "show_nat n = (if n < 10 then [char_of (48 + n)] else show_nat (n div 10) @ [char_of (48 + n mod 10)])"

declare show_nat.simps [simp del]

text \<open>\<open>sep.join(parts)\<close>\<close>

fun py_join :: "string \<Rightarrow> string list \<Rightarrow> string" where
  "py_join sep [] = []"
| "py_join sep [x] = x"
| "py_join sep (x # y # ys) = x @ sep @ py_join sep (y # ys)"


definition show_int :: "int \<Rightarrow> string" where
  "show_int i = (if i < 0 then CHR ''-'' # show_nat (nat (- i)) else show_nat (nat i))"

text \<open>\<open>float(s)\<close> on a string: optional surrounding whitespace, an optional sign, then
  digits with an optional fraction (\<open>1\<close>, \<open>1.\<close>, \<open>.5\<close>, \<open>1.5\<close>, digits with single
  underscores between them) and an optional exponent \<open>e\<close> or \<open>E\<close> with a signed
  integer. The spellings of infinity and NaN, which \<open>float\<close> also accepts, denote no
  real number and are read as \<open>None\<close> here.\<close>

definition parse_signed :: "string \<Rightarrow> int option" where
  "parse_signed s =
     (case s of
        [] \<Rightarrow> None
      | c # cs \<Rightarrow>
          if c = CHR ''-'' then map_option uminus (parse_digits cs)
          else if c = CHR ''+'' then parse_digits cs
          else parse_digits (c # cs))"

definition decimal_value :: "string \<Rightarrow> string \<Rightarrow> real" where
  "decimal_value ip fp =
     real (digits_value (ip @ fp)) / 10 ^ length (filter (\<lambda>d. d \<noteq> CHR ''_'') fp)"

definition parse_mantissa :: "string \<Rightarrow> real option" where
  "parse_mantissa m =
     (let ip = takeWhile (\<lambda>c. c \<noteq> CHR ''.'') m; rest = dropWhile (\<lambda>c. c \<noteq> CHR ''.'') m in
      if rest = [] then (if digits_ok ip then Some (real (digits_value ip)) else None)
      else
        (let fp = tl rest in
         if (ip = [] \<or> digits_ok ip) \<and> (fp = [] \<or> digits_ok fp) \<and> (ip \<noteq> [] \<or> fp \<noteq> [])
         then Some (decimal_value ip fp) else None))"

definition parse_unsigned_float :: "string \<Rightarrow> real option" where
  "parse_unsigned_float s =
     (let m = takeWhile (\<lambda>c. c \<noteq> CHR ''e'' \<and> c \<noteq> CHR ''E'') s;
          rest = dropWhile (\<lambda>c. c \<noteq> CHR ''e'' \<and> c \<noteq> CHR ''E'') s in
      if rest = [] then parse_mantissa m
      else
        (case (parse_mantissa m, parse_signed (tl rest)) of
           (Some x, Some e) \<Rightarrow> Some (if 0 \<le> e then x * 10 ^ nat e else x / 10 ^ nat (- e))
         | _ \<Rightarrow> None))"

definition py_float_str :: "string \<Rightarrow> real option" where
  "py_float_str s =
     (case py_strip s of
        [] \<Rightarrow> None
      | c # cs \<Rightarrow>
          if c = CHR ''-'' then map_option uminus (parse_unsigned_float cs)
          else if c = CHR ''+'' then parse_unsigned_float cs
          else parse_unsigned_float (c # cs))"

subsection \<open>Decimal numbers and separators\<close>

lemma digit_char: "(k::nat) < 10 \<Longrightarrow> is_digit (char_of (48 + k))"
  by (simp add: is_digit_def of_char_of)

lemma digit_char_value: "(k::nat) < 10 \<Longrightarrow> (of_char (char_of (48 + k)) :: nat) - 48 = k"
  by (simp add: of_char_of)

lemma show_nat_digits: "c \<in> set (show_nat n) \<Longrightarrow> is_digit c"
proof (induction n rule: show_nat.induct)
  case (1 n)
  then show ?case
    by (cases "n < 10") (auto simp: show_nat.simps [of n] digit_char)
qed

lemma show_nat_ne [simp]: "show_nat n \<noteq> []"
  by (simp add: show_nat.simps [of n])

lemma digit_not_special:
  "is_digit c \<Longrightarrow> c \<noteq> CHR ''_'' \<and> c \<noteq> CHR ''-'' \<and> c \<noteq> CHR ''+'' \<and> c \<noteq> CHR '','' \<and> c \<noteq> CHR '';'' \<and> \<not> is_space c"
  by (auto simp: is_digit_def is_space_def)

lemma digits_ok_all: "ds \<noteq> [] \<Longrightarrow> (\<And>c. c \<in> set ds \<Longrightarrow> is_digit c) \<Longrightarrow> digits_ok ds"
  by (induction ds rule: digits_ok.induct) (auto dest: digit_not_special)

lemma digits_value_snoc:
  "d \<noteq> CHR ''_'' \<Longrightarrow> digits_value (ds @ [d]) = 10 * digits_value ds + (of_char d - 48)"
  by (simp add: digits_value_def)

lemma digits_value_show_nat: "digits_value (show_nat n) = n"
proof (induction n rule: show_nat.induct)
  case (1 n)
  show ?case
  proof (cases "n < 10")
    case True
    then show ?thesis
      by (simp add: show_nat.simps [of n] digits_value_def digit_char_value digit_not_special digit_char)
  next
    case False
    have "char_of (48 + n mod 10) \<noteq> CHR ''_''" using digit_char [of "n mod 10"] digit_not_special by simp
    then show ?thesis
      using False 1 by (simp add: show_nat.simps [of n] digits_value_snoc digit_char_value)
  qed
qed

lemma parse_digits_show_nat: "parse_digits (show_nat n) = Some (int n)"
  using digits_ok_all [OF show_nat_ne show_nat_digits] by (simp add: parse_digits_def digits_value_show_nat)

lemma py_strip_id: "s = [] \<or> (\<not> is_space (hd s) \<and> \<not> is_space (last s)) \<Longrightarrow> py_strip s = s"
proof (cases s rule: rev_cases)
  case (snoc ys y)
  assume "s = [] \<or> (\<not> is_space (hd s) \<and> \<not> is_space (last s))"
  then have "\<not> is_space (hd s)" "\<not> is_space (last s)" using snoc by auto
  then have "dropWhile is_space s = s" by (cases s) auto
  moreover have "dropWhile is_space (rev s) = rev s" using \<open>\<not> is_space (last s)\<close> snoc by simp
  ultimately show ?thesis by (simp add: py_strip_def)
qed (simp add: py_strip_def)

lemma show_int_chars: "c \<in> set (show_int i) \<Longrightarrow> is_digit c \<or> c = CHR ''-''"
  by (auto simp: show_int_def split: if_splits dest: show_nat_digits)

lemma show_nat_hd_last: "is_digit (hd (show_nat m))" "is_digit (last (show_nat m))"
  using show_nat_digits hd_in_set last_in_set show_nat_ne by blast+

lemma show_int_last: "is_digit (last (show_int i))"
  by (simp add: show_int_def show_nat_hd_last)

lemma show_int_hd: "\<not> is_space (hd (show_int i))"
  using show_nat_hd_last(1) digit_not_special by (simp add: show_int_def is_space_def)

lemma py_int_str_show_int: "py_int_str (show_int i) = Some i"
proof -
  have s: "py_strip (show_int i) = show_int i"
    using show_int_hd show_int_last digit_not_special by (intro py_strip_id) auto
  show ?thesis
  proof (cases "i < 0")
    case True
    then show ?thesis using s by (simp add: py_int_str_def show_int_def parse_digits_show_nat)
  next
    case False
    obtain c cs where c: "show_nat (nat i) = c # cs" by (cases "show_nat (nat i)") auto
    then have "is_digit c" using show_nat_digits [of c "nat i"] by simp
    then show ?thesis
      using False s c digit_not_special [of c] parse_digits_show_nat [of "nat i"]
      by (simp add: py_int_str_def show_int_def)
  qed
qed

lemma py_split_ne [simp]: "py_split sep s \<noteq> []"
  by (induction s) (simp_all add: Let_def)

lemma py_split_none: "sep \<notin> set s \<Longrightarrow> py_split sep s = [s]"
  by (induction s) (auto simp: Let_def)

lemma py_split_append: "sep \<notin> set s \<Longrightarrow> py_split sep (s @ sep # rest) = s # py_split sep rest"
  by (induction s) (auto simp: Let_def)

lemma py_split_cons: "c \<noteq> sep \<Longrightarrow> py_split sep (c # s) = (c # hd (py_split sep s)) # tl (py_split sep s)"
  by (simp add: Let_def)

lemma hd_py_join: "x \<noteq> [] \<Longrightarrow> hd (py_join sep (x # xs)) = hd x"
  by (cases xs) simp_all

lemma py_join_ne: "x \<noteq> [] \<Longrightarrow> py_join sep (x # xs) \<noteq> []"
  by (cases xs) simp_all

end
