(* ===== verification/Frequency.thy ===== *)
theory Frequency
  imports Store PyStr
begin

text \<open>
  The batch frequency-domain exercise of src/HW3/hw3_frequency.py. Part 1
  (\<open>add_periodic_noise\<close>) adds a real amplitude at the points
  \<open>(cy \<plusminus> dr, cx \<plusminus> dc)\<close> of the centred spectrum. Part 2
  (\<open>add_ripple_waves\<close>) multiplies the centred spectrum by a radial real mask. Both then
  invert, take \<open>np.real\<close> and rescale to bytes with \<open>normalize_to_uint8\<close>; the log
  spectra before and after are scaled by \<open>magnitude_spectrum\<close>. Arrays are grids with
  their shape, as in the lab. numpy's reductions \<open>min\<close>, \<open>max\<close>, \<open>mean\<close> are taken
  over the cells \<open>{..<h} \<times> {..<w}\<close>. \<open>np.fft.fft2\<close> of an empty array raises
  ValueError, which is the first branch of each transform.
\<close>

subsection \<open>numpy reductions over a grid\<close>

definition grid_cells :: "nat \<Rightarrow> nat \<Rightarrow> (nat \<times> nat) set" where
  "grid_cells h w = {..<h} \<times> {..<w}"

definition grid_max :: "nat \<Rightarrow> nat \<Rightarrow> real grid \<Rightarrow> real" where
  "grid_max h w g = Max ((\<lambda>(i, j). g i j) ` grid_cells h w)"

definition grid_min :: "nat \<Rightarrow> nat \<Rightarrow> real grid \<Rightarrow> real" where
  "grid_min h w g = Min ((\<lambda>(i, j). g i j) ` grid_cells h w)"

definition grid_mean :: "nat \<Rightarrow> nat \<Rightarrow> real grid \<Rightarrow> real" where
  "grid_mean h w g = (\<Sum>(i, j) \<in> grid_cells h w. g i j) / real (h * w)"

subsection \<open>hw3_frequency.py\<close>

text \<open>\<open>read_grayscale\<close>: \<open>cv2.imread\<close> returns \<open>None\<close> or the bytes, read as floats.\<close>

definition read_grayscale :: "load_input \<Rightarrow> py_error + shape \<times> real grid" where
  "read_grayscale inp =
     (case inp of Gray h w px \<Rightarrow> Inr ((h, w), (\<lambda>i j. real (unat (px i j)))) | _ \<Rightarrow> Inl FileNotFoundError)"

definition magnitude_spectrum :: "nat \<Rightarrow> nat \<Rightarrow> complex grid \<Rightarrow> py_error + (nat \<Rightarrow> nat \<Rightarrow> 8 word)" where
  "magnitude_spectrum h w fft_array =
     (if h = 0 \<or> w = 0 then Inl ValueError
      else
        (let mag = (\<lambda>i j. ln (1 + cmod (fft_array i j))); max_val = grid_max h w mag in
         if max_val = 0 then Inr (\<lambda>_ _. 0)
         else Inr (\<lambda>i j. astype_uint8 (mag i j / max_val * 255))))"

definition normalize_to_uint8 :: "nat \<Rightarrow> nat \<Rightarrow> real grid \<Rightarrow> py_error + (nat \<Rightarrow> nat \<Rightarrow> 8 word)" where
  "normalize_to_uint8 h w im =
     (if h = 0 \<or> w = 0 then Inl ValueError
      else
        (let min_val = grid_min h w im; max_val = grid_max h w im in
         if max_val - min_val < 1 / 10 ^ 6 then Inr (\<lambda>_ _. 0)
         else
           (let scaled = (\<lambda>i j. (im i j - min_val) / (max_val - min_val))
            in Inr (\<lambda>i j. astype_uint8 (max 0 (min 255 (scaled i j * 255)))))))"

text \<open>\<open>fshift[r, c] += base_amp\<close> when \<open>0 \<le> r < h\<close> and \<open>0 \<le> c < w\<close>.\<close>

definition peak_at :: "nat \<Rightarrow> nat \<Rightarrow> int \<Rightarrow> int \<Rightarrow> complex \<Rightarrow> complex grid \<Rightarrow> complex grid" where
  "peak_at h w r c amp F = (if 0 \<le> r \<and> r < int h \<and> 0 \<le> c \<and> c < int w then add_at F (nat r) (nat c) amp else F)"

text \<open>The loop \<open>for dr, dc in offsets: for sr in (1, -1): for sc in (1, -1): ...\<close>\<close>

definition add_peaks :: "nat \<Rightarrow> nat \<Rightarrow> (int \<times> int) list \<Rightarrow> complex \<Rightarrow> complex grid \<Rightarrow> complex grid" where
  "add_peaks h w offsets amp F =
     (let cy = int (h div 2); cx = int (w div 2) in
      fold (\<lambda>(dr, dc) F.
        fold (\<lambda>sr F. fold (\<lambda>sc F. peak_at h w (cy + sr * dr) (cx + sc * dc) amp F) [1, -1] F) [1, -1] F)
        offsets F)"

definition default_offsets :: "(int \<times> int) list" where
  "default_offsets = [(18, 36), (42, 12), (28, 64)]"

definition add_periodic_noise ::
  "nat \<Rightarrow> nat \<Rightarrow> real grid \<Rightarrow> (int \<times> int) list option \<Rightarrow> real \<Rightarrow>
   py_error + (nat \<Rightarrow> nat \<Rightarrow> 8 word) \<times> (nat \<Rightarrow> nat \<Rightarrow> 8 word) \<times> (nat \<Rightarrow> nat \<Rightarrow> 8 word)" where
  "add_periodic_noise h w img_in offsets strength =
     (let offsets = (case offsets of Some os \<Rightarrow> if os \<noteq> [] then os else default_offsets | None \<Rightarrow> default_offsets)
      in if h = 0 \<or> w = 0 then Inl ValueError
      else
        (let f = fft2 h w (\<lambda>i j. complex_of_real (img_in i j)); fshift = fftshift h w f in
         bind_res (magnitude_spectrum h w fshift) (\<lambda>spectrum_before.
           (let base_amp = grid_mean h w (\<lambda>i j. cmod (fshift i j)) * strength;
                fshift = add_peaks h w offsets (complex_of_real base_amp) fshift
            in bind_res (magnitude_spectrum h w fshift) (\<lambda>spectrum_after.
                 (let img_back = ifft2 h w (ifftshift h w fshift)
                  in bind_res (normalize_to_uint8 h w (\<lambda>i j. Re (img_back i j))) (\<lambda>noisy_image.
                       Inr (noisy_image, spectrum_before, spectrum_after))))))))"

text \<open>\<open>1 + s * sin(2 pi * hypot(y - cy, x - cx) / wavelength)\<close>. A wavelength of 0 makes
  numpy divide by zero: the mask is NaN everywhere (\<open>0 / 0\<close> at the centre, \<open>sin(inf)\<close>
  elsewhere) and the script writes images computed from NaN without raising. The reals
  have no NaN (\<open>x / 0 = 0\<close> in HOL, so the model's mask is 1 there); the theorems about
  the ripple are exact only for a non-zero wavelength.\<close>

definition ripple_mask :: "nat \<Rightarrow> nat \<Rightarrow> real \<Rightarrow> real \<Rightarrow> real grid" where
  "ripple_mask rows cols ripple_strength ripple_wavelength =
     (\<lambda>i j. (let cy = int (rows div 2); cx = int (cols div 2);
                 radius = sqrt (of_int ((int i - cy)\<^sup>2 + (int j - cx)\<^sup>2))
             in 1 + ripple_strength * sin (2 * pi * radius / ripple_wavelength)))"

definition add_ripple_waves ::
  "nat \<Rightarrow> nat \<Rightarrow> real grid \<Rightarrow> real \<Rightarrow> real \<Rightarrow>
   py_error + (nat \<Rightarrow> nat \<Rightarrow> 8 word) \<times> (nat \<Rightarrow> nat \<Rightarrow> 8 word) \<times> (nat \<Rightarrow> nat \<Rightarrow> 8 word)" where
  "add_ripple_waves rows cols img_in ripple_strength ripple_wavelength =
     (if rows = 0 \<or> cols = 0 then Inl ValueError
      else
        (let f = fft2 rows cols (\<lambda>i j. complex_of_real (img_in i j)); fshift = fftshift rows cols f in
         bind_res (magnitude_spectrum rows cols fshift) (\<lambda>spectrum_before.
           (let ripple = ripple_mask rows cols ripple_strength ripple_wavelength;
                fshift_mod = (\<lambda>i j. fshift i j * complex_of_real (ripple i j))
            in bind_res (magnitude_spectrum rows cols fshift_mod) (\<lambda>spectrum_after.
                 (let img_back = ifft2 rows cols (ifftshift rows cols fshift_mod)
                  in bind_res (normalize_to_uint8 rows cols (\<lambda>i j. Re (img_back i j))) (\<lambda>ripple_image.
                       Inr (ripple_image, spectrum_before, spectrum_after))))))))"

text \<open>\<open>parse_offsets\<close>: the body of its loop on one chunk, then the loop over
  \<open>text.split(";")\<close>; a chunk that is not two integers separated by a comma is skipped
  (the \<open>continue\<close> after \<open>len(parts) != 2\<close> and after ValueError).\<close>

definition parse_chunk :: "string \<Rightarrow> (int \<times> int) option" where
  "parse_chunk chunk =
     (let parts = py_split (CHR '','') (py_strip chunk) in
      if length parts \<noteq> 2 then None
      else (case py_int_str (parts ! 0) of
              None \<Rightarrow> None
            | Some a \<Rightarrow> (case py_int_str (parts ! 1) of None \<Rightarrow> None | Some b \<Rightarrow> Some (a, b))))"

definition parse_offsets :: "string \<Rightarrow> (int \<times> int) list" where
  "parse_offsets text =
     (if py_strip text = [] then []
      else fold (\<lambda>chunk pairs. case parse_chunk chunk of None \<Rightarrow> pairs | Some p \<Rightarrow> pairs @ [p])
             (py_split (CHR '';'') text) [])"

subsection \<open>Reference semantics\<close>

text \<open>How often the loop visits the cell \<open>i\<close> of an axis of length \<open>n\<close> with centre \<open>c\<close>
  and offset \<open>d\<close>: once for each sign whose point \<open>c \<plusminus> d\<close> lies on the axis.\<close>

definition hit :: "nat \<Rightarrow> int \<Rightarrow> int \<Rightarrow> nat \<Rightarrow> nat" where
  "hit n c d i = (if int i = c + d \<and> i < n then 1 else 0) + (if int i = c - d \<and> i < n then 1 else 0)"

text \<open>The text that \<open>"; ".join(f"{r},{c}" for r, c in offsets)\<close> produces, the form of
  the GUI's default entry.\<close>

definition fmt_offset :: "int \<times> int \<Rightarrow> string" where
  "fmt_offset p = show_int (fst p) @ CHR '','' # show_int (snd p)"

definition format_offsets :: "(int \<times> int) list \<Rightarrow> string" where
  "format_offsets ps = py_join ''; '' (map fmt_offset ps)"

subsection \<open>Both parities reflect onto the conjugate point\<close>

lemma cref_centre: "r < n \<Longrightarrow> cref n r = r \<or> int (cref n r) = 2 * int (n div 2) - int r"
proof (cases "odd n")
  case True
  assume "r < n"
  then show ?thesis using True cref_odd [OF True] by (auto elim!: oddE)
next
  case False
  assume r: "r < n"
  show ?thesis
  proof (cases "r = 0")
    case True
    then show ?thesis using False r cref_even [of n r] by simp
  next
    case nz: False
    then have "cref n r = n - r" using False r cref_even [of n r] by simp
    then show ?thesis using False r by (auto elim!: evenE)
  qed
qed

lemma hit_cref: "i < n \<Longrightarrow> hit n (int (n div 2)) d (cref n i) = hit n (int (n div 2)) d i"
  using cref_centre [of i n] cref_lt [of n i] by (auto simp: hit_def)

lemma peak_at_apply:
  "peak_at h w r c amp F i j = F i j + (if int i = r \<and> i < h \<and> int j = c \<and> j < w then amp else 0)"
  by (auto simp: peak_at_def add_at_def)

lemma of_nat_ind_mult:
  "(of_nat ((if P then 1 else 0) * (if Q then 1 else 0)) :: complex) = (if P \<and> Q then 1 else 0)"
  by simp

lemma peaks_block:
  "fold (\<lambda>sr F. fold (\<lambda>sc F. peak_at h w (cy + sr * dr) (cx + sc * dc) amp F) [1, -1] F) [1, -1] F =
   (\<lambda>i j. F i j + amp * of_nat (hit h cy dr i * hit w cx dc j))"
proof (intro ext)
  fix i j
  let ?P1 = "int i = cy + dr \<and> i < h" and ?P2 = "int i = cy - dr \<and> i < h"
  let ?Q1 = "int j = cx + dc \<and> j < w" and ?Q2 = "int j = cx - dc \<and> j < w"
  have "hit h cy dr i * hit w cx dc j =
        (if ?P1 then 1 else 0) * (if ?Q1 then 1 else 0) + (if ?P1 then 1 else 0) * (if ?Q2 then 1 else 0) +
        (if ?P2 then 1 else 0) * (if ?Q1 then 1 else 0) + (if ?P2 then 1 else 0) * (if ?Q2 then 1 else 0)"
    unfolding hit_def by (simp only: distrib_left distrib_right add.assoc)
  then have "amp * of_nat (hit h cy dr i * hit w cx dc j) =
        (if ?P1 \<and> ?Q1 then amp else 0) + (if ?P1 \<and> ?Q2 then amp else 0) +
        (if ?P2 \<and> ?Q1 then amp else 0) + (if ?P2 \<and> ?Q2 then amp else 0)"
    by (simp only: of_nat_add of_nat_ind_mult distrib_left) simp
  moreover have "fold (\<lambda>sr F. fold (\<lambda>sc F. peak_at h w (cy + sr * dr) (cx + sc * dc) amp F) [1, -1] F) [1, -1] F i j =
        F i j + (if ?P1 \<and> ?Q1 then amp else 0) + (if ?P1 \<and> ?Q2 then amp else 0) +
        (if ?P2 \<and> ?Q1 then amp else 0) + (if ?P2 \<and> ?Q2 then amp else 0)"
    by (simp add: peak_at_apply conj_ac)
  ultimately show "fold (\<lambda>sr F. fold (\<lambda>sc F. peak_at h w (cy + sr * dr) (cx + sc * dc) amp F) [1, -1] F) [1, -1] F i j =
      F i j + amp * of_nat (hit h cy dr i * hit w cx dc j)"
    by (simp add: add.assoc)
qed

lemma sherm_peaks_block:
  assumes "0 < h" "0 < w" "sherm h w F" "cnj amp = amp"
  shows "sherm h w (\<lambda>i j. F i j + amp * of_nat (hit h (int (h div 2)) dr i * hit w (int (w div 2)) dc j))"
proof (rule sherm_add_on [OF assms(1,2,3)])
  show "sherm h w (\<lambda>i j. amp * of_nat (hit h (int (h div 2)) dr i * hit w (int (w div 2)) dc j))"
    using assms(4) by (simp add: sherm_def hit_cref)
qed simp

lemma add_peaks_sherm:
  assumes "0 < h" "0 < w" "sherm h w F" "cnj amp = amp"
  shows "sherm h w (add_peaks h w offsets amp F)"
  unfolding add_peaks_def Let_def
  apply (rule fold_invariant [where P = "sherm h w"])
   apply (rule assms(3))
  subgoal for y off
    by (cases off) (simp only: prod.case peaks_block, rule sherm_peaks_block [OF assms(1,2) _ assms(4)])
  done

lemma cref_radius: "i < n \<Longrightarrow> (real (cref n i) - real (n div 2))\<^sup>2 = (real i - real (n div 2))\<^sup>2"
proof -
  assume "i < n"
  then consider "cref n i = i" | "int (cref n i) = 2 * int (n div 2) - int i"
    using cref_centre by blast
  then show ?thesis
  proof cases
    case 2
    have "(of_int (int (cref n i)) :: real) = of_int (2 * int (n div 2) - int i)"
      using 2 by (rule arg_cong)
    then have "real (cref n i) - real (n div 2) = - (real i - real (n div 2))" by simp
    then show ?thesis by (simp only: power2_minus)
  qed simp
qed

lemma ripple_mask_cref:
  "i < h \<Longrightarrow> j < w \<Longrightarrow> ripple_mask h w s l (cref h i) (cref w j) = ripple_mask h w s l i j"
  by (simp add: ripple_mask_def cref_radius)

lemma sherm_real_mult:
  assumes "sherm h w F" "\<And>i j. i < h \<Longrightarrow> j < w \<Longrightarrow> M (cref h i) (cref w j) = M i j"
  shows "sherm h w (\<lambda>i j. F i j * complex_of_real (M i j))"
  using assms by (simp add: sherm_def)

lemma grid_cells_ne: "0 < h \<Longrightarrow> 0 < w \<Longrightarrow> grid_cells h w \<noteq> {}"
  by (auto simp: grid_cells_def)

lemma grid_bounds:
  assumes "i < h" "j < w"
  shows "grid_min h w g \<le> g i j" "g i j \<le> grid_max h w g"
proof -
  have "g i j \<in> (\<lambda>(i, j). g i j) ` grid_cells h w" using assms by (force simp: grid_cells_def)
  then show "grid_min h w g \<le> g i j" "g i j \<le> grid_max h w g"
    by (simp_all add: grid_min_def grid_max_def grid_cells_def)
qed

lemma grid_attained:
  assumes "0 < h" "0 < w"
  shows "\<exists>i < h. \<exists>j < w. g i j = grid_max h w g" "\<exists>i < h. \<exists>j < w. g i j = grid_min h w g"
proof -
  have f: "finite ((\<lambda>(i, j). g i j) ` grid_cells h w)" "(\<lambda>(i, j). g i j) ` grid_cells h w \<noteq> {}"
    using grid_cells_ne [OF assms] by (simp_all add: grid_cells_def)
  show "\<exists>i < h. \<exists>j < w. g i j = grid_max h w g"
    using Max_in [OF f] by (fastforce simp: grid_max_def grid_cells_def)
  show "\<exists>i < h. \<exists>j < w. g i j = grid_min h w g"
    using Min_in [OF f] by (fastforce simp: grid_min_def grid_cells_def)
qed

lemma astype_uint8_byte: "0 \<le> v \<Longrightarrow> v \<le> 255 \<Longrightarrow> uint (astype_uint8 v) = \<lfloor>v\<rfloor>"
proof -
  assume "0 \<le> v" "v \<le> 255"
  then have "0 \<le> \<lfloor>v\<rfloor>" "\<lfloor>v\<rfloor> < 256" by linarith+
  then show ?thesis using \<open>0 \<le> v\<close> by (simp add: astype_uint8_def uint_word_of_int_eq take_bit_int_eq_self)
qed

subsection \<open>Printing and parsing offsets\<close>

lemma show_int_ne [simp]: "show_int i \<noteq> []"
  by (simp add: show_int_def)

lemma show_int_no: "c \<in> set (show_int i) \<Longrightarrow> c \<noteq> CHR '','' \<and> c \<noteq> CHR '';'' \<and> \<not> is_space c"
  using show_int_chars [of c i] digit_not_special [of c] by (auto simp: is_space_def)

lemma fmt_offset_no_semicolon: "CHR '';'' \<notin> set (fmt_offset p)"
  using show_int_no by (force simp: fmt_offset_def)

lemma parse_chunk_fmt: "parse_chunk (fmt_offset p) = Some p"
proof -
  have "py_strip (fmt_offset p) = fmt_offset p"
    using show_int_hd [of "fst p"] show_int_last [of "snd p"] digit_not_special
    by (intro py_strip_id) (simp add: fmt_offset_def)
  moreover have "py_split (CHR '','') (fmt_offset p) = [show_int (fst p), show_int (snd p)]"
  proof -
    have "CHR '','' \<notin> set (show_int (fst p))" "CHR '','' \<notin> set (show_int (snd p))"
      using show_int_no by blast+
    then show ?thesis by (simp add: fmt_offset_def py_split_append py_split_none)
  qed
  ultimately show ?thesis by (simp add: parse_chunk_def py_int_str_show_int)
qed

lemma py_strip_space: "is_space c \<Longrightarrow> py_strip (c # s) = py_strip s"
  by (simp add: py_strip_def)

lemma parse_chunk_space_fmt: "parse_chunk (CHR '' '' # fmt_offset p) = Some p"
  using parse_chunk_fmt [of p] by (simp add: parse_chunk_def py_strip_space is_space_def)

lemma split_format:
  "py_split (CHR '';'') (format_offsets (p # ps)) = fmt_offset p # map (\<lambda>q. CHR '' '' # fmt_offset q) ps"
proof (induction ps arbitrary: p)
  case Nil
  then show ?case by (simp add: format_offsets_def py_split_none fmt_offset_no_semicolon)
next
  case (Cons q qs)
  have "format_offsets (p # q # qs) = fmt_offset p @ CHR '';'' # CHR '' '' # format_offsets (q # qs)"
    by (simp add: format_offsets_def)
  then show ?case
    using Cons [of q] fmt_offset_no_semicolon [of p]
    by (simp add: py_split_append py_split_cons)
qed

lemma fold_chunks:
  "fold (\<lambda>chunk pairs. case parse_chunk chunk of None \<Rightarrow> pairs | Some p \<Rightarrow> pairs @ [p])
     (map (\<lambda>q. CHR '' '' # fmt_offset q) ps) acc = acc @ ps"
  by (induction ps arbitrary: acc) (simp_all add: parse_chunk_space_fmt)

subsection \<open>Properties\<close>

text \<open>
  C26. Part 1 discards nothing: for every shape, odd or even, every offset list and every
  amplitude, the spectrum of a real image with the peaks of \<open>add_peaks\<close> added is
  centred-Hermitian, so its inverse transform is real and \<open>np.real\<close> drops a zero
  imaginary part. The loop's bounds check keeps the symmetry: on an even axis the point
  whose partner falls outside is the self-conjugate row or column 0.
\<close>

theorem periodic_noise_real:
  assumes "0 < h" "0 < w"
  shows "Im (ifft2 h w (ifftshift h w
           (add_peaks h w offsets (complex_of_real a) (fftshift h w (fft2 h w (\<lambda>i j. complex_of_real (x i j))))))
           m n) = 0"
proof -
  have "sherm h w (fftshift h w (fft2 h w (\<lambda>i j. complex_of_real (x i j))))"
    using assms by (simp add: herm_sherm fft2_real_herm)
  then show ?thesis
    using assms by (simp add: centred_spectrum_real add_peaks_sherm)
qed

theorem periodic_noise_real_witness:
  "Im (ifft2 2 2 (ifftshift 2 2 (add_peaks 2 2 [(1, 1)] (complex_of_real 3)
      (fftshift 2 2 (fft2 2 2 (\<lambda>i j. complex_of_real (real (i + j))))))) 0 1) = 0"
  using periodic_noise_real [of 2 2 "[(1, 1)]" 3 "\<lambda>i j. real (i + j)" 0 1] by simp

text \<open>
  C27. Part 2 discards nothing either: the ripple mask is real and depends only on the
  distance from the centre, which the centred reflection preserves on both parities, so
  the modulated spectrum of a real image has a real inverse transform.
\<close>

theorem ripple_real:
  assumes "0 < h" "0 < w"
  shows "Im (ifft2 h w (ifftshift h w
           (\<lambda>i j. fftshift h w (fft2 h w (\<lambda>i j. complex_of_real (x i j))) i j *
                  complex_of_real (ripple_mask h w s l i j))) m n) = 0"
proof -
  have "sherm h w (fftshift h w (fft2 h w (\<lambda>i j. complex_of_real (x i j))))"
    using assms by (simp add: herm_sherm fft2_real_herm)
  then have "sherm h w (\<lambda>i j. fftshift h w (fft2 h w (\<lambda>i j. complex_of_real (x i j))) i j *
                  complex_of_real (ripple_mask h w s l i j))"
    by (rule sherm_real_mult) (rule ripple_mask_cref)
  then show ?thesis using assms by (simp add: centred_spectrum_real)
qed

theorem ripple_real_witness:
  "Im (ifft2 2 3 (ifftshift 2 3
      (\<lambda>i j. fftshift 2 3 (fft2 2 3 (\<lambda>i j. complex_of_real (real (i * j)))) i j *
             complex_of_real (ripple_mask 2 3 (45 / 100) 12 i j))) 1 2) = 0"
  using ripple_real [of 2 3 "\<lambda>i j. real (i * j)" "45 / 100" 12 1 2] by simp

text \<open>
  C28. \<open>normalize_to_uint8\<close> on a non-empty array whose values spread over at least
  \<open>10^-6\<close> maps each value \<open>v\<close> to \<open>\<lfloor>255 (v - min) / (max - min)\<rfloor>\<close>,
  and uses the full byte range: the minimum becomes 0 and the maximum 255.
\<close>

theorem normalize_to_uint8_scale:
  assumes "0 < h" "0 < w" "1 / 10 ^ 6 \<le> grid_max h w im - grid_min h w im"
  shows "\<exists>out. normalize_to_uint8 h w im = Inr out \<and>
           (\<forall>i < h. \<forall>j < w. uint (out i j) =
               \<lfloor>(im i j - grid_min h w im) / (grid_max h w im - grid_min h w im) * 255\<rfloor>) \<and>
           (\<exists>i < h. \<exists>j < w. uint (out i j) = 255) \<and> (\<exists>i < h. \<exists>j < w. uint (out i j) = 0)"
proof -
  let ?lo = "grid_min h w im" and ?hi = "grid_max h w im"
  let ?s = "\<lambda>i j. (im i j - ?lo) / (?hi - ?lo) * 255"
  have "(0::real) < 1 / 10 ^ 6" by simp
  then have pos: "0 < ?hi - ?lo" using assms(3) by linarith
  have s: "0 \<le> ?s i j \<and> ?s i j \<le> 255" if "i < h" "j < w" for i j
    using grid_bounds [OF that, of im] pos by (simp add: divide_le_eq_1 field_simps)
  have "\<not> ?hi - ?lo < 1 / 10 ^ 6" using assms(3) by linarith
  then have out: "normalize_to_uint8 h w im = Inr (\<lambda>i j. astype_uint8 (max 0 (min 255 (?s i j))))"
    using assms(1,2) by (simp add: normalize_to_uint8_def Let_def)
  have val: "uint (astype_uint8 (max 0 (min 255 (?s i j)))) = \<lfloor>?s i j\<rfloor>" if "i < h" "j < w" for i j
    using s [OF that] astype_uint8_byte [of "?s i j"] by simp
  obtain i j where ij: "i < h" "j < w" "im i j = ?hi" using grid_attained [OF assms(1,2), of im] by blast
  obtain i' j' where ij': "i' < h" "j' < w" "im i' j' = ?lo" using grid_attained [OF assms(1,2), of im] by blast
  have "?s i j = 255" using ij(3) pos by simp
  moreover have "?s i' j' = 0" using ij'(3) by simp
  ultimately show ?thesis
    using out val ij ij' by (metis (no_types, lifting) floor_numeral floor_zero)
qed

theorem normalize_to_uint8_scale_witness: "0 < (1::nat) \<and> 0 < (2::nat) \<and> 1 / 10 ^ 6 \<le> grid_max 1 2 (\<lambda>i j. real j) - grid_min 1 2 (\<lambda>i j. real j) \<and>
  (\<exists>out. normalize_to_uint8 1 2 (\<lambda>i j. real j) = Inr out \<and> uint (out 0 0) = 0 \<and> uint (out 0 1) = 255)"
proof -
  have mx: "grid_max 1 2 (\<lambda>i j. real j) = 1" "grid_min 1 2 (\<lambda>i j. real j) = 0"
    by (simp_all add: grid_max_def grid_min_def grid_cells_def lessThan_nat_numeral lessThan_Suc image_iff)
  then show ?thesis
    using normalize_to_uint8_scale [of 1 2 "\<lambda>i j. real j"] by auto
qed

text \<open>
  C29. Round trip of the offsets entry: \<open>parse_offsets\<close> reads back exactly the offsets
  that \<open>"; ".join(f"{r},{c}" ...)\<close> prints, for every list of integer pairs, negative ones
  included (the GUI's default \<open>"18,36; 42,12; 28,64"\<close> is one of them).
\<close>

theorem parse_offsets_roundtrip: "parse_offsets (format_offsets ps) = ps"
proof (cases ps)
  case (Cons p qs)
  have "hd (format_offsets ps) = hd (show_int (fst p))"
    using Cons by (simp add: format_offsets_def fmt_offset_def hd_py_join)
  then have "\<not> is_space (hd (format_offsets ps))" using show_int_hd by simp
  moreover have "format_offsets ps \<noteq> []" using Cons by (simp add: format_offsets_def fmt_offset_def py_join_ne)
  ultimately have "py_strip (format_offsets ps) \<noteq> []"
    by (cases "format_offsets ps") (simp_all add: py_strip_def)
  then show ?thesis
    using Cons split_format [of p qs] fold_chunks [of qs "[p]"]
    by (simp add: parse_offsets_def parse_chunk_fmt)
qed (simp add: parse_offsets_def format_offsets_def py_strip_def)

theorem parse_offsets_roundtrip_witness: "parse_offsets ''18,36; 42,12; 28,64'' = [(18, 36), (42, 12), (28, 64)]"
proof -
  have "format_offsets [(18, 36), (42, 12), (28, 64)] = ''18,36; 42,12; 28,64''"
    by code_simp
  then show ?thesis using parse_offsets_roundtrip [of "[(18, 36), (42, 12), (28, 64)]"] by simp
qed

end
