(* ===== verification/Files.thy ===== *)
theory Files
  imports Store "HOL-Library.List_Lexorder" "HOL-Library.Char_ord"
begin

text \<open>
  The file system the HW3 scripts see, as explicit state: what
  \<open>cv2.imread(path, IMREAD_GRAYSCALE)\<close> finds at a path (nothing, a file that does
  not decode, or an array of bytes), the entry names of a directory
  (\<open>Path.iterdir\<close>), the directory of the running script
  (\<open>Path(__file__).resolve().parent\<close>), and the list of images written so far by
  \<open>cv2.imwrite\<close>, in order. A script step is an \<open>'a io\<close>: it takes the file
  system and returns its value or the exception it raised, together with the file system
  at that point (the state monad \<open>st\<close> of Prelude.thy), so that files written before
  an exception stay written. The path
  helpers are \<open>Path / name\<close>, \<open>Path.suffix\<close> and \<open>str.lower\<close> on ASCII names.
\<close>

type_synonym bytes = "nat \<Rightarrow> nat \<Rightarrow> 8 word"

record files =
  imread :: "string \<Rightarrow> load_input"
  listing :: "string \<Rightarrow> string list"
  script_dir :: string
  written :: "(string \<times> shape \<times> bytes) list"

type_synonym 'a io = "(files, 'a) st"

text \<open>\<open>Path(p).exists()\<close>\<close>

definition path_exists :: "files \<Rightarrow> string \<Rightarrow> bool" where
  "path_exists fs p \<longleftrightarrow> imread fs p \<noteq> NoPath"

definition cv_imread :: "string \<Rightarrow> load_input io" where
  "cv_imread p = (\<lambda>fs. (Inr (imread fs p), fs))"

text \<open>\<open>cv2.imwrite(path, img)\<close>: OpenCV refuses an empty image.\<close>

definition imwrite :: "string \<Rightarrow> shape \<Rightarrow> bytes \<Rightarrow> bool io" where
  "imwrite path sh im =
     (\<lambda>fs. if fst sh = 0 \<or> snd sh = 0 then (Inl CvError, fs)
           else (Inr True, fs\<lparr>written := written fs @ [(path, sh, im)]\<rparr>))"

definition path_join :: "string \<Rightarrow> string \<Rightarrow> string" where
  "path_join d n = d @ ''/'' @ n"

text \<open>\<open>Path.suffix\<close> of a name: from its last dot, unless the dot is its first or its
  last character.\<close>

definition path_suffix :: "string \<Rightarrow> string" where
  "path_suffix name =
     (let r = takeWhile (\<lambda>c. c \<noteq> CHR ''.'') (rev name) in
      if length r < length name \<and> 0 < length name - length r - 1 \<and> r \<noteq> [] then CHR ''.'' # rev r else [])"

definition py_lower :: "string \<Rightarrow> string" where
  "py_lower s = map (\<lambda>c. if CHR ''A'' \<le> c \<and> c \<le> CHR ''Z'' then char_of (of_char c + (32::nat)) else c) s"

definition image_exts :: "string list" where
  "image_exts = [''.png'', ''.jpg'', ''.jpeg'', ''.bmp'', ''.tif'', ''.tiff'']"

text \<open>\<open>[p for p in search_dir.iterdir() if p.suffix.lower() in exts]\<close>\<close>

definition image_candidates :: "files \<Rightarrow> string \<Rightarrow> string list" where
  "image_candidates fs search_dir =
     map (path_join search_dir) (filter (\<lambda>p. py_lower (path_suffix p) \<in> set image_exts) (listing fs search_dir))"

text \<open>\<open>find_default_images\<close> of hw3_frequency.py; hw3_simple.py's \<open>main\<close> opens with
  the same search.\<close>

definition find_default_images :: "string \<Rightarrow> (string \<times> string) io" where
  "find_default_images search_dir =
     (\<lambda>fs. (let candidates = sort (image_candidates fs search_dir) in
            if length candidates < 2 then (Inl FileNotFoundError, fs)
            else (Inr (candidates ! 0, candidates ! 1), fs)))"

subsection \<open>Sequencing lemmas\<close>

lemma cv_imread_apply [simp]: "cv_imread p fs = (Inr (imread fs p), fs)"
  by (simp add: cv_imread_def)

lemma imwrite_apply [simp]:
  "0 < fst sh \<Longrightarrow> 0 < snd sh \<Longrightarrow>
   imwrite path sh im fs = (Inr True, fs\<lparr>written := written fs @ [(path, sh, im)]\<rparr>)"
  by (simp add: imwrite_def)

subsection \<open>The default images\<close>

lemma sorted_two:
  assumes "sorted xs" "2 \<le> length xs" "c \<in> set xs"
  shows "xs ! 0 \<le> c" "c \<noteq> xs ! 0 \<Longrightarrow> distinct xs \<Longrightarrow> xs ! 1 \<le> c"
proof -
  obtain i where i: "i < length xs" "xs ! i = c" using assms(3) by (auto simp: in_set_conv_nth)
  show "xs ! 0 \<le> c" using i assms(1) by (metis le0 sorted_nth_mono)
  assume "c \<noteq> xs ! 0" "distinct xs"
  then have "1 \<le> i" using i by (cases i) auto
  then show "xs ! 1 \<le> c" using i assms(1) by (metis sorted_nth_mono)
qed

end
