(* ===== verification/HW3Run.thy ===== *)
theory HW3Run
  imports Files Frequency
begin

text \<open>
  The driver of src/HW3/hw3_frequency.py: \<open>save_results\<close>, \<open>run_pipeline\<close>, the
  Tk front end \<open>HW3App\<close> (its variables and its \<open>run\<close> handler) and the command line
  \<open>main\<close>, over the file system of Files.thy. Widget layout, the file dialogs and the
  message boxes are not modelled; a Tk variable is its current value, and a
  \<open>DoubleVar\<close> whose entry text is not a number is \<open>None\<close> (its \<open>get()\<close> raises
  TclError). The status line is modelled by what it reports: the initial prompt, the
  output folder after success, or the exception after failure.
\<close>

definition hw3_results_dir :: "string \<Rightarrow> string" where
  "hw3_results_dir sdir = path_join sdir ''HW3_results''"

text \<open>\<open>read_grayscale(path)\<close> with the file read from the file system.\<close>

definition read_grayscale_io :: "string \<Rightarrow> (shape \<times> real grid) io" where
  "read_grayscale_io path = io_bind (cv_imread path) (\<lambda>inp. io_lift (read_grayscale inp))"

definition save_results ::
  "string \<Rightarrow> string \<Rightarrow> shape \<Rightarrow> real grid \<Rightarrow> bytes \<Rightarrow> bytes \<Rightarrow> bytes \<Rightarrow> bool io" where
  "save_results output_dir prefix sh original before after final =
     io_bind (io_lift (normalize_to_uint8 (fst sh) (snd sh) original)) (\<lambda>orig8.
     io_bind (imwrite (path_join output_dir (prefix @ ''_original.png'')) sh orig8) (\<lambda>_.
     io_bind (imwrite (path_join output_dir (prefix @ ''_spectrum_before.png'')) sh before) (\<lambda>_.
     io_bind (imwrite (path_join output_dir (prefix @ ''_spectrum_after.png'')) sh after) (\<lambda>_.
     imwrite (path_join output_dir (prefix @ ''_result.png'')) sh final))))"

definition run_pipeline ::
  "string \<Rightarrow> string \<Rightarrow> string \<Rightarrow> real \<Rightarrow> (int \<times> int) list option \<Rightarrow> real \<Rightarrow> real \<Rightarrow> string io" where
  "run_pipeline image1_path image2_path output_dir periodic_strength periodic_offsets
      ripple_strength ripple_wavelength =
     io_bind (read_grayscale_io image1_path) (\<lambda>(sh1, img1).
     io_bind (read_grayscale_io image2_path) (\<lambda>(sh2, img2).
     io_bind (io_lift (add_periodic_noise (fst sh1) (snd sh1) img1 periodic_offsets periodic_strength))
       (\<lambda>(noisy_img, spectrum1_before, spectrum1_after).
     io_bind (save_results output_dir ''part1_periodic'' sh1 img1 spectrum1_before spectrum1_after noisy_img) (\<lambda>_.
     io_bind (io_lift (add_ripple_waves (fst sh2) (snd sh2) img2 ripple_strength ripple_wavelength))
       (\<lambda>(ripple_img, spectrum2_before, spectrum2_after).
     io_bind (save_results output_dir ''part2_ripple'' sh2 img2 spectrum2_before spectrum2_after ripple_img) (\<lambda>_.
     io_return output_dir))))))"

subsection \<open>The Tk front end\<close>

datatype app_status = Prompt string | Saved string | Failed py_error

record hw3_app =
  image1_var :: string
  image2_var :: string
  output_var :: string
  offsets_var :: string
  periodic_strength_var :: "real option"
  ripple_strength_var :: "real option"
  ripple_wavelength_var :: "real option"
  status_var :: app_status

text \<open>\<open>HW3App.__init__\<close>: the variables' initial values.\<close>

definition hw3_app_init :: "string \<Rightarrow> hw3_app" where
  "hw3_app_init sdir =
     \<lparr>image1_var = [], image2_var = [], output_var = hw3_results_dir sdir,
      offsets_var = ''18,36; 42,12; 28,64'', periodic_strength_var = Some 6,
      ripple_strength_var = Some (45 / 100), ripple_wavelength_var = Some 12,
      status_var = Prompt ''Pick two grayscale images and press Run.''\<rparr>"

text \<open>\<open>_pick_file(var)\<close> and \<open>_pick_folder()\<close> with the path the dialog returned
  (the empty string when it was cancelled); a Browse button picks into \<open>image1_var\<close> or
  \<open>image2_var\<close>.\<close>

definition pick_file :: "(string \<Rightarrow> hw3_app \<Rightarrow> hw3_app) \<Rightarrow> string \<Rightarrow> hw3_app \<Rightarrow> hw3_app" where
  "pick_file var_set path app = (if path = [] then app else var_set path app)"

definition pick_folder :: "string \<Rightarrow> hw3_app \<Rightarrow> hw3_app" where
  "pick_folder path app = (if path = [] then app else app\<lparr>output_var := path\<rparr>)"

text \<open>\<open>float(var.get())\<close> of a \<open>DoubleVar\<close>.\<close>

definition double_get :: "real option \<Rightarrow> py_error + real" where
  "double_get v = (case v of None \<Rightarrow> Inl TclError | Some r \<Rightarrow> Inr r)"

text \<open>\<open>HW3App.run\<close>: the body of its \<open>try\<close>, then the two handlers.\<close>

definition hw3_run_body :: "hw3_app \<Rightarrow> string \<Rightarrow> unit io" where
  "hw3_run_body app output_dir =
     (\<lambda>fs. (if \<not> path_exists fs (image1_var app) \<or> \<not> path_exists fs (image2_var app)
            then (Inl FileNotFoundError, fs)
            else
              (let offsets = parse_offsets (offsets_var app);
                   offsets = (if offsets = [] then None else Some offsets)
               in io_bind (io_lift (double_get (periodic_strength_var app))) (\<lambda>periodic_strength.
                  io_bind (io_lift (double_get (ripple_strength_var app))) (\<lambda>ripple_strength.
                  io_bind (io_lift (double_get (ripple_wavelength_var app))) (\<lambda>ripple_wavelength.
                  io_bind (run_pipeline (image1_var app) (image2_var app) output_dir periodic_strength
                             offsets ripple_strength ripple_wavelength) (\<lambda>_.
                  io_return ())))) fs)))"

definition hw3_run :: "hw3_app \<Rightarrow> files \<Rightarrow> hw3_app \<times> files" where
  "hw3_run app fs =
     (let output_dir = (if output_var app \<noteq> [] then output_var app else hw3_results_dir (script_dir fs))
      in (case hw3_run_body app output_dir fs of
            (Inr _, fs') \<Rightarrow> (app\<lparr>status_var := Saved output_dir\<rparr>, fs')
          | (Inl exc, fs') \<Rightarrow> (app\<lparr>status_var := Failed exc\<rparr>, fs')))"

subsection \<open>The command line\<close>

text \<open>The namespace \<open>argparse\<close> returns (parsing itself is not modelled); \<open>args_x\<close> is \<open>args.x\<close>.\<close>

record cli_args =
  cli :: bool
  args_image1 :: "string option"
  args_image2 :: "string option"
  args_output :: "string option"
  periodic_strength :: real
  periodic_offsets :: string
  ripple_strength :: real
  ripple_wavelength :: real

datatype main_outcome = GuiLaunched | Printed string

definition hw3_main :: "cli_args \<Rightarrow> main_outcome io" where
  "hw3_main args =
     (\<lambda>fs. if \<not> cli args then (Inr GuiLaunched, fs)
      else
        (let sdir = script_dir fs;
             output_dir = (case args_output args of Some d \<Rightarrow> d | None \<Rightarrow> hw3_results_dir sdir);
             paths = (case (args_image1 args, args_image2 args) of
                        (Some p1, Some p2) \<Rightarrow> io_return (p1, p2)
                      | _ \<Rightarrow> find_default_images sdir);
             offsets = parse_offsets (periodic_offsets args);
             offsets = (if offsets \<noteq> [] then Some offsets else None)
         in io_bind paths (\<lambda>(image1_path, image2_path).
            io_bind (run_pipeline image1_path image2_path output_dir (periodic_strength args) offsets
                       (ripple_strength args) (ripple_wavelength args)) (\<lambda>out_dir.
            io_return (Printed out_dir))) fs))"

subsection \<open>Lemmas and properties\<close>

lemma normalize_to_uint8_ok: "0 < h \<Longrightarrow> 0 < w \<Longrightarrow> \<exists>out. normalize_to_uint8 h w g = Inr out"
  by (simp add: normalize_to_uint8_def Let_def)

lemma magnitude_spectrum_ok: "0 < h \<Longrightarrow> 0 < w \<Longrightarrow> \<exists>out. magnitude_spectrum h w F = Inr out"
  by (simp add: magnitude_spectrum_def Let_def)

lemma add_periodic_noise_ok:
  assumes "0 < h" "0 < w"
  shows "\<exists>r. add_periodic_noise h w g offsets s = Inr r"
proof (cases "add_periodic_noise h w g offsets s")
  case (Inl e)
  then show ?thesis
    using assms by (simp add: add_periodic_noise_def magnitude_spectrum_def normalize_to_uint8_def Let_def split: if_splits)
qed (metis prod_cases3)

lemma add_ripple_waves_ok:
  assumes "0 < h" "0 < w"
  shows "\<exists>r. add_ripple_waves h w g s l = Inr r"
proof (cases "add_ripple_waves h w g s l")
  case (Inl e)
  then show ?thesis
    using assms by (simp add: add_ripple_waves_def magnitude_spectrum_def normalize_to_uint8_def Let_def split: if_splits)
qed (metis prod_cases3)

lemma read_grayscale_io_apply:
  "read_grayscale_io p fs =
     (case imread fs p of Gray h w px \<Rightarrow> Inr ((h, w), (\<lambda>i j. real (unat (px i j)))) | _ \<Rightarrow> Inl FileNotFoundError, fs)"
  by (simp add: read_grayscale_io_def read_grayscale_def io_bind_def split: load_input.split)

lemma save_results_apply:
  assumes "0 < h" "0 < w" "normalize_to_uint8 h w orig = Inr o8"
  shows "save_results out pre (h, w) orig b a f fs =
    (Inr True, fs\<lparr>written := written fs @
       [(path_join out (pre @ ''_original.png''), (h, w), o8),
        (path_join out (pre @ ''_spectrum_before.png''), (h, w), b),
        (path_join out (pre @ ''_spectrum_after.png''), (h, w), a),
        (path_join out (pre @ ''_result.png''), (h, w), f)]\<rparr>)"
  using assms by (simp add: save_results_def io_bind_def)

text \<open>
  C30. \<open>run_pipeline\<close> on two readable non-empty images returns the output folder and
  writes exactly eight images, in this order: for part 1 the rescaled original, the
  spectrum before and after the peaks and the noisy image of \<open>add_periodic_noise\<close>;
  then the same four for part 2 with \<open>add_ripple_waves\<close>.
\<close>

theorem run_pipeline_writes:
  assumes "imread fs p1 = Gray h1 w1 px1" "imread fs p2 = Gray h2 w2 px2"
    and "0 < h1" "0 < w1" "0 < h2" "0 < w2"
  shows "\<exists>o1 n b a o2 r b' a'.
     normalize_to_uint8 h1 w1 (\<lambda>i j. real (unat (px1 i j))) = Inr o1 \<and>
     add_periodic_noise h1 w1 (\<lambda>i j. real (unat (px1 i j))) offs ps = Inr (n, b, a) \<and>
     normalize_to_uint8 h2 w2 (\<lambda>i j. real (unat (px2 i j))) = Inr o2 \<and>
     add_ripple_waves h2 w2 (\<lambda>i j. real (unat (px2 i j))) rs rw = Inr (r, b', a') \<and>
     run_pipeline p1 p2 out ps offs rs rw fs =
       (Inr out, fs\<lparr>written := written fs @
          [(path_join out ''part1_periodic_original.png'', (h1, w1), o1),
           (path_join out ''part1_periodic_spectrum_before.png'', (h1, w1), b),
           (path_join out ''part1_periodic_spectrum_after.png'', (h1, w1), a),
           (path_join out ''part1_periodic_result.png'', (h1, w1), n),
           (path_join out ''part2_ripple_original.png'', (h2, w2), o2),
           (path_join out ''part2_ripple_spectrum_before.png'', (h2, w2), b'),
           (path_join out ''part2_ripple_spectrum_after.png'', (h2, w2), a'),
           (path_join out ''part2_ripple_result.png'', (h2, w2), r)]\<rparr>)"
proof -
  let ?g1 = "\<lambda>i j. real (unat (px1 i j))" and ?g2 = "\<lambda>i j. real (unat (px2 i j))"
  obtain o1 where o1: "normalize_to_uint8 h1 w1 ?g1 = Inr o1" using normalize_to_uint8_ok assms by blast
  obtain o2 where o2: "normalize_to_uint8 h2 w2 ?g2 = Inr o2" using normalize_to_uint8_ok assms by blast
  obtain n b a where p: "add_periodic_noise h1 w1 ?g1 offs ps = Inr (n, b, a)"
    using add_periodic_noise_ok [of h1 w1 ?g1 offs ps] assms by auto
  obtain r b' a' where q: "add_ripple_waves h2 w2 ?g2 rs rw = Inr (r, b', a')"
    using add_ripple_waves_ok [of h2 w2 ?g2 rs rw] assms by auto
  have "run_pipeline p1 p2 out ps offs rs rw fs =
       (Inr out, fs\<lparr>written := written fs @
          [(path_join out ''part1_periodic_original.png'', (h1, w1), o1),
           (path_join out ''part1_periodic_spectrum_before.png'', (h1, w1), b),
           (path_join out ''part1_periodic_spectrum_after.png'', (h1, w1), a),
           (path_join out ''part1_periodic_result.png'', (h1, w1), n),
           (path_join out ''part2_ripple_original.png'', (h2, w2), o2),
           (path_join out ''part2_ripple_spectrum_before.png'', (h2, w2), b'),
           (path_join out ''part2_ripple_spectrum_after.png'', (h2, w2), a'),
           (path_join out ''part2_ripple_result.png'', (h2, w2), r)]\<rparr>)"
    using assms o1 o2 p q
    by (simp add: run_pipeline_def read_grayscale_io_apply io_bind_def save_results_apply)
  then show ?thesis using o1 o2 p q by blast
qed

text \<open>
  C31. \<open>run_pipeline\<close> reads both images before it writes anything: if either path
  holds no decodable image it raises FileNotFoundError and the file system is unchanged
  (no part-1 files are left behind when the second image is missing).
\<close>

theorem run_pipeline_reads_first:
  assumes "imread fs p1 \<in> {NoPath, Unreadable} \<or> imread fs p2 \<in> {NoPath, Unreadable}"
  shows "run_pipeline p1 p2 out ps offs rs rw fs = (Inl FileNotFoundError, fs)"
  using assms
  by (auto simp: run_pipeline_def read_grayscale_io_apply io_bind_def split: load_input.split)

theorem run_pipeline_reads_first_witness:
  "run_pipeline ''a.png'' ''b.png'' ''out'' 6 None (45 / 100) 12
     \<lparr>imread = (\<lambda>p. if p = ''a.png'' then Gray 1 1 (\<lambda>_ _. 0) else NoPath), listing = (\<lambda>_. []),
      script_dir = ''.'', written = []\<rparr> =
   (Inl FileNotFoundError,
     \<lparr>imread = (\<lambda>p. if p = ''a.png'' then Gray 1 1 (\<lambda>_ _. 0) else NoPath), listing = (\<lambda>_. []),
      script_dir = ''.'', written = []\<rparr>)"
  by (rule run_pipeline_reads_first) simp

theorem run_pipeline_writes_witness:
  "\<exists>o1 n b a o2 r b' a'.
     run_pipeline ''a.png'' ''b.png'' ''out'' 6 None (45 / 100) 12
       \<lparr>imread = (\<lambda>_. Gray 1 2 (\<lambda>_ j. of_nat j)), listing = (\<lambda>_. []), script_dir = ''.'', written = []\<rparr> =
     (Inr ''out'',
       \<lparr>imread = (\<lambda>_. Gray 1 2 (\<lambda>_ j. of_nat j)), listing = (\<lambda>_. []), script_dir = ''.'',
        written = [(path_join ''out'' ''part1_periodic_original.png'', (1, 2), o1),
           (path_join ''out'' ''part1_periodic_spectrum_before.png'', (1, 2), b),
           (path_join ''out'' ''part1_periodic_spectrum_after.png'', (1, 2), a),
           (path_join ''out'' ''part1_periodic_result.png'', (1, 2), n),
           (path_join ''out'' ''part2_ripple_original.png'', (1, 2), o2),
           (path_join ''out'' ''part2_ripple_spectrum_before.png'', (1, 2), b'),
           (path_join ''out'' ''part2_ripple_spectrum_after.png'', (1, 2), a'),
           (path_join ''out'' ''part2_ripple_result.png'', (1, 2), r)]\<rparr>)"
proof -
  let ?fs = "\<lparr>imread = (\<lambda>_. Gray 1 2 (\<lambda>_ j. of_nat j :: 8 word)), listing = (\<lambda>_. []),
              script_dir = ''.'', written = []\<rparr>"
  show ?thesis
    using run_pipeline_writes [of ?fs "''a.png''" 1 2 "\<lambda>_ j. of_nat j" "''b.png''" 1 2 "\<lambda>_ j. of_nat j"
        None 6 "45 / 100" 12 "''out''"]
    by auto
qed

lemma parse_default_offsets: "parse_offsets ''18,36; 42,12; 28,64'' = default_offsets"
  by code_simp

lemma add_periodic_noise_default:
  "add_periodic_noise h w g None s = add_periodic_noise h w g (Some default_offsets) s"
  by (simp add: add_periodic_noise_def default_offsets_def)

lemma hw3_run_body_fallback:
  assumes "parse_offsets (offsets_var app) = []"
  shows "hw3_run_body app d fs = hw3_run_body (app\<lparr>offsets_var := ''18,36; 42,12; 28,64''\<rparr>) d fs"
proof -
  have r: "run_pipeline p1 p2 d a None b c = run_pipeline p1 p2 d a (Some default_offsets) b c" for p1 p2 d a b c
    by (simp add: run_pipeline_def add_periodic_noise_default)
  have n: "default_offsets \<noteq> []" by (simp add: default_offsets_def)
  show ?thesis
    unfolding hw3_run_body_def Let_def using assms r n by (simp add: parse_default_offsets)
qed

text \<open>
  C33. An offsets entry of the Tk front end from which \<open>parse_offsets\<close> reads no pair
  (empty, or malformed throughout) gives exactly the files and the status of the default
  entry \<open>"18,36; 42,12; 28,64"\<close>: the malformed text is silently replaced by the
  default offsets.
\<close>

theorem hw3_run_offsets_fallback:
  assumes "parse_offsets (offsets_var app) = []"
  shows "snd (hw3_run app fs) = snd (hw3_run (app\<lparr>offsets_var := ''18,36; 42,12; 28,64''\<rparr>) fs) \<and>
         status_var (fst (hw3_run app fs)) =
           status_var (fst (hw3_run (app\<lparr>offsets_var := ''18,36; 42,12; 28,64''\<rparr>) fs))"
  using hw3_run_body_fallback [OF assms]
  by (simp add: hw3_run_def Let_def split: prod.split sum.split)

theorem hw3_run_offsets_fallback_witness:
  "parse_offsets ''abc'' = [] \<and>
   snd (hw3_run ((hw3_app_init ''.'')\<lparr>offsets_var := ''abc''\<rparr>) \<lparr>imread = (\<lambda>_. NoPath), listing = (\<lambda>_. []), script_dir = ''HW3'', written = []\<rparr>) =
     snd (hw3_run (((hw3_app_init ''.'')\<lparr>offsets_var := ''abc''\<rparr>)\<lparr>offsets_var := ''18,36; 42,12; 28,64''\<rparr>) \<lparr>imread = (\<lambda>_. NoPath), listing = (\<lambda>_. []), script_dir = ''HW3'', written = []\<rparr>) \<and>
   status_var (fst (hw3_run ((hw3_app_init ''.'')\<lparr>offsets_var := ''abc''\<rparr>) \<lparr>imread = (\<lambda>_. NoPath), listing = (\<lambda>_. []), script_dir = ''HW3'', written = []\<rparr>)) =
     status_var (fst (hw3_run (((hw3_app_init ''.'')\<lparr>offsets_var := ''abc''\<rparr>)\<lparr>offsets_var := ''18,36; 42,12; 28,64''\<rparr>) \<lparr>imread = (\<lambda>_. NoPath), listing = (\<lambda>_. []), script_dir = ''HW3'', written = []\<rparr>))"
proof -
  have p: "parse_offsets ''abc'' = []" by code_simp
  show ?thesis using p hw3_run_offsets_fallback [of "(hw3_app_init ''.'')\<lparr>offsets_var := ''abc''\<rparr>" "\<lparr>imread = (\<lambda>_. NoPath), listing = (\<lambda>_. []), script_dir = ''HW3'', written = []\<rparr>"] by simp
qed

text \<open>
  C32. \<open>HW3App.run\<close> writes no file when a chosen image path does not exist or a
  numeric entry does not parse; the exception is caught and shown in the status line
  (FileNotFoundError for the paths, checked first, otherwise TclError).
\<close>

theorem hw3_run_bad_input:
  assumes "\<not> path_exists fs (image1_var app) \<or> \<not> path_exists fs (image2_var app) \<or>
           periodic_strength_var app = None \<or> ripple_strength_var app = None \<or> ripple_wavelength_var app = None"
  shows "hw3_run app fs =
           (app\<lparr>status_var := Failed (if path_exists fs (image1_var app) \<and> path_exists fs (image2_var app)
                                      then TclError else FileNotFoundError)\<rparr>, fs)"
  using assms by (auto simp: hw3_run_def hw3_run_body_def double_get_def Let_def io_bind_def split: option.split)

theorem hw3_run_bad_input_witness:
  "hw3_run (hw3_app_init ''HW3'')
      \<lparr>imread = (\<lambda>_. NoPath), listing = (\<lambda>_. []), script_dir = ''HW3'', written = []\<rparr> =
   ((hw3_app_init ''HW3'')\<lparr>status_var := Failed FileNotFoundError\<rparr>,
    \<lparr>imread = (\<lambda>_. NoPath), listing = (\<lambda>_. []), script_dir = ''HW3'', written = []\<rparr>)"
  using hw3_run_bad_input [of "\<lparr>imread = (\<lambda>_. NoPath), listing = (\<lambda>_. []), script_dir = ''HW3'', written = []\<rparr>"
      "hw3_app_init ''HW3''"]
  by (simp add: path_exists_def)

lemma distinct_image_candidates: "distinct (listing fs d) \<Longrightarrow> distinct (image_candidates fs d)"
  by (simp add: image_candidates_def distinct_map inj_on_def path_join_def)

text \<open>
  \<open>find_default_images\<close> on a directory with at least two image files (by
  extension, in any letter case) returns two distinct image files, the least and the next
  in name order; every other image file sorts after both.
\<close>

theorem find_default_images_least:
  assumes "distinct (listing fs d)" "2 \<le> length (image_candidates fs d)"
  shows "\<exists>a b. find_default_images d fs = (Inr (a, b), fs) \<and>
           a \<in> set (image_candidates fs d) \<and> b \<in> set (image_candidates fs d) \<and> a < b \<and>
           (\<forall>c \<in> set (image_candidates fs d). a \<le> c \<and> (c \<noteq> a \<longrightarrow> b \<le> c))"
proof -
  let ?cs = "sort (image_candidates fs d)"
  have d: "distinct ?cs" using distinct_image_candidates [OF assms(1)] by simp
  have l: "2 \<le> length ?cs" using assms(2) by simp
  have s: "sorted ?cs" by simp
  have "?cs ! 0 \<in> set ?cs" "?cs ! 1 \<in> set ?cs"
    using l by (intro nth_mem, linarith)+
  then have in_cs: "?cs ! 0 \<in> set (image_candidates fs d)" "?cs ! 1 \<in> set (image_candidates fs d)"
    by simp_all
  have "?cs ! 0 \<le> ?cs ! 1" using l s by (simp add: sorted_nth_mono)
  moreover have "?cs ! 0 \<noteq> ?cs ! 1" using nth_eq_iff_index_eq [OF d, of 0 1] l by linarith
  ultimately have lt: "?cs ! 0 < ?cs ! 1" by simp
  have "\<forall>c \<in> set (image_candidates fs d). ?cs ! 0 \<le> c \<and> (c \<noteq> ?cs ! 0 \<longrightarrow> ?cs ! 1 \<le> c)"
    using sorted_two [OF s l] d by simp
  then show ?thesis using in_cs lt l by (simp add: find_default_images_def Let_def)
qed

theorem find_default_images_least_witness:
  "distinct [''b.PNG'', ''notes.txt'', ''a.jpg'', ''c.bmp''] \<and>
   2 \<le> length (image_candidates \<lparr>imread = (\<lambda>_. NoPath), listing = (\<lambda>_. [''b.PNG'', ''notes.txt'', ''a.jpg'', ''c.bmp'']),
                   script_dir = ''HW3'', written = []\<rparr> ''HW3'') \<and>
   (\<exists>a b. find_default_images ''HW3'' \<lparr>imread = (\<lambda>_. NoPath), listing = (\<lambda>_. [''b.PNG'', ''notes.txt'', ''a.jpg'', ''c.bmp'']),
                   script_dir = ''HW3'', written = []\<rparr> =
      (Inr (a, b), \<lparr>imread = (\<lambda>_. NoPath), listing = (\<lambda>_. [''b.PNG'', ''notes.txt'', ''a.jpg'', ''c.bmp'']),
                   script_dir = ''HW3'', written = []\<rparr>) \<and> a < b)"
proof -
  let ?fs = "\<lparr>imread = (\<lambda>_. NoPath), listing = (\<lambda>_. [''b.PNG'', ''notes.txt'', ''a.jpg'', ''c.bmp'']),
                   script_dir = ''HW3'', written = []\<rparr>"
  have d: "distinct (listing ?fs ''HW3'')" by simp
  have l: "2 \<le> length (image_candidates ?fs ''HW3'')" by code_simp
  show ?thesis using d l find_default_images_least [OF d l] by auto
qed

end
