(* ===== verification/Simple.thy ===== *)
theory Simple
  imports HW3Run
begin

text \<open>
  src/HW3/hw3_simple.py, the first, script-only version of the HW3 exercise: it takes
  the two least image files beside the script, adds fixed periodic peaks to the first
  and a fixed ripple to the second, and writes eight images. It is modelled over the file
  system of Files.thy and compared with hw3_frequency.py: its peak loop visits the signs
  in the other order but adds the same amplitudes, its \<open>scale_to_uint8\<close> agrees with
  \<open>normalize_to_uint8\<close> except on nearly constant arrays, its ripple mask is the one of
  \<open>add_ripple_waves\<close> at wavelength \<open>12 \<pi>\<close>, and it writes the first part's files
  before it reads the second image.
\<close>

text \<open>\<open>load_gray(path)\<close>\<close>

definition load_gray :: "string \<Rightarrow> (shape \<times> real grid) io" where
  "load_gray path =
     io_bind (cv_imread path) (\<lambda>inp.
       io_lift (case inp of Gray h w px \<Rightarrow> Inr ((h, w), (\<lambda>i j. real (unat (px i j))))
                          | _ \<Rightarrow> Inl FileNotFoundError))"

text \<open>\<open>scale_to_uint8(arr)\<close>; \<open>arr.min()\<close> of an empty array raises ValueError.\<close>

definition scale_to_uint8 :: "nat \<Rightarrow> nat \<Rightarrow> real grid \<Rightarrow> py_error + bytes" where
  "scale_to_uint8 h w arr =
     (if h = 0 \<or> w = 0 then Inl ValueError
      else
        (let flat = (\<lambda>i j. arr i j - grid_min h w arr); maxval = grid_max h w flat in
         if maxval \<le> 0 then Inr (\<lambda>_ _. 0)
         else (let norm = (\<lambda>i j. flat i j / maxval * 255) in Inr (\<lambda>i j. astype_uint8 (norm i j)))))"

text \<open>\<open>cv2.imwrite(str(output_dir / name), scale_to_uint8(arr))\<close>\<close>

definition write_scaled :: "string \<Rightarrow> string \<Rightarrow> shape \<Rightarrow> real grid \<Rightarrow> bool io" where
  "write_scaled output_dir name sh arr =
     io_bind (io_lift (scale_to_uint8 (fst sh) (snd sh) arr)) (\<lambda>b. imwrite (path_join output_dir name) sh b)"

definition simple_offsets :: "(int \<times> int) list" where
  "simple_offsets = [(20, 45), (35, 15), (10, 60)]"

text \<open>The peak loop of part 1: \<open>for signr in (-1, 1): for signc in (-1, 1): ...\<close>\<close>

definition simple_peaks :: "nat \<Rightarrow> nat \<Rightarrow> (int \<times> int) list \<Rightarrow> complex \<Rightarrow> complex grid \<Rightarrow> complex grid" where
  "simple_peaks h w offsets strength F =
     (let center_r = int (h div 2); center_c = int (w div 2) in
      fold (\<lambda>(dr, dc) F.
        fold (\<lambda>signr F. fold (\<lambda>signc F.
            peak_at h w (center_r + signr * dr) (center_c + signc * dc) strength F) [-1, 1] F) [-1, 1] F)
        offsets F)"

text \<open>\<open>1.0 + 0.4 * np.sin(radius / 6.0)\<close>, \<open>radius = np.sqrt(yy * yy + xx * xx)\<close>\<close>

definition simple_ripple_mask :: "nat \<Rightarrow> nat \<Rightarrow> real grid" where
  "simple_ripple_mask rows cols =
     (\<lambda>i j. (let yy = int i - int (rows div 2); xx = int j - int (cols div 2);
                 radius = sqrt (of_int (yy * yy + xx * xx))
             in 1 + 4 / 10 * sin (radius / 6)))"

text \<open>\<open>np.log1p(np.abs(f))\<close>\<close>

definition log1p_abs :: "complex grid \<Rightarrow> real grid" where
  "log1p_abs F = (\<lambda>i j. ln (1 + cmod (F i j)))"

text \<open>Part 1 of \<open>main\<close> after \<open>load_gray(images[0])\<close>: the spectra before and after
  and the real part of the inverse transform.\<close>

definition simple_part1 :: "shape \<Rightarrow> real grid \<Rightarrow> py_error + real grid \<times> real grid \<times> real grid" where
  "simple_part1 sh image1 =
     (if fst sh = 0 \<or> snd sh = 0 then Inl ValueError
      else
        (let (h, w) = sh;
             fft1_shift = fftshift h w (fft2 h w (\<lambda>i j. complex_of_real (image1 i j)));
             spectrum_before1 = log1p_abs fft1_shift;
             strength = grid_mean h w (\<lambda>i j. cmod (fft1_shift i j)) * 6;
             fft1_shift = simple_peaks h w simple_offsets (complex_of_real strength) fft1_shift;
             spectrum_after1 = log1p_abs fft1_shift;
             img1_back = (\<lambda>i j. Re (ifft2 h w (ifftshift h w fft1_shift) i j))
         in Inr (spectrum_before1, spectrum_after1, img1_back)))"

definition simple_part2 :: "shape \<Rightarrow> real grid \<Rightarrow> py_error + real grid \<times> real grid \<times> real grid" where
  "simple_part2 sh image2 =
     (if fst sh = 0 \<or> snd sh = 0 then Inl ValueError
      else
        (let (rows, cols) = sh;
             fft2_shift = fftshift rows cols (fft2 rows cols (\<lambda>i j. complex_of_real (image2 i j)));
             spectrum_before2 = log1p_abs fft2_shift;
             ripple_mask = simple_ripple_mask rows cols;
             fft2_shift = (\<lambda>i j. fft2_shift i j * complex_of_real (ripple_mask i j));
             spectrum_after2 = log1p_abs fft2_shift;
             img2_back = (\<lambda>i j. Re (ifft2 rows cols (ifftshift rows cols fft2_shift) i j))
         in Inr (spectrum_before2, spectrum_after2, img2_back)))"

definition simple_main :: "string io" where
  "simple_main =
     (\<lambda>fs. (let base = script_dir fs; output_dir = path_join base ''HW3_results'';
                images = sort (image_candidates fs base)
            in if length images < 2 then (Inl FileNotFoundError, fs)
            else
              (io_bind (load_gray (images ! 0)) (\<lambda>(sh1, image1).
               io_bind (io_lift (simple_part1 sh1 image1)) (\<lambda>(before1, after1, back1).
               io_bind (write_scaled output_dir ''part1_original.png'' sh1 image1) (\<lambda>_.
               io_bind (write_scaled output_dir ''part1_before.png'' sh1 before1) (\<lambda>_.
               io_bind (write_scaled output_dir ''part1_after.png'' sh1 after1) (\<lambda>_.
               io_bind (write_scaled output_dir ''part1_result.png'' sh1 back1) (\<lambda>_.
               io_bind (load_gray (images ! 1)) (\<lambda>(sh2, image2).
               io_bind (io_lift (simple_part2 sh2 image2)) (\<lambda>(before2, after2, back2).
               io_bind (write_scaled output_dir ''part2_original.png'' sh2 image2) (\<lambda>_.
               io_bind (write_scaled output_dir ''part2_before.png'' sh2 before2) (\<lambda>_.
               io_bind (write_scaled output_dir ''part2_after.png'' sh2 after2) (\<lambda>_.
               io_bind (write_scaled output_dir ''part2_result.png'' sh2 back2) (\<lambda>_.
               io_return output_dir))))))))))))) fs))"

subsection \<open>Lemmas and properties\<close>

lemma grid_max_shift:
  assumes "0 < h" "0 < w"
  shows "grid_max h w (\<lambda>i j. g i j - c) = grid_max h w g - c"
proof -
  have f: "finite ((\<lambda>(i, j). g i j) ` grid_cells h w)" "(\<lambda>(i, j). g i j) ` grid_cells h w \<noteq> {}"
    using grid_cells_ne [OF assms] by (simp_all add: grid_cells_def)
  have "(\<lambda>(i, j). g i j - c) = (\<lambda>x. x - c) \<circ> (\<lambda>(i, j). g i j)" by (auto simp: fun_eq_iff)
  then have img: "(\<lambda>(i, j). g i j - c) ` grid_cells h w = (\<lambda>x. x - c) ` ((\<lambda>(i, j). g i j) ` grid_cells h w)"
    by (simp only: image_comp)
  have m: "mono (\<lambda>x::real. x - c)" by (simp add: mono_def)
  have "grid_max h w (\<lambda>i j. g i j - c) = Max ((\<lambda>x. x - c) ` ((\<lambda>(i, j). g i j) ` grid_cells h w))"
    unfolding grid_max_def by (rule arg_cong [where f = Max], rule img)
  also have "\<dots> = Max ((\<lambda>(i, j). g i j) ` grid_cells h w) - c"
    by (rule mono_Max_commute [OF m f, symmetric])
  finally show ?thesis by (simp add: grid_max_def)
qed

lemma scale_to_uint8_ok: "0 < h \<Longrightarrow> 0 < w \<Longrightarrow> \<exists>b. scale_to_uint8 h w g = Inr b"
  by (simp add: scale_to_uint8_def Let_def)

text \<open>
  C35. On a non-empty array whose values spread over at least \<open>10^-6\<close>,
  hw3_simple.py's \<open>scale_to_uint8\<close> and hw3_frequency.py's \<open>normalize_to_uint8\<close>
  give the same byte at every cell.
\<close>

theorem scale_to_uint8_normalize:
  assumes "0 < h" "0 < w" "1 / 10 ^ 6 \<le> grid_max h w arr - grid_min h w arr"
  shows "\<exists>a b. scale_to_uint8 h w arr = Inr a \<and> normalize_to_uint8 h w arr = Inr b \<and>
           (\<forall>i < h. \<forall>j < w. a i j = b i j)"
proof -
  let ?lo = "grid_min h w arr" and ?hi = "grid_max h w arr"
  have "(0::real) < 1 / 10 ^ 6" by simp
  then have pos: "0 < ?hi - ?lo" using assms(3) by linarith
  have mx: "grid_max h w (\<lambda>i j. arr i j - ?lo) = ?hi - ?lo" using grid_max_shift [OF assms(1,2)] .
  have s: "scale_to_uint8 h w arr = Inr (\<lambda>i j. astype_uint8 ((arr i j - ?lo) / (?hi - ?lo) * 255))"
    using assms(1,2) pos mx by (simp add: scale_to_uint8_def Let_def)
  have "\<not> ?hi - ?lo < 1 / 10 ^ 6" using assms(3) by linarith
  then have n: "normalize_to_uint8 h w arr =
      Inr (\<lambda>i j. astype_uint8 (max 0 (min 255 ((arr i j - ?lo) / (?hi - ?lo) * 255))))"
    using assms(1,2) by (simp add: normalize_to_uint8_def Let_def)
  have "0 \<le> (arr i j - ?lo) / (?hi - ?lo) * 255 \<and> (arr i j - ?lo) / (?hi - ?lo) * 255 \<le> 255"
    if "i < h" "j < w" for i j
    using grid_bounds [OF that, of arr] pos by (simp add: divide_le_eq_1 field_simps)
  then show ?thesis using s n by auto
qed

lemma write_scaled_apply:
  "0 < h \<Longrightarrow> 0 < w \<Longrightarrow> scale_to_uint8 h w arr = Inr b \<Longrightarrow>
   write_scaled d n (h, w) arr fs = (Inr True, fs\<lparr>written := written fs @ [(path_join d n, (h, w), b)]\<rparr>)"
  by (simp add: write_scaled_def io_bind_def)

lemma load_gray_apply:
  "load_gray p fs =
     (case imread fs p of Gray h w px \<Rightarrow> Inr ((h, w), (\<lambda>i j. real (unat (px i j)))) | _ \<Rightarrow> Inl FileNotFoundError, fs)"
  by (simp add: load_gray_def io_bind_def split: load_input.split)

lemma simple_part1_ok: "0 < h \<Longrightarrow> 0 < w \<Longrightarrow> \<exists>r. simple_part1 (h, w) g = Inr r"
  by (simp add: simple_part1_def Let_def)

text \<open>
  C36. hw3_simple.py writes the four part-1 images before it reads the second image: when
  the first image is readable and the second is not, \<open>main\<close> raises FileNotFoundError
  after those four files have been written (unlike \<open>run_pipeline\<close>, C31).
\<close>

theorem simple_main_partial_output:
  assumes "sort (image_candidates fs (script_dir fs)) = p1 # p2 # rest"
    and "imread fs p1 = Gray h w px" "0 < h" "0 < w" and "imread fs p2 \<in> {NoPath, Unreadable}"
  shows "\<exists>ws. simple_main fs = (Inl FileNotFoundError, fs\<lparr>written := written fs @ ws\<rparr>) \<and>
           map fst ws = map (path_join (path_join (script_dir fs) ''HW3_results''))
             [''part1_original.png'', ''part1_before.png'', ''part1_after.png'', ''part1_result.png'']"
proof -
  let ?g = "\<lambda>i j. real (unat (px i j))" and ?d = "path_join (script_dir fs) ''HW3_results''"
  obtain b1 a1 k1 where p: "simple_part1 (h, w) ?g = Inr (b1, a1, k1)"
    using simple_part1_ok [OF assms(3,4), of ?g] by (metis prod_cases3)
  obtain s0 where s0: "scale_to_uint8 h w ?g = Inr s0" using scale_to_uint8_ok assms(3,4) by blast
  obtain s1 where s1: "scale_to_uint8 h w b1 = Inr s1" using scale_to_uint8_ok assms(3,4) by blast
  obtain s2 where s2: "scale_to_uint8 h w a1 = Inr s2" using scale_to_uint8_ok assms(3,4) by blast
  obtain s3 where s3: "scale_to_uint8 h w k1 = Inr s3" using scale_to_uint8_ok assms(3,4) by blast
  have l: "\<not> length (image_candidates fs (script_dir fs)) < 2"
    using arg_cong [OF assms(1), of length] by simp
  have "simple_main fs = (Inl FileNotFoundError, fs\<lparr>written := written fs @
          [(path_join ?d ''part1_original.png'', (h, w), s0), (path_join ?d ''part1_before.png'', (h, w), s1),
           (path_join ?d ''part1_after.png'', (h, w), s2), (path_join ?d ''part1_result.png'', (h, w), s3)]\<rparr>)"
    using assms(1,2,3,4,5) l p s0 s1 s2 s3
    by (auto simp: simple_main_def Let_def io_bind_def load_gray_apply write_scaled_apply)
  then show ?thesis by auto
qed

theorem simple_main_partial_output_witness:
  "\<exists>ws. simple_main
      \<lparr>imread = (\<lambda>p. if p = ''HW3/a.png'' then Gray 1 1 (\<lambda>_ _. 0) else Unreadable),
       listing = (\<lambda>_. [''b.png'', ''a.png'']), script_dir = ''HW3'', written = []\<rparr> =
    (Inl FileNotFoundError,
      \<lparr>imread = (\<lambda>p. if p = ''HW3/a.png'' then Gray 1 1 (\<lambda>_ _. 0) else Unreadable),
       listing = (\<lambda>_. [''b.png'', ''a.png'']), script_dir = ''HW3'', written = ws\<rparr>) \<and>
    map fst ws = [''HW3/HW3_results/part1_original.png'', ''HW3/HW3_results/part1_before.png'',
                  ''HW3/HW3_results/part1_after.png'', ''HW3/HW3_results/part1_result.png'']"
proof -
  let ?fs = "\<lparr>imread = (\<lambda>p. if p = ''HW3/a.png'' then Gray 1 1 (\<lambda>_ _. 0 :: 8 word) else Unreadable),
       listing = (\<lambda>_. [''b.png'', ''a.png'']), script_dir = ''HW3'', written = []\<rparr>"
  have c: "sort (image_candidates ?fs (script_dir ?fs)) = ''HW3/a.png'' # ''HW3/b.png'' # []"
    by code_simp
  show ?thesis
    using simple_main_partial_output [OF c, of 1 1 "\<lambda>_ _. 0"]
    by (simp add: path_join_def)
qed

theorem scale_to_uint8_normalize_witness:
  "0 < (1::nat) \<and> 0 < (2::nat) \<and> 1 / 10 ^ 6 \<le> grid_max 1 2 (\<lambda>i j. real j) - grid_min 1 2 (\<lambda>i j. real j) \<and>
   (\<exists>a b. scale_to_uint8 1 2 (\<lambda>i j. real j) = Inr a \<and> normalize_to_uint8 1 2 (\<lambda>i j. real j) = Inr b \<and>
      a 0 1 = b 0 1)"
proof -
  have mx: "grid_max 1 2 (\<lambda>i j. real j) = 1" "grid_min 1 2 (\<lambda>i j. real j) = 0"
    by (simp_all add: grid_max_def grid_min_def grid_cells_def lessThan_nat_numeral lessThan_Suc image_iff)
  then show ?thesis
    using scale_to_uint8_normalize [of 1 2 "\<lambda>i j. real j"] by fastforce
qed

lemma simple_ripple_mask_eq: "simple_ripple_mask rows cols = ripple_mask rows cols (4 / 10) (12 * pi)"
  by (simp add: fun_eq_iff simple_ripple_mask_def ripple_mask_def power2_eq_square)

end
