(* ===== verification/LabView.thy ===== *)
theory LabView
  imports Edits Files
begin

text \<open>
  The display and export side of \<open>UltimateFrequencyLab\<close> (src/HW3/lab_2.py):
  \<open>update_display\<close>, which redraws the three panels from the store, and
  \<open>save_result\<close>, which writes the latest published result as an 8-bit image. A panel
  is modelled by the array it shows; the matplotlib calls that render it (colour map,
  \<open>vmin\<close>/\<open>vmax\<close>, titles) are not modelled; the cursor circle is modelled by its
  visibility, centre, radius and colour. The export takes the
  file name the save dialog returned (the empty string when it was cancelled).
\<close>

record panels =
  ax_original :: "real grid option"
  ax_spectrum :: "real grid option"
  ax_result :: "result option"

definition no_panels :: panels where
  "no_panels = \<lparr>ax_original = None, ax_spectrum = None, ax_result = None\<rparr>"

text \<open>\<open>mag = np.log(1 + np.abs(self.fshift) * self.mask)\<close>\<close>

definition spectrum_view :: "complex grid \<Rightarrow> real grid \<Rightarrow> real grid" where
  "spectrum_view f m = (\<lambda>i j. ln (1 + cmod (f i j) * m i j))"

definition update_display :: "lab \<Rightarrow> panels \<Rightarrow> panels" where
  "update_display s d =
     (case img s of
        None \<Rightarrow> d
      | Some im \<Rightarrow>
          (case (fshift s, mask s) of
             (Some f, Some m) \<Rightarrow>
               d\<lparr>ax_original := Some im, ax_spectrum := Some (spectrum_view f m),
                 ax_result := (case result_cache s of None \<Rightarrow> ax_result d | Some r \<Rightarrow> Some r)\<rparr>
           | _ \<Rightarrow> d))"

text \<open>(A store with an image and no spectrum or mask is unreachable, see \<open>wf_lab\<close>.)\<close>

text \<open>\<open>cv2.imwrite(path, (self.result_cache * 255).astype(np.uint8))\<close>\<close>

definition save_result :: "lab \<Rightarrow> string \<Rightarrow> unit io" where
  "save_result s path =
     (case result_cache s of
        None \<Rightarrow> io_return ()
      | Some (sh, r) \<Rightarrow>
          (if path = [] then io_return ()
           else io_bind (imwrite path sh (\<lambda>i j. astype_uint8 (r i j * 255))) (\<lambda>_. io_return ())))"

text \<open>The cursor circle of the spectrum panel (\<open>setup_gui\<close>: a lime circle of radius 15 at
  the origin, hidden) and \<open>on_motion\<close>, which follows the mouse over the spectrum axes
  with the brush radius and the colour of the current tool, and hides it elsewhere. The
  colour table's default \<open>"lime"\<close> is never used: the tool variable only takes the six
  radio values.\<close>

record cursor =
  cursor_visible :: bool
  cursor_center :: "real \<times> real"
  cursor_radius :: real
  cursor_color :: string

definition cursor_init :: cursor where
  "cursor_init = \<lparr>cursor_visible = False, cursor_center = (0, 0), cursor_radius = 15, cursor_color = ''lime''\<rparr>"

definition tool_color :: "tool_kind \<Rightarrow> string" where
  "tool_color t =
     (case t of Brush \<Rightarrow> ''white'' | Erase \<Rightarrow> ''red'' | Sine \<Rightarrow> ''lime'' | Line \<Rightarrow> ''cyan''
      | Ring \<Rightarrow> ''gold'' | Grid \<Rightarrow> ''magenta'')"

definition on_motion :: "params \<Rightarrow> click \<Rightarrow> cursor \<Rightarrow> cursor" where
  "on_motion p e c =
     (if in_ax2 e then
        c\<lparr>cursor_visible := True, cursor_center := (xdata e, ydata e),
          cursor_radius := of_int (brush_size p), cursor_color := tool_color (tool p)\<rparr>
      else c\<lparr>cursor_visible := False\<rparr>)"

subsection \<open>Export\<close>

lemma uint_astype_uint8: "0 \<le> v \<Longrightarrow> uint (astype_uint8 v) = \<lfloor>v\<rfloor> mod 256"
  by (simp add: astype_uint8_def uint_word_of_int_eq take_bit_eq_mod)

text \<open>
  C37. \<open>save_result\<close> writes the latest result scaled by 255 and cast to bytes without
  clipping: a pixel of magnitude \<open>v \<ge> 0\<close> is stored as \<open>\<lfloor>255 v\<rfloor> mod 256\<close>,
  so a magnitude above 1 wraps around instead of saturating at 255.
\<close>

theorem save_result_wraps:
  assumes "result_cache s = Some ((h, w), r)" "0 < h" "0 < w" "path \<noteq> []"
  shows "\<exists>px. save_result s path fs = (Inr (), fs\<lparr>written := written fs @ [(path, (h, w), px)]\<rparr>) \<and>
           (\<forall>i j. 0 \<le> r i j \<longrightarrow> uint (px i j) = \<lfloor>r i j * 255\<rfloor> mod 256)"
proof -
  have "save_result s path fs =
      (Inr (), fs\<lparr>written := written fs @ [(path, (h, w), \<lambda>i j. astype_uint8 (r i j * 255))]\<rparr>)"
    using assms by (simp add: save_result_def io_bind_def)
  moreover have "\<forall>i j. 0 \<le> r i j \<longrightarrow> uint (astype_uint8 (r i j * 255)) = \<lfloor>r i j * 255\<rfloor> mod 256"
    by (simp add: uint_astype_uint8)
  ultimately show ?thesis by blast
qed

theorem save_result_wraps_witness:
  "\<exists>px. save_result (init_lab\<lparr>result_cache := Some ((1, 1), \<lambda>_ _. 6 / 5)\<rparr>) ''out.png''
           \<lparr>imread = (\<lambda>_. NoPath), listing = (\<lambda>_. []), script_dir = ''HW3'', written = []\<rparr> =
         (Inr (), \<lparr>imread = (\<lambda>_. NoPath), listing = (\<lambda>_. []), script_dir = ''HW3'',
                   written = [(''out.png'', (1, 1), px)]\<rparr>) \<and> uint (px 0 0) = 50"
proof -
  have "\<lfloor>(6 / 5 :: real) * 255\<rfloor> = 306" by simp
  then show ?thesis
    using save_result_wraps [of "init_lab\<lparr>result_cache := Some ((1, 1), \<lambda>_ _. 6 / 5)\<rparr>" 1 1 "\<lambda>_ _. 6 / 5"
        "''out.png''" "\<lparr>imread = (\<lambda>_. NoPath), listing = (\<lambda>_. []), script_dir = ''HW3'', written = []\<rparr>"]
    by (auto simp: init_lab_def)
qed

end
