(* ===== verification/NoisePattern.thy ===== *)
theory NoisePattern
  imports Files Frequency
begin

text \<open>
  The noise-pattern script src/HW3/3.py, up to the pattern it writes to
  \<open>noise.png\<close>: it removes the mean of the drop image, transforms it, centres the
  spectrum, uncentres it again and takes the real part of the inverse transform. The
  main lemma is that this chain is the identity on the zero-mean image, by the inversion
  theorem \<open>ifft2_fft2\<close> of Fourier.thy and \<open>ifftshift_fftshift\<close>. \<open>cv2.imwrite\<close> of the
  float pattern converts it with OpenCV's \<open>saturate_cast<uchar>\<close> (round half to even,
  then clamp to \<open>[0, 255]\<close>). The \<open>add_noise\<close> helper (a colour image plus the
  pattern resized with \<open>cv2.resize\<close>) is not modelled.
\<close>

text \<open>The pattern of lines 9--14 (\<open>drop_arr\<close> is the script's \<open>drop\<close>); an empty array makes
  \<open>np.fft.fft2\<close> raise ValueError.\<close>

definition noise_pattern :: "shape \<Rightarrow> real grid \<Rightarrow> py_error + real grid" where
  "noise_pattern sh drop_arr =
     (if fst sh = 0 \<or> snd sh = 0 then Inl ValueError
      else
        (let (h, w) = sh;
             drop_arr = (\<lambda>i j. drop_arr i j - grid_mean h w drop_arr);
             f = fft2 h w (\<lambda>i j. complex_of_real (drop_arr i j));
             f_shifted = fftshift h w f
         in Inr (\<lambda>i j. Re (ifft2 h w (ifftshift h w f_shifted) i j))))"

text \<open>\<open>cvRound\<close>: to the nearest integer, ties to even.\<close>

definition round_half_even :: "real \<Rightarrow> int" where
  "round_half_even v =
     (let f = \<lfloor>v\<rfloor>; d = v - of_int f in
      if d < 1 / 2 then f else if 1 / 2 < d then f + 1 else if even f then f else f + 1)"

definition saturate_u8 :: "real \<Rightarrow> 8 word" where
  "saturate_u8 v = word_of_int (max 0 (min 255 (round_half_even v)))"

text \<open>The script: \<open>drop = cv2.imread(r'HW3\3.jpg', IMREAD_GRAYSCALE)\<close>, \<open>exit()\<close> when
  it is missing, then the pattern and \<open>cv2.imwrite('noise.png', pattern + 128)\<close>.\<close>

datatype script_end = Exited | Wrote

definition drop_path :: string where
  "drop_path = ''HW3'' @ [CHR 0x5C] @ ''3.jpg''"

definition script3 :: "script_end io" where
  "script3 =
     io_bind (cv_imread drop_path) (\<lambda>inp.
       (case inp of
          Gray h w px \<Rightarrow>
            io_bind (io_lift (noise_pattern (h, w) (\<lambda>i j. real (unat (px i j))))) (\<lambda>pattern.
            io_bind (imwrite ''noise.png'' (h, w) (\<lambda>i j. saturate_u8 (pattern i j + 128))) (\<lambda>_.
            io_return Wrote))
        | _ \<Rightarrow> io_return Exited))"

subsection \<open>The pattern is the zero-mean image\<close>

lemma ifft2_cong:
  "(\<And>k l. k < h \<Longrightarrow> l < w \<Longrightarrow> X k l = Y k l) \<Longrightarrow> ifft2 h w X m n = ifft2 h w Y m n"
  by (simp add: ifft2_def)

text \<open>
  C38. For every non-empty image, the pattern 3.py computes is the image minus its mean
  at every pixel: the shift, unshift, transform and inverse transform cancel, so the
  script's round trip through the frequency domain changes nothing.
\<close>

theorem noise_pattern_roundtrip:
  assumes "0 < h" "0 < w"
  shows "\<exists>p. noise_pattern (h, w) drop_arr = Inr p \<and>
           (\<forall>i < h. \<forall>j < w. p i j = drop_arr i j - grid_mean h w drop_arr)"
proof -
  let ?x = "\<lambda>i j. complex_of_real (drop_arr i j - grid_mean h w drop_arr)"
  have "ifft2 h w (ifftshift h w (fftshift h w (fft2 h w ?x))) i j = ?x i j" if "i < h" "j < w" for i j
  proof -
    have "ifft2 h w (ifftshift h w (fftshift h w (fft2 h w ?x))) i j = ifft2 h w (fft2 h w ?x) i j"
      by (rule ifft2_cong) (simp add: ifftshift_fftshift)
    then show ?thesis using ifft2_fft2 [OF that] by simp
  qed
  then show ?thesis using assms by (simp add: noise_pattern_def)
qed

theorem noise_pattern_roundtrip_witness:
  "\<exists>p. noise_pattern (1, 2) (\<lambda>i j. real j) = Inr p \<and> p 0 0 = - 1 / 2 \<and> p 0 1 = 1 / 2"
proof -
  have m: "grid_mean 1 2 (\<lambda>i j. real j) = 1 / 2"
    by (simp add: grid_mean_def grid_cells_def lessThan_nat_numeral lessThan_Suc)
  show ?thesis using noise_pattern_roundtrip [of 1 2 "\<lambda>i j. real j"] m by auto
qed

end
