(* ===== verification/Spectra.thy ===== *)
theory Spectra
  imports NoisePattern
begin

text \<open>
  The spectrum scripts src/HW3/1.py and src/HW3/2.py. Each reads a clean and a noisy image
  with \<open>cv2.imread\<close> (exiting when either is missing), resizes the noisy one to the
  clean one's shape, transforms both with \<open>np.fft.fft2\<close> and writes three display
  images: the centred log-magnitude spectra of the clean image, of the noisy image and of
  their difference, scaled onto \<open>[0, 255]\<close> with \<open>cv2.normalize(..., NORM_MINMAX)\<close>.
  1.py lets OpenCV convert to bytes (\<open>CV_8U\<close>: \<open>saturate_u8\<close>, round half to even);
  2.py normalises in floating point and truncates with \<open>astype(np.uint8)\<close>, and it first
  shifts the noisy image to the clean image's mean and zeroes the DC term of the
  difference.

  \<open>cv2.resize\<close> (bilinear resampling) is library code the scripts only call: it is a
  parameter \<open>resize\<close> of the model (source shape, source bytes, target shape to target
  bytes), and the theorems hold for every such function. \<open>cv2.normalize\<close> is modelled
  from OpenCV's definition of \<open>NORM_MINMAX\<close>: with \<open>smin\<close>, \<open>smax\<close> the extremes of the
  source, \<open>scale = (dmax - dmin) / (smax - smin)\<close> (0 when \<open>smax - smin\<close> is not above
  \<open>DBL_EPSILON\<close>) and \<open>shift = dmin - smin * scale\<close>. The printed messages are not
  modelled.
\<close>

type_synonym resizer = "nat \<Rightarrow> nat \<Rightarrow> bytes \<Rightarrow> nat \<Rightarrow> nat \<Rightarrow> bytes"

definition dbl_epsilon :: real where
  "dbl_epsilon = 1 / 2 ^ 52"

definition cv_normalize_minmax :: "nat \<Rightarrow> nat \<Rightarrow> real grid \<Rightarrow> real \<Rightarrow> real \<Rightarrow> real grid" where
  "cv_normalize_minmax h w src alpha beta =
     (let smin = grid_min h w src; smax = grid_max h w src;
          dmin = min alpha beta; dmax = max alpha beta;
          scale = (dmax - dmin) * (if dbl_epsilon < smax - smin then 1 / (smax - smin) else 0);
          shift = dmin - smin * scale
      in (\<lambda>i j. src i j * scale + shift))"

text \<open>\<open>cv2.resize(src, dsize)\<close>: OpenCV refuses an empty source or target.\<close>

definition cv_resize :: "resizer \<Rightarrow> nat \<Rightarrow> nat \<Rightarrow> bytes \<Rightarrow> nat \<Rightarrow> nat \<Rightarrow> py_error + bytes" where
  "cv_resize resize sh sw src th tw =
     (if sh = 0 \<or> sw = 0 \<or> th = 0 \<or> tw = 0 then Inl CvError else Inr (resize sh sw src th tw))"

definition byte_signal :: "bytes \<Rightarrow> complex grid" where
  "byte_signal px = (\<lambda>i j. complex_of_real (real (unat (px i j))))"

definition clean_path :: string where
  "clean_path = ''HW3'' @ [CHR 0x5C] @ ''1.bmp''"

definition noisy_path :: string where
  "noisy_path = ''HW3'' @ [CHR 0x5C] @ ''2.bmp''"

subsection \<open>1.py\<close>

definition get_spectrum_for_display :: "nat \<Rightarrow> nat \<Rightarrow> complex grid \<Rightarrow> bytes" where
  "get_spectrum_for_display h w f_shift =
     (let spectrum = fftshift h w f_shift;
          magnitude = (\<lambda>i j. ln (1 + cmod (spectrum i j)))
      in (\<lambda>i j. saturate_u8 (cv_normalize_minmax h w magnitude 0 255 i j)))"

definition script1 :: "resizer \<Rightarrow> script_end io" where
  "script1 resize =
     io_bind (cv_imread clean_path) (\<lambda>clean_img.
     io_bind (cv_imread noisy_path) (\<lambda>noisy_img.
       (case (clean_img, noisy_img) of
          (Gray h w clean_px, Gray nh nw noisy_px) \<Rightarrow>
            io_bind (io_lift (cv_resize resize nh nw noisy_px h w)) (\<lambda>noisy_px.
              (let f_clean = fft2 h w (byte_signal clean_px);
                   f_noisy = fft2 h w (byte_signal noisy_px);
                   f_noise_mask = (\<lambda>k l. f_noisy k l - f_clean k l)
               in io_bind (imwrite ''1_clean_spectrum.jpg'' (h, w) (get_spectrum_for_display h w f_clean)) (\<lambda>_.
                  io_bind (imwrite ''2_noisy_spectrum.jpg'' (h, w) (get_spectrum_for_display h w f_noisy)) (\<lambda>_.
                  io_bind (imwrite ''3_noise_mask.jpg'' (h, w) (get_spectrum_for_display h w f_noise_mask)) (\<lambda>_.
                    io_return Wrote)))))
        | _ \<Rightarrow> io_return Exited)))"

subsection \<open>2.py\<close>

definition get_spectrum_image :: "nat \<Rightarrow> nat \<Rightarrow> complex grid \<Rightarrow> bytes" where
  "get_spectrum_image h w f =
     (let f_shifted = fftshift h w f;
          magnitude = (\<lambda>i j. ln (1 + cmod (f_shifted i j)));
          spectrum_8bit = cv_normalize_minmax h w magnitude 0 255
      in (\<lambda>i j. astype_uint8 (spectrum_8bit i j)))"

text \<open>Lines 44--56: the images as floats, the noisy one shifted to the clean one's mean,
  and the difference of the transforms with its DC term set to 0.\<close>

definition noise_spectrum :: "nat \<Rightarrow> nat \<Rightarrow> real grid \<Rightarrow> real grid \<Rightarrow> complex grid \<times> complex grid \<times> complex grid" where
  "noise_spectrum h w clean_img noisy_img =
     (let mean_clean = grid_mean h w clean_img; mean_noisy = grid_mean h w noisy_img;
          noisy_img = (\<lambda>i j. noisy_img i j - (mean_noisy - mean_clean));
          f_clean = fft2 h w (\<lambda>i j. complex_of_real (clean_img i j));
          f_noisy = fft2 h w (\<lambda>i j. complex_of_real (noisy_img i j));
          f_noise = (\<lambda>k l. f_noisy k l - f_clean k l);
          f_noise = (\<lambda>k l. if k = 0 \<and> l = 0 then 0 else f_noise k l)
      in (f_clean, f_noisy, f_noise))"

definition script2 :: "resizer \<Rightarrow> script_end io" where
  "script2 resize =
     io_bind (cv_imread clean_path) (\<lambda>clean_img.
     io_bind (cv_imread noisy_path) (\<lambda>noisy_img.
       (case (clean_img, noisy_img) of
          (Gray h w clean_px, Gray nh nw noisy_px) \<Rightarrow>
            io_bind (io_lift (cv_resize resize nh nw noisy_px h w)) (\<lambda>noisy_px.
              (let (f_clean, f_noisy, f_noise) =
                     noise_spectrum h w (\<lambda>i j. real (unat (clean_px i j))) (\<lambda>i j. real (unat (noisy_px i j)))
               in io_bind (imwrite ''1_clean_spectrum.jpg'' (h, w) (get_spectrum_image h w f_clean)) (\<lambda>_.
                  io_bind (imwrite ''2_noisy_spectrum.jpg'' (h, w) (get_spectrum_image h w f_noisy)) (\<lambda>_.
                  io_bind (imwrite ''3_noise_mask.jpg'' (h, w) (get_spectrum_image h w f_noise)) (\<lambda>_.
                    io_return Wrote)))))
        | _ \<Rightarrow> io_return Exited)))"

subsection \<open>The DC term and the dark centre\<close>

lemma fft2_dc: "fft2 h w x 0 0 = (\<Sum>m<h. \<Sum>n<w. x m n)"
  by (simp add: fft2_def)

lemma grid_sum: "(\<Sum>(i, j) \<in> grid_cells h w. g i j) = (\<Sum>i<h. \<Sum>j<w. g i j)"
  by (simp add: grid_cells_def sum.cartesian_product)

text \<open>Shifting an image by the difference of the means gives it the other image's sum.\<close>

lemma mean_shift_sum:
  assumes "0 < h" "0 < w"
  shows "(\<Sum>i<h. \<Sum>j<w. b i j - (grid_mean h w b - grid_mean h w a)) = (\<Sum>i<h. \<Sum>j<w. a i j)"
proof -
  have hw: "real (h * w) \<noteq> 0" using assms by simp
  have "(\<Sum>i<h. \<Sum>j<w. b i j - (grid_mean h w b - grid_mean h w a)) =
        (\<Sum>i<h. \<Sum>j<w. b i j) - real (h * w) * (grid_mean h w b - grid_mean h w a)"
    by (simp add: sum_subtractf)
  also have "\<dots> = (\<Sum>i<h. \<Sum>j<w. a i j)"
    using hw by (simp add: grid_mean_def grid_sum algebra_simps)
  finally show ?thesis .
qed

lemma fftshift_centre: "0 < h \<Longrightarrow> 0 < w \<Longrightarrow> fftshift h w F (h div 2) (w div 2) = F 0 0"
  by (simp add: fftshift_def)

lemma normalize_at_min:
  "src i j = grid_min h w src \<Longrightarrow> 0 \<le> beta \<Longrightarrow> cv_normalize_minmax h w src 0 beta i j = 0"
  by (simp add: cv_normalize_minmax_def Let_def)

text \<open>A log-magnitude spectrum whose centre is 0 has its minimum there.\<close>

lemma log_magnitude_centre_min:
  assumes "0 < h" "0 < w" "F 0 0 = 0"
  shows "ln (1 + cmod (fftshift h w F (h div 2) (w div 2))) =
         grid_min h w (\<lambda>i j. ln (1 + cmod (fftshift h w F i j)))"
proof -
  let ?m = "\<lambda>i j. ln (1 + cmod (fftshift h w F i j))"
  have c: "?m (h div 2) (w div 2) = 0" using assms by (simp add: fftshift_centre)
  have "grid_min h w ?m \<le> 0" using grid_bounds(1) [of "h div 2" h "w div 2" w ?m] assms c by simp
  moreover obtain i j where "i < h" "j < w" "?m i j = grid_min h w ?m"
    using grid_attained(2) [OF assms(1,2), of ?m] by blast
  then have "0 \<le> grid_min h w ?m" by (metis ln_ge_zero le_add_same_cancel1 norm_ge_zero)
  ultimately show ?thesis using c by simp
qed

lemma get_spectrum_image_centre:
  assumes "0 < h" "0 < w" "F 0 0 = 0"
  shows "get_spectrum_image h w F (h div 2) (w div 2) = 0"
  using normalize_at_min [OF log_magnitude_centre_min [of h w F, OF assms], of 255]
  by (simp add: get_spectrum_image_def astype_uint8_def py_int_def Let_def)

text \<open>\<open>NORM_MINMAX\<close> onto \<open>[0, beta]\<close>: every value lands in the range, the minimum on 0
  and, when the source is not flat, the maximum on \<open>beta\<close>.\<close>

lemma cv_normalize_minmax_scaled:
  assumes "0 \<le> beta" "dbl_epsilon < grid_max h w src - grid_min h w src"
  shows "cv_normalize_minmax h w src 0 beta i j =
           (src i j - grid_min h w src) * (beta / (grid_max h w src - grid_min h w src))"
  using assms by (simp add: cv_normalize_minmax_def Let_def algebra_simps diff_divide_distrib)

lemma cv_normalize_minmax_range:
  assumes "i < h" "j < w" "0 \<le> beta"
  shows "0 \<le> cv_normalize_minmax h w src 0 beta i j \<and> cv_normalize_minmax h w src 0 beta i j \<le> beta"
proof (cases "dbl_epsilon < grid_max h w src - grid_min h w src")
  case True
  let ?d = "grid_max h w src - grid_min h w src"
  have lo: "grid_min h w src \<le> src i j" and hi: "src i j \<le> grid_max h w src"
    using grid_bounds [OF assms(1,2)] by auto
  have d: "0 < ?d" using True by (simp add: dbl_epsilon_def)
  have "(src i j - grid_min h w src) * (beta / ?d) \<le> ?d * (beta / ?d)"
    using hi assms(3) d by (intro mult_right_mono) simp_all
  then show ?thesis
    using cv_normalize_minmax_scaled [OF assms(3) True, of i j] lo d assms(3) by simp
next
  case False
  then show ?thesis using assms(3) by (simp add: cv_normalize_minmax_def Let_def)
qed

lemma cv_normalize_minmax_max:
  assumes "0 \<le> beta" "dbl_epsilon < grid_max h w src - grid_min h w src" "src i j = grid_max h w src"
  shows "cv_normalize_minmax h w src 0 beta i j = beta"
proof -
  have "grid_max h w src - grid_min h w src \<noteq> 0" using assms(2) by (simp add: dbl_epsilon_def)
  then show ?thesis using cv_normalize_minmax_scaled [OF assms(1,2), of i j] assms(3) by simp
qed

lemma saturate_u8_ends: "saturate_u8 0 = 0" "saturate_u8 255 = 255"
  by (simp_all add: saturate_u8_def round_half_even_def)

text \<open>Each image 1.py writes has a black pixel, and a white one unless its log-magnitudes
  are flat.\<close>

lemma get_spectrum_for_display_extremes:
  fixes F :: "complex grid"
  assumes "0 < h" "0 < w"
  defines "mag \<equiv> \<lambda>i j. ln (1 + cmod (fftshift h w F i j))"
  shows "\<exists>i < h. \<exists>j < w. get_spectrum_for_display h w F i j = 0"
    and "dbl_epsilon < grid_max h w mag - grid_min h w mag \<Longrightarrow>
           \<exists>i < h. \<exists>j < w. get_spectrum_for_display h w F i j = 255"
proof -
  obtain i j where ij: "i < h" "j < w" "mag i j = grid_min h w mag"
    using grid_attained(2) [OF assms(1,2), of mag] by blast
  have "get_spectrum_for_display h w F i j = 0"
    using ij normalize_at_min [of mag i j h w 255] saturate_u8_ends
    by (simp add: get_spectrum_for_display_def mag_def Let_def)
  then show "\<exists>i < h. \<exists>j < w. get_spectrum_for_display h w F i j = 0" using ij by blast
next
  assume flat: "dbl_epsilon < grid_max h w mag - grid_min h w mag"
  obtain i j where ij: "i < h" "j < w" "mag i j = grid_max h w mag"
    using grid_attained(1) [OF assms(1,2), of mag] by blast
  have "get_spectrum_for_display h w F i j = 255"
    using ij cv_normalize_minmax_max [of 255 h w mag, OF _ flat] saturate_u8_ends
    by (simp add: get_spectrum_for_display_def mag_def Let_def)
  then show "\<exists>i < h. \<exists>j < w. get_spectrum_for_display h w F i j = 255" using ij by blast
qed

lemma script1_writes:
  fixes resize :: resizer
  assumes "imread fs clean_path = Gray h w clean_px" "imread fs noisy_path = Gray nh nw noisy_px"
    and "0 < h" "0 < w" "0 < nh" "0 < nw"
  defines "f_clean \<equiv> fft2 h w (byte_signal clean_px)"
    and "f_noisy \<equiv> fft2 h w (byte_signal (resize nh nw noisy_px h w))"
  shows "script1 resize fs =
           (Inr Wrote, fs\<lparr>written := written fs @
              [(''1_clean_spectrum.jpg'', (h, w), get_spectrum_for_display h w f_clean),
               (''2_noisy_spectrum.jpg'', (h, w), get_spectrum_for_display h w f_noisy),
               (''3_noise_mask.jpg'', (h, w), get_spectrum_for_display h w (\<lambda>k l. f_noisy k l - f_clean k l))]\<rparr>)"
  using assms by (simp add: script1_def cv_resize_def io_bind_def clean_path_def noisy_path_def Let_def)

lemma script1_exits:
  "\<not> (\<exists>h w px. imread fs clean_path = Gray h w px) \<or> \<not> (\<exists>h w px. imread fs noisy_path = Gray h w px) \<Longrightarrow>
   script1 resize fs = (Inr Exited, fs)"
  by (auto simp: script1_def io_bind_def split: load_input.split)

text \<open>
  Whatever the two images and whatever \<open>cv2.resize\<close> returns, 2.py writes its three
  spectra, and the centre pixel of the noise mask \<open>3_noise_mask.jpg\<close> is black: the
  DC term of the difference is 0, the centring moves it to the centre, and
  \<open>NORM_MINMAX\<close> maps the minimum magnitude 0 to 0.
\<close>

lemma script2_noise_mask_dark:
  assumes "imread fs clean_path = Gray h w clean_px" "imread fs noisy_path = Gray nh nw noisy_px"
    and "0 < h" "0 < w" "0 < nh" "0 < nw"
  shows "\<exists>c n m. script2 resize fs =
           (Inr Wrote, fs\<lparr>written := written fs @
              [(''1_clean_spectrum.jpg'', (h, w), c), (''2_noisy_spectrum.jpg'', (h, w), n),
               (''3_noise_mask.jpg'', (h, w), m)]\<rparr>) \<and>
           m (h div 2) (w div 2) = 0"
proof -
  obtain fc fn fz where ns: "noise_spectrum h w (\<lambda>i j. real (unat (clean_px i j)))
      (\<lambda>i j. real (unat (resize nh nw noisy_px h w i j))) = (fc, fn, fz)"
    by (metis prod_cases3)
  have "fz 0 0 = 0" using ns by (auto simp: noise_spectrum_def Let_def)
  then have dark: "get_spectrum_image h w fz (h div 2) (w div 2) = 0"
    using get_spectrum_image_centre assms(3,4) by blast
  show ?thesis
    using assms ns dark by (simp add: script2_def cv_resize_def io_bind_def clean_path_def noisy_path_def) blast
qed

text \<open>
  C11. In 2.py the mean matching alone cancels the DC term: for every pair of non-empty
  images of the clean image's shape, the noisy image shifted by the difference of the
  means has the clean image's sum, so the two transforms agree at \<open>(0, 0)\<close>, and the
  noise spectrum with its DC term set to 0 (\<open>f_noise[0, 0] = 0\<close>, line 25) is exactly the
  difference of the transforms: the explicit assignment changes nothing.
\<close>

theorem noise_mask_dc_redundant:
  assumes "0 < h" "0 < w" and "noise_spectrum h w a b = (f_clean, f_noisy, f_noise)"
  shows "f_noisy 0 0 = f_clean 0 0 \<and> f_noise = (\<lambda>k l. f_noisy k l - f_clean k l)"
proof -
  have n: "f_noise = (\<lambda>k l. if k = 0 \<and> l = 0 then 0 else f_noisy k l - f_clean k l)"
    using assms(3) unfolding noise_spectrum_def Let_def prod.inject by (elim conjE) (simp only:)
  have dc: "f_noisy 0 0 = f_clean 0 0"
    using assms mean_shift_sum [OF assms(1,2), of b a]
    by (auto simp: noise_spectrum_def Let_def fft2_dc simp flip: of_real_sum of_real_diff)
  then show ?thesis
    by (simp add: n fun_eq_iff dc)
qed

theorem noise_mask_dc_redundant_witness:
  "\<exists>fc fn fz. noise_spectrum 1 2 (\<lambda>_ j. real j + 7) (\<lambda>_ _. 9) = (fc, fn, fz) \<and>
     fn 0 0 = fc 0 0 \<and> fz = (\<lambda>k l. fn k l - fc k l)"
proof -
  obtain fc fn fz where ns: "noise_spectrum 1 2 (\<lambda>_ j. real j + 7) (\<lambda>_ _. 9) = (fc, fn, fz)"
    by (metis prod_cases3)
  show ?thesis using ns noise_mask_dc_redundant [OF _ _ ns] by simp
qed

end
