(* ===== verification/World.thy ===== *)
theory World
  imports Noise ImageIO Files PyStr
begin

text \<open>
  What the exercise scripts and GUIs of src/project, src/ex2 and src/HW2 act on, as
  explicit state: the images \<open>Image.open(path).convert("L")\<close> finds (a path holds
  an L-mode image or nothing), the images \<open>image.save(path)\<close> has written, in order,
  the CSV tables on disk (already split into rows of fields) and those written, the
  entries of each directory (\<open>None\<close> where there is none), the text files written
  (as their lines), the
  lines printed (as the values they report), and Python's global random generator:
  the draws of \<open>random.random()\<close> and the standard normal samples behind
  \<open>random.gauss\<close>, as in Noise.thy. A script or handler is an \<open>('s, 'a) st\<close> over a
  record that extends \<open>world\<close>; a GUI's fields are the extension.
  \<open>image_io.load_grayscale_image(path)\<close> and \<open>save_grayscale_image(pixels, path)\<close>
  are lifted to paths here; a generator draws from the world's streams and leaves their
  rest. (When a generator raises part-way, which only a ragged image makes it do, the
  model keeps the streams as they were.)
\<close>

datatype report =
    Message string
  | NoiseLevel string nat real string
  | NoisyOf nat nat real
  | FixedOf nat nat real
  | DamagedOf nat int real
  | MedianWindow int nat nat string
  | LevelCounts string nat nat nat
  | SavedPair string string
  | SavedTo string
  | TableFor string string

record world =
  pil_open :: "string \<Rightarrow> pil_image option"
  saved :: "(string \<times> pil_image) list"
  csv_files :: "string \<Rightarrow> string list list option"
  csv_written :: "(string \<times> string list list) list"
  listdir :: "string \<Rightarrow> string list option"
  text_written :: "(string \<times> string list) list"
  printed :: "report list"
  rng :: "real stream"
  normals :: "real stream"

text \<open>\<open>image_io.load_grayscale_image(path)\<close>\<close>

definition open_grayscale :: "string \<Rightarrow> ('a world_scheme, int pixmap) st" where
  "open_grayscale path =
     (\<lambda>s. (case pil_open s path of
             None \<Rightarrow> Inl FileNotFoundError
           | Some im \<Rightarrow> Inr (load_grayscale_image im), s))"

text \<open>\<open>image_io.save_grayscale_image(pixels, path)\<close>\<close>

definition save_grayscale :: "int pixmap \<Rightarrow> string \<Rightarrow> ('a world_scheme, unit) st" where
  "save_grayscale pixs path =
     (\<lambda>s. (case save_grayscale_image pixs of
             Inl e \<Rightarrow> (Inl e, s)
           | Inr im \<Rightarrow> (Inr (), s\<lparr>saved := saved s @ [(path, im)]\<rparr>)))"

definition print_report :: "report \<Rightarrow> ('a world_scheme, unit) st" where
  "print_report r = (\<lambda>s. (Inr (), s\<lparr>printed := printed s @ [r]\<rparr>))"

text \<open>A generator call on the global \<open>random\<close> state.\<close>

definition with_rng ::
  "(real stream \<Rightarrow> py_error + int pixmap \<times> real stream) \<Rightarrow> ('a world_scheme, int pixmap) st" where
  "with_rng gen =
     (\<lambda>s. (case gen (rng s) of
             Inl e \<Rightarrow> (Inl e, s)
           | Inr (noisy, rs) \<Rightarrow> (Inr noisy, s\<lparr>rng := rs\<rparr>)))"

definition with_normals ::
  "(real stream \<Rightarrow> py_error + int pixmap \<times> real stream) \<Rightarrow> ('a world_scheme, int pixmap) st" where
  "with_normals gen =
     (\<lambda>s. (case gen (normals s) of
             Inl e \<Rightarrow> (Inl e, s)
           | Inr (noisy, zs) \<Rightarrow> (Inr noisy, s\<lparr>normals := zs\<rparr>)))"

text \<open>\<open>len(pixels) * len(pixels[0])\<close>\<close>

definition total_pixels :: "'a pixmap \<Rightarrow> py_error + nat" where
  "total_pixels pixs = bind_res (py_nth pixs 0) (\<lambda>row0. Inr (length pixs * length row0))"

text \<open>\<open>(count / total) * 100\<close>: true division, which raises on a zero total.\<close>

definition percent_of :: "nat \<Rightarrow> int \<Rightarrow> py_error + real" where
  "percent_of count denom =
     (if denom = 0 then Inl ZeroDivisionError else Inr (real count / of_int denom * 100))"

text \<open>
  The preview of every GUI (\<open>show_image\<close>): it reads \<open>pixels[0]\<close> and every
  \<open>pixels[y][x]\<close> of the first row's width into a new PIL image; the thumbnail and
  the Tk photo are not modelled. Its only observable effect is the exception a ragged or
  empty list of rows raises.
\<close>

definition show_image :: "int pixmap option \<Rightarrow> py_error + unit" where
  "show_image pixs_opt =
     (case pixs_opt of
        None \<Rightarrow> Inr ()
      | Some pixs \<Rightarrow>
          bind_res (py_nth pixs 0) (\<lambda>row0.
            res_fold (\<lambda>(y, x) _. bind_res (get2 pixs y x) (\<lambda>_. Inr ())) (cells (length pixs) (length row0)) ()))"

text \<open>\<open>input(prompt).strip()\<close> of the line the user typed.\<close>

definition read_input :: "string \<Rightarrow> string" where
  "read_input line = py_strip line"

text \<open>\<open>str(level).replace('.', '_')\<close> on the text of a level.\<close>

definition level_tag :: "string \<Rightarrow> string" where
  "level_tag level = map (\<lambda>c. if c = CHR ''.'' then CHR ''_'' else c) level"

text \<open>\<open>for a in xs: body(a)\<close>, where the body may raise.\<close>

fun io_forM :: "('b \<Rightarrow> ('s, unit) st) \<Rightarrow> 'b list \<Rightarrow> ('s, unit) st" where
  "io_forM f [] = io_return ()"
| "io_forM f (a # as) = io_bind (f a) (\<lambda>_. io_forM f as)"

text \<open>\<open>open(path, "w")\<close> and \<open>csv.writer(...).writerow(row)\<close>: the file is created
  empty and each row is appended to it as it is written.\<close>

definition csv_open :: "string \<Rightarrow> ('a world_scheme, unit) st" where
  "csv_open path = (\<lambda>s. (Inr (), s\<lparr>csv_written := csv_written s @ [(path, [])]\<rparr>))"

definition csv_writerow :: "string list \<Rightarrow> ('a world_scheme, unit) st" where
  "csv_writerow row =
     (\<lambda>s. (Inr (), s\<lparr>csv_written := butlast (csv_written s) @
                      [(fst (last (csv_written s)), snd (last (csv_written s)) @ [row])]\<rparr>))"

text \<open>\<open>s.endswith(suffix)\<close>\<close>

definition py_endswith :: "string \<Rightarrow> string \<Rightarrow> bool" where
  "py_endswith s suffix \<longleftrightarrow> length suffix \<le> length s \<and> drop (length s - length suffix) s = suffix"

text \<open>\<open>open(path, "w")\<close> of a text file and \<open>f.write(line + "\\n")\<close>.\<close>

definition text_open :: "string \<Rightarrow> ('a world_scheme, unit) st" where
  "text_open path = (\<lambda>s. (Inr (), s\<lparr>text_written := text_written s @ [(path, [])]\<rparr>))"

definition text_writeline :: "string \<Rightarrow> ('a world_scheme, unit) st" where
  "text_writeline line =
     (\<lambda>s. (Inr (), s\<lparr>text_written := butlast (text_written s) @
                      [(fst (last (text_written s)), snd (last (text_written s)) @ [line])]\<rparr>))"

subsection \<open>Sequencing lemmas\<close>

lemma open_grayscale_apply [simp]:
  "pil_open s path = Some im \<Longrightarrow> open_grayscale path s = (Inr (load_grayscale_image im), s)"
  "pil_open s path = None \<Longrightarrow> open_grayscale path s = (Inl FileNotFoundError, s)"
  by (simp_all add: open_grayscale_def)

lemma save_grayscale_rect:
  "rect pixs \<Longrightarrow> \<exists>im. save_grayscale pixs path s = (Inr (), s\<lparr>saved := saved s @ [(path, im)]\<rparr>)"
  by (simp add: save_grayscale_def save_rect) blast

lemma total_pixels_rect: "rect f \<Longrightarrow> total_pixels f = Inr (length f * length (hd f))"
  by (simp add: total_pixels_def py_nth_hd)

end
