(* ===== verification/ProjectApps.thy ===== *)
theory ProjectApps
  imports World
begin

text \<open>
  The programs of src/project that chain the library: the three command-line demos
  (add noise at four levels, count noisy pixels, count fixed pixels), the filter
  comparison experiment (experiments/multiple_filters.py) and the denoise GUI
  (task3_denoise/gui.py), over the world of World.thy. Each script's directory
  (\<open>os.path.dirname(__file__)\<close>) is a parameter, and the line typed at each
  \<open>input()\<close> prompt is an argument. The modules come from the exercise library
  modelled in Filters, Noise, Metrics and ImageIO (see the finding on the
  \<open>common\<close> package layout). Creating the output directories always succeeds.
\<close>

subsection \<open>task1_add_noise/add_noise_demo.py\<close>

text \<open>\<open>levels = [0.01, 0.03, 0.05, 0.1]\<close>, each with its text \<open>str(level)\<close>.\<close>

definition demo_levels :: "(real \<times> string) list" where
  "demo_levels = [(1 / 100, ''0.01''), (3 / 100, ''0.03''), (5 / 100, ''0.05''), (1 / 10, ''0.1'')]"

definition add_noise_demo :: "string \<Rightarrow> string \<Rightarrow> ('a world_scheme, unit) st" where
  "add_noise_demo demo_dir line =
     (let input_path = read_input line in
      io_bind (open_grayscale input_path) (\<lambda>original.
        (let output_dir = path_join demo_dir ''sample_outputs'' in
         io_forM (\<lambda>(level, level_text).
           io_bind (with_rng (add_salt_and_pepper_noise original level)) (\<lambda>noisy.
             (let output_path = path_join output_dir (''noisy_level_'' @ level_tag level_text @ ''.png'') in
              io_bind (save_grayscale noisy output_path) (\<lambda>_.
              io_bind (io_lift (count_noisy_pixels original noisy)) (\<lambda>noisy_count.
              io_bind (io_lift (total_pixels original)) (\<lambda>total_px.
              io_bind (io_lift (percent_of noisy_count (int total_px))) (\<lambda>percent.
                print_report (NoiseLevel level_text noisy_count percent output_path))))))))
           demo_levels)))"

subsection \<open>task2_count_noisy_pixels/count_noisy_pixels_demo.py\<close>

definition count_noisy_demo :: "string \<Rightarrow> string \<Rightarrow> ('a world_scheme, unit) st" where
  "count_noisy_demo line1 line2 =
     (let original_path = read_input line1; noisy_path = read_input line2 in
      io_bind (open_grayscale original_path) (\<lambda>original.
      io_bind (open_grayscale noisy_path) (\<lambda>noisy.
      io_bind (io_lift (count_noisy_pixels original noisy)) (\<lambda>noisy_px.
      io_bind (io_lift (total_pixels original)) (\<lambda>total_px.
      io_bind (io_lift (percent_of noisy_px (int total_px))) (\<lambda>percent.
        print_report (NoisyOf noisy_px total_px percent)))))))"

subsection \<open>task4_count_fixed_pixels/count_fixed_pixels_demo.py\<close>

text \<open>\<open>percent = 0.0; if total > 0: percent = (count / total) * 100\<close>\<close>

definition guarded_percent :: "nat \<Rightarrow> int \<Rightarrow> real" where
  "guarded_percent count denom = (if denom > 0 then real count / of_int denom * 100 else 0)"

definition count_fixed_demo :: "string \<Rightarrow> string \<Rightarrow> string \<Rightarrow> ('a world_scheme, unit) st" where
  "count_fixed_demo line1 line2 line3 =
     (let original_path = read_input line1; noisy_path = read_input line2;
          denoised_path = read_input line3 in
      io_bind (open_grayscale original_path) (\<lambda>original.
      io_bind (open_grayscale noisy_path) (\<lambda>noisy.
      io_bind (open_grayscale denoised_path) (\<lambda>denoised.
      io_bind (io_lift (count_fixed_noisy_pixels original noisy denoised)) (\<lambda>fixed.
      io_bind (io_lift (count_noisy_pixels original noisy)) (\<lambda>total_noisy.
        print_report (FixedOf fixed total_noisy (guarded_percent fixed (int total_noisy)))))))))"

subsection \<open>experiments/multiple_filters.py\<close>

text \<open>\<open>apply_filters(original, noisy)\<close>: the four filters in order, then the three counts
  for each result.\<close>

definition apply_filters ::
  "int pixmap \<Rightarrow> int pixmap \<Rightarrow> py_error + (string \<times> nat \<times> nat \<times> nat \<times> int pixmap) list" where
  "apply_filters original noisy =
     bind_res (median_filter noisy 3) (\<lambda>median_result.
     bind_res (mean_filter noisy 3) (\<lambda>mean_result.
     bind_res (trimmed_alpha_filter noisy 3 1) (\<lambda>trimmed_result.
     bind_res (contra_harmonic_filter noisy 3 1) (\<lambda>contra_result.
       (let rows = [(''median_3'', median_result), (''mean_3'', mean_result),
                    (''trimmed_alpha_3_trim1'', trimmed_result), (''contra_harmonic_Q1'', contra_result)]
        in res_mapM (\<lambda>(name, filtered).
             bind_res (count_noisy_pixels original noisy) (\<lambda>noisy_pixels.
             bind_res (count_fixed_noisy_pixels original noisy filtered) (\<lambda>fixed.
             bind_res (count_damaged_clean_pixels original noisy filtered) (\<lambda>damaged.
               Inr (name, noisy_pixels, fixed, damaged, filtered))))) rows)))))"

datatype noise_kind = SaltPepper real | Salt real | Pepper real | Gaussian real real | Uniform real real

text \<open>Calling one of the generators of \<open>noise_types\<close> (and of the GUIs).\<close>

fun apply_noise_kind :: "noise_kind \<Rightarrow> int pixmap \<Rightarrow> ('a world_scheme, int pixmap) st" where
  "apply_noise_kind (SaltPepper level) im = with_rng (add_salt_and_pepper_noise im level)"
| "apply_noise_kind (Salt level) im = with_rng (add_salt_noise im level)"
| "apply_noise_kind (Pepper level) im = with_rng (add_pepper_noise im level)"
| "apply_noise_kind (Gaussian mean std_dev) im = with_normals (add_gaussian_noise im mean std_dev)"
| "apply_noise_kind (Uniform a b) im = with_rng (add_uniform_noise im a b)"

definition noise_types :: "(string \<times> noise_kind) list" where
  "noise_types =
     [(''salt_and_pepper'', SaltPepper (5 / 100)), (''salt'', Salt (5 / 100)), (''pepper'', Pepper (5 / 100)),
      (''gaussian'', Gaussian 0 10), (''uniform'', Uniform (-10) 10)]"

definition multiple_filters_main :: "string \<Rightarrow> string \<Rightarrow> ('a world_scheme, unit) st" where
  "multiple_filters_main script_path line =
     (let image_path = read_input line in
      io_bind (open_grayscale image_path) (\<lambda>original.
        (let results_dir = path_join script_path ''results'' in
         io_forM (\<lambda>(noise_name, noise_fn).
           io_bind (apply_noise_kind noise_fn original) (\<lambda>noisy.
           io_bind (io_lift (apply_filters original noisy)) (\<lambda>filtered_results.
             (let table_path = path_join results_dir (''filters_'' @ noise_name @ ''.csv'') in
              io_bind (csv_open table_path) (\<lambda>_.
              io_bind (csv_writerow [''filter'', ''noisy_pixels'', ''fixed_pixels'', ''damaged_clean_pixels'']) (\<lambda>_.
              io_bind (io_forM (\<lambda>(name, noisy_pixels, fixed, damaged, filtered).
                  io_bind (csv_writerow [name, show_int (int noisy_pixels), show_int (int fixed), show_int (int damaged)]) (\<lambda>_.
                    (let noisy_path = path_join results_dir (noise_name @ ''_noisy.png'');
                         filtered_path = path_join results_dir (noise_name @ ''_'' @ name @ ''.png'')
                     in io_bind (save_grayscale noisy noisy_path) (\<lambda>_. save_grayscale filtered filtered_path))))
                  filtered_results) (\<lambda>_.
                print_report (TableFor noise_name table_path))))))))
           noise_types)))"

subsection \<open>task3_denoise/gui.py\<close>

text \<open>The state of \<open>DenoiseGUI\<close>: its three images, the filter menu, the window scale,
  the two entries and the metrics label. The Q entry is what \<open>float(text)\<close> gives
  for its text (\<open>None\<close>: ValueError).\<close>

record denoise_gui = world +
  original_pixels :: "int pixmap option"
  noisy_pixels :: "int pixmap option"
  filtered_pixels :: "int pixmap option"
  filter_var :: string
  window_scale :: int
  trim_entry :: string
  q_entry :: "real option"
  info_label :: "nat \<times> nat"

text \<open>\<open>DenoiseGUI.__init__\<close> on a world.\<close>

definition denoise_init :: "world \<Rightarrow> denoise_gui" where
  "denoise_init w =
     \<lparr>pil_open = pil_open w, saved = saved w, csv_files = csv_files w, csv_written = csv_written w,
      listdir = listdir w, text_written = text_written w,
      printed = printed w, rng = rng w, normals = normals w,
      original_pixels = None, noisy_pixels = None, filtered_pixels = None, filter_var = ''Median'',
      window_scale = 3, trim_entry = ''1'', q_entry = Some 1, info_label = (0, 0)\<rparr>"

definition denoise_load_original :: "string \<Rightarrow> (denoise_gui, unit) st" where
  "denoise_load_original path =
     (if path = [] then io_return ()
      else io_bind (open_grayscale path) (\<lambda>pixs.
             (\<lambda>s. (show_image (Some pixs), s\<lparr>original_pixels := Some pixs\<rparr>))))"

definition denoise_load_noisy :: "string \<Rightarrow> (denoise_gui, unit) st" where
  "denoise_load_noisy path =
     (if path = [] then io_return ()
      else io_bind (open_grayscale path) (\<lambda>pixs.
             (\<lambda>s. (show_image (Some pixs), s\<lparr>noisy_pixels := Some pixs\<rparr>))))"

definition denoise_update_metrics :: "(denoise_gui, unit) st" where
  "denoise_update_metrics =
     (\<lambda>s. (case (original_pixels s, noisy_pixels s, filtered_pixels s) of
             (Some f, Some g, Some k) \<Rightarrow>
               (case bind_res (count_fixed_noisy_pixels f g k) (\<lambda>fixed.
                       bind_res (count_damaged_clean_pixels f g k) (\<lambda>damaged. Inr (fixed, damaged))) of
                  Inl e \<Rightarrow> (Inl e, s)
                | Inr info \<Rightarrow> (Inr (), s\<lparr>info_label := info\<rparr>))
           | _ \<Rightarrow> (Inr (), s\<lparr>info_label := (0, 0)\<rparr>)))"

text \<open>The filter \<open>apply_filter\<close> runs for a menu entry, or \<open>None\<close> for an unknown one.\<close>

definition selected_filter :: "denoise_gui \<Rightarrow> int pixmap \<Rightarrow> (py_error + int pixmap) option" where
  "selected_filter s noisy =
     (let window = window_scale s; filter_name = filter_var s in
      if filter_name = ''Median'' then Some (median_filter noisy window)
      else if filter_name = ''Mean'' then Some (mean_filter noisy window)
      else if filter_name = ''Trimmed-Alpha'' then
        (let trim_amount = (case py_int_str (trim_entry s) of None \<Rightarrow> 1 | Some t \<Rightarrow> t)
         in Some (trimmed_alpha_filter noisy window trim_amount))
      else if filter_name = ''Contra-Harmonic'' then
        (let q_value = (case q_entry s of None \<Rightarrow> 1 | Some q \<Rightarrow> q)
         in Some (contra_harmonic_filter noisy window q_value))
      else None)"

definition denoise_apply_filter :: "(denoise_gui, unit) st" where
  "denoise_apply_filter =
     (\<lambda>s. (case noisy_pixels s of
             None \<Rightarrow> (Inr (), s)
           | Some noisy \<Rightarrow>
               (case selected_filter s noisy of
                  None \<Rightarrow> (Inr (), s)
                | Some (Inl e) \<Rightarrow> (Inl e, s)
                | Some (Inr filtered) \<Rightarrow>
                    io_bind (\<lambda>s. (show_image (Some filtered), s\<lparr>filtered_pixels := Some filtered\<rparr>))
                      (\<lambda>_. denoise_update_metrics) s)))"

subsection \<open>Errors the denoise GUI lets through\<close>

lemma selected_filter_contra:
  "filter_var s = ''Contra-Harmonic'' \<Longrightarrow> q_entry s = Some q \<Longrightarrow>
   selected_filter s noisy = Some (contra_harmonic_filter noisy (window_scale s) q)"
  by (simp add: selected_filter_def)

lemma selected_filter_trimmed:
  "filter_var s = ''Trimmed-Alpha'' \<Longrightarrow> py_int_str (trim_entry s) = Some t \<Longrightarrow>
   selected_filter s noisy = Some (trimmed_alpha_filter noisy (window_scale s) t)"
  by (simp add: selected_filter_def)

text \<open>
  C14. In the denoise GUI, Apply Filter with Contra-Harmonic and a negative Q entry
  raises ZeroDivisionError on any loaded noisy image with a black pixel (and pixel values
  that convert to floats, as every loaded image's bytes do), for every
  window the scale offers: \<open>0 ** Q\<close> is evaluated before the filter's
  \<open>denominator == 0\<close> guard. The exception escapes the handler and leaves the GUI
  unchanged (no filtered image, the old metrics).
\<close>

theorem denoise_contra_zero_division:
  assumes "noisy_pixels s = Some noisy" "rect noisy" "\<forall>v \<in> pixels noisy. 0 \<le> v \<and> of_int v < float_limit"
    and "0 \<in> pixels noisy"
    and "filter_var s = ''Contra-Harmonic''" "q_entry s = Some q" "q < 0" "0 \<le> window_scale s"
  shows "denoise_apply_filter s = (Inl ZeroDivisionError, s)"
  using contra_harmonic_zero_division [OF assms(2,3,8,7,4)] assms(1)
  by (simp add: denoise_apply_filter_def selected_filter_contra [OF assms(5,6)])

theorem denoise_contra_zero_division_witness:
  "denoise_apply_filter
     ((denoise_init \<lparr>pil_open = (\<lambda>_. None), saved = [], csv_files = (\<lambda>_. None), csv_written = [],
       listdir = (\<lambda>_. None), text_written = [],
       printed = [], rng = sconst 0, normals = sconst 0\<rparr>)\<lparr>noisy_pixels := Some [[0, 255], [10, 20]], filter_var := ''Contra-Harmonic'', q_entry := Some (-1)\<rparr>) =
   (Inl ZeroDivisionError,
     (denoise_init \<lparr>pil_open = (\<lambda>_. None), saved = [], csv_files = (\<lambda>_. None), csv_written = [],
       listdir = (\<lambda>_. None), text_written = [],
       printed = [], rng = sconst 0, normals = sconst 0\<rparr>)\<lparr>noisy_pixels := Some [[0, 255], [10, 20]], filter_var := ''Contra-Harmonic'', q_entry := Some (-1)\<rparr>)"
  by (rule denoise_contra_zero_division [of _ "[[0, 255], [10, 20]]" "-1"])
     (simp_all add: denoise_init_def rect_def pixels_def float_limit_def)

text \<open>
  C15. In the denoise GUI, Apply Filter with Trimmed-Alpha and a trim entry that
  \<open>int()\<close> reads as a negative number raises IndexError and leaves the GUI unchanged:
  the entry is passed to \<open>trimmed_alpha_filter\<close> unchecked, and its summation loop
  runs past the end of the sorted window.
\<close>

theorem denoise_trim_negative:
  assumes "noisy_pixels s = Some noisy" "rect noisy" "filter_var s = ''Trimmed-Alpha''"
    and "py_int_str (trim_entry s) = Some t" "t < 0" "0 \<le> window_scale s"
  shows "denoise_apply_filter s = (Inl IndexError, s)"
  using trimmed_alpha_negative_trim [OF assms(2,6,5)] assms(1)
  by (simp add: denoise_apply_filter_def selected_filter_trimmed [OF assms(3,4)])

theorem denoise_trim_negative_witness:
  "denoise_apply_filter
     ((denoise_init \<lparr>pil_open = (\<lambda>_. None), saved = [], csv_files = (\<lambda>_. None), csv_written = [],
       listdir = (\<lambda>_. None), text_written = [],
       printed = [], rng = sconst 0, normals = sconst 0\<rparr>)\<lparr>noisy_pixels := Some [[0, 255], [10, 20]], filter_var := ''Trimmed-Alpha'', trim_entry := '' -1''\<rparr>) =
   (Inl IndexError,
     (denoise_init \<lparr>pil_open = (\<lambda>_. None), saved = [], csv_files = (\<lambda>_. None), csv_written = [],
       listdir = (\<lambda>_. None), text_written = [],
       printed = [], rng = sconst 0, normals = sconst 0\<rparr>)\<lparr>noisy_pixels := Some [[0, 255], [10, 20]], filter_var := ''Trimmed-Alpha'', trim_entry := '' -1''\<rparr>)"
proof -
  have p: "py_int_str '' -1'' = Some (-1)" by code_simp
  show ?thesis
    by (rule denoise_trim_negative [of _ "[[0, 255], [10, 20]]" "-1"])
       (simp_all add: denoise_init_def rect_def p)
qed

end
