(* ===== verification/Ex2Apps.thy ===== *)
theory Ex2Apps
  imports ProjectApps
begin

text \<open>
  The programs of src/ex2 that chain the library: the add-noise GUI
  (task1_add_noise/gui.py), the damaged-pixels GUI
  (task5_count_damaged_clean_pixels/gui.py) and the noise-level experiment
  (experiments/multiple_noise_levels.py), over the world of World.thy. A GUI is a record
  extending the world with the fields its handlers read and write; a handler is an
  \<open>st\<close> whose final state is kept whether it returned or raised (Tk reports the
  exception and keeps running). The labels are modelled by the numbers they show.
\<close>

subsection \<open>task1_add_noise/gui.py\<close>

record add_noise_gui = world +
  an_original :: "int pixmap option"
  an_noisy :: "int pixmap option"
  noise_scale :: real
  an_info :: "nat \<times> real"

definition add_noise_gui_init :: "world \<Rightarrow> add_noise_gui" where
  "add_noise_gui_init w =
     \<lparr>pil_open = pil_open w, saved = saved w, csv_files = csv_files w, csv_written = csv_written w,
      listdir = listdir w, text_written = text_written w,
      printed = printed w, rng = rng w, normals = normals w,
      an_original = None, an_noisy = None, noise_scale = 5 / 100, an_info = (0, 0)\<rparr>"

definition an_load_image :: "string \<Rightarrow> (add_noise_gui, unit) st" where
  "an_load_image path =
     (if path = [] then io_return ()
      else io_bind (open_grayscale path) (\<lambda>pixs.
             (\<lambda>s. (case show_image (Some pixs) of
                     Inl e \<Rightarrow> (Inl e, s\<lparr>an_original := Some pixs, an_noisy := None\<rparr>)
                   | Inr _ \<Rightarrow> (Inr (), s\<lparr>an_original := Some pixs, an_noisy := None, an_info := (0, 0)\<rparr>)))))"

definition an_save_noisy :: "string \<Rightarrow> (add_noise_gui, unit) st" where
  "an_save_noisy path =
     (\<lambda>s. (case an_noisy s of
             None \<Rightarrow> (Inr (), s)
           | Some noisy \<Rightarrow> (if path = [] then (Inr (), s) else save_grayscale noisy path s)))"

text \<open>\<open>apply_noise(noise_fn)\<close> for the generator a button chooses at the slider's level.\<close>

definition an_apply_noise :: "(real \<Rightarrow> noise_kind) \<Rightarrow> (add_noise_gui, unit) st" where
  "an_apply_noise noise_fn =
     (\<lambda>s. (case an_original s of
             None \<Rightarrow> (Inr (), s)
           | Some original \<Rightarrow>
               (let level = noise_scale s in
                io_bind (apply_noise_kind (noise_fn level) original) (\<lambda>noisy.
                io_bind (\<lambda>s. (show_image (Some noisy), s\<lparr>an_noisy := Some noisy\<rparr>)) (\<lambda>_.
                io_bind (io_lift (count_noisy_pixels original noisy)) (\<lambda>noisy_count.
                io_bind (io_lift (total_pixels original)) (\<lambda>total_px.
                io_bind (io_lift (percent_of noisy_count (int total_px))) (\<lambda>percent.
                  (\<lambda>s. (Inr (), s\<lparr>an_info := (noisy_count, percent)\<rparr>))))))) s)))"

text \<open>The five buttons: the Gaussian one uses \<open>max(1, lvl * 100)\<close> as standard
  deviation, the uniform one the range \<open>\<plusminus>lvl * 255\<close>.\<close>

definition an_buttons :: "(string \<times> (real \<Rightarrow> noise_kind)) list" where
  "an_buttons =
     [(''Salt & Pepper'', SaltPepper), (''Salt'', Salt), (''Pepper'', Pepper),
      (''Gaussian'', \<lambda>lvl. Gaussian 0 (max 1 (lvl * 100))),
      (''Uniform'', \<lambda>lvl. Uniform (- lvl * 255) (lvl * 255))]"

text \<open>The states the add-noise GUI can reach from its initial state by its handlers: the
  Load, Save and five noise buttons, and the level slider (0 to 0.2).\<close>

inductive an_reach :: "world \<Rightarrow> add_noise_gui \<Rightarrow> bool" for w where
  init: "an_reach w (add_noise_gui_init w)"
| load: "an_reach w s \<Longrightarrow> an_reach w (snd (an_load_image path s))"
| save: "an_reach w s \<Longrightarrow> an_reach w (snd (an_save_noisy path s))"
| noise: "an_reach w s \<Longrightarrow> (label, noise_fn) \<in> set an_buttons \<Longrightarrow> an_reach w (snd (an_apply_noise noise_fn s))"
| slider: "an_reach w s \<Longrightarrow> 0 \<le> v \<Longrightarrow> v \<le> 1 / 5 \<Longrightarrow> an_reach w (s\<lparr>noise_scale := v\<rparr>)"

text \<open>The GUI's invariant: the original has rows of one length, and a noisy image is
  always one of the current original, row for row of the same length.\<close>

definition an_inv :: "add_noise_gui \<Rightarrow> bool" where
  "an_inv s \<longleftrightarrow>
     (\<forall>im. an_original s = Some im \<longrightarrow> (\<forall>row \<in> set im. length row = length (hd im))) \<and>
     (\<forall>noisy. an_noisy s = Some noisy \<longrightarrow>
        (\<exists>im. an_original s = Some im \<and> map length noisy = map length im))"

subsection \<open>task5_count_damaged_clean_pixels/gui.py\<close>

record damaged_gui = world +
  dg_original :: "int pixmap option"
  dg_noisy :: "int pixmap option"
  dg_denoised :: "int pixmap option"
  dg_info :: "nat \<times> real"

definition damaged_gui_init :: "world \<Rightarrow> damaged_gui" where
  "damaged_gui_init w =
     \<lparr>pil_open = pil_open w, saved = saved w, csv_files = csv_files w, csv_written = csv_written w,
      listdir = listdir w, text_written = text_written w,
      printed = printed w, rng = rng w, normals = normals w,
      dg_original = None, dg_noisy = None, dg_denoised = None, dg_info = (0, 0)\<rparr>"

text \<open>The three load buttons, by the field each one sets.\<close>

definition dg_load ::
  "(int pixmap option \<Rightarrow> damaged_gui \<Rightarrow> damaged_gui) \<Rightarrow> string \<Rightarrow> (damaged_gui, unit) st" where
  "dg_load set_field path =
     (if path = [] then io_return ()
      else io_bind (open_grayscale path) (\<lambda>pixs.
             (\<lambda>s. (show_image (Some pixs), set_field (Some pixs) s))))"

definition dg_load_original :: "string \<Rightarrow> (damaged_gui, unit) st" where
  "dg_load_original = dg_load (\<lambda>v s. s\<lparr>dg_original := v\<rparr>)"

definition dg_load_noisy :: "string \<Rightarrow> (damaged_gui, unit) st" where
  "dg_load_noisy = dg_load (\<lambda>v s. s\<lparr>dg_noisy := v\<rparr>)"

definition dg_load_denoised :: "string \<Rightarrow> (damaged_gui, unit) st" where
  "dg_load_denoised = dg_load (\<lambda>v s. s\<lparr>dg_denoised := v\<rparr>)"

definition dg_count_damaged :: "(damaged_gui, unit) st" where
  "dg_count_damaged =
     (\<lambda>s. (case (dg_original s, dg_noisy s, dg_denoised s) of
             (Some f, Some g, Some k) \<Rightarrow>
               (case bind_res (count_damaged_clean_pixels f g k) (\<lambda>damaged.
                       bind_res (total_pixels f) (\<lambda>total_px.
                       bind_res (count_noisy_pixels f g) (\<lambda>noisy_px.
                         (let clean = int total_px - int noisy_px
                          in Inr (damaged, guarded_percent damaged clean))))) of
                  Inl e \<Rightarrow> (Inl e, s)
                | Inr info \<Rightarrow> (Inr (), s\<lparr>dg_info := info\<rparr>))
           | _ \<Rightarrow> (Inr (), s)))"

subsection \<open>experiments/multiple_noise_levels.py\<close>

definition multiple_noise_levels_main :: "string \<Rightarrow> string \<Rightarrow> ('a world_scheme, unit) st" where
  "multiple_noise_levels_main script_path line =
     (let image_path = read_input line in
      io_bind (open_grayscale image_path) (\<lambda>original.
        (let results_dir = path_join script_path ''results'';
             table_path = path_join results_dir ''noise_levels.csv''
         in io_bind (csv_open table_path) (\<lambda>_.
            io_bind (csv_writerow [''noise_level'', ''noisy_pixels'', ''fixed_pixels'', ''damaged_clean_pixels'']) (\<lambda>_.
            io_bind (io_forM (\<lambda>(level, level_text).
                io_bind (with_rng (add_salt_and_pepper_noise original level)) (\<lambda>noisy.
                io_bind (io_lift (median_filter noisy 3)) (\<lambda>filtered.
                io_bind (io_lift (count_noisy_pixels original noisy)) (\<lambda>noisy_pixels.
                io_bind (io_lift (count_fixed_noisy_pixels original noisy filtered)) (\<lambda>fixed_pixels.
                io_bind (io_lift (count_damaged_clean_pixels original noisy filtered)) (\<lambda>damaged_clean.
                  (let noisy_name = path_join results_dir (''noisy_level_'' @ level_tag level_text @ ''.png'');
                       filtered_name = path_join results_dir (''filtered_level_'' @ level_tag level_text @ ''.png'')
                   in io_bind (save_grayscale noisy noisy_name) (\<lambda>_.
                      io_bind (save_grayscale filtered filtered_name) (\<lambda>_.
                      io_bind (csv_writerow [level_text, show_int (int noisy_pixels), show_int (int fixed_pixels),
                                             show_int (int damaged_clean)]) (\<lambda>_.
                      io_bind (print_report (LevelCounts level_text noisy_pixels fixed_pixels damaged_clean)) (\<lambda>_.
                        print_report (SavedPair noisy_name filtered_name))))))))))))
              demo_levels) (\<lambda>_.
            print_report (SavedTo table_path)))))))"

subsection \<open>The add-noise GUI keeps its noisy image in step with the original\<close>

lemma load_grayscale_image_rows: "row \<in> set (load_grayscale_image im) \<Longrightarrow> length row = length (hd (load_grayscale_image im))"
  by (cases "pil_size im") (auto simp: load_grayscale_image_def hd_map)

lemma apply_noise_kind_lengths:
  "apply_noise_kind k im s = (Inr noisy, s') \<Longrightarrow> map length noisy = map length im"
  by (cases k) (auto simp: with_rng_def with_normals_def split: sum.splits prod.splits dest: generators_lengths)

lemma apply_noise_kind_fields:
  "apply_noise_kind k im (s :: add_noise_gui) = (r, s') \<Longrightarrow> an_original s' = an_original s \<and> an_noisy s' = an_noisy s"
  by (cases k) (auto simp: with_rng_def with_normals_def split: sum.splits prod.splits)

lemma an_load_image_inv: "an_inv s \<Longrightarrow> an_inv (snd (an_load_image path s))"
  by (auto simp: an_load_image_def an_inv_def io_bind_def open_grayscale_def load_grayscale_image_rows
           split: option.splits sum.splits)

lemma an_save_noisy_inv: "an_inv s \<Longrightarrow> an_inv (snd (an_save_noisy path s))"
  by (auto simp: an_save_noisy_def an_inv_def save_grayscale_def split: option.splits sum.splits)

lemma an_apply_noise_sets:
  assumes "an_original s = Some im" "apply_noise_kind (noise_fn (noise_scale s)) im s = (Inr noisy, s1)"
  shows "an_original (snd (an_apply_noise noise_fn s)) = Some im \<and> an_noisy (snd (an_apply_noise noise_fn s)) = Some noisy"
  using assms apply_noise_kind_fields [OF assms(2)] by (auto simp: an_apply_noise_def io_bind_def split: sum.splits)

lemma an_apply_noise_inv:
  assumes inv: "an_inv s"
  shows "an_inv (snd (an_apply_noise noise_fn s))"
proof (cases "an_original s")
  case (Some im)
  obtain r s1 where a: "apply_noise_kind (noise_fn (noise_scale s)) im s = (r, s1)" by fastforce
  note f = apply_noise_kind_fields [OF a]
  show ?thesis
  proof (cases r)
    case (Inl e)
    then have "snd (an_apply_noise noise_fn s) = s1" using Some a by (simp add: an_apply_noise_def io_bind_def)
    then show ?thesis using inv f by (simp add: an_inv_def)
  next
    case (Inr noisy)
    have l: "map length noisy = map length im" using a Inr apply_noise_kind_lengths by blast
    show ?thesis using inv Some l an_apply_noise_sets [of s im noise_fn noisy s1, OF Some a [unfolded Inr]] by (simp add: an_inv_def)
  qed
qed (simp add: an_apply_noise_def inv)

lemma an_reach_an_inv: "an_reach w s \<Longrightarrow> an_inv s"
proof (induction rule: an_reach.induct)
  case init
  then show ?case by (simp add: an_inv_def add_noise_gui_init_def)
next
  case (slider s v)
  then show ?case by (simp add: an_inv_def)
qed (simp_all add: an_load_image_inv an_save_noisy_inv an_apply_noise_inv)

text \<open>
  C22. In every state the add-noise GUI reaches by its buttons and slider, a noisy image
  it holds (the one Save writes and the counts describe) was made from the current
  original: it has the original's rows, each of the same length. Loading a new image
  discards the old noisy image, so a stale one of another shape is never kept.
\<close>

theorem an_noisy_matches_original:
  assumes "an_reach w s" "an_noisy s = Some noisy"
  shows "\<exists>im. an_original s = Some im \<and> map length noisy = map length im"
  using an_reach_an_inv [OF assms(1)] assms(2) by (simp add: an_inv_def)

theorem an_noisy_matches_original_witness:
  "\<exists>im. an_original (snd (an_apply_noise Salt (snd (an_load_image ''a.png'' (add_noise_gui_init \<lparr>pil_open = (\<lambda>p. if p = ''a.png'' then Some \<lparr>pil_size = (1, 1), pil_px = (\<lambda>_ _. 5)\<rparr> else None),
     saved = [], csv_files = (\<lambda>_. None), csv_written = [], listdir = (\<lambda>_. None), text_written = [],
     printed = [], rng = sconst 0, normals = sconst 0\<rparr>))))) = Some im \<and> map length [[255 :: int]] = map length im"
proof -
  let ?w = "\<lparr>pil_open = (\<lambda>p. if p = ''a.png'' then Some \<lparr>pil_size = (1, 1), pil_px = (\<lambda>_ _. 5)\<rparr> else None), saved = [], csv_files = (\<lambda>_. None), csv_written = [], listdir = (\<lambda>_. None), text_written = [], printed = [], rng = sconst 0, normals = sconst 0\<rparr>"
  define s1 where "s1 = snd (an_load_image ''a.png'' (add_noise_gui_init ?w))"
  have r: "an_reach ?w (snd (an_apply_noise Salt s1))"
    unfolding s1_def
    by (rule an_reach.noise [of _ _ "''Salt''"]) (simp_all add: an_reach.load an_reach.init an_buttons_def)
  have o: "an_original s1 = Some [[5]]" "noise_scale s1 = 5 / 100" "rng s1 = sconst 0"
    by (simp_all add: s1_def an_load_image_def add_noise_gui_init_def io_bind_def show_image_def
        load_grayscale_image_def cells_def py_nth_def py_index_def get2_def)
  have g: "add_salt_noise [[5]] (1 / 20) (sconst 0) = Inr ([[255]], sconst 0)"
    by (simp add: add_salt_noise_def noise_loop_def cells_def py_set2_def py_nth_def py_index_def)
  have "apply_noise_kind (Salt (noise_scale s1)) [[5]] s1 = (Inr [[255]], s1\<lparr>rng := sconst 0\<rparr>)"
    by (simp add: with_rng_def g o)
  then have n: "an_noisy (snd (an_apply_noise Salt s1)) = Some [[255]]"
    using an_apply_noise_sets [of s1 "[[5]]" Salt "[[255]]"] o(1) by blast
  show ?thesis using an_noisy_matches_original [OF r n] by (simp add: s1_def)
qed

end
