(* ===== verification/HW2Apps.thy ===== *)
theory HW2Apps
  imports Ex2Apps
begin

text \<open>
  The programs of src/HW2: the count-noisy GUI (task2_count_noisy_pixels/gui.py), the
  count-fixed GUI (task4_count_fixed_pixels/gui.py), the median demo
  (task3_denoise/median_filter_demo.py), the damaged-pixels demo
  (task5_count_damaged_clean_pixels/count_damaged_clean_pixels_demo.py) and the table
  summary (experiments/generate_tables.py), over the world of World.thy, modelled as in
  Ex2Apps.thy.
\<close>

subsection \<open>task2_count_noisy_pixels/gui.py\<close>

record count_noisy_gui = world +
  cn_original :: "int pixmap option"
  cn_noisy :: "int pixmap option"
  cn_info :: "nat \<times> real"

definition cn_load_original :: "string \<Rightarrow> (count_noisy_gui, unit) st" where
  "cn_load_original path =
     (if path = [] then io_return ()
      else io_bind (open_grayscale path) (\<lambda>pixs.
             (\<lambda>s. (show_image (Some pixs), s\<lparr>cn_original := Some pixs\<rparr>))))"

definition cn_load_noisy :: "string \<Rightarrow> (count_noisy_gui, unit) st" where
  "cn_load_noisy path =
     (if path = [] then io_return ()
      else io_bind (open_grayscale path) (\<lambda>pixs.
             (\<lambda>s. (show_image (Some pixs), s\<lparr>cn_noisy := Some pixs\<rparr>))))"

definition cn_count_noisy :: "(count_noisy_gui, unit) st" where
  "cn_count_noisy =
     (\<lambda>s. (case (cn_original s, cn_noisy s) of
             (Some f, Some g) \<Rightarrow>
               (case bind_res (count_noisy_pixels f g) (\<lambda>noisy_count.
                       bind_res (total_pixels f) (\<lambda>total_px.
                       bind_res (percent_of noisy_count (int total_px)) (\<lambda>percent.
                         Inr (noisy_count, percent)))) of
                  Inl e \<Rightarrow> (Inl e, s)
                | Inr info \<Rightarrow> (Inr (), s\<lparr>cn_info := info\<rparr>))
           | _ \<Rightarrow> (Inr (), s)))"

subsection \<open>task4_count_fixed_pixels/gui.py\<close>

record fixed_gui = world +
  fx_original :: "int pixmap option"
  fx_noisy :: "int pixmap option"
  fx_denoised :: "int pixmap option"
  fx_info :: "nat \<times> real"

definition fx_load :: "(int pixmap option \<Rightarrow> fixed_gui \<Rightarrow> fixed_gui) \<Rightarrow> string \<Rightarrow> (fixed_gui, unit) st" where
  "fx_load set_field path =
     (if path = [] then io_return ()
      else io_bind (open_grayscale path) (\<lambda>pixs.
             (\<lambda>s. (show_image (Some pixs), set_field (Some pixs) s))))"

definition fx_load_original :: "string \<Rightarrow> (fixed_gui, unit) st" where
  "fx_load_original = fx_load (\<lambda>v s. s\<lparr>fx_original := v\<rparr>)"

definition fx_load_noisy :: "string \<Rightarrow> (fixed_gui, unit) st" where
  "fx_load_noisy = fx_load (\<lambda>v s. s\<lparr>fx_noisy := v\<rparr>)"

definition fx_load_denoised :: "string \<Rightarrow> (fixed_gui, unit) st" where
  "fx_load_denoised = fx_load (\<lambda>v s. s\<lparr>fx_denoised := v\<rparr>)"

definition fx_count_fixed :: "(fixed_gui, unit) st" where
  "fx_count_fixed =
     (\<lambda>s. (case (fx_original s, fx_noisy s, fx_denoised s) of
             (Some f, Some g, Some k) \<Rightarrow>
               (case bind_res (count_fixed_noisy_pixels f g k) (\<lambda>fixed.
                       bind_res (count_noisy_pixels f g) (\<lambda>noisy_total.
                         Inr (fixed, guarded_percent fixed (int noisy_total)))) of
                  Inl e \<Rightarrow> (Inl e, s)
                | Inr info \<Rightarrow> (Inr (), s\<lparr>fx_info := info\<rparr>))
           | _ \<Rightarrow> (Inr (), s)))"

subsection \<open>task3_denoise/median_filter_demo.py\<close>

definition median_filter_demo :: "string \<Rightarrow> string \<Rightarrow> string \<Rightarrow> ('a world_scheme, unit) st" where
  "median_filter_demo demo_dir line1 line2 =
     (let original_path = read_input line1; noisy_path = read_input line2 in
      io_bind (open_grayscale original_path) (\<lambda>original.
      io_bind (open_grayscale noisy_path) (\<lambda>noisy.
        (let output_dir = path_join demo_dir ''sample_outputs'' in
         io_forM (\<lambda>window.
           io_bind (io_lift (median_filter noisy window)) (\<lambda>filtered.
             (let output_path = path_join output_dir (''median_window_'' @ show_int window @ ''.png'') in
              io_bind (save_grayscale filtered output_path) (\<lambda>_.
              io_bind (io_lift (count_fixed_noisy_pixels original noisy filtered)) (\<lambda>fixed.
              io_bind (io_lift (count_damaged_clean_pixels original noisy filtered)) (\<lambda>damaged.
                print_report (MedianWindow window fixed damaged output_path)))))))
           [3, 5]))))"

subsection \<open>task5_count_damaged_clean_pixels/count_damaged_clean_pixels_demo.py\<close>

definition count_damaged_demo :: "string \<Rightarrow> string \<Rightarrow> string \<Rightarrow> ('a world_scheme, unit) st" where
  "count_damaged_demo line1 line2 line3 =
     (let original_path = read_input line1; noisy_path = read_input line2;
          denoised_path = read_input line3 in
      io_bind (open_grayscale original_path) (\<lambda>original.
      io_bind (open_grayscale noisy_path) (\<lambda>noisy.
      io_bind (open_grayscale denoised_path) (\<lambda>denoised.
      io_bind (io_lift (count_damaged_clean_pixels original noisy denoised)) (\<lambda>damaged.
      io_bind (io_lift (total_pixels original)) (\<lambda>total_px.
      io_bind (io_lift (count_noisy_pixels original noisy)) (\<lambda>noisy_px.
        (let clean_pixels = int total_px - int noisy_px in
         print_report (DamagedOf damaged clean_pixels (guarded_percent damaged clean_pixels))))))))))"

subsection \<open>experiments/generate_tables.py\<close>

text \<open>\<open>read_csv(path)\<close>: the rows of a CSV file (a missing file raises).\<close>

definition read_csv :: "string \<Rightarrow> ('a world_scheme, string list list) st" where
  "read_csv path =
     (\<lambda>s. (case csv_files s path of None \<Rightarrow> Inl FileNotFoundError | Some rows \<Rightarrow> Inr rows, s))"

text \<open>The summary file is created before the directory is listed; its name does not end
  in \<open>.csv\<close>, so the loop skips it whether or not the listing shows it.\<close>

definition generate_tables_main :: "string \<Rightarrow> ('a world_scheme, unit) st" where
  "generate_tables_main script_path =
     (let results_dir = path_join script_path ''results'' in
      (\<lambda>s. (case listdir s results_dir of
              None \<Rightarrow> print_report (Message ''No results directory found.'') s
            | Some filenames \<Rightarrow>
                (let summary_path = path_join results_dir ''summary.txt'' in
                 io_bind (text_open summary_path) (\<lambda>_.
                 io_bind (io_forM (\<lambda>filename.
                     if \<not> py_endswith filename ''.csv'' then io_return ()
                     else
                       (let path = path_join results_dir filename in
                        io_bind (read_csv path) (\<lambda>rows.
                        io_bind (text_writeline (''Table: '' @ filename)) (\<lambda>_.
                        io_bind (io_forM (\<lambda>row. text_writeline (py_join '', '' row)) rows) (\<lambda>_.
                          text_writeline [])))))
                   filenames) (\<lambda>_.
                   print_report (Message (''Summary written to '' @ summary_path)))) s))))"

subsection \<open>The count-noisy GUI against its contract\<close>

text \<open>What the Count Noisy button promises (spec, task 2): the number of cells where the
  noisy image differs from the original, and that number as a percentage of all cells.\<close>

definition noisy_report :: "int pixmap \<Rightarrow> int pixmap \<Rightarrow> nat \<times> real" where
  "noisy_report f g =
     (let n = cells_count f (\<lambda>y x. g ! y ! x \<noteq> f ! y ! x)
      in (n, real n / real (length f * length (hd f)) * 100))"

lemma noisy_report_info:
  assumes "rect f" "shaped_as f g"
  shows "bind_res (count_noisy_pixels f g) (\<lambda>noisy_count.
           bind_res (total_pixels f) (\<lambda>total_px.
           bind_res (percent_of noisy_count (int total_px)) (\<lambda>percent. Inr (noisy_count, percent)))) =
         Inr (noisy_report f g)"
proof -
  have t0: "length f * length (hd f) \<noteq> 0" using rect_nonempty [OF assms(1)] by simp
  show ?thesis
    unfolding count_noisy_pixels_ref [OF assms] total_pixels_rect [OF assms(1)]
    using t0 by (simp add: percent_of_def noisy_report_def Let_def)
qed

text \<open>
  C34. On a rectangular original and a noisy image of its shape, the Count Noisy handler of
  task2_count_noisy_pixels/gui.py refines its contract: it returns and leaves the GUI as it
  was, except that the info label shows \<open>noisy_report\<close>, the count of differing
  cells and its percentage of all cells.
\<close>

theorem cn_count_noisy_refines:
  assumes "cn_original s = Some f" "cn_noisy s = Some g" "rect f" "shaped_as f g"
  shows "cn_count_noisy s = (Inr (), s\<lparr>cn_info := noisy_report f g\<rparr>)"
  unfolding cn_count_noisy_def using assms(1,2) noisy_report_info [OF assms(3,4)] by simp

theorem cn_count_noisy_refines_witness:
  "rect [[1, 2::int]] \<and> shaped_as [[1, 2::int]] [[1, 3::int]] \<and>
   cn_count_noisy \<lparr>pil_open = (\<lambda>_. None), saved = [], csv_files = (\<lambda>_. None), csv_written = [],
       listdir = (\<lambda>_. None), text_written = [], printed = [], rng = sconst 0, normals = sconst 0,
       cn_original = Some [[1, 2]], cn_noisy = Some [[1, 3]], cn_info = (0, 0)\<rparr> =
     (Inr (), \<lparr>pil_open = (\<lambda>_. None), saved = [], csv_files = (\<lambda>_. None), csv_written = [],
       listdir = (\<lambda>_. None), text_written = [], printed = [], rng = sconst 0, normals = sconst 0,
       cn_original = Some [[1, 2]], cn_noisy = Some [[1, 3]], cn_info = (1, 50)\<rparr>)"
proof -
  have r: "rect [[1, 2::int]]" "shaped_as [[1, 2::int]] [[1, 3::int]]" by (simp_all add: rect_def shaped_as_def)
  have n: "noisy_report [[1, 2]] [[1, 3]] = (1, 50)"
    by (simp add: noisy_report_def cells_count_def cells_def upt_conv_Cons)
  show ?thesis
    using r n cn_count_noisy_refines [of "\<lparr>pil_open = (\<lambda>_. None), saved = [], csv_files = (\<lambda>_. None), csv_written = [],
       listdir = (\<lambda>_. None), text_written = [], printed = [], rng = sconst 0, normals = sconst 0,
       cn_original = Some [[1, 2]], cn_noisy = Some [[1, 3]], cn_info = (0, 0)\<rparr>" "[[1, 2]]" "[[1, 3]]"]
    by simp
qed

end
