(* ===== verification/Plots.thy ===== *)
theory Plots
  imports World
begin

text \<open>
  src/ex2/experiments/generate_plots.py: it reads a results table written by
  multiple_noise_levels.py or multiple_filters.py and plots its columns. The figures
  \<open>plt.show()\<close> displays are kept, in order, in the field \<open>figures\<close> of a record
  extending the world: a figure holds its title and the data series handed to
  \<open>plt.plot\<close> or \<open>plt.bar\<close> and \<open>plt.xticks\<close>; axis labels, legend and layout are
  fixed strings of the code and not modelled. A table on disk is its list of rows of
  fields, as in World.thy; \<open>os.path.exists\<close> is read as the presence of a table.
\<close>

datatype figure =
    NoiseLevelsFigure string "real list" "int list" "int list" "int list"
  | FiltersFigure string "real list" "real list" "nat list" "string list" "int list" "int list"

record plot_world = world +
  figures :: "figure list"

text \<open>\<open>read_csv(path)\<close> of generate_plots.py.\<close>

definition read_csv_plots :: "string \<Rightarrow> ('a world_scheme, string list list) st" where
  "read_csv_plots path =
     (\<lambda>s. (case csv_files s path of None \<Rightarrow> Inl FileNotFoundError | Some rows \<Rightarrow> Inr rows, s))"

text \<open>\<open>float(cell)\<close> and \<open>int(cell)\<close>: ValueError on a cell that is not a number.\<close>

definition float_cell :: "string \<Rightarrow> py_error + real" where
  "float_cell c = (case py_float_str c of None \<Rightarrow> Inl ValueError | Some v \<Rightarrow> Inr v)"

definition int_cell :: "string \<Rightarrow> py_error + int" where
  "int_cell c = (case py_int_str c of None \<Rightarrow> Inl ValueError | Some v \<Rightarrow> Inr v)"

text \<open>One pass of the loop of \<open>plot_noise_levels\<close>: the four appends of a row, in order.\<close>

definition noise_level_row :: "string list \<Rightarrow> py_error + real \<times> int \<times> int \<times> int" where
  "noise_level_row row =
     bind_res (bind_res (py_nth row 0) float_cell) (\<lambda>level.
     bind_res (bind_res (py_nth row 1) int_cell) (\<lambda>noisy.
     bind_res (bind_res (py_nth row 2) int_cell) (\<lambda>fixed.
     bind_res (bind_res (py_nth row 3) int_cell) (\<lambda>damaged.
       Inr (level, noisy, fixed, damaged)))))"

definition plot_noise_levels ::
  "string list \<Rightarrow> string list list \<Rightarrow> string \<Rightarrow> ('a plot_world_scheme, unit) st" where
  "plot_noise_levels header data title =
     (\<lambda>s. (case res_mapM noise_level_row data of
             Inl e \<Rightarrow> (Inl e, s)
           | Inr pts \<Rightarrow>
               (Inr (), s\<lparr>figures := figures s @
                  [NoiseLevelsFigure title (map (\<lambda>(l, _, _, _). l) pts) (map (\<lambda>(_, n, _, _). n) pts)
                     (map (\<lambda>(_, _, f, _). f) pts) (map (\<lambda>(_, _, _, d). d) pts)]\<rparr>)))"

definition filter_row :: "string list \<Rightarrow> py_error + string \<times> int \<times> int" where
  "filter_row row =
     bind_res (py_nth row 0) (\<lambda>name.
     bind_res (bind_res (py_nth row 2) int_cell) (\<lambda>fixed.
     bind_res (bind_res (py_nth row 3) int_cell) (\<lambda>damaged.
       Inr (name, fixed, damaged))))"

text \<open>The bars of each filter stand at \<open>p - width / 2\<close> and \<open>p + width / 2\<close> with
  \<open>width = 0.35\<close>, the ticks at the positions \<open>p\<close>, labelled by the filter names.\<close>

definition plot_filters ::
  "string list \<Rightarrow> string list list \<Rightarrow> string \<Rightarrow> ('a plot_world_scheme, unit) st" where
  "plot_filters header data title =
     (\<lambda>s. (case res_mapM filter_row data of
             Inl e \<Rightarrow> (Inl e, s)
           | Inr pts \<Rightarrow>
               (let positions = [0..<length pts]; width = (35 / 100 :: real) in
                (Inr (), s\<lparr>figures := figures s @
                  [FiltersFigure title (map (\<lambda>p. real p - width / 2) positions)
                     (map (\<lambda>p. real p + width / 2) positions) positions
                     (map (\<lambda>(nm, _, _). nm) pts) (map (\<lambda>(_, f, _). f) pts) (map (\<lambda>(_, _, d). d) pts)]\<rparr>))))"

definition generate_plots_main :: "string \<Rightarrow> ('a plot_world_scheme, unit) st" where
  "generate_plots_main line =
     (let csv_path = read_input line in
      (\<lambda>s. if csv_files s csv_path = None then print_report (Message ''CSV file not found.'') s
           else
             io_bind (read_csv_plots csv_path) (\<lambda>rows.
               if length rows < 2 then print_report (Message ''CSV file is empty.'')
               else
                 (let header = rows ! 0; data = drop 1 rows in
                  if ''noise_level'' \<in> set header then plot_noise_levels header data ''Noise Levels Experiment''
                  else if ''filter'' \<in> set header then plot_filters header data ''Filter Comparison''
                  else print_report (Message ''Unknown table format. Unable to plot.''))) s))"

text \<open>The header and a data row of the table multiple_noise_levels.py writes, and the
  header of the tables of multiple_filters.py.\<close>

definition noise_levels_header :: "string list" where
  "noise_levels_header = [''noise_level'', ''noisy_pixels'', ''fixed_pixels'', ''damaged_clean_pixels'']"

definition level_row :: "string \<times> nat \<times> nat \<times> nat \<Rightarrow> string list" where
  "level_row e = (case e of (lt, n, f, d) \<Rightarrow> [lt, show_int (int n), show_int (int f), show_int (int d)])"

definition filters_header :: "string list" where
  "filters_header = [''filter'', ''noisy_pixels'', ''fixed_pixels'', ''damaged_clean_pixels'']"

subsection \<open>Plotting the experiments' tables\<close>

lemma int_cell_show_int [simp]: "int_cell (show_int i) = Inr i"
  by (simp add: int_cell_def py_int_str_show_int)

text \<open>
  C24. generate_plots.py on a table in the format multiple_noise_levels.py writes (its
  header, then one row per level: the level's text and the three counts in decimal) whose
  level texts are numbers shows one line figure whose series are exactly those levels and
  counts, row by row: the plot reports what the experiment measured.
\<close>

theorem plot_noise_levels_table:
  assumes "csv_files s (read_input line) = Some (noise_levels_header # map level_row entries)"
    and "entries \<noteq> []"
    and "\<forall>e \<in> set entries. py_float_str (fst e) = Some (lv e)"
  shows "generate_plots_main line s =
           (Inr (), s\<lparr>figures := figures s @
              [NoiseLevelsFigure ''Noise Levels Experiment'' (map lv entries)
                 (map (\<lambda>(_, n, _, _). int n) entries) (map (\<lambda>(_, _, f, _). int f) entries)
                 (map (\<lambda>(_, _, _, d). int d) entries)]\<rparr>)"
proof -
  have rows: "res_mapM noise_level_row (map level_row entries) =
      Inr (map (\<lambda>e. (lv e, int (fst (snd e)), int (fst (snd (snd e))), int (snd (snd (snd e))))) entries)"
    by (rule res_mapM_map_comp)
       (use assms(3) in \<open>force simp: noise_level_row_def level_row_def float_cell_def py_nth_def py_index_def\<close>)
  show ?thesis
    unfolding generate_plots_main_def Let_def
    using assms(1,2) rows
    by (simp add: io_bind_def read_csv_plots_def plot_noise_levels_def noise_levels_header_def comp_def
                  case_prod_beta)
qed

text \<open>A filter table is plotted from its name, fixed and damaged columns; the noisy
  column is never read, so it may hold anything.\<close>

lemma plot_filters_table:
  assumes "csv_files s (read_input line) =
             Some (filters_header # map (\<lambda>(nm, x, f, d). [nm, x, show_int f, show_int d]) entries)"
    and "entries \<noteq> []"
  shows "generate_plots_main line s =
           (Inr (), s\<lparr>figures := figures s @
              [FiltersFigure ''Filter Comparison''
                 (map (\<lambda>p. real p - 35 / 200) [0..<length entries])
                 (map (\<lambda>p. real p + 35 / 200) [0..<length entries]) [0..<length entries]
                 (map fst entries) (map (\<lambda>(_, _, f, _). f) entries) (map (\<lambda>(_, _, _, d). d) entries)]\<rparr>)"
proof -
  have rows: "res_mapM filter_row (map (\<lambda>(nm, x, f, d). [nm, x, show_int f, show_int d]) entries) =
      Inr (map (\<lambda>e. (fst e, fst (snd (snd e)), snd (snd (snd e)))) entries)"
    by (rule res_mapM_map_comp) (force simp: filter_row_def py_nth_def py_index_def)
  have n: "''noise_level'' \<notin> set filters_header" by (simp add: filters_header_def)
  show ?thesis
    unfolding generate_plots_main_def Let_def
    using assms(1,2) rows n
    by (simp add: io_bind_def read_csv_plots_def plot_filters_def filters_header_def comp_def case_prod_beta
                  Let_def)
qed

theorem plot_noise_levels_table_witness:
  "generate_plots_main ''r.csv'' \<lparr>pil_open = (\<lambda>_. None), saved = [],
       csv_files = (\<lambda>p. if p = ''r.csv'' then Some [noise_levels_header, [''0.01'', ''5'', ''3'', ''1''], [''0.1'', ''40'', ''30'', ''2'']] else None),
       csv_written = [], listdir = (\<lambda>_. None), text_written = [], printed = [], rng = sconst 0,
       normals = sconst 0, figures = []\<rparr> =
     (Inr (), \<lparr>pil_open = (\<lambda>_. None), saved = [],
       csv_files = (\<lambda>p. if p = ''r.csv'' then Some [noise_levels_header, [''0.01'', ''5'', ''3'', ''1''], [''0.1'', ''40'', ''30'', ''2'']] else None),
       csv_written = [], listdir = (\<lambda>_. None), text_written = [], printed = [], rng = sconst 0,
       normals = sconst 0, figures = [NoiseLevelsFigure ''Noise Levels Experiment'' [1 / 100, 1 / 10] [5, 40] [3, 30] [1, 2]]\<rparr>)"
proof -
  have e: "[noise_levels_header, [''0.01'', ''5'', ''3'', ''1''], [''0.1'', ''40'', ''30'', ''2'']] =
      noise_levels_header # map level_row [(''0.01'', 5, 3, 1), (''0.1'', 40, 30, 2)]"
    by code_simp
  have r: "read_input ''r.csv'' = ''r.csv''" by (simp add: read_input_def py_strip_def is_space_def)
  have f: "py_float_str ''0.01'' = Some (1 / 100)" "py_float_str ''0.1'' = Some (1 / 10)"
    by (simp_all add: py_float_str_def py_strip_def is_space_def parse_unsigned_float_def parse_mantissa_def
                      decimal_value_def digits_value_def is_digit_def)
  show ?thesis
    using plot_noise_levels_table [of "\<lparr>pil_open = (\<lambda>_. None), saved = [],        csv_files = (\<lambda>p. if p = ''r.csv'' then Some [noise_levels_header, [''0.01'', ''5'', ''3'', ''1''], [''0.1'', ''40'', ''30'', ''2'']] else None),        csv_written = [], listdir = (\<lambda>_. None), text_written = [], printed = [], rng = sconst 0,        normals = sconst 0, figures = []\<rparr>" "''r.csv''"
        "[(''0.01'', 5, 3, 1), (''0.1'', 40, 30, 2)]" "\<lambda>e. the (py_float_str (fst e))"] e r f
    by simp
qed

end
