(* ===== verification/Spec2Isabelle.thy ===== *)
theory Spec2Isabelle
  imports Edits Pipeline Polling Noise ImageIO Frequency HW3Run Simple LabView NoisePattern Spectra HW2Apps Plots
begin

text \<open>
  \<^bold>\<open>A verification library for the image-processing course code.\<close>

  \<^bold>\<open>The program.\<close> The centre of the repository is the interactive frequency lab
  \<open>UltimateFrequencyLab\<close> of src/HW3/lab_2.py. Its Tk thread keeps a store (the loaded
  image, its centred spectrum \<open>fshift\<close>, a mask and the last result). The
  callbacks \<open>load_image\<close>, \<open>on_click\<close>, \<open>clear_all\<close> and \<open>reset_image\<close> edit the store
  and call \<open>trigger_recompute\<close>, which puts a snapshot of spectrum and mask on
  \<open>task_queue\<close>. A worker thread (\<open>worker_loop\<close>) takes each request, inverts it
  (\<open>np.abs(ifft2(ifftshift(f * m)))\<close>) and puts the image on \<open>result_queue\<close>.
  \<open>check_queue\<close>, polled on the Tk thread, drains that queue into \<open>result_cache\<close>.
  Beside it stand the exercise library and its scripts: window filters (median, mean,
  trimmed-alpha, contra-harmonic) over lists of rows, noise generators, pixel-difference
  metrics and image files. The experiment scripts and GUIs chain these: load, add noise,
  filter, count. The HW3 exercise scripts work in the frequency domain without the lab:
  src/HW3/hw3_frequency.py adds periodic peaks to one image's centred spectrum and a
  radial ripple to another's, rescales the inverse transforms to bytes and writes eight
  images, from a Tk front end or the command line; hw3_simple.py is its first,
  script-only version, and 3.py extracts a zero-mean noise pattern.

  \<^bold>\<open>Theories and what they model.\<close>
  \<^item> Prelude: the types of the model (grids \<open>nat \<Rightarrow> nat \<Rightarrow> 'a\<close> for numpy arrays,
    \<open>'a pixmap\<close> lists of rows later), Python's exceptions \<open>py_error\<close>. It has
    \<open>outcome\<close> for a handler that raises after mutating, and the sum type
    \<open>py_error + 'a\<close> with \<open>bind_res\<close>, \<open>res_mapM\<close> and \<open>res_fold\<close> for loops that raise.
    It also holds Python's indexing (\<open>py_index\<close>, \<open>py_nth\<close>), \<open>int()\<close> (\<open>py_int\<close>) and the
    centred reflection \<open>cref\<close>, with the generic lemmas on them.
  \<^item> Fourier: numpy's \<open>fft2\<close>, \<open>ifft2\<close>, \<open>fftshift\<close>, \<open>ifftshift\<close> as DFT sums and
    index rotations (from numpy's documented definitions). It holds Hermitian symmetry,
    uncentred (\<open>herm\<close>) and centred (\<open>sherm\<close>). Its theorems: the transform of a real image
    is Hermitian; a Hermitian spectrum has a real inverse; increments of the form
    \<open>A + conj (A \<circ> cref)\<close> keep the symmetry.
  \<^item> Store (lab_2.py \<open>__init__\<close>, \<open>load_image\<close>, \<open>clear_all\<close>, \<open>reset_image\<close>,
    \<open>trigger_recompute\<close>): the record \<open>lab\<close> and its invariant \<open>wf_lab\<close>.
  \<^item> Edits (lab_2.py \<open>on_click\<close>): each tool (\<open>circle_fill\<close>, \<open>sine_edit\<close>,
    \<open>line_edit\<close>, \<open>ring_edit\<close>, \<open>grid_edit\<close>) with numpy's index checks. A click that
    raises after a partial write returns \<open>Raised\<close> with the partly edited store.
  \<^item> Pipeline (\<open>worker_loop\<close>, \<open>check_queue\<close>): the threads as an inductive
    interleaving \<open>sys_step\<close> of editor, worker (\<open>worker_step\<close>: get, put) and consumer
    steps, parametrised by the editor relation. History variables \<open>sent\<close> and
    \<open>finished\<close> record requests. The editor is bound only by \<open>editor_contract\<close> (it
    appends to \<open>task_queue\<close> and leaves the result side alone), which
    \<open>Spec2Isabelle.ui_step\<close>, the relation of the Tk callbacks, discharges.
  \<^item> Polling: the drain loop of \<open>check_queue\<close> as \<open>drain_step\<close>, the worker's and the
    loop's steps while the Tk thread is inside the loop, with the measure \<open>pending\<close>.
  \<^item> Filters (src/ex2/common/filters.py, src/project/common/utils.py): every filter with
    its loops, \<open>get_pixel_safe\<close>'s border replication and the exceptions it can raise;
    the reference semantics \<open>window_list\<close>, \<open>median_of\<close>, \<open>trimmed_mean\<close>.
  \<^item> Metrics (src/HW2/common/metrics.py): the three counters. The reference count
    \<open>cells_count\<close> is a length of a filtered list of cells.
  \<^item> Noise (src/ex2/common/noise.py): the five generators, with the global random
    generator as an explicit stream of draws returned with the image.
  \<^item> ImageIO (src/project/common/image_io.py): PIL's L-mode image as a record and
    load/save between it and lists of rows.
  \<^item> PyStr: Python's \<open>str.strip\<close>, \<open>str.split\<close>, \<open>int(str)\<close> and \<open>str(int)\<close> on
    ASCII strings, for the offsets parser.
  \<^item> Frequency (hw3_frequency.py \<open>read_grayscale\<close> to \<open>parse_offsets\<close>): the two
    transforms \<open>add_periodic_noise\<close> (with its peak loop \<open>add_peaks\<close>) and
    \<open>add_ripple_waves\<close> (with \<open>ripple_mask\<close>), the byte scalings
    \<open>magnitude_spectrum\<close> and \<open>normalize_to_uint8\<close> over numpy's reductions
    \<open>grid_min\<close>, \<open>grid_max\<close>, \<open>grid_mean\<close>, and the offsets parser.
  \<^item> Files: the file system as state (\<open>files\<close>: what \<open>cv2.imread\<close> finds at a path,
    directory listings, the script's directory, the images written so far), a step
    \<open>'a io\<close> that returns its value or exception with the file system, and
    \<open>find_default_images\<close>.
  \<^item> HW3Run (hw3_frequency.py \<open>save_results\<close>, \<open>run_pipeline\<close>, \<open>HW3App\<close>,
    \<open>main\<close>): the driver over Files, the Tk variables as the record \<open>hw3_app\<close> and
    its \<open>run\<close> handler \<open>hw3_run\<close>.
  \<^item> Simple (hw3_simple.py): \<open>load_gray\<close>, \<open>scale_to_uint8\<close> and \<open>main\<close> as
    \<open>simple_main\<close>, with its two parts \<open>simple_part1\<close>, \<open>simple_part2\<close>.
  \<^item> LabView (lab_2.py \<open>update_display\<close>, \<open>save_result\<close>, \<open>on_motion\<close>): the arrays
    the three panels show, the cursor circle, and the exported bytes.
  \<^item> Spectra (1.py, 2.py): the two spectrum scripts, with \<open>cv2.resize\<close> as a parameter
    \<open>resize\<close> and OpenCV's \<open>NORM_MINMAX\<close> normalisation as \<open>cv_normalize_minmax\<close>.
  \<^item> NoisePattern (3.py): the pattern and its export with OpenCV's saturating cast.
    Fourier also proves the inversion theorem \<open>ifft2_fft2\<close> and
    \<open>ifftshift_fftshift\<close> that it uses.
  \<^item> World: what the exercise scripts and GUIs act on, as the record \<open>world\<close>
    (images PIL opens and those saved, CSV and text files, directory listings, printed
    reports, the random streams), with \<open>open_grayscale\<close>, \<open>save_grayscale\<close>,
    \<open>show_image\<close> (the preview's index checks), \<open>percent_of\<close> and \<open>io_forM\<close>.
    A GUI is a record extending \<open>world\<close> with its Tk fields; a handler is an
    \<open>st\<close> whose state survives an exception, as Tk keeps running.
  \<^item> ProjectApps (src/project): the demo and multiple-filters scripts and the denoise
    GUI (\<open>denoise_gui\<close>, its load, metrics and \<open>apply_filter\<close> handlers).
  \<^item> Ex2Apps (src/ex2): the add-noise GUI with its five noise buttons and the relation
    \<open>an_reach\<close> of the states its buttons and slider reach, the damaged-pixels GUI and the
    noise-level experiment writing its CSV table.
  \<^item> Plots (src/ex2/experiments/generate_plots.py): reading a results table, the column
    conversions (\<open>float\<close> as \<open>py_float_str\<close> of PyStr, \<open>int\<close>) and the series of each
    figure, kept in the field \<open>figures\<close> of \<open>plot_world\<close>.
  \<^item> HW2Apps (src/HW2): the count-noisy and count-fixed GUIs, the median and
    damaged-pixels demos, the table summary \<open>generate_tables_main\<close>, and the
    contract \<open>noisy_report\<close> of the count-noisy GUI.

  \<^bold>\<open>What is proved.\<close>
  \<^item> The lab (this theory, Pipeline and Polling): reachable stores are well formed (C7). The request
    channel is FIFO with nothing lost or duplicated (C4). The worker alone publishes every
    request sent (C5), and the consumer keeps the latest result (C6). The drain loop of
    \<open>check_queue\<close> terminates although the worker keeps running (C8).
  \<^item> Symmetry: on odd shapes every request sent is centred-Hermitian (C1), so the
    published image is the modulus of a real image (C3). On even shapes the code's
    reflection \<open>h - 1 - y\<close> never meets the centred conjugate point, so every
    injection off the centre breaks the symmetry of every symmetric spectrum (C2); the
    kernel evaluates the spec's 4 \<open>\<times>\<close> 4 scenario to an imaginary part of
    \<open>-5/8\<close> (\<open>even_shape_scenario\<close>).
  \<^item> Edits: the boundary of the point tool (C9); a negative coordinate is not rejected but wraps and
    can leave a half-applied edit (C10).
  \<^item> 2.py: for every pair of images the mean matching already gives the noisy and the
    clean spectrum the same DC term, so the noise spectrum computed without the explicit
    \<open>f_noise[0, 0] = 0\<close> is the same array (C11); the centre of the written mask is
    black (\<open>script2_noise_mask_dark\<close>).
  \<^item> Filters: the median filter equals the reference median of the replicated window
    (C12). Mean and contra-harmonic results stay in range (C19, C20; the latter for
    windows and Q whose power sums stay below the double range), a sum beyond it raises
    OverflowError in \<open>**\<close> (C39), and the
    trimmed-alpha filter computes the trimmed mean (C21). Error paths, through the
    denoise GUI's entries: contra-harmonic with \<open>Q < 0\<close> on a black pixel (C14) and a
    negative trim (C15).
  \<^item> Metrics partition the cells consistently (C13). Noise: the impulse generators only
    write their colours, additive noise is clamped (C23), level 0 is the identity,
    and the noisy count is bounded by the triggering draws (C18). Image files
    round-trip both ways (C16, C17), and a loaded image is a rectangle of bytes of the
    image's shape (C25). The count-noisy GUI's handler refines its contract
    \<open>noisy_report\<close> (C34). In every state the add-noise GUI reaches, its noisy image is
    one of the current original, with the same row lengths (C22): loading discards the
    old one. generate_plots.py plots exactly the levels and counts of the
    table multiple_noise_levels.py writes (C24).
  \<^item> hw3_frequency.py: both transforms keep the spectrum of a real image
    centred-Hermitian on every shape, so \<open>np.real\<close> discards nothing (C26, C27);
    \<open>normalize_to_uint8\<close> is the affine map onto the full byte range (C28); the offsets
    text round-trips through \<open>parse_offsets\<close> (C29). \<open>run_pipeline\<close> writes exactly
    its eight images (C30) and reads both inputs before writing (C31); \<open>HW3App.run\<close>
    writes nothing on bad input (C32) and silently uses the default offsets when the
    entry parses to nothing (C33).
  \<^item> hw3_simple.py against hw3_frequency.py: the same bytes except
    on nearly constant arrays (C35), but partial output when the second image is missing
    (C36).
  \<^item> The lab's export wraps magnitudes above 1 instead of clipping (C37), and the
    pattern of 3.py is exactly the zero-mean drop image (C38).

  \<^bold>\<open>Bounds and fuel.\<close> Every loop of the code runs over a finite range, so every
  definition is total and structural (\<open>fun\<close>, \<open>primrec\<close>, folds). The \<open>while True\<close>
  of \<open>check_queue\<close> is the relation \<open>drain_step\<close>, well founded by the measure
  \<open>pending\<close> (C8); that of the worker never ends and is not meant to. The threads are an
  inductive relation, not a bounded unfolding, so no fuel is needed; so are the
  states the add-noise GUI reaches (\<open>an_reach\<close>, C22). Liveness (C5) is
  stated as reachability by the worker's own steps.

  \<^bold>\<open>Not modelled.\<close>
  \<^item> Floating-point rounding: numbers are reals, so the realness theorems are exact
    statements about the mathematical transform, and numpy's results differ from them by
    rounding only.
  \<^item> Floating-point range: Python's \<open>**\<close> raises OverflowError beyond the largest
    double (\<open>py_pow\<close>, with the threshold \<open>float_limit\<close>), but a sum of floats that
    overflows silently becomes \<open>inf\<close>; NaN and infinities are not reals. The
    contra-harmonic range theorem therefore assumes its sums stay finite, a ripple
    wavelength of 0 (a NaN mask in numpy) is outside the ripple theorems, and
    \<open>astype(np.uint8)\<close> of a float beyond the int64 range (platform-dependent in
    numpy) is modelled as the wrap of its integer part.
  \<^item> Aliasing of numpy arrays: the model has value semantics, so the \<open>.copy()\<close> of
    \<open>trigger_recompute\<close> and of the store's arrays has no counterpart, and a snapshot
    that shared memory with the store could not be told apart from a copy.
  \<^item> \<open>cv2.circle\<close>'s rasterisation, approximated by the Euclidean disc.
  \<^item> The lock of lab_2.py. Edits and snapshots run on the Tk thread and the worker
    reads only copies, so the interleaving of whole callbacks with worker steps is
    exact.
  \<^item> Rendering, file dialogs, image decoding and encoding, the drawing of figures (only
    their data series are kept), the byte encoding of CSV output, and widget wiring.
  \<^item> The distribution of the random draws. The noise theorems hold for every stream.
  \<^item> \<open>Path.mkdir\<close> (assumed to succeed) and \<open>print\<close>; a written file is recorded by
    name, shape and bytes, not encoded.
  \<^item> \<open>add_noise\<close> of 3.py: it calls \<open>cv2.resize\<close> (bilinear resampling) on a colour
    image, library code whose model would dominate the helper. In 1.py and 2.py
    \<open>cv2.resize\<close> is a parameter of the model for the same reason.
  \<^item> Of the GUIs and scripts of HW2, ex2 and project: widget layout, the thumbnail
    and Tk photo of a preview (only its index checks are kept), the byte encoding of
    CSV and text files, and the labels, legend and layout of the plots.
\<close>

section \<open>The editing thread as the pipeline's editor\<close>

text \<open>
  The Tk callbacks that change the store, as one relation: \<open>load_image\<close> (with an
  array \<open>cv2.imread\<close> can return), \<open>on_click\<close> (its state whether it returned or
  raised; Tk reports the exception and keeps running), \<open>clear_all\<close> and
  \<open>reset_image\<close>. \<open>update_display\<close>, \<open>on_motion\<close> and \<open>save_result\<close> only read.
\<close>

inductive ui_step :: "lab \<Rightarrow> lab \<Rightarrow> bool" where
  load: "valid_input inp \<Longrightarrow> ui_step a (load_image inp a)"
| click: "ui_step a (outcome_state (on_click p e a))"
| clear: "ui_step a (clear_all a)"
| reset: "ui_step a (reset_image a)"

inductive_cases ui_stepE: "ui_step a a'"

lemma load_image_fields:
  "\<exists>ts. task_queue (load_image inp a) = task_queue a @ ts"
  "result_queue (load_image inp a) = result_queue a"
  "result_cache (load_image inp a) = result_cache a"
  by (cases inp; simp add: trigger_recompute_def split: option.split)+

lemma clear_reset_fields:
  "\<exists>ts. task_queue (clear_all a) = task_queue a @ ts"
  "\<exists>ts. task_queue (reset_image a) = task_queue a @ ts"
  "result_queue (clear_all a) = result_queue a" "result_cache (clear_all a) = result_cache a"
  "result_queue (reset_image a) = result_queue a" "result_cache (reset_image a) = result_cache a"
  by (auto simp: clear_all_def reset_image_def trigger_recompute_def split: option.split)

lemma ui_step_contract: "editor_contract ui_step"
  unfolding editor_contract_def
  by (auto elim!: ui_stepE simp: load_image_fields clear_reset_fields on_click_fields)

lemma ui_step_wf: "ui_step a a' \<Longrightarrow> wf_lab a \<Longrightarrow> wf_lab a'"
  by (auto elim!: ui_stepE simp: load_image_wf clear_all_wf reset_image_wf on_click_wf)

lemma wf_lab_cong:
  "shape b = shape a \<Longrightarrow> img b = img a \<Longrightarrow> fshift b = fshift a \<Longrightarrow> mask b = mask a \<Longrightarrow>
   wf_lab b = wf_lab a"
  by (simp add: wf_lab_def)

lemma same_store_wf: "same_store a b \<Longrightarrow> wf_lab b = wf_lab a"
  unfolding same_store_def by (rule wf_lab_cong) simp_all

lemma sys_step_wf: "sys_step ui_step s t \<Longrightarrow> wf_lab (app s) \<Longrightarrow> wf_lab (app t)"
proof (induction rule: sys_step.induct)
  case (editor s a')
  then show ?case by (simp add: ui_step_wf)
next
  case (worker s t)
  then have "same_store (app s) (app t)"
    by (simp add: worker_step_store)
  with worker.prems show ?case
    by (simp add: same_store_wf)
next
  case (poll s r rs)
  have "wf_lab ((app s)\<lparr>result_cache := Some r, result_queue := rs\<rparr>) = wf_lab (app s)"
    by (rule wf_lab_cong) simp_all
  with poll.prems show ?case by simp
qed

lemma reach_editor:
  "reach ed s \<Longrightarrow> ed (app s) a' \<Longrightarrow>
   reach ed (s\<lparr>app := a', sent := sent s @ drop (length (task_queue (app s))) (task_queue a')\<rparr>)"
  by (rule reach.step) (auto intro: sys_step.editor)

lemma reach_load:
  assumes "valid_input inp"
  shows "reach ui_step (init_sys\<lparr>app := load_image inp init_lab,
                                 sent := task_queue (load_image inp init_lab)\<rparr>)"
proof -
  have "sys_step ui_step init_sys
          (init_sys\<lparr>app := load_image inp init_lab,
                     sent := sent init_sys @ drop (length (task_queue (app init_sys)))
                                               (task_queue (load_image inp init_lab))\<rparr>)"
    using assms by (intro sys_step.editor) (simp add: init_sys_def ui_step.load)
  then have "reach ui_step (init_sys\<lparr>app := load_image inp init_lab,
                     sent := sent init_sys @ drop (length (task_queue (app init_sys)))
                                               (task_queue (load_image inp init_lab))\<rparr>)"
    by (rule reach.step [OF reach.init])
  moreover have "sent init_sys @ drop (length (task_queue (app init_sys))) (task_queue (load_image inp init_lab))
      = task_queue (load_image inp init_lab)"
    by (simp add: init_sys_def init_lab_def)
  ultimately show ?thesis by simp
qed

section \<open>Properties of the whole program\<close>

text \<open>
  C7. The store invariant: in every reachable state of the program, with the editing
  thread, the worker and the consumer interleaved in any order, the image, spectrum and
  mask exist together and the loaded shape is non-empty.
\<close>

theorem reachable_store_wf:
  assumes "reach ui_step s"
  shows "wf_lab (app s)"
  using assms
proof (induction rule: reach.induct)
  case init
  then show ?case by (simp add: init_sys_def wf_init_lab)
next
  case (step s t)
  then show ?case by (simp add: sys_step_wf)
qed

theorem reachable_store_wf_witness:
  "reach ui_step init_sys \<and> wf_lab (app init_sys)"
  using reachable_store_wf [OF reach.init] by (simp add: reach.init)

text \<open>
  C4. First in, first out, nothing lost, nothing run twice: every request the editor
  has sent is, in sending order, either finished, or in the worker's hands, or still
  queued.
\<close>

theorem reachable_fifo:
  assumes "reach ui_step s"
  shows "sent s = finished s @ in_flight s @ task_queue (app s)"
  using reach_pipe_inv [OF ui_step_contract assms] by (simp add: pipe_inv_def)

theorem reachable_fifo_witness:
  "reach ui_step (init_sys\<lparr>app := load_image (Gray 1 1 (\<lambda>_ _. 0)) init_lab,
                           sent := task_queue (load_image (Gray 1 1 (\<lambda>_ _. 0)) init_lab)\<rparr>) \<and>
   sent (init_sys\<lparr>app := load_image (Gray 1 1 (\<lambda>_ _. 0)) init_lab,
                  sent := task_queue (load_image (Gray 1 1 (\<lambda>_ _. 0)) init_lab)\<rparr>) =
   [Compute (1, 1) (spectrum_of (1, 1) (to_unit (\<lambda>_ _. 0))) ones]"
proof -
  have r: "reach ui_step (init_sys\<lparr>app := load_image (Gray 1 1 (\<lambda>_ _. 0)) init_lab,
                           sent := task_queue (load_image (Gray 1 1 (\<lambda>_ _. 0)) init_lab)\<rparr>)"
    by (rule reach_load) simp
  show ?thesis
    using reachable_fifo [OF r] r
    by (simp add: init_sys_def init_lab_def in_flight_def trigger_recompute_def)
qed

text \<open>
  C5. Liveness of the worker: from any reachable state, the worker's own steps alone
  compute every request sent so far, each exactly once and in order, put their results
  after those already queued, and leave the store untouched; no edit is needed for it
  to make progress.
\<close>

theorem worker_publishes_every_request:
  assumes "reach ui_step s"
  shows "\<exists>t. worker_step\<^sup>*\<^sup>* s t \<and> reach ui_step t \<and> finished t = sent s \<and>
             result_queue (app t) = result_queue (app s) @ map worker_result (in_flight s @ task_queue (app s)) \<and>
             same_store (app s) (app t)"
proof -
  obtain t where t: "worker_step\<^sup>*\<^sup>* s t"
    "finished t = finished s @ in_flight s @ task_queue (app s)"
    "result_queue (app t) = result_queue (app s) @ map worker_result (in_flight s @ task_queue (app s))"
    "same_store (app s) (app t)"
    using drain_all [of s] by blast
  moreover have "reach ui_step t"
    using t(1) assms by (rule worker_steps_reach)
  moreover have "sent s = finished s @ in_flight s @ task_queue (app s)"
    using reach_pipe_inv [OF ui_step_contract assms] by (simp add: pipe_inv_def)
  ultimately show ?thesis by auto
qed

theorem worker_publishes_every_request_witness:
  "\<exists>t. worker_step\<^sup>*\<^sup>* (init_sys\<lparr>app := load_image (Gray 1 1 (\<lambda>_ _. 0)) init_lab,
                           sent := task_queue (load_image (Gray 1 1 (\<lambda>_ _. 0)) init_lab)\<rparr>) t \<and>
       finished t = [Compute (1, 1) (spectrum_of (1, 1) (to_unit (\<lambda>_ _. 0))) ones] \<and>
       result_queue (app t) = [worker_result (Compute (1, 1) (spectrum_of (1, 1) (to_unit (\<lambda>_ _. 0))) ones)]"
proof -
  have r: "reach ui_step (init_sys\<lparr>app := load_image (Gray 1 1 (\<lambda>_ _. 0)) init_lab,
                           sent := task_queue (load_image (Gray 1 1 (\<lambda>_ _. 0)) init_lab)\<rparr>)"
    by (rule reach_load) simp
  obtain t where t: "worker_step\<^sup>*\<^sup>* (init_sys\<lparr>app := load_image (Gray 1 1 (\<lambda>_ _. 0)) init_lab,
                           sent := task_queue (load_image (Gray 1 1 (\<lambda>_ _. 0)) init_lab)\<rparr>) t"
    "finished t = sent (init_sys\<lparr>app := load_image (Gray 1 1 (\<lambda>_ _. 0)) init_lab,
                           sent := task_queue (load_image (Gray 1 1 (\<lambda>_ _. 0)) init_lab)\<rparr>)"
    "result_queue (app t) = map worker_result (task_queue (load_image (Gray 1 1 (\<lambda>_ _. 0)) init_lab))"
    using worker_publishes_every_request [OF r]
    by (auto simp: init_sys_def init_lab_def in_flight_def)
  then show ?thesis
    by (intro exI [of _ t]) (simp add: init_lab_def trigger_recompute_def)
qed

text \<open>
  C6. The consumer keeps the latest result: once \<open>check_queue\<close> has drained the result
  queue, the cached result is that of the most recently finished request, even though
  every earlier one was computed too.
\<close>

theorem drained_cache_is_latest:
  assumes "reach ui_step s" "result_queue (app s) = []" "finished s \<noteq> []"
  shows "result_cache (app s) = Some (worker_result (last (finished s)))"
proof -
  have "result_inv (finished s) (result_queue (app s)) (result_cache (app s))"
    using reach_pipe_inv [OF ui_step_contract assms(1)] by (simp add: pipe_inv_def)
  with assms(2,3) show ?thesis
    by (simp add: result_inv_drained)
qed

theorem drained_cache_is_latest_witness:
  "\<exists>s. reach ui_step s \<and> result_queue (app s) = [] \<and> finished s \<noteq> [] \<and>
       result_cache (app s) = Some (worker_result (last (finished s)))"
proof -
  let ?s1 = "init_sys\<lparr>app := load_image (Gray 1 1 (\<lambda>_ _. 0)) init_lab,
                      sent := task_queue (load_image (Gray 1 1 (\<lambda>_ _. 0)) init_lab)\<rparr>"
  have r1: "reach ui_step ?s1"
    by (rule reach_load) simp
  obtain t where t: "worker_step\<^sup>*\<^sup>* ?s1 t" "running t = None"
    "finished t = finished ?s1 @ in_flight ?s1 @ task_queue (app ?s1)"
    "result_queue (app t) = result_queue (app ?s1) @ map worker_result (in_flight ?s1 @ task_queue (app ?s1))"
    using drain_all [of ?s1] by blast
  let ?r = "worker_result (Compute (1, 1) (spectrum_of (1, 1) (to_unit (\<lambda>_ _. 0))) ones)"
  have rq: "result_queue (app t) = [?r]" and fin: "finished t \<noteq> []"
    using t(3,4) by (simp_all add: init_sys_def init_lab_def in_flight_def trigger_recompute_def)
  let ?u = "t\<lparr>app := (app t)\<lparr>result_cache := Some ?r, result_queue := []\<rparr>\<rparr>"
  have "reach ui_step t"
    using t(1) r1 by (rule worker_steps_reach)
  then have ru: "reach ui_step ?u"
    using rq by (blast intro: reach.step sys_step.poll)
  have "result_queue (app ?u) = []" "finished ?u \<noteq> []"
    using fin by simp_all
  with drained_cache_is_latest [OF ru] ru show ?thesis
    by blast
qed

section \<open>Odd shapes: every request is Hermitian\<close>

text \<open>
  The events the GUI produces on an image of odd height and width: loads of such
  images (or a cancelled or failed load), clicks inside the spectrum axes, where a
  point injection exactly at the centre adds a real value, and the two buttons.
\<close>

inductive sym_ui_step :: "lab \<Rightarrow> lab \<Rightarrow> bool" where
  load: "0 < h \<Longrightarrow> 0 < w \<Longrightarrow> odd h \<Longrightarrow> odd w \<Longrightarrow> sym_ui_step a (load_image (Gray h w px) a)"
| cancel: "sym_ui_step a (load_image NoPath a)"
| unreadable: "sym_ui_step a (load_image Unreadable a)"
| click: "gui_click (fst (shape a)) (snd (shape a)) e \<Longrightarrow>
         (tool p = Sine \<and> click_x e = int (snd (shape a) div 2) \<and> click_y e = int (fst (shape a) div 2)
            \<longrightarrow> cnj (sine_value p) = sine_value p) \<Longrightarrow>
         sym_ui_step a (outcome_state (on_click p e a))"
| clear: "sym_ui_step a (clear_all a)"
| reset: "sym_ui_step a (reset_image a)"

lemma sym_ui_step_ui: "sym_ui_step a a' \<Longrightarrow> ui_step a a'"
  by (induction rule: sym_ui_step.induct) (auto intro: ui_step.intros simp del: load_image.simps)

lemma sym_ui_step_contract: "editor_contract sym_ui_step"
  using ui_step_contract sym_ui_step_ui by (simp add: editor_contract_def)

definition sym_store :: "lab \<Rightarrow> bool" where
  "sym_store a \<longleftrightarrow>
     (img a \<noteq> None \<longrightarrow> odd (fst (shape a)) \<and> odd (snd (shape a))) \<and>
     (\<forall>f. fshift a = Some f \<longrightarrow> odd (fst (shape a)) \<and> odd (snd (shape a)) \<and> sherm (fst (shape a)) (snd (shape a)) f)"

primrec sym_task :: "task \<Rightarrow> bool" where
  "sym_task (Compute sh f m) \<longleftrightarrow> odd (fst sh) \<and> odd (snd sh) \<and> sherm (fst sh) (snd sh) f"

lemma snapshot_sym: "snapshot_of a t \<Longrightarrow> sym_store a \<Longrightarrow> sym_task t"
  by (auto simp: snapshot_of_def sym_store_def)

lemma trigger_snapshots_from:
  assumes "task_queue x = task_queue a"
  shows "\<exists>ts. task_queue (trigger_recompute x) = task_queue a @ ts \<and>
             (\<forall>t \<in> set ts. snapshot_of (trigger_recompute x) t)"
  using trigger_recompute_snapshots [of x] assms by simp

lemma ui_snapshots:
  assumes "ui_step a a'"
  shows "\<exists>ts. task_queue a' = task_queue a @ ts \<and> (\<forall>t \<in> set ts. snapshot_of a' t)"
  using assms
proof (cases rule: ui_step.cases)
  case (load inp)
  then show ?thesis by (cases inp) (simp_all add: trigger_snapshots_from)
next
  case (click p e)
  then show ?thesis
    by (auto simp: on_click_def trigger_snapshots_from split: option.split outcome.split)
next
  case clear
  then show ?thesis by (simp add: clear_all_def trigger_snapshots_from)
next
  case reset
  then show ?thesis by (simp add: reset_image_def trigger_snapshots_from split: option.split)
qed

lemma sym_ui_step_store: "sym_ui_step a a' \<Longrightarrow> sym_store a \<Longrightarrow> sym_store a'"
proof (induction rule: sym_ui_step.induct)
  case (load h w px a)
  then show ?case using spectrum_of_sherm [of "(h, w)"] by (simp add: sym_store_def)
next
  case (click a e p)
  obtain h w where hw: "shape a = (h, w)" by fastforce
  show ?case
  proof (cases "fshift a")
    case None
    then show ?thesis using click.prems by (simp add: on_click_def sym_store_def on_click_fields)
  next
    case (Some f)
    with click hw obtain f' where "fshift (outcome_state (on_click p e a)) = Some f'" "sherm h w f'"
      using on_click_keeps_symmetry [of a f h w e p] by (auto simp: sym_store_def)
    with click.prems Some hw show ?thesis
      by (simp add: sym_store_def on_click_fields)
  qed
next
  case (clear a)
  then show ?case by (simp add: sym_store_def clear_all_def)
next
  case (reset a)
  then show ?case
    by (auto simp: sym_store_def reset_image_def spectrum_of_sherm odd_pos split: option.split)
qed (simp_all)

definition sys_sym :: "sys \<Rightarrow> bool" where
  "sys_sym s \<longleftrightarrow> sym_store (app s) \<and> (\<forall>t \<in> set (sent s). sym_task t)"

lemma sys_step_sym: "sys_step sym_ui_step s t \<Longrightarrow> sys_sym s \<Longrightarrow> sys_sym t"
proof (induction rule: sys_step.induct)
  case (editor s a')
  then obtain ts where ts: "task_queue a' = task_queue (app s) @ ts" "\<forall>t \<in> set ts. snapshot_of a' t"
    using ui_snapshots sym_ui_step_ui by blast
  have "sym_store a'"
    using editor by (simp add: sys_sym_def sym_ui_step_store)
  with ts editor.prems show ?case
    by (auto simp: sys_sym_def snapshot_sym)
next
  case (worker s t)
  then have "same_store (app s) (app t)" "sent t = sent s"
    by (simp_all add: worker_step_store)
  with worker.prems show ?case
    by (simp add: sys_sym_def sym_store_def same_store_def)
next
  case (poll s r rs)
  then show ?case by (simp add: sys_sym_def sym_store_def)
qed

lemma reach_sys_sym: "reach sym_ui_step s \<Longrightarrow> sys_sym s"
proof (induction rule: reach.induct)
  case init
  then show ?case by (simp add: sys_sym_def sym_store_def init_sys_def init_lab_def)
next
  case (step s t)
  then show ?case by (simp add: sys_step_sym)
qed

lemma filtered_ones [simp]: "filtered f ones = f"
  by (simp add: filtered_def ones_def)

lemma reach_sym_load:
  assumes "0 < h" "0 < w" "odd h" "odd w"
  shows "reach sym_ui_step (init_sys\<lparr>app := load_image (Gray h w px) init_lab,
                                     sent := task_queue (load_image (Gray h w px) init_lab)\<rparr>)"
proof -
  have "reach sym_ui_step (init_sys\<lparr>app := load_image (Gray h w px) init_lab,
          sent := sent init_sys @ drop (length (task_queue (app init_sys))) (task_queue (load_image (Gray h w px) init_lab))\<rparr>)"
    using reach_editor [OF reach.init, of sym_ui_step "load_image (Gray h w px) init_lab"] assms
    by (simp add: init_sys_def sym_ui_step.load del: load_image.simps)
  then show ?thesis by (simp add: init_sys_def init_lab_def)
qed

text \<open>
  C1. Hermitian symmetry, the property that makes the inverse transform real: on
  images of odd height and width, every request the editing thread has ever sent to the
  worker holds a centred-Hermitian spectrum, whatever sequence of loads, tool clicks
  inside the spectrum axes, clears and resets produced it, interleaved with the worker
  and the consumer in any order.
\<close>

theorem odd_requests_hermitian:
  assumes "reach sym_ui_step s" "Compute sh f m \<in> set (sent s)"
  shows "sherm (fst sh) (snd sh) f"
  using reach_sys_sym [OF assms(1)] assms(2) by (auto simp: sys_sym_def)

theorem odd_requests_hermitian_witness:
  "reach sym_ui_step (init_sys\<lparr>app := load_image (Gray 3 3 (\<lambda>_ _. 7)) init_lab,
                               sent := task_queue (load_image (Gray 3 3 (\<lambda>_ _. 7)) init_lab)\<rparr>) \<and>
   Compute (3, 3) (spectrum_of (3, 3) (to_unit (\<lambda>_ _. 7))) ones
     \<in> set (sent (init_sys\<lparr>app := load_image (Gray 3 3 (\<lambda>_ _. 7)) init_lab,
                            sent := task_queue (load_image (Gray 3 3 (\<lambda>_ _. 7)) init_lab)\<rparr>)) \<and>
   sherm 3 3 (spectrum_of (3, 3) (to_unit (\<lambda>_ _. 7)))"
proof -
  have r: "reach sym_ui_step (init_sys\<lparr>app := load_image (Gray 3 3 (\<lambda>_ _. 7)) init_lab,
                               sent := task_queue (load_image (Gray 3 3 (\<lambda>_ _. 7)) init_lab)\<rparr>)"
    by (rule reach_sym_load) simp_all
  have m: "Compute (3, 3) (spectrum_of (3, 3) (to_unit (\<lambda>_ _. 7))) ones
     \<in> set (sent (init_sys\<lparr>app := load_image (Gray 3 3 (\<lambda>_ _. 7)) init_lab,
                            sent := task_queue (load_image (Gray 3 3 (\<lambda>_ _. 7)) init_lab)\<rparr>))"
    by (simp add: init_lab_def trigger_recompute_def)
  show ?thesis
    using odd_requests_hermitian [OF r m] r m by simp
qed

text \<open>
  C3. Round-trip realness: on images of odd height and width, the worker's inverse
  transform of any request sent with an all-pass mask has no imaginary part, so the
  published pixel \<open>np.abs(...)\<close> is the absolute value of a real image.
\<close>

theorem odd_unmasked_results_real:
  assumes "reach sym_ui_step s" "Compute sh f ones \<in> set (sent s)"
  shows "Im (ifft2 (fst sh) (snd sh) (ifftshift (fst sh) (snd sh) (filtered f ones)) i j) = 0 \<and>
         snd (worker_result (Compute sh f ones)) i j =
           \<bar>Re (ifft2 (fst sh) (snd sh) (ifftshift (fst sh) (snd sh) (filtered f ones)) i j)\<bar>"
proof -
  have "sym_task (Compute sh f ones)"
    using reach_sys_sym [OF assms(1)] assms(2) by (auto simp: sys_sym_def)
  then have "Im (ifft2 (fst sh) (snd sh) (ifftshift (fst sh) (snd sh) f) i j) = 0"
    by (simp add: centred_spectrum_real odd_pos)
  then show ?thesis
    by (simp add: cmod_def)
qed

theorem odd_unmasked_results_real_witness:
  "Im (ifft2 3 3 (ifftshift 3 3 (filtered (spectrum_of (3, 3) (to_unit (\<lambda>_ _. 7))) ones)) 1 2) = 0"
proof -
  have r: "reach sym_ui_step (init_sys\<lparr>app := load_image (Gray 3 3 (\<lambda>_ _. 7)) init_lab,
                               sent := task_queue (load_image (Gray 3 3 (\<lambda>_ _. 7)) init_lab)\<rparr>)"
    by (rule reach_sym_load) simp_all
  have m: "Compute (3, 3) (spectrum_of (3, 3) (to_unit (\<lambda>_ _. 7))) ones
     \<in> set (sent (init_sys\<lparr>app := load_image (Gray 3 3 (\<lambda>_ _. 7)) init_lab,
                            sent := task_queue (load_image (Gray 3 3 (\<lambda>_ _. 7)) init_lab)\<rparr>))"
    by (simp add: init_lab_def trigger_recompute_def)
  show ?thesis
    using odd_unmasked_results_real [OF r m, of 1 2] by simp
qed

section \<open>Even shapes: the reflection misses the conjugate point\<close>

lemma omega_4_3: "omega 4 3 = - \<i>"
proof -
  have "2 * pi * of_int 3 / of_nat 4 = pi / 2 + pi"
    by simp
  then have "omega 4 3 = cis (pi / 2 + pi)"
    unfolding omega_def by (rule arg_cong)
  also have "\<dots> = - cis (pi / 2)"
    by (rule minus_cis [symmetric])
  finally show ?thesis by simp
qed

lemma spectrum_of_dark: "spectrum_of sh (to_unit (\<lambda>_ _. 0)) = (\<lambda>_ _. 0)"
  by (simp add: spectrum_of_def fft2_def fftshift_def to_unit_def)

text \<open>
  The design's end-to-end scenario, run on the code: load a \<open>4 \<times> 4\<close> black
  image and inject a point of magnitude 10, phase 0, one step left of the centre. The
  handler adds 10 at row 2, column 1 and at the code's reflection, row 1, column 2, and
  enqueues that spectrum. On an even axis the conjugate of row 2, column 1 is row 2,
  column 3 (\<open>cref\<close>), so the spectrum is not Hermitian, and the inverse transform the
  worker takes the modulus of has imaginary part \<open>-5/8\<close> at row 0, column 1: the result
  is not the real ripple the design expects.
\<close>

lemma even_shape_scenario:
  "task_queue (outcome_state
     (on_click \<lparr>tool = Sine, brush_size = 15, strength = 10, freq_u = 30, freq_v = 20, phase = 0\<rparr>
               \<lparr>in_ax2 = True, xdata = 1, ydata = 2\<rparr>
               (load_image (Gray 4 4 (\<lambda>_ _. 0)) init_lab)))
     = [Compute (4, 4) (\<lambda>_ _. 0) ones,
        Compute (4, 4) (add_at (add_at (\<lambda>_ _. 0) 2 1 10) 1 2 10) ones] \<and>
   \<not> sherm 4 4 (add_at (add_at (\<lambda>_ _. 0) 2 1 10) 1 2 10) \<and>
   Im (ifft2 4 4 (ifftshift 4 4 (filtered (add_at (add_at (\<lambda>_ _. 0) 2 1 10) 1 2 10) ones)) 0 1) = - 5 / 8"
proof (intro conjI)
  show "task_queue (outcome_state
     (on_click \<lparr>tool = Sine, brush_size = 15, strength = 10, freq_u = 30, freq_v = 20, phase = 0\<rparr>
               \<lparr>in_ax2 = True, xdata = 1, ydata = 2\<rparr>
               (load_image (Gray 4 4 (\<lambda>_ _. 0)) init_lab)))
     = [Compute (4, 4) (\<lambda>_ _. 0) ones,
        Compute (4, 4) (add_at (add_at (\<lambda>_ _. 0) 2 1 10) 1 2 10) ones]"
    by (simp add: spectrum_of_dark on_click_def apply_tool_def sine_edit_def sine_value_def
         click_x_def click_y_def py_int_def py_index_def trigger_recompute_def init_lab_def)
  show "\<not> sherm 4 4 (add_at (add_at (\<lambda>_ _. 0) 2 1 10) 1 2 10)"
  proof
    assume "sherm 4 4 (add_at (add_at (\<lambda>_ _. 0) 2 1 10) 1 2 10)"
    then have "add_at (add_at (\<lambda>_ _. 0) 2 1 10) 1 2 (10::complex) (cref 4 2) (cref 4 1)
         = cnj (add_at (add_at (\<lambda>_ _. 0) 2 1 10) 1 2 10 2 1)"
      unfolding sherm_def by simp
    then show False by (simp add: cref_def add_at_apply)
  qed
  show "Im (ifft2 4 4 (ifftshift 4 4 (filtered (add_at (add_at (\<lambda>_ _. 0) 2 1 10) 1 2 10) ones)) 0 1) = - 5 / 8"
    by (simp add: ifft2_def ifftshift_def add_at_apply lessThan_nat_numeral omega_4_3 Im_divide_of_nat)
qed

lemma cref_even_not_code_reflection: "even h \<Longrightarrow> r < h \<Longrightarrow> cref h r \<noteq> h - 1 - r"
proof -
  assume h: "even h" "r < h"
  then have "2 \<le> h" by presburger
  show ?thesis
  proof (cases "r = 0")
    case True
    then show ?thesis using h \<open>2 \<le> h\<close> by (simp add: cref_even)
  next
    case False
    then have "(h - r) mod h = h - r" using h by simp
    then show ?thesis using h False by (simp add: cref_even)
  qed
qed

text \<open>
  C2. On every spectrum with an even number of rows the point tool breaks the centred
  Hermitian symmetry the design requires: for any symmetric spectrum and any click off
  the centre, injecting a non-zero value \<open>v\<close> gives a spectrum that is not centred-Hermitian,
  unless the clicked point is its own conjugate and \<open>v\<close> is real. The code pairs row
  \<open>y\<close> with \<open>h - 1 - y\<close>, which on an even axis is never the conjugate row \<open>cref h y\<close>.
\<close>

theorem even_shape_point_injection:
  assumes "even h" "sherm h w f" "0 \<le> x" "x < int w" "0 \<le> y" "y < int h" "v \<noteq> 0"
    and "\<not> (x = int (w div 2) \<and> y = int (h div 2))"
    and "cref h (nat y) = nat y \<and> cref w (nat x) = nat x \<longrightarrow> cnj v \<noteq> v"
  shows "\<exists>g. sine_edit h w x y v f = Done g \<and> \<not> sherm h w g"
proof -
  obtain r c where rc: "y = int r" "x = int c" "r < h" "c < w"
    using assms(3-6) by (metis nat_0_le of_nat_less_iff)
  let ?g = "add_at (add_at f r c v) (h - 1 - r) (w - 1 - c) (cnj v)"
  have idx: "py_index h (int h - 1 - y) = Some (h - 1 - r)" "py_index w (int w - 1 - x) = Some (w - 1 - c)"
    using rc by (simp_all add: py_index_def of_nat_diff)
  have run: "sine_edit h w x y v f = Done ?g"
    using rc assms(8) idx by (simp add: sine_edit_def py_index_def)
  have ne: "h - 1 - r \<noteq> r" using assms(1) rc(3) by presburger
  have cr: "cref h r \<noteq> h - 1 - r" by (rule cref_even_not_code_reflection [OF assms(1) rc(3)])
  have "\<not> sherm h w ?g"
  proof
    assume "sherm h w ?g"
    then have g: "?g (cref h r) (cref w c) = cnj (?g r c)" using rc(3,4) by (simp add: sherm_def)
    have f: "f (cref h r) (cref w c) = cnj (f r c)" using assms(2) rc(3,4) by (simp add: sherm_def)
    show False
    proof (cases "cref h r = r \<and> cref w c = c")
      case True
      then have "cnj v \<noteq> v" using assms(9) rc by simp
      then show False using g f True ne by (simp add: add_at_apply)
    next
      case False
      then have "cnj v = 0" using g f cr ne by (auto simp: add_at_apply split: if_splits)
      then show False using assms(7) by simp
    qed
  qed
  then show ?thesis using run by blast
qed

theorem even_shape_point_injection_witness:
  "\<exists>g. sine_edit 4 4 1 2 10 (\<lambda>_ _. 0) = Done g \<and> \<not> sherm 4 4 g"
proof -
  have z: "sherm 4 4 (\<lambda>_ _. 0)" by (simp add: sherm_def)
  have c: "cref 4 (nat 2) \<noteq> nat 2 \<or> cref 4 (nat 1) \<noteq> nat 1" by (simp add: cref_def)
  show ?thesis
    using even_shape_point_injection [of 4 4 "\<lambda>_ _. 0" 1 2 10] z c by simp
qed

end
